(* ===== verification/Py_Float.thy ===== *)
theory Py_Float imports Complex_Main "HOL-Library.Log_Nat" begin

text \<open>
  Python's \<open>float\<close>, that is IEEE 754 binary64 with round-to-nearest, ties-to-even, as CPython
  computes it. A value is a finite rational, an infinity or NaN; every arithmetic operation
  rounds its exact rational result (\<open>rnd64\<close>), overflows to an infinity and has the
  standard's NaN cases, and a comparison with NaN is false. The one thing left out is the sign
  of zero, which no comparison and no operation of the modelled code can observe.

  Contents: rounding of a rational to an integer (\<open>rhe\<close>) and to 53 significant bits
  (\<open>rnd64\<close>), the \<open>rounding\<close> locale with the laws every client proof rests on (monotone,
  fixes 0, idempotent) and its interpretation on \<open>rnd64\<close>, the type \<open>pyfloat\<close> with the
  operations of the syntactic type classes, and the order and monotonicity lemmas that the
  components use.
\<close>

named_theorems pyfloat_mono \<open>monotonicity of the float operations\<close>

section \<open>Rounding\<close>

subsection \<open>Half-even rounding to an integer\<close>

definition rhe :: "rat \<Rightarrow> int" where
  "rhe x = (let f = \<lfloor>x\<rfloor>; d = x - of_int f
     in if d < 1 / 2 then f else if 1 / 2 < d then f + 1 else if even f then f else f + 1)"

lemma rhe_bounds: "\<lfloor>x\<rfloor> \<le> rhe x" "rhe x \<le> \<lfloor>x\<rfloor> + 1"
  by (simp_all add: rhe_def Let_def)

lemma rhe_of_int [simp]: "rhe (of_int n) = n"
  by (simp add: rhe_def)

lemma rhe_zero [simp]: "rhe 0 = 0"
  using rhe_of_int [of 0] by simp

lemma rhe_numeral [simp]: "rhe (numeral n) = numeral n"
  using rhe_of_int [of "numeral n"] by simp

lemma rhe_mono: "x \<le> y \<Longrightarrow> rhe x \<le> rhe y"
proof -
  assume le: "x \<le> y"
  consider "\<lfloor>x\<rfloor> = \<lfloor>y\<rfloor>" | "\<lfloor>x\<rfloor> + 1 \<le> \<lfloor>y\<rfloor>"
    using floor_mono [OF le] by linarith
  then show ?thesis
  proof cases
    case 1
    with le show ?thesis by (auto simp: rhe_def Let_def)
  next
    case 2
    with rhe_bounds [of x] rhe_bounds [of y] show ?thesis by linarith
  qed
qed

lemma rhe_minus: "rhe (- x) = - rhe x"
proof (cases "x = of_int \<lfloor>x\<rfloor>")
  case True
  then have "rhe (- x) = rhe (of_int (- \<lfloor>x\<rfloor>))" "rhe x = rhe (of_int \<lfloor>x\<rfloor>)" by simp_all
  then show ?thesis by (simp only: rhe_of_int)
next
  case False
  then have "of_int \<lfloor>x\<rfloor> < x" by (metis of_int_floor_le order.not_eq_order_implies_strict)
  then have "\<lfloor>- x\<rfloor> = - \<lfloor>x\<rfloor> - 1" by linarith
  then show ?thesis by (auto simp: rhe_def Let_def)
qed

text \<open>Rounding to the nearest: the result is within one half.\<close>

lemma rhe_error: "\<bar>of_int (rhe x) - x\<bar> \<le> 1 / 2"
proof -
  have "of_int \<lfloor>x\<rfloor> \<le> x" "x < of_int \<lfloor>x\<rfloor> + 1" by linarith+
  then show ?thesis by (auto simp: rhe_def Let_def)
qed

subsection \<open>The binary exponent of a positive rational\<close>

definition ilog2 :: "rat \<Rightarrow> int" where
  "ilog2 x = (let (p, q) = quotient_of x; e = bitlen p - bitlen q
     in if 2 powi e \<le> x then e else e - 1)"

lemma ilog2_bounds:
  assumes "0 < x"
  shows "2 powi ilog2 x \<le> x" "x < 2 powi (ilog2 x + 1)"
proof -
  obtain p q where pq: "quotient_of x = (p, q)" by fastforce
  then have q: "0 < q" and x: "x = of_int p / of_int q"
    by (simp_all add: quotient_of_denom_pos quotient_of_div)
  with assms have p: "0 < p" by (simp add: zero_less_divide_iff)
  define e where "e = bitlen p - bitlen q"
  have il: "ilog2 x = (if 2 powi e \<le> x then e else e - 1)"
    by (simp add: ilog2_def pq e_def)
  have pb: "2 ^ nat (bitlen p - 1) \<le> p" "p < 2 ^ nat (bitlen p)"
    using bitlen_bounds [OF p] by auto
  have qb: "2 ^ nat (bitlen q - 1) \<le> q" "q < 2 ^ nat (bitlen q)"
    using bitlen_bounds [OF q] by auto
  have bp: "0 < bitlen p" "0 < bitlen q" using p q bitlen_nonneg [of p] bitlen_nonneg [of q] bitlen_eq_zero_iff [of p] bitlen_eq_zero_iff [of q] by linarith+
  have pw: "(2::rat) powi k = of_int (2 ^ nat k)" if "0 \<le> k" for k
    using that by (simp add: power_int_def)
  have pr: "(2::rat) powi (bitlen p - 1) \<le> of_int p" "of_int p < (2::rat) powi bitlen p"
    using pb pw [of "bitlen p - 1"] pw [of "bitlen p"] bp
    by (simp_all only: of_int_le_iff of_int_less_iff)
  have qr: "(2::rat) powi (bitlen q - 1) \<le> of_int q" "of_int q < (2::rat) powi bitlen q"
    using qb pw [of "bitlen q - 1"] pw [of "bitlen q"] bp
    by (simp_all only: of_int_le_iff of_int_less_iff)
  have "x < 2 powi (e + 1)"
  proof -
    have "x * (2::rat) powi (bitlen q - 1) \<le> x * of_int q"
      using qr assms by (intro mult_left_mono) auto
    also have "\<dots> = of_int p" using q by (simp add: x)
    also have "\<dots> < 2 powi bitlen p" by (rule pr)
    also have "\<dots> = 2 powi (e + 1) * 2 powi (bitlen q - 1)"
      by (simp add: e_def flip: power_int_add)
    finally show ?thesis by simp
  qed
  moreover have "2 powi (e - 1) \<le> x"
  proof -
    have "(2::rat) powi (e - 1) * of_int q \<le> 2 powi (e - 1) * 2 powi bitlen q"
      using qr by (intro mult_left_mono) auto
    also have "\<dots> = 2 powi (bitlen p - 1)" by (simp add: e_def flip: power_int_add)
    also have "\<dots> \<le> x * of_int q" using pr q by (simp add: x)
    finally show ?thesis using q by simp
  qed
  ultimately show "2 powi ilog2 x \<le> x" "x < 2 powi (ilog2 x + 1)"
    by (auto simp: il)
qed

lemma powi2_mono: "a \<le> b \<Longrightarrow> (2::rat) powi a \<le> 2 powi b"
  by (simp add: power_int_increasing)

lemma powi2_less_imp: "(2::rat) powi a < 2 powi b \<Longrightarrow> a < b"
  using powi2_mono [of b a] by linarith

lemma ilog2_mono: "0 < x \<Longrightarrow> x \<le> y \<Longrightarrow> ilog2 x \<le> ilog2 y"
proof -
  assume "0 < x" "x \<le> y"
  then have "(2::rat) powi ilog2 x < 2 powi (ilog2 y + 1)"
    using ilog2_bounds [of x] ilog2_bounds [of y] by linarith
  then show ?thesis by (auto dest: powi2_less_imp)
qed

subsection \<open>Rounding to 53 bits\<close>

text \<open>
  The quantum of a nonzero value is the weight of its last significand bit: 52 places below
  the leading bit, but never below the smallest subnormal, 2 to the power -1074.
\<close>

definition quantum :: "rat \<Rightarrow> int" where
  "quantum x = max (ilog2 x - 52) (- 1074)"

definition rnd_pos :: "rat \<Rightarrow> rat" where
  "rnd_pos x = of_int (rhe (x / 2 powi quantum x)) * 2 powi quantum x"

definition rnd64 :: "rat \<Rightarrow> rat" where
  "rnd64 x = (if x = 0 then 0 else if 0 < x then rnd_pos x else - rnd_pos (- x))"

lemma rnd_pos_nonneg: "0 < x \<Longrightarrow> 0 \<le> rnd_pos x"
proof -
  assume "0 < x"
  then have "rhe 0 \<le> rhe (x / 2 powi quantum x)" by (intro rhe_mono) simp
  then show ?thesis by (simp add: rnd_pos_def)
qed

lemma rnd_pos_upper:
  assumes "0 < x" "ilog2 x < e" "- 1074 + 53 \<le> e"
  shows "rnd_pos x \<le> 2 powi e"
proof -
  let ?q = "quantum x"
  have q: "?q + 53 \<le> e" "ilog2 x + 1 \<le> ?q + 53"
    using assms by (auto simp: quantum_def)
  have "x \<le> 2 powi (ilog2 x + 1)" using ilog2_bounds [OF assms(1)] by linarith
  also have "\<dots> \<le> 2 powi (53 + ?q)" using q by (intro powi2_mono) simp
  also have "\<dots> = of_int (2 ^ 53) * 2 powi ?q" by (subst power_int_add) simp_all
  finally have "x / 2 powi ?q \<le> of_int (2 ^ 53)" by (simp add: divide_le_eq)
  then have "rhe (x / 2 powi ?q) \<le> 2 ^ 53" by (metis rhe_mono rhe_of_int)
  then have "(of_int (rhe (x / 2 powi ?q)) :: rat) \<le> of_int (2 ^ 53)"
    by (simp only: of_int_le_iff)
  then have "rnd_pos x \<le> of_int (2 ^ 53) * 2 powi ?q"
    unfolding rnd_pos_def by (intro mult_right_mono) simp_all
  also have "\<dots> = 2 powi (53 + ?q)" by (subst power_int_add) simp_all
  also have "\<dots> \<le> 2 powi e" using q by (intro powi2_mono) simp
  finally show ?thesis .
qed

lemma rnd_pos_lower:
  assumes "0 < x" "- 1074 \<le> ilog2 x"
  shows "2 powi ilog2 x \<le> rnd_pos x"
proof -
  let ?q = "quantum x"
  define d where "d = nat (ilog2 x - ?q)"
  have d: "ilog2 x = int d + ?q" using assms by (auto simp: d_def quantum_def)
  have "(2::rat) powi ilog2 x = of_int (2 ^ d) * 2 powi ?q"
    by (simp add: d power_int_add)
  with ilog2_bounds [OF assms(1)] have "of_int (2 ^ d) \<le> x / 2 powi ?q"
    by (simp add: le_divide_eq)
  then have "2 ^ d \<le> rhe (x / 2 powi ?q)" by (metis rhe_mono rhe_of_int)
  then have "(of_int (2 ^ d) :: rat) \<le> of_int (rhe (x / 2 powi ?q))"
    by (simp only: of_int_le_iff)
  then have "of_int (2 ^ d) * 2 powi ?q \<le> rnd_pos x"
    unfolding rnd_pos_def by (intro mult_right_mono) simp_all
  with \<open>2 powi ilog2 x = of_int (2 ^ d) * 2 powi ?q\<close> show ?thesis by simp
qed

lemma rnd_pos_mono:
  assumes "0 < x" "x \<le> y"
  shows "rnd_pos x \<le> rnd_pos y"
proof (cases "quantum x = quantum y")
  case True
  then have "rhe (x / 2 powi quantum x) \<le> rhe (y / 2 powi quantum y)"
    using assms by (auto intro!: rhe_mono divide_right_mono)
  with True show ?thesis by (simp add: rnd_pos_def mult_right_mono)
next
  case False
  with ilog2_mono [OF assms] have lt: "ilog2 x < ilog2 y" "- 1022 < ilog2 y"
    by (auto simp: quantum_def)
  then have "rnd_pos x \<le> 2 powi ilog2 y" using assms by (intro rnd_pos_upper) auto
  also have "\<dots> \<le> rnd_pos y" using assms lt by (intro rnd_pos_lower) auto
  finally show ?thesis .
qed

lemma rnd64_zero [simp]: "rnd64 0 = 0"
  by (simp add: rnd64_def)

lemma rnd64_minus: "rnd64 (- x) = - rnd64 x"
  by (simp add: rnd64_def)

lemma rnd64_mono: "x \<le> y \<Longrightarrow> rnd64 x \<le> rnd64 y"
proof -
  assume "x \<le> y"
  consider "0 < x" | "x \<le> 0" "0 \<le> y" | "y < 0" by linarith
  then show ?thesis
  proof cases
    case 1 with \<open>x \<le> y\<close> show ?thesis by (simp add: rnd64_def rnd_pos_mono)
  next
    case 2
    with rnd_pos_nonneg [of "- x"] have "rnd64 x \<le> 0" by (auto simp: rnd64_def)
    also have "0 \<le> rnd64 y" using 2 rnd_pos_nonneg [of y] by (auto simp: rnd64_def)
    finally show ?thesis .
  next
    case 3
    with \<open>x \<le> y\<close> rnd_pos_mono [of "- y" "- x"] show ?thesis by (simp add: rnd64_def)
  qed
qed

text \<open>Every number with at most 53 significant bits above the subnormal grid is a fixed point.\<close>

lemma rnd64_fixed:
  assumes "\<bar>m\<bar> < 2 ^ 53" "- 1074 \<le> e"
  shows "rnd64 (of_int m * 2 powi e) = of_int m * 2 powi e"
proof -
  have pos: "rnd_pos (of_int n * 2 powi e) = of_int n * 2 powi e"
    if n: "0 < n" "n < 2 ^ 53" for n
  proof -
    let ?x = "of_int n * 2 powi e :: rat"
    have x: "0 < ?x" using n by simp
    have "(of_int n :: rat) < of_int (2 ^ 53)" using n(2) by (simp only: of_int_less_iff)
    then have "?x < of_int (2 ^ 53) * 2 powi e" by (intro mult_strict_right_mono) simp_all
    also have "\<dots> = 2 powi (53 + e)" by (subst power_int_add) simp_all
    finally have "?x < 2 powi (53 + e)" .
    then have "(2::rat) powi ilog2 ?x < 2 powi (53 + e)" using ilog2_bounds [OF x] by linarith
    then have "ilog2 ?x < 53 + e" by (rule powi2_less_imp)
    then have q: "quantum ?x \<le> e" using assms(2) by (simp add: quantum_def)
    define d where "d = nat (e - quantum ?x)"
    define k where "k = quantum ?x"
    have e: "e = int d + k" using q by (simp add: d_def k_def)
    have "(2::rat) powi e = of_int (2 ^ d) * 2 powi k"
      unfolding e by (simp add: power_int_add)
    then have "?x / 2 powi k = of_int (n * 2 ^ d)" by simp
    then have "rhe (?x / 2 powi k) = n * 2 ^ d" by (simp only: rhe_of_int)
    with \<open>2 powi e = _\<close> show ?thesis unfolding rnd_pos_def k_def [symmetric] by simp
  qed
  consider "m = 0" | "0 < m" | "m < 0" by linarith
  then show ?thesis
  proof cases
    case 3
    then have "(of_int m :: rat) * 2 powi e < 0" by (simp add: mult_less_0_iff)
    with 3 show ?thesis using pos [of "- m"] assms by (simp add: rnd64_def)
  qed (use pos [of m] assms in \<open>auto simp: rnd64_def\<close>)
qed

lemma rnd64_of_int: "\<bar>m\<bar> < 2 ^ 53 \<Longrightarrow> rnd64 (of_int m) = of_int m"
  using rnd64_fixed [of m 0] by simp

lemma rnd64_numeral [simp]: "numeral n < (2 ^ 53 :: int) \<Longrightarrow> rnd64 (numeral n) = numeral n"
  using rnd64_of_int [of "numeral n"] by simp

lemma rnd64_one [simp]: "rnd64 1 = 1"
  using rnd64_of_int [of 1] by simp

text \<open>A rounded value is a fixed point: rounding twice is rounding once.\<close>

lemma rnd_pos_fixed: "0 < x \<Longrightarrow> rnd64 (rnd_pos x) = rnd_pos x"
proof -
  assume x: "0 < x"
  define m where "m = rhe (x / 2 powi quantum x)"
  have rx: "rnd_pos x = of_int m * 2 powi quantum x" by (simp add: rnd_pos_def m_def)
  have q: "- 1074 \<le> quantum x" by (simp add: quantum_def)
  have "0 \<le> of_int m * (2::rat) powi quantum x" using rnd_pos_nonneg [OF x] rx by simp
  moreover have "\<not> (2::rat) powi quantum x \<le> 0" by (simp add: not_le)
  ultimately have m0: "0 \<le> m" by (simp add: zero_le_mult_iff)
  have "rnd_pos x \<le> 2 powi (53 + quantum x)"
    by (rule rnd_pos_upper [OF x]) (auto simp: quantum_def)
  also have "\<dots> = of_int (2 ^ 53) * 2 powi quantum x" by (subst power_int_add) simp_all
  finally have "(of_int m :: rat) \<le> of_int (2 ^ 53)" by (simp add: rx)
  then have m53: "m \<le> 2 ^ 53" by (simp only: of_int_le_iff)
  show ?thesis
  proof (cases "m = 2 ^ 53")
    case False
    with m0 m53 q show ?thesis by (simp add: rx rnd64_fixed)
  next
    case True
    have "(2::rat) powi (53 + quantum x) = of_int 1 * 2 powi (53 + quantum x)" by simp
    with True have "rnd_pos x = of_int 1 * 2 powi (53 + quantum x)"
      unfolding rx by (subst power_int_add) simp_all
    moreover have "rnd64 (of_int 1 * 2 powi (53 + quantum x)) = of_int 1 * 2 powi (53 + quantum x)"
      by (rule rnd64_fixed) (use q in auto)
    ultimately show ?thesis by simp
  qed
qed

lemma rnd64_idem [simp]: "rnd64 (rnd64 x) = rnd64 x"
proof -
  consider "x = 0" | "0 < x" | "x < 0" by linarith
  then show ?thesis
  proof cases
    case 2
    then have "rnd64 x = rnd_pos x" by (simp add: rnd64_def)
    with 2 show ?thesis by (simp add: rnd_pos_fixed)
  next
    case 3
    then have "rnd64 x = - rnd_pos (- x)" by (simp add: rnd64_def)
    with 3 rnd_pos_fixed [of "- x"] show ?thesis by (simp add: rnd64_minus)
  qed simp
qed

subsection \<open>Evaluation\<close>

text \<open>
  For evaluation the rounding runs on the numerator and the denominator, so that every computed
  float is a literal fraction.
\<close>

definition rhe_ratio :: "int \<Rightarrow> int \<Rightarrow> int" where
  "rhe_ratio n d = (let f = n div d; r = 2 * (n mod d)
     in if r < d then f else if d < r then f + 1 else if even f then f else f + 1)"

definition ilog2_ratio :: "int \<Rightarrow> int \<Rightarrow> int" where
  "ilog2_ratio p q = (let e = bitlen p - bitlen q
     in if (if 0 \<le> e then q * 2 ^ nat e \<le> p else q \<le> p * 2 ^ nat (- e)) then e else e - 1)"

definition ratio_round :: "int \<Rightarrow> int \<Rightarrow> int \<times> int" where
  "ratio_round p q = (let k = max (ilog2_ratio p q - 52) (- 1074)
     in if 0 \<le> k then (rhe_ratio p (q * 2 ^ nat k) * 2 ^ nat k, 1)
        else (rhe_ratio (p * 2 ^ nat (- k)) q, 2 ^ nat (- k)))"

lemma rhe_ratio_eq:
  assumes "0 < d" shows "rhe (of_int n / of_int d) = rhe_ratio n d"
proof -
  have fl: "\<lfloor>of_int n / of_int d :: rat\<rfloor> = n div d" by (rule floor_divide_of_int_eq)
  have "of_int n = of_int (n div d) * of_int d + (of_int (n mod d) :: rat)"
    by (metis div_mult_mod_eq of_int_add of_int_mult)
  with assms have diff: "of_int n / of_int d - of_int (n div d) = (of_int (n mod d) / of_int d :: rat)"
    by (simp add: field_simps)
  have "(of_int (n mod d) / of_int d :: rat) < 1 / 2 \<longleftrightarrow> 2 * (n mod d) < d"
    "(1 / 2 :: rat) < of_int (n mod d) / of_int d \<longleftrightarrow> d < 2 * (n mod d)"
  proof -
    have "(of_int (n mod d) / of_int d :: rat) < 1 / 2 \<longleftrightarrow> of_int (2 * (n mod d)) < (of_int d :: rat)"
      "(1 / 2 :: rat) < of_int (n mod d) / of_int d \<longleftrightarrow> of_int d < (of_int (2 * (n mod d)) :: rat)"
      using assms by (simp_all add: pos_divide_less_eq pos_less_divide_eq mult.commute)
    then show "(of_int (n mod d) / of_int d :: rat) < 1 / 2 \<longleftrightarrow> 2 * (n mod d) < d"
      "(1 / 2 :: rat) < of_int (n mod d) / of_int d \<longleftrightarrow> d < 2 * (n mod d)"
      by (simp_all only: of_int_less_iff)
  qed
  then show ?thesis unfolding rhe_def rhe_ratio_def Let_def fl diff by simp
qed

lemma rhe_code [code]: "rhe x = (case quotient_of x of (p, q) \<Rightarrow> rhe_ratio p q)"
proof -
  obtain p q where pq: "quotient_of x = (p, q)" by fastforce
  then have "0 < q" "x = of_int p / of_int q" by (simp_all add: quotient_of_denom_pos quotient_of_div)
  with rhe_ratio_eq [of q p] pq show ?thesis by simp
qed

lemma powi_nat: "0 \<le> k \<Longrightarrow> (2::rat) powi k = of_int (2 ^ nat k)"
  "k < 0 \<Longrightarrow> (2::rat) powi k = 1 / of_int (2 ^ nat (- k))"
  by (simp_all add: power_int_def inverse_eq_divide power_one_over)

lemma ilog2_ratio_eq:
  assumes "quotient_of x = (p, q)" shows "ilog2 x = ilog2_ratio p q"
proof -
  from assms have q: "0 < q" and x: "x = of_int p / of_int q"
    by (simp_all add: quotient_of_denom_pos quotient_of_div)
  have "(2::rat) powi e \<le> x \<longleftrightarrow> (if 0 \<le> e then q * 2 ^ nat e \<le> p else q \<le> p * 2 ^ nat (- e))" for e
  proof (cases "0 \<le> e")
    case True
    have "(2::rat) powi e \<le> x \<longleftrightarrow> of_int (q * 2 ^ nat e) \<le> (of_int p :: rat)"
      using q by (simp add: powi_nat(1) [OF True] x pos_le_divide_eq mult.commute)
    with True show ?thesis by (simp only: of_int_le_iff if_True)
  next
    case False
    have "(2::rat) powi e \<le> x \<longleftrightarrow> of_int q \<le> (of_int (p * 2 ^ nat (- e)) :: rat)"
      using q False by (simp add: powi_nat(2) x field_simps)
    with False show ?thesis by (simp only: of_int_le_iff if_False)
  qed
  then show ?thesis by (simp add: ilog2_def ilog2_ratio_def assms)
qed

lemma rnd_pos_ratio:
  assumes "quotient_of x = (p, q)" "ratio_round p q = (n, d)"
  shows "rnd_pos x = of_int n / of_int d" "0 < d"
proof -
  from assms have q: "0 < q" and x: "x = of_int p / of_int q"
    by (simp_all add: quotient_of_denom_pos quotient_of_div)
  define k where "k = max (ilog2_ratio p q - 52) (- 1074)"
  have k: "quantum x = k" by (simp add: quantum_def k_def ilog2_ratio_eq [OF assms(1)])
  show "rnd_pos x = of_int n / of_int d"
  proof (cases "0 \<le> k")
    case True
    have "x / 2 powi k = of_int p / of_int (q * 2 ^ nat k)" by (simp add: x powi_nat(1) [OF True])
    moreover have "0 < q * 2 ^ nat k" using q by simp
    ultimately have "rhe (x / 2 powi k) = rhe_ratio p (q * 2 ^ nat k)" by (simp only: rhe_ratio_eq)
    with assms(2) True show ?thesis
      by (auto simp: ratio_round_def Let_def k rnd_pos_def powi_nat(1) simp flip: k_def)
  next
    case False
    then have "x / 2 powi k = of_int (p * 2 ^ nat (- k)) / of_int q" by (simp add: x powi_nat(2))
    then have "rhe (x / 2 powi k) = rhe_ratio (p * 2 ^ nat (- k)) q" by (simp only: rhe_ratio_eq [OF q])
    with assms(2) False show ?thesis
      by (auto simp: ratio_round_def Let_def k rnd_pos_def powi_nat(2) simp flip: k_def)
  qed
  show "0 < d" using assms(2) by (auto simp: ratio_round_def Let_def split: if_splits)
qed

subsection \<open>The laws of a rounding\<close>

text \<open>
  What the arithmetic below relies on: a rounding is monotone, odd, keeps zero and is
  idempotent. The interface is proved once; the interpretation discharges it for the code's
  binary64 rounding.
\<close>

locale rounding =
  fixes rd :: "rat \<Rightarrow> rat"
  assumes mono: "x \<le> y \<Longrightarrow> rd x \<le> rd y"
    and zero: "rd 0 = 0"
    and odd: "rd (- x) = - rd x"
    and idem: "rd (rd x) = rd x"
begin

lemma nonneg: "0 \<le> x \<Longrightarrow> 0 \<le> rd x"
  using mono [of 0 x] by (simp add: zero)

lemma nonpos: "x \<le> 0 \<Longrightarrow> rd x \<le> 0"
  using mono [of x 0] by (simp add: zero)

lemma le_fixed: "rd y = y \<Longrightarrow> x \<le> y \<Longrightarrow> rd x \<le> y"
  using mono [of x y] by simp

lemma ge_fixed: "rd y = y \<Longrightarrow> y \<le> x \<Longrightarrow> y \<le> rd x"
  using mono [of y x] by simp

lemma scale_le: "rd x = x \<Longrightarrow> 0 \<le> x \<Longrightarrow> k \<le> 1 \<Longrightarrow> rd (x * k) \<le> x"
  by (rule le_fixed) (simp_all add: mult_left_le)

lemma abs_rd: "\<bar>rd x\<bar> = rd \<bar>x\<bar>"
  using nonneg [of x] nonpos [of x] odd [of x] by (cases "0 \<le> x") auto

end

interpretation rnd: rounding rnd64
  by unfold_locales (auto simp: rnd64_mono rnd64_minus)

section \<open>Float values and operations\<close>

datatype pyfloat = Fin rat | PInf | MInf | NaN

definition max_float :: rat where
  "max_float = (2 ^ 53 - 1) * 2 ^ 971"

lemma max_float_numeral [code]: "max_float =
  179769313486231570814527423731704356798070567525844996598917476803157260780028538760589558632766878171540458953514382464234321326889464182768467546703537516986049910576551282076245490090389328944075868508455133942304583236903222948165808559332123348274797826204144723168738177180919299881250404026184124858368"
  by (simp add: max_float_def)

text \<open>
  The value of an exact result: rounded to 53 bits, an infinity when that rounding leaves the
  finite range (IEEE 754 section 7.4).
\<close>

definition of_exact :: "rat \<Rightarrow> pyfloat" where
  "of_exact x = (let r = rnd64 x in
     if max_float < r then PInf else if r < - max_float then MInf else Fin r)"

text \<open>The same on numerator and denominator, with a reduced fraction as the result.\<close>

definition max_int_float :: int where
  "max_int_float = (2 ^ 53 - 1) * 2 ^ 971"

lemma max_int_float_numeral [code]: "max_int_float =
  179769313486231570814527423731704356798070567525844996598917476803157260780028538760589558632766878171540458953514382464234321326889464182768467546703537516986049910576551282076245490090389328944075868508455133942304583236903222948165808559332123348274797826204144723168738177180919299881250404026184124858368"
  by (simp add: max_int_float_def)

definition literal :: "int \<Rightarrow> int \<Rightarrow> rat" where
  "literal n d = (let g = gcd n d in of_int (n div g) / of_int (d div g))"

lemma literal_eq: "0 < d \<Longrightarrow> literal n d = of_int n / of_int d"
proof -
  assume d: "0 < d"
  let ?g = "gcd n d"
  have g: "?g \<noteq> 0" using d by simp
  have "of_int n = (of_int (n div ?g) * of_int ?g :: rat)" "of_int d = (of_int (d div ?g) * of_int ?g :: rat)"
    by (simp_all flip: of_int_mult)
  with g show ?thesis by (simp add: literal_def Let_def)
qed

lemma of_exact_code [code]:
  "of_exact x = (case quotient_of x of (p, q) \<Rightarrow>
     if p = 0 then Fin 0
     else (case ratio_round \<bar>p\<bar> q of (n, d) \<Rightarrow>
       if max_int_float * d < n then (if 0 < p then PInf else MInf)
       else Fin (literal (if 0 < p then n else - n) d)))"
proof -
  obtain p q where pq: "quotient_of x = (p, q)" by fastforce
  then have q: "0 < q" and x: "x = of_int p / of_int q"
    by (simp_all add: quotient_of_denom_pos quotient_of_div)
  have mx: "max_float = of_int max_int_float" by (simp add: max_float_def max_int_float_def)
  have mx0: "0 \<le> max_float" by (simp add: max_float_def)
  have lt: "max_float < of_int n / of_int d \<longleftrightarrow> max_int_float * d < n" if "0 < d" for n d
  proof -
    have "max_float < of_int n / of_int d \<longleftrightarrow> of_int (max_int_float * d) < (of_int n :: rat)"
      using that by (simp add: mx pos_less_divide_eq)
    then show ?thesis by (simp only: of_int_less_iff)
  qed
  consider "p = 0" | "0 < p" | "p < 0" by linarith
  then show ?thesis
  proof cases
    case 1
    with mx0 pq show ?thesis by (simp add: x of_exact_def)
  next
    case 2
    then have x0: "0 < x" using q by (simp add: x)
    obtain n d where nd: "ratio_round p q = (n, d)" by fastforce
    note r = rnd_pos_ratio [OF pq nd]
    have "rnd64 x = of_int n / of_int d" using x0 r by (simp add: rnd64_def)
    moreover have "0 \<le> (of_int n / of_int d :: rat)" using rnd_pos_nonneg [OF x0] r by simp
    moreover have "max_float < of_int n / of_int d \<longleftrightarrow> max_int_float * d < n"
      by (rule lt [OF r(2)])
    ultimately show ?thesis using 2 pq nd r(2) mx0 by (auto simp: of_exact_def Let_def literal_eq)
  next
    case 3
    then have x0: "0 < - x" "x < 0" using q by (simp_all add: x divide_less_0_iff)
    have pq': "quotient_of (- x) = (- p, q)" using pq by (simp add: rat_uminus_code)
    obtain n d where nd: "ratio_round (- p) q = (n, d)" by fastforce
    note r = rnd_pos_ratio [OF pq' nd]
    have "rnd64 x = - (of_int n / of_int d)" using x0 r by (simp add: rnd64_def)
    moreover have "0 \<le> (of_int n / of_int d :: rat)" using rnd_pos_nonneg [OF x0(1)] r by simp
    moreover have "max_float < of_int n / of_int d \<longleftrightarrow> max_int_float * d < n"
      by (rule lt [OF r(2)])
    ultimately show ?thesis using 3 pq nd r(2) mx0 by (auto simp: of_exact_def Let_def literal_eq)
  qed
qed

definition isfinite :: "pyfloat \<Rightarrow> bool" where
  "isfinite x = (case x of Fin _ \<Rightarrow> True | _ \<Rightarrow> False)"

definition isnan :: "pyfloat \<Rightarrow> bool" where
  "isnan x = (case x of NaN \<Rightarrow> True | _ \<Rightarrow> False)"

lemma isfinite_simps [simp]:
  "isfinite (Fin x)" "\<not> isfinite PInf" "\<not> isfinite MInf" "\<not> isfinite NaN"
  by (simp_all add: isfinite_def)

lemma isnan_simps [simp]: "\<not> isnan (Fin x)" "\<not> isnan PInf" "\<not> isnan MInf" "isnan NaN"
  by (simp_all add: isnan_def)

lemma isfiniteE [elim]: "isfinite x \<Longrightarrow> (\<And>q. x = Fin q \<Longrightarrow> P) \<Longrightarrow> P"
  by (cases x) simp_all

instantiation pyfloat :: "{zero, one, plus, minus, uminus, times, inverse, abs, ord}"
begin

definition zero_pyfloat :: pyfloat where "0 = Fin 0"

definition one_pyfloat :: pyfloat where "1 = Fin 1"

fun uminus_pyfloat :: "pyfloat \<Rightarrow> pyfloat" where
  "- Fin a = Fin (- a)" | "- PInf = MInf" | "- MInf = PInf" | "- NaN = NaN"

fun plus_pyfloat :: "pyfloat \<Rightarrow> pyfloat \<Rightarrow> pyfloat" where
  "Fin a + Fin b = of_exact (a + b)"
| "NaN + y = NaN"
| "x + NaN = NaN"
| "PInf + MInf = NaN"
| "MInf + PInf = NaN"
| "PInf + y = PInf"
| "MInf + y = MInf"
| "Fin a + y = y"

definition minus_pyfloat :: "pyfloat \<Rightarrow> pyfloat \<Rightarrow> pyfloat" where
  "x - y = x + (- y)" for x y :: pyfloat

definition inf_of_sign :: "rat \<Rightarrow> pyfloat" where
  "inf_of_sign s = (if 0 < s then PInf else if s < 0 then MInf else NaN)"

definition sign_of :: "pyfloat \<Rightarrow> rat" where
  "sign_of x = (case x of Fin a \<Rightarrow> sgn a | PInf \<Rightarrow> 1 | MInf \<Rightarrow> - 1 | NaN \<Rightarrow> 0)"

fun times_pyfloat :: "pyfloat \<Rightarrow> pyfloat \<Rightarrow> pyfloat" where
  "Fin a * Fin b = of_exact (a * b)"
| "x * y = (if isnan x \<or> isnan y then NaN else inf_of_sign (sign_of x * sign_of y))"

text \<open>
  Division: Python raises on a zero divisor, so every use in the code has a nonzero divisor;
  the value for a zero divisor here is NaN and no definition relies on it.
\<close>

fun divide_pyfloat :: "pyfloat \<Rightarrow> pyfloat \<Rightarrow> pyfloat" where
  "Fin a div Fin b = (if b = 0 then NaN else of_exact (a / b))"
| "Fin a div NaN = NaN"
| "Fin a div _ = Fin 0"
| "x div Fin b = (if isnan x \<or> b = 0 then NaN else inf_of_sign (sign_of x * sgn b))"
| "x div y = NaN"

definition inverse_pyfloat :: "pyfloat \<Rightarrow> pyfloat" where
  "inverse x = 1 div x" for x :: pyfloat

fun less_eq_pyfloat :: "pyfloat \<Rightarrow> pyfloat \<Rightarrow> bool" where
  "Fin a \<le> Fin b = (a \<le> b)"
| "NaN \<le> y = False"
| "x \<le> NaN = False"
| "MInf \<le> y = True"
| "x \<le> PInf = True"
| "Fin a \<le> MInf = False"
| "PInf \<le> y = False"

definition less_pyfloat :: "pyfloat \<Rightarrow> pyfloat \<Rightarrow> bool" where
  "x < y \<longleftrightarrow> x \<le> y \<and> \<not> y \<le> x" for x y :: pyfloat

definition abs_pyfloat :: "pyfloat \<Rightarrow> pyfloat" where
  "\<bar>x\<bar> = (if x < 0 then - x else x)" for x :: pyfloat

instance ..

end

declare plus_pyfloat.simps(1) [simp] times_pyfloat.simps(1) [simp]

subsection \<open>Literals and finite arithmetic\<close>

text \<open>
  A float literal of the source, \<open>1e-6\<close> say, is the rounding of the decimal; \<open>fl\<close>
  names it. A finite operation is \<open>of_exact\<close> of the exact one.
\<close>

abbreviation fl :: "rat \<Rightarrow> pyfloat" where
  "fl q \<equiv> of_exact q"

lemma minus_Fin [simp]: "Fin a - Fin b = of_exact (a - b)"
  by (simp add: minus_pyfloat_def)

lemma div_Fin [simp]: "b \<noteq> 0 \<Longrightarrow> Fin a / Fin b = of_exact (a / b)"
  by simp

lemma less_Fin [simp]: "Fin a < Fin b \<longleftrightarrow> a < b"
  by (auto simp: less_pyfloat_def)

lemma less_inf_simps [simp]:
  "Fin a < PInf" "MInf < Fin a" "MInf < PInf" "\<not> PInf < x" "\<not> x < MInf"
  "\<not> NaN < x" "\<not> x < NaN" "\<not> PInf \<le> Fin a" "\<not> Fin a \<le> MInf" "Fin a \<le> PInf" "MInf \<le> Fin a"
  by (cases x; simp add: less_pyfloat_def)+

lemma abs_Fin [simp]: "\<bar>Fin a\<bar> = Fin \<bar>a\<bar>"
  by (simp add: abs_pyfloat_def zero_pyfloat_def)

lemma zero_Fin: "Fin 0 = 0"
  by (simp add: zero_pyfloat_def)

lemma max_float_pos: "2 ^ 1000 < max_float"
  by (simp add: max_float_def)

lemma rnd64_max_float: "rnd64 max_float = max_float"
  using rnd64_fixed [of "2 ^ 53 - 1" 971] by (simp add: max_float_def)

lemma of_exact_finite:
  assumes "\<bar>q\<bar> \<le> max_float"
  shows "of_exact q = Fin (rnd64 q)"
proof -
  have "rnd64 q \<le> max_float" "- max_float \<le> rnd64 q"
    using assms rnd.le_fixed [OF rnd64_max_float, of q] rnd.ge_fixed [of "- max_float" q]
    by (auto simp: rnd64_minus rnd64_max_float)
  then show ?thesis by (simp add: of_exact_def Let_def)
qed

lemma of_exact_small: "\<bar>q\<bar> \<le> 2 ^ 1000 \<Longrightarrow> of_exact q = Fin (rnd64 q)"
  using max_float_pos by (intro of_exact_finite) linarith

lemma of_exact_int: "\<bar>m\<bar> < 2 ^ 53 \<Longrightarrow> of_exact (of_int m) = Fin (of_int m)"
proof -
  assume m: "\<bar>m\<bar> < 2 ^ 53"
  have "\<bar>of_int m :: rat\<bar> \<le> of_int (2 ^ 53)" using m
    by (simp only: of_int_abs [symmetric] of_int_le_iff)
  also have "\<dots> \<le> 2 ^ 1000" by simp
  finally show ?thesis using rnd64_of_int [OF m] by (simp add: of_exact_small)
qed

lemma of_exact_numeral [simp]:
  "numeral n < (2 ^ 53 :: int) \<Longrightarrow> of_exact (numeral n) = Fin (numeral n)"
  "numeral n < (2 ^ 53 :: int) \<Longrightarrow> of_exact (- numeral n) = Fin (- numeral n)"
  using of_exact_int [of "numeral n"] of_exact_int [of "- numeral n"] by simp_all

lemma of_exact_01 [simp]: "of_exact 0 = Fin 0" "of_exact 1 = Fin 1" "of_exact (- 1) = Fin (- 1)"
  using of_exact_int [of 0] of_exact_int [of 1] of_exact_int [of "- 1"] by simp_all

lemma of_exact_not_NaN [simp]: "of_exact q \<noteq> NaN" "\<not> isnan (of_exact q)"
  by (simp_all add: of_exact_def Let_def)

lemma of_exact_mono [pyfloat_mono]: "a \<le> b \<Longrightarrow> of_exact a \<le> of_exact b"
  using rnd64_mono [of a b] by (auto simp: of_exact_def Let_def)

lemma of_exact_inf [simp]:
  "of_exact q \<le> PInf" "MInf \<le> of_exact q"
  by (simp_all add: of_exact_def Let_def)

lemma of_exact_nonneg: "0 \<le> q \<Longrightarrow> 0 \<le> of_exact q"
  using of_exact_mono [of 0 q] by (simp add: zero_pyfloat_def)

subsection \<open>The order\<close>

lemma le_trans_pyfloat [trans]: "x \<le> y \<Longrightarrow> y \<le> z \<Longrightarrow> x \<le> z" for x y z :: pyfloat
  by (cases x; cases y; cases z; simp)

lemma le_refl_pyfloat: "x \<noteq> NaN \<Longrightarrow> x \<le> x" for x :: pyfloat
  by (cases x) simp_all

lemma le_antisym_pyfloat: "x \<le> y \<Longrightarrow> y \<le> x \<Longrightarrow> x = y" for x y :: pyfloat
  by (cases x; cases y) simp_all

lemma not_le_pyfloat: "x \<noteq> NaN \<Longrightarrow> y \<noteq> NaN \<Longrightarrow> \<not> x \<le> y \<longleftrightarrow> y < x" for x y :: pyfloat
  by (cases x; cases y) (auto simp: less_pyfloat_def)

lemma le_not_NaN: "x \<le> y \<Longrightarrow> x \<noteq> NaN \<and> y \<noteq> NaN" for x y :: pyfloat
  by (cases x; cases y) simp_all

lemma less_imp_le_pyfloat: "x < y \<Longrightarrow> x \<le> y" for x y :: pyfloat
  by (simp add: less_pyfloat_def)

lemma less_le_pyfloat: "x < y \<longleftrightarrow> x \<le> y \<and> \<not> y \<le> x" for x y :: pyfloat
  by (simp add: less_pyfloat_def)

lemma nonneg_cases:
  assumes "0 \<le> x" obtains q where "x = Fin q" "0 \<le> q" | "x = PInf"
  using assms by (cases x) (auto simp: zero_pyfloat_def)

lemma zero_le_Fin [simp]: "0 \<le> Fin q \<longleftrightarrow> 0 \<le> q" "Fin q \<le> 0 \<longleftrightarrow> q \<le> 0"
  by (simp_all add: zero_pyfloat_def)

lemma zero_le_zero_pyfloat [simp]: "0 \<le> PInf" "\<not> 0 \<le> MInf" "\<not> 0 \<le> NaN" "(0::pyfloat) \<le> 0" "isfinite 0" "isfinite 1" "(0::pyfloat) \<noteq> NaN"
  by (simp_all add: zero_pyfloat_def one_pyfloat_def)

subsection \<open>Monotonicity of the operations\<close>

lemma add_nonneg_pyfloat [pyfloat_mono]:
  fixes x y :: pyfloat
  assumes "0 \<le> x" "0 \<le> y"
  shows "0 \<le> x + y"
  using assms
  by (cases rule: nonneg_cases [OF assms(1)]; cases rule: nonneg_cases [OF assms(2)])
    (auto simp: of_exact_nonneg)

lemma add_mono_pyfloat [pyfloat_mono]:
  "0 \<le> a \<Longrightarrow> a \<le> b \<Longrightarrow> 0 \<le> c \<Longrightarrow> c \<le> d \<Longrightarrow> a + c \<le> b + d" for a b c d :: pyfloat
proof -
  assume h: "0 \<le> a" "a \<le> b" "0 \<le> c" "c \<le> d"
  then have b: "0 \<le> b" and d: "0 \<le> d" by (blast intro: le_trans_pyfloat)+
  show ?thesis using h
    by (cases rule: nonneg_cases [OF h(1)]; cases rule: nonneg_cases [OF h(3)];
        cases rule: nonneg_cases [OF b]; cases rule: nonneg_cases [OF d])
      (auto intro: of_exact_mono)
qed

lemma add_right_mono_pyfloat [pyfloat_mono]:
  "x \<le> y \<Longrightarrow> isfinite c \<Longrightarrow> x + c \<le> y + c" for x y c :: pyfloat
  by (cases x; cases y; cases c) (auto intro: of_exact_mono)

lemma minus_mono_pyfloat [pyfloat_mono]:
  "x \<le> y \<Longrightarrow> isfinite c \<Longrightarrow> c - y \<le> c - x" for x y c :: pyfloat
  by (cases x; cases y; cases c) (auto intro: of_exact_mono simp: minus_pyfloat_def)

lemma minus_right_mono_pyfloat [pyfloat_mono]:
  "x \<le> y \<Longrightarrow> isfinite c \<Longrightarrow> x - c \<le> y - c" for x y c :: pyfloat
  by (cases x; cases y; cases c) (auto intro: of_exact_mono simp: minus_pyfloat_def)

lemma mult_mono_Fin [pyfloat_mono]:
  "0 \<le> a \<Longrightarrow> a \<le> b \<Longrightarrow> 0 \<le> c \<Longrightarrow> c \<le> d \<Longrightarrow> Fin a * Fin c \<le> Fin b * Fin d"
  by (simp add: of_exact_mono mult_mono)

lemma mult_nonneg_pyfloat [pyfloat_mono]:
  "0 \<le> x \<Longrightarrow> 0 \<le> y \<Longrightarrow> isfinite x \<Longrightarrow> isfinite y \<Longrightarrow> 0 \<le> x * y" for x y :: pyfloat
  by (cases x; cases y) (auto simp: of_exact_nonneg)

lemma divide_mono_Fin [pyfloat_mono]: "a \<le> b \<Longrightarrow> 0 < c \<Longrightarrow> Fin a / Fin c \<le> Fin b / Fin c"
  by (simp add: of_exact_mono divide_right_mono)

lemma divide_nonneg_pyfloat [pyfloat_mono]:
  "0 \<le> x \<Longrightarrow> 0 < c \<Longrightarrow> 0 \<le> x / Fin c" for x :: pyfloat
  by (cases x) (auto simp: of_exact_nonneg inf_of_sign_def sign_of_def)

text \<open>A value the program can hold: the results of \<open>of_exact\<close>, infinities and NaN.\<close>

definition is_float :: "pyfloat \<Rightarrow> bool" where
  "is_float x = (case x of Fin q \<Rightarrow> rnd64 q = q \<and> \<bar>q\<bar> \<le> max_float | _ \<Rightarrow> True)"

lemma is_float_of_exact [simp]: "is_float (of_exact q)"
  by (auto simp: is_float_def of_exact_def Let_def)

lemma of_exact_is_float: "is_float (Fin q) \<Longrightarrow> of_exact q = Fin q"
  by (simp add: is_float_def of_exact_finite)

lemma is_float_plus [simp]: "is_float x \<Longrightarrow> is_float y \<Longrightarrow> is_float (x + y)"
  by (cases x; cases y) (simp_all, simp_all add: is_float_def)

lemma is_float_times [simp]: "is_float (x * y)"
proof -
  have "is_float (inf_of_sign s)" for s by (simp add: inf_of_sign_def is_float_def)
  then show ?thesis by (cases x; cases y) (simp_all, simp_all add: is_float_def)
qed

lemma is_float_numeral [simp]: "numeral n < (2 ^ 53 :: int) \<Longrightarrow> is_float (Fin (numeral n))"
  using is_float_of_exact [of "numeral n"] by simp

lemma is_float_01 [simp]: "is_float (Fin 0)" "is_float (Fin 1)" "is_float 0" "is_float 1"
  using is_float_of_exact [of 0] is_float_of_exact [of 1]
  by (simp_all add: zero_pyfloat_def one_pyfloat_def)

lemma plus_0_pyfloat [simp]: "is_float x \<Longrightarrow> 0 + x = x" "is_float x \<Longrightarrow> x + 0 = x"
  by (cases x; simp add: zero_pyfloat_def of_exact_is_float)+

lemma times_1_pyfloat [simp]: "is_float x \<Longrightarrow> x * 1 = x"
  by (cases x) (simp_all add: one_pyfloat_def of_exact_is_float inf_of_sign_def sign_of_def)

lemma minus_self_pyfloat: "isfinite x \<Longrightarrow> x - x = 0" for x :: pyfloat
  by (cases x) (simp_all add: zero_pyfloat_def)

section \<open>Built-in functions\<close>

text \<open>
  \<open>max(a, b)\<close> and \<open>min(a, b)\<close> keep the first argument unless the second is strictly
  larger, respectively smaller; a NaN in second place is therefore ignored and one in first
  place is kept. On a sequence the same rule runs left to right.
\<close>

definition py_max :: "pyfloat \<Rightarrow> pyfloat \<Rightarrow> pyfloat" where
  "py_max a b = (if a < b then b else a)"

definition py_min :: "pyfloat \<Rightarrow> pyfloat \<Rightarrow> pyfloat" where
  "py_min a b = (if b < a then b else a)"

text \<open>\<open>max(xs, default=d)\<close>; \<open>min\<close> of a nonempty sequence.\<close>

fun py_max_list :: "pyfloat \<Rightarrow> pyfloat list \<Rightarrow> pyfloat" where
  "py_max_list d [] = d"
| "py_max_list d (x # xs) = foldl py_max x xs"

fun py_min_list :: "pyfloat \<Rightarrow> pyfloat list \<Rightarrow> pyfloat" where
  "py_min_list d [] = d"
| "py_min_list d (x # xs) = foldl py_min x xs"

text \<open>\<open>sum(xs)\<close> of floats on Python 3.11: left to right from the integer 0.\<close>

definition py_sum :: "pyfloat list \<Rightarrow> pyfloat" where
  "py_sum xs = foldl (+) 0 xs"

text \<open>
  \<open>round(x, n)\<close>: the exact value is rounded half-even to n decimals and the decimal is
  rounded back to binary64; infinities and NaN are returned unchanged.
\<close>

definition py_round :: "nat \<Rightarrow> pyfloat \<Rightarrow> pyfloat" where
  "py_round n x = (case x of
     Fin q \<Rightarrow> of_exact (of_int (rhe (q * 10 ^ n)) / 10 ^ n) | _ \<Rightarrow> x)"

lemma py_max_Fin [simp]: "py_max (Fin a) (Fin b) = Fin (max a b)"
  by (simp add: py_max_def max_def)

lemma py_min_Fin [simp]: "py_min (Fin a) (Fin b) = Fin (min a b)"
  by (simp add: py_min_def min_def)

lemma py_max_0_nonneg [simp]: "0 \<le> py_max 0 x"
  by (cases x) (auto simp: py_max_def less_pyfloat_def)

lemma py_max_finite [simp]: "isfinite a \<Longrightarrow> isfinite b \<Longrightarrow> isfinite (py_max a b)"
  by (simp add: py_max_def)

lemma py_min_finite [simp]: "isfinite a \<Longrightarrow> isfinite b \<Longrightarrow> isfinite (py_min a b)"
  by (simp add: py_min_def)

lemma py_max_0_id: "0 \<le> x \<Longrightarrow> py_max 0 x = x"
  by (cases x) (auto simp: py_max_def zero_pyfloat_def less_pyfloat_def)

lemma py_max_0_mono [pyfloat_mono]: "x \<le> y \<Longrightarrow> py_max 0 x \<le> py_max 0 y"
  by (cases x; cases y) (auto simp: py_max_def zero_pyfloat_def less_pyfloat_def)

lemma py_min_le1: "a \<noteq> NaN \<Longrightarrow> py_min a b \<le> a"
  by (cases a; cases b) (auto simp: py_min_def less_pyfloat_def)

lemma py_min_le2: "a \<noteq> NaN \<Longrightarrow> b \<noteq> NaN \<Longrightarrow> py_min a b \<le> b"
  by (cases a; cases b) (auto simp: py_min_def less_pyfloat_def)

lemma py_min_mono [pyfloat_mono]: "a \<le> b \<Longrightarrow> c \<le> d \<Longrightarrow> py_min a c \<le> py_min b d"
  by (cases a; cases b; cases c; cases d) (auto simp: py_min_def less_pyfloat_def)

lemma py_max_ge1: "a \<noteq> NaN \<Longrightarrow> a \<le> py_max a b"
  by (cases a; cases b) (auto simp: py_max_def less_pyfloat_def)

lemma py_max_ge2: "a \<noteq> NaN \<Longrightarrow> b \<noteq> NaN \<Longrightarrow> b \<le> py_max a b"
  by (cases a; cases b) (auto simp: py_max_def less_pyfloat_def)

lemma py_min_nonneg: "0 \<le> a \<Longrightarrow> 0 \<le> b \<Longrightarrow> 0 \<le> py_min a b"
  by (simp add: py_min_def)

lemma foldl_py_max_ge:
  "a \<noteq> NaN \<Longrightarrow> NaN \<notin> set xs \<Longrightarrow> x \<in> insert a (set xs) \<Longrightarrow> x \<le> foldl py_max a xs"
proof (induction xs arbitrary: a x)
  case (Cons b xs)
  then have nn: "py_max a b \<noteq> NaN" by (auto simp: py_max_def)
  with Cons have "py_max a b \<le> foldl py_max (py_max a b) xs" by (intro Cons.IH) auto
  moreover have "a \<le> py_max a b" "b \<le> py_max a b" using Cons.prems by (auto intro: py_max_ge1 py_max_ge2)
  ultimately show ?case using Cons nn by (auto intro: le_trans_pyfloat)
qed (simp add: le_refl_pyfloat)

lemma foldl_py_max_in: "foldl py_max a xs \<in> insert a (set xs)"
  by (induction xs arbitrary: a) (auto simp: py_max_def)

lemma foldl_py_min_in: "foldl py_min a xs \<in> insert a (set xs)"
  by (induction xs arbitrary: a) (auto simp: py_min_def)

lemma foldl_py_min_le:
  "a \<noteq> NaN \<Longrightarrow> NaN \<notin> set xs \<Longrightarrow> x \<in> insert a (set xs) \<Longrightarrow> foldl py_min a xs \<le> x"
proof (induction xs arbitrary: a x)
  case (Cons b xs)
  then have nn: "py_min a b \<noteq> NaN" by (auto simp: py_min_def)
  with Cons have "foldl py_min (py_min a b) xs \<le> py_min a b" by (intro Cons.IH) auto
  moreover have "py_min a b \<le> a" "py_min a b \<le> b" using Cons.prems by (auto intro: py_min_le1 py_min_le2)
  ultimately show ?case using Cons nn by (auto intro: le_trans_pyfloat)
qed (simp add: le_refl_pyfloat)

lemma py_max_list_ge: "NaN \<notin> set xs \<Longrightarrow> x \<in> set xs \<Longrightarrow> x \<le> py_max_list d xs"
  by (cases xs) (auto simp del: foldl_Cons intro: foldl_py_max_ge)

lemma py_max_list_in: "xs \<noteq> [] \<Longrightarrow> py_max_list d xs \<in> set xs"
  using foldl_py_max_in by (cases xs) auto

lemma py_min_list_le: "NaN \<notin> set xs \<Longrightarrow> x \<in> set xs \<Longrightarrow> py_min_list d xs \<le> x"
  by (cases xs) (auto simp del: foldl_Cons intro: foldl_py_min_le)

lemma py_min_list_in: "xs \<noteq> [] \<Longrightarrow> py_min_list d xs \<in> set xs"
  using foldl_py_min_in by (cases xs) auto

lemma py_round_mono [pyfloat_mono]: "x \<le> y \<Longrightarrow> py_round n x \<le> py_round n y"
  by (cases x; cases y)
    (auto simp: py_round_def intro!: of_exact_mono divide_right_mono rhe_mono mult_right_mono)

lemma py_round_0 [simp]: "py_round n 0 = 0"
  by (simp add: py_round_def zero_pyfloat_def)

lemma py_round_nonneg: "0 \<le> x \<Longrightarrow> 0 \<le> py_round n x"
  using py_round_mono [of 0 x n] by simp

end
