(* ===== verification/Prelude.thy ===== *)
theory Prelude imports Py_Float "HOL-Library.AList" "HOL-Library.Word" begin

text \<open>
  What the components share: Python's exceptions as error values and the sequential checks of a
  validator, dictionaries as association lists in insertion order, accumulation loops and the
  \<open>mono_loop\<close> interface that carries every monotonicity argument, UUIDs with their canonical
  text, and instants and durations in microseconds.
\<close>

named_theorems validator_simps \<open>unfolding of the validators\<close>

section \<open>Errors\<close>

text \<open>
  \<open>ValueError\<close> carries the message of the \<open>raise\<close>. \<open>FieldError\<close> stands for the
  validation error pydantic raises when a declared field constraint fails, and names the field.
\<close>

datatype py_error =
    ValueError string
  | FieldError string
  | KeyError
  | IndexError
  | StopIteration
  | OverflowError
  | ZeroDivisionError
  | TypeError

type_synonym 'a res = "py_error + 'a"

definition rbind :: "'a res \<Rightarrow> ('a \<Rightarrow> 'b res) \<Rightarrow> 'b res" where
  "rbind r f = (case r of Inl e \<Rightarrow> Inl e | Inr x \<Rightarrow> f x)"

definition rmap :: "('a \<Rightarrow> 'b) \<Rightarrow> 'a res \<Rightarrow> 'b res" where
  "rmap f r = rbind r (\<lambda>x. Inr (f x))"

lemma rbind_simps [simp]: "rbind (Inl e) f = Inl e" "rbind (Inr x) f = f x"
  by (simp_all add: rbind_def)

lemma rbind_Inr_iff: "rbind r f = Inr y \<longleftrightarrow> (\<exists>x. r = Inr x \<and> f x = Inr y)"
  by (cases r) simp_all

lemma rmap_simps [simp]: "rmap f (Inl e) = Inl e" "rmap f (Inr x) = Inr (f x)"
  by (simp_all add: rmap_def)

text \<open>A list comprehension whose body may raise.\<close>

fun rtraverse :: "('a \<Rightarrow> 'b res) \<Rightarrow> 'a list \<Rightarrow> 'b list res" where
  "rtraverse f [] = Inr []"
| "rtraverse f (x # xs) = rbind (f x) (\<lambda>y. rmap ((#) y) (rtraverse f xs))"

lemma rtraverse_Inr: "(\<And>x. x \<in> set xs \<Longrightarrow> f x = Inr (g x)) \<Longrightarrow> rtraverse f xs = Inr (map g xs)"
  by (induction xs) simp_all

lemma rtraverse_InrD: "rtraverse f xs = Inr ys \<Longrightarrow> list_all2 (\<lambda>x y. f x = Inr y) xs ys"
  by (induction xs arbitrary: ys) (auto simp: rbind_Inr_iff rmap_def)

lemma rtraverse_total: "(\<And>x. x \<in> set xs \<Longrightarrow> \<exists>y. f x = Inr y) \<Longrightarrow> \<exists>ys. rtraverse f xs = Inr ys \<and> length ys = length xs"
  by (induction xs) fastforce+

text \<open>\<open>any(f(x) for x in xs)\<close> with a body that may raise: the first true item ends the loop.\<close>

fun rany :: "('a \<Rightarrow> bool res) \<Rightarrow> 'a list \<Rightarrow> bool res" where
  "rany f [] = Inr False"
| "rany f (x # xs) = rbind (f x) (\<lambda>b. if b then Inr True else rany f xs)"

lemma rany_total: "(\<And>x. x \<in> set xs \<Longrightarrow> f x = Inr (g x)) \<Longrightarrow> rany f xs = Inr (list_ex g xs)"
  by (induction xs) simp_all

text \<open>
  A validator is a sequence of checks \<open>if problem: raise error\<close>; the first problem decides.
  Every condition is total here, so evaluating a later one never matters.
\<close>

fun first_error :: "(bool \<times> py_error) list \<Rightarrow> py_error option" where
  "first_error [] = None"
| "first_error ((problem, e) # cs) = (if problem then Some e else first_error cs)"

definition validated :: "(bool \<times> py_error) list \<Rightarrow> 'a \<Rightarrow> 'a res" where
  "validated cs x = (case first_error cs of None \<Rightarrow> Inr x | Some e \<Rightarrow> Inl e)"

lemma first_error_None: "first_error cs = None \<longleftrightarrow> (\<forall>(problem, e) \<in> set cs. \<not> problem)"
  by (induction cs) (auto split: if_splits)

lemma first_error_append:
  "first_error (xs @ ys) = (case first_error xs of None \<Rightarrow> first_error ys | Some e \<Rightarrow> Some e)"
  by (induction xs) auto

lemma validated_Inr: "validated cs x = Inr y \<longleftrightarrow> y = x \<and> first_error cs = None"
  by (auto simp: validated_def split: option.splits)

lemma validated_ok: "first_error cs = None \<Longrightarrow> validated cs x = Inr x"
  by (simp add: validated_def)

text \<open>Checks of a nested object inside a list of checks.\<close>

definition nested :: "py_error option \<Rightarrow> (bool \<times> py_error) list" where
  "nested e = (case e of None \<Rightarrow> [] | Some e \<Rightarrow> [(True, e)])"

lemma first_error_nested [simp]: "first_error (nested e) = e"
  by (simp add: nested_def split: option.splits)

section \<open>Field constraints\<close>

text \<open>\<open>Field(min_length=a, max_length=b)\<close> on strings and lists, and the SHA-256 pattern.\<close>

definition len_between :: "nat \<Rightarrow> nat \<Rightarrow> 'a list \<Rightarrow> bool" where
  "len_between a b xs \<longleftrightarrow> a \<le> length xs \<and> length xs \<le> b"

definition is_sha256 :: "string \<Rightarrow> bool" where
  "is_sha256 s \<longleftrightarrow> length s = 64 \<and> list_all (\<lambda>c. c \<in> set ''0123456789abcdef'') s"

definition is_sha256_any_case :: "string \<Rightarrow> bool" where
  "is_sha256_any_case s \<longleftrightarrow>
     length s = 64 \<and> list_all (\<lambda>c. c \<in> set ''0123456789abcdefABCDEF'') s"

definition opt_ok :: "('a \<Rightarrow> bool) \<Rightarrow> 'a option \<Rightarrow> bool" where
  "opt_ok P x = (case x of None \<Rightarrow> True | Some y \<Rightarrow> P y)"

lemma opt_ok_simps [simp]: "opt_ok P None" "opt_ok P (Some y) \<longleftrightarrow> P y"
  by (simp_all add: opt_ok_def)

section \<open>Dictionaries\<close>

text \<open>
  A dictionary is the list of its entries in insertion order; storing under a present key keeps
  the position and replaces the value, as \<open>AList.update\<close> does.
\<close>

type_synonym ('k, 'v) dict = "('k \<times> 'v) list"

definition dict_of :: "('k \<times> 'v) list \<Rightarrow> ('k, 'v) dict" where
  "dict_of kvs = foldl (\<lambda>d (k, v). AList.update k v d) [] kvs"

definition dict_get :: "('k, 'v) dict \<Rightarrow> 'k \<Rightarrow> 'v \<Rightarrow> 'v" where
  "dict_get d k v = (case map_of d k of None \<Rightarrow> v | Some w \<Rightarrow> w)"

definition dict_has :: "('k, 'v) dict \<Rightarrow> 'k \<Rightarrow> bool" where
  "dict_has d k \<longleftrightarrow> k \<in> set (map fst d)"

text \<open>\<open>d[k] += v\<close> on a \<open>defaultdict(float)\<close>, and a loop of such updates.\<close>

definition dd_add :: "('k, pyfloat) dict \<Rightarrow> 'k \<Rightarrow> pyfloat \<Rightarrow> ('k, pyfloat) dict" where
  "dd_add d k v = AList.update k (dict_get d k 0 + v) d"

definition dd_total :: "('a \<Rightarrow> 'k) \<Rightarrow> ('a \<Rightarrow> pyfloat) \<Rightarrow> 'a list \<Rightarrow> ('k, pyfloat) dict" where
  "dd_total key amount xs = foldl (\<lambda>d x. dd_add d (key x) (amount x)) [] xs"

text \<open>Reading \<open>d[k]\<close> of a \<open>defaultdict(float)\<close> stores 0.0 under a missing key.\<close>

definition dd_touch :: "('k, pyfloat) dict \<Rightarrow> 'k \<Rightarrow> ('k, pyfloat) dict" where
  "dd_touch d k = (if dict_has d k then d else AList.update k 0 d)"

text \<open>\<open>list(dict.fromkeys(xs))\<close>: the first occurrence of each element.\<close>

definition unique_first :: "'a list \<Rightarrow> 'a list" where
  "unique_first xs = rev (remdups (rev xs))"

lemma map_of_foldl_update:
  "map_of (foldl (\<lambda>d (k, v). AList.update k v d) d kvs) =
     map_of d ++ map_of (rev kvs)"
  by (induction kvs arbitrary: d) (auto simp: update_conv' map_add_def fun_eq_iff split: option.splits)

lemma map_of_dict_of: "map_of (dict_of kvs) = map_of (rev kvs)"
  by (simp add: dict_of_def map_of_foldl_update)

lemma update_new: "k \<notin> set (map fst d) \<Longrightarrow> AList.update k v d = d @ [(k, v)]"
  by (induction d) auto

lemma foldl_update_distinct:
  "distinct (map fst (d @ kvs)) \<Longrightarrow> foldl (\<lambda>d (k, v). AList.update k v d) d kvs = d @ kvs"
proof (induction kvs arbitrary: d)
  case (Cons kv kvs)
  obtain k v where kv: "kv = (k, v)" by force
  with Cons.prems have "AList.update k v d = d @ [(k, v)]" by (intro update_new) auto
  with Cons kv show ?case by simp
qed simp

lemma dict_of_distinct: "distinct (map fst kvs) \<Longrightarrow> dict_of kvs = kvs"
  by (simp add: dict_of_def foldl_update_distinct)

lemma map_of_dict_of_distinct: "distinct (map fst kvs) \<Longrightarrow> map_of (dict_of kvs) = map_of kvs"
  by (simp add: dict_of_distinct)

lemma distinct_foldl_update:
  "distinct (map fst d) \<Longrightarrow> distinct (map fst (foldl (\<lambda>d (k, v). AList.update k v d) d kvs))"
  by (induction kvs arbitrary: d) (auto simp: distinct_update)

lemma distinct_dict_of [simp]: "distinct (map fst (dict_of kvs))"
  by (simp add: dict_of_def distinct_foldl_update)

lemma dict_has_map_of: "dict_has d k \<longleftrightarrow> map_of d k \<noteq> None"
  by (simp add: dict_has_def map_of_eq_None_iff)

lemma dict_get_update [simp]:
  "dict_get (AList.update k v d) k' w = (if k' = k then v else dict_get d k' w)"
  by (simp add: dict_get_def update_conv')

lemma dict_get_Nil [simp]: "dict_get [] k v = v"
  by (simp add: dict_get_def)

text \<open>
  The accumulated entry of a key is the sum, in loop order, of the amounts of its items; the keys
  are those of the items, each once.
\<close>

lemma dict_get_dd_add: "dict_get (dd_add d k v) k' 0 = (if k' = k then dict_get d k 0 + v else dict_get d k' 0)"
  by (simp add: dd_add_def)

lemma dict_get_foldl_dd_add:
  "dict_get (foldl (\<lambda>d x. dd_add d (key x) (amount x)) d xs) k 0 =
     foldl (+) (dict_get d k 0) (map amount (filter (\<lambda>x. key x = k) xs))"
  by (induction xs arbitrary: d) (auto simp: dict_get_dd_add)

lemma dict_get_dd_total:
  "dict_get (dd_total key amount xs) k 0 = py_sum (map amount (filter (\<lambda>x. key x = k) xs))"
  by (simp add: dd_total_def dict_get_foldl_dd_add py_sum_def)

lemma keys_update: "set (map fst (AList.update k v d)) = insert k (set (map fst d))"
  by (simp add: dom_update)

lemma keys_foldl_dd_add:
  "set (map fst (foldl (\<lambda>d x. dd_add d (key x) (amount x)) d xs)) = set (map fst d) \<union> key ` set xs"
  by (induction xs arbitrary: d) (auto simp: dd_add_def dom_update)

lemma keys_dd_total: "fst ` set (dd_total key amount xs) = key ` set xs"
  using keys_foldl_dd_add [of key amount "[]" xs] by (simp add: dd_total_def)

lemma distinct_foldl_dd_add:
  "distinct (map fst d) \<Longrightarrow>
     distinct (map fst (foldl (\<lambda>d x. dd_add d (key x) (amount x)) d xs))"
  by (induction xs arbitrary: d) (auto simp: dd_add_def distinct_update)

lemma distinct_dd_total [simp]: "distinct (map fst (dd_total key amount xs))"
  by (simp add: dd_total_def distinct_foldl_dd_add)

lemma dict_get_in: "distinct (map fst d) \<Longrightarrow> (k, v) \<in> set d \<Longrightarrow> dict_get d k w = v"
  by (simp add: dict_get_def)

lemma dict_get_cases: "dict_get d k w \<in> insert w (snd ` set d)"
  by (auto simp: dict_get_def dest!: map_of_SomeD split: option.splits intro: rev_image_eqI)

section \<open>Monotone loops\<close>

text \<open>
  A loop \<open>acc = f(acc, item)\<close> whose body respects an order on accumulators and an order on
  items: a run over pointwise larger items from a larger start ends larger. Sums, running
  minima and products of the code are instances.
\<close>

locale mono_loop =
  fixes le :: "'a \<Rightarrow> 'a \<Rightarrow> bool"
    and le_item :: "'b \<Rightarrow> 'b \<Rightarrow> bool"
    and body :: "'a \<Rightarrow> 'b \<Rightarrow> 'a"
  assumes body_mono: "le a a' \<Longrightarrow> le_item b b' \<Longrightarrow> le (body a b) (body a' b')"
begin

lemma run_mono: "le a a' \<Longrightarrow> list_all2 le_item xs ys \<Longrightarrow> le (foldl body a xs) (foldl body a' ys)"
proof (induction xs arbitrary: a a' ys)
  case (Cons x xs)
  then obtain y ys' where "ys = y # ys'" "le_item x y" "list_all2 le_item xs ys'"
    by (auto simp: list_all2_Cons1)
  with Cons show ?case by (simp add: body_mono)
qed simp

lemma run_inv: "le a a \<Longrightarrow> (\<And>x. x \<in> set xs \<Longrightarrow> le_item x x) \<Longrightarrow> le (foldl body a xs) (foldl body a xs)"
  by (rule run_mono) (auto simp: list_all2_same)

end

definition le0 :: "pyfloat \<Rightarrow> pyfloat \<Rightarrow> bool" where
  "le0 a b \<longleftrightarrow> 0 \<le> a \<and> a \<le> b"

lemma le0_refl: "0 \<le> a \<Longrightarrow> le0 a a"
  by (simp add: le0_def le_refl_pyfloat le_not_NaN)

interpretation float_sum: mono_loop le0 le0 "(+)"
  by unfold_locales (auto simp: le0_def intro: pyfloat_mono)

lemma py_sum_mono: "list_all2 le0 xs ys \<Longrightarrow> py_sum xs \<le> py_sum ys"
  using float_sum.run_mono [of 0 0 xs ys] by (simp add: py_sum_def le0_def)

lemma py_sum_nonneg: "(\<And>x. x \<in> set xs \<Longrightarrow> 0 \<le> x) \<Longrightarrow> 0 \<le> py_sum xs"
  using float_sum.run_inv [of 0 xs] le0_refl by (simp add: py_sum_def le0_def)

lemma py_sum_Nil [simp]: "py_sum [] = 0"
  by (simp add: py_sum_def)

lemma py_sum_map_mono:
  "(\<And>x. x \<in> set xs \<Longrightarrow> 0 \<le> f x \<and> f x \<le> g x) \<Longrightarrow> py_sum (map f xs) \<le> py_sum (map g xs)"
  by (rule py_sum_mono) (auto simp: list_all2_map1 list_all2_map2 list_all2_same le0_def)

section \<open>Identifiers\<close>

text \<open>A UUID is its 128-bit value; \<open>str(uuid)\<close> is the 8-4-4-4-12 lower-case hexadecimal text.\<close>

type_synonym uuid = "128 word"

definition hex_digit :: "nat \<Rightarrow> char" where
  "hex_digit n = ''0123456789abcdef'' ! n"

definition uuid_hex :: "uuid \<Rightarrow> string" where
  "uuid_hex u = map (\<lambda>i. hex_digit (nat (uint u div 16 ^ i mod 16))) (rev [0..<32])"

definition uuid_str :: "uuid \<Rightarrow> string" where
  "uuid_str u = (let h = uuid_hex u in
     take 8 h @ ''-'' @ take 4 (drop 8 h) @ ''-'' @ take 4 (drop 12 h) @ ''-''
       @ take 4 (drop 16 h) @ ''-'' @ drop 20 h)"

lemma hex_digit_inj: "m < 16 \<Longrightarrow> n < 16 \<Longrightarrow> hex_digit m = hex_digit n \<Longrightarrow> m = n"
  using nth_eq_iff_index_eq [of "''0123456789abcdef''" m n] by (simp add: hex_digit_def)

lemma hex_digit_not_dash: "n < 16 \<Longrightarrow> hex_digit n \<noteq> CHR ''-''"
proof -
  assume "n < 16"
  then have "''0123456789abcdef'' ! n \<in> set ''0123456789abcdef''" by (intro nth_mem) simp
  then show ?thesis by (auto simp: hex_digit_def)
qed

lemma digits_eq_mod:
  "0 < b \<Longrightarrow> (\<And>i. i < n \<Longrightarrow> a div b ^ i mod b = c div b ^ i mod b) \<Longrightarrow> a mod b ^ n = c mod (b::int) ^ n"
proof (induction n)
  case (Suc n)
  have "x mod b ^ Suc n = b ^ n * (x div b ^ n mod b) + x mod b ^ n" for x
    using zmod_zmult2_eq [of b x "b ^ n"] Suc.prems(1) by (simp add: mult.commute)
  with Suc show ?case by simp
qed simp

lemma uuid_hex_inj: "uuid_hex u = uuid_hex v \<Longrightarrow> u = v"
proof -
  assume "uuid_hex u = uuid_hex v"
  then have "nat (uint u div 16 ^ i mod 16) = nat (uint v div 16 ^ i mod 16)" if "i < 32" for i
    using that by (intro hex_digit_inj) (auto simp: uuid_hex_def nat_less_iff)
  then have "uint u div 16 ^ i mod 16 = uint v div 16 ^ i mod 16" if "i < 32" for i
    using that by (simp add: eq_nat_nat_iff)
  then have "uint u mod 16 ^ 32 = uint v mod 16 ^ 32" by (intro digits_eq_mod) simp_all
  moreover have "uint w < 16 ^ 32" "0 \<le> uint w" for w :: uuid using uint_bounded [of w] by simp_all
  ultimately have "uint u = uint v" by simp
  then show ?thesis by (rule word_uint_eqI)
qed

lemma length_uuid_hex [simp]: "length (uuid_hex u) = 32"
  by (simp add: uuid_hex_def)

lemma filter_uuid_str: "filter (\<lambda>c. c \<noteq> CHR ''-'') (uuid_str u) = uuid_hex u"
proof -
  have nd: "\<forall>c \<in> set (uuid_hex u). c \<noteq> CHR ''-''"
    by (auto simp: uuid_hex_def hex_digit_not_dash nat_less_iff)
  have id: "filter (\<lambda>c. c \<noteq> CHR ''-'') xs = xs" if "set xs \<subseteq> set (uuid_hex u)" for xs
    using that nd by (intro filter_True) auto
  have "filter (\<lambda>c. c \<noteq> CHR ''-'') (uuid_str u) =
      take 8 (uuid_hex u) @ take 4 (drop 8 (uuid_hex u)) @ take 4 (drop 12 (uuid_hex u))
        @ take 4 (drop 16 (uuid_hex u)) @ drop 20 (uuid_hex u)"
    unfolding uuid_str_def Let_def filter_append
    by (simp add: id set_take_subset set_drop_subset subset_trans [OF set_take_subset set_drop_subset])
  also have "\<dots> = uuid_hex u"
    by (simp flip: append_assoc take_add add: take_add)
  finally show ?thesis .
qed

lemma uuid_str_inj: "uuid_str u = uuid_str v \<longleftrightarrow> u = v"
  by (metis filter_uuid_str uuid_hex_inj)

text \<open>\<open>sorted(set(ids), key=str)\<close>: the order of the texts of UUIDs is their numeric order.\<close>

definition sorted_ids :: "uuid list \<Rightarrow> uuid list" where
  "sorted_ids ids = sorted_list_of_set (set ids)"

text \<open>\<open>str.lower\<close> and \<open>str.upper\<close> on ASCII letters; other characters are left alone.\<close>

definition ascii_lower :: "string \<Rightarrow> string" where
  "ascii_lower s = map (\<lambda>c. let n = of_char c :: nat in if 65 \<le> n \<and> n \<le> 90 then char_of (n + 32) else c) s"

definition ascii_upper :: "string \<Rightarrow> string" where
  "ascii_upper s = map (\<lambda>c. let n = of_char c :: nat in if 97 \<le> n \<and> n \<le> 122 then char_of (n - 32) else c) s"

section \<open>Instants and durations\<close>

text \<open>
  An instant is a number of microseconds since 1970 in UTC; a \<open>timedelta\<close> is a number of
  microseconds. \<open>timedelta(days=x)\<close> for a float \<open>x\<close> multiplies the whole days exactly and
  rounds the rest half-even, and refuses NaN, infinities and magnitudes above 999999999 days.
\<close>

type_synonym datetime = int

definition day_us :: int where
  "day_us = 86400000000"

definition timedelta_days :: "pyfloat \<Rightarrow> int res" where
  "timedelta_days x = (case x of
     Fin q \<Rightarrow>
       (let whole = (if 0 \<le> q then \<lfloor>q\<rfloor> else \<lceil>q\<rceil>);
            us = whole * day_us + rhe (rnd64 ((q - of_int whole) * of_int day_us))
        in if us < - 999999999 * day_us \<or> 1000000000 * day_us \<le> us then Inl OverflowError else Inr us)
   | NaN \<Rightarrow> Inl (ValueError ''cannot convert float NaN to integer'')
   | _ \<Rightarrow> Inl OverflowError)"

definition py_ceil :: "pyfloat \<Rightarrow> int res" where
  "py_ceil x = (case x of
     Fin q \<Rightarrow> Inr \<lceil>q\<rceil>
   | NaN \<Rightarrow> Inl (ValueError ''cannot convert float NaN to integer'')
   | _ \<Rightarrow> Inl OverflowError)"

text \<open>Adding to a \<open>datetime\<close> in UTC, whose years are 1 to 9999.\<close>

definition MIN_DATETIME :: int where "MIN_DATETIME = - 62135596800000000"

definition MAX_DATETIME :: int where "MAX_DATETIME = 253402300799999999"

definition in_calendar :: "datetime \<Rightarrow> bool" where
  "in_calendar t \<longleftrightarrow> MIN_DATETIME \<le> t \<and> t \<le> MAX_DATETIME"

definition datetime_add :: "datetime \<Rightarrow> int \<Rightarrow> datetime res" where
  "datetime_add t d = (if in_calendar (t + d) then Inr (t + d) else Inl OverflowError)"

lemma datetime_add_Inr: "datetime_add t d = Inr u \<longleftrightarrow> u = t + d \<and> in_calendar (t + d)"
  by (auto simp: datetime_add_def)

text \<open>
  A \<open>datetime\<close> that may be naive or at another offset: its instant (the reading itself, if it is
  naive) and its offset from UTC in seconds. Sums are bounded by the local reading; comparing a naive
  with an aware one raises \<open>TypeError\<close>.
\<close>

record moment =
  mo_instant :: datetime
  mo_offset :: "int option"

definition utc :: "datetime \<Rightarrow> moment" where
  "utc t = \<lparr>mo_instant = t, mo_offset = Some 0\<rparr>"

definition aware :: "moment \<Rightarrow> bool" where
  "aware m \<longleftrightarrow> mo_offset m \<noteq> None"

definition shift_us :: "moment \<Rightarrow> int" where
  "shift_us m = (case mo_offset m of None \<Rightarrow> 0 | Some seconds \<Rightarrow> seconds * 1000000)"

definition local_reading :: "moment \<Rightarrow> datetime" where
  "local_reading m = mo_instant m + shift_us m"

definition moment_add :: "moment \<Rightarrow> int \<Rightarrow> moment res" where
  "moment_add m d =
     rmap (\<lambda>t. m\<lparr>mo_instant := t - shift_us m\<rparr>) (datetime_add (local_reading m) d)"

definition moment_less :: "moment \<Rightarrow> moment \<Rightarrow> bool res" where
  "moment_less a b = (if aware a = aware b then Inr (mo_instant a < mo_instant b) else Inl TypeError)"

lemma utc_simps [simp]: "mo_instant (utc t) = t" "mo_offset (utc t) = Some 0" "aware (utc t)" "shift_us (utc t) = 0"
  "local_reading (utc t) = t"
  by (simp_all add: utc_def aware_def shift_us_def local_reading_def)

lemma aware_update [simp]: "aware (m\<lparr>mo_instant := t\<rparr>) = aware m" "shift_us (m\<lparr>mo_instant := t\<rparr>) = shift_us m"
  by (simp_all add: aware_def shift_us_def)

lemma moment_add_eq: "moment_add m d =
    (if in_calendar (local_reading m + d) then Inr (m\<lparr>mo_instant := mo_instant m + d\<rparr>) else Inl OverflowError)"
  by (simp add: moment_add_def datetime_add_def local_reading_def)

lemma moment_less_aware: "aware a = aware b \<Longrightarrow> moment_less a b = Inr (mo_instant a < mo_instant b)"
  by (simp add: moment_less_def)

end
