(* ===== verification/Truth_Contracts.thy ===== *)
theory Truth_Contracts imports Prelude begin

text \<open>
  The truth foundation, \<open>sanjiv/contracts/truth.py\<close> and \<open>sanjiv/contracts/governance.py\<close>:
  truth classes, freshness, the metric envelope that carries every decision metric, evidence
  records, source health, assumptions and audit events. Each model is a record; its
  \<open>..._problems\<close> are the field constraints and the \<open>model_validator\<close> checks in source
  order, and \<open>..._valid\<close> says that none fires.
\<close>

section \<open>Enumerations\<close>

datatype truth_class = OBSERVED | DERIVED | INFERRED | MODELED | ASSUMPTION

datatype freshness_status = F_LIVE | F_RECENT | F_CURRENT | F_STALE | F_REPLAY | F_UNAVAILABLE

datatype data_mode = DM_LIVE | DM_CACHED | DM_REPLAY | DM_FIXTURE | DM_USER_SUPPLIED

datatype source_state = SS_READY | SS_DEGRADED | SS_UNAVAILABLE | SS_RATE_LIMITED | SS_DISABLED

datatype assumption_status = AS_DRAFT | AS_APPROVED | AS_EXPIRED | AS_SUPERSEDED

datatype audit_outcome = AO_SUCCEEDED | AO_FAILED | AO_BLOCKED

text \<open>\<open>list(TruthClass)\<close>: the members in definition order.\<close>

lemma all_truth_class:
  "(\<forall>x. P x) \<longleftrightarrow> P OBSERVED \<and> P DERIVED \<and> P INFERRED \<and> P MODELED \<and> P ASSUMPTION"
  by (metis truth_class.exhaust)

lemma ex_truth_class:
  "(\<exists>x. P x) \<longleftrightarrow> P OBSERVED \<or> P DERIVED \<or> P INFERRED \<or> P MODELED \<or> P ASSUMPTION"
  by (metis truth_class.exhaust)

instantiation truth_class :: enum
begin

definition enum_truth_class :: "truth_class list" where
  "enum_truth_class = [OBSERVED, DERIVED, INFERRED, MODELED, ASSUMPTION]"

definition enum_all_truth_class :: "(truth_class \<Rightarrow> bool) \<Rightarrow> bool" where
  "enum_all_truth_class P \<longleftrightarrow> P OBSERVED \<and> P DERIVED \<and> P INFERRED \<and> P MODELED \<and> P ASSUMPTION"

definition enum_ex_truth_class :: "(truth_class \<Rightarrow> bool) \<Rightarrow> bool" where
  "enum_ex_truth_class P \<longleftrightarrow> P OBSERVED \<or> P DERIVED \<or> P INFERRED \<or> P MODELED \<or> P ASSUMPTION"

instance
proof
  show univ: "(UNIV :: truth_class set) = set enum_class.enum"
    by (auto simp: enum_truth_class_def intro: truth_class.exhaust)
  show "distinct (enum_class.enum :: truth_class list)" by (simp add: enum_truth_class_def)
  fix P :: "truth_class \<Rightarrow> bool"
  show "enum_class.enum_all P \<longleftrightarrow> Ball UNIV P"
    by (simp add: enum_all_truth_class_def all_truth_class)
  show "enum_class.enum_ex P \<longleftrightarrow> Bex UNIV P"
    by (simp add: enum_ex_truth_class_def ex_truth_class)
qed

end

section \<open>Values of \<open>Any\<close> fields\<close>

datatype json_value =
    JNull | JBool bool | JInt int | JFloat pyfloat | JStr string
  | JList "json_value list" | JObj "(string \<times> json_value) list"

section \<open>Metric envelopes\<close>

record source_ref =
  sr_source_id :: string
  sr_record_id :: string

definition source_ref_problems :: "source_ref \<Rightarrow> (bool \<times> py_error) list" where
  "source_ref_problems r =
    [(\<not> len_between 1 100 (sr_source_id r), FieldError ''source_id''),
     (\<not> len_between 1 500 (sr_record_id r), FieldError ''record_id'')]"

record 'v metric_envelope =
  me_value :: 'v
  me_unit :: string
  me_truth_class :: truth_class
  me_confidence :: pyfloat
  me_evidence_ids :: "uuid list"
  me_source_refs :: "source_ref list"
  me_effective_at :: datetime
  me_fetched_at :: datetime
  me_computed_at :: datetime
  me_freshness_status :: freshness_status
  me_transformation :: string
  me_model_version :: string

type_synonym metric = "pyfloat metric_envelope"

definition unit_interval :: "pyfloat \<Rightarrow> bool" where
  "unit_interval c \<longleftrightarrow> 0 \<le> c \<and> c \<le> 1"

definition metric_problems :: "'v metric_envelope \<Rightarrow> (bool \<times> py_error) list" where
  "metric_problems m =
    [(\<not> len_between 1 50 (me_unit m), FieldError ''unit''),
     (\<not> unit_interval (me_confidence m), FieldError ''confidence''),
     (me_evidence_ids m = [], FieldError ''evidence_ids''),
     (me_source_refs m = [], FieldError ''source_refs''),
     (list_ex (\<lambda>r. first_error (source_ref_problems r) \<noteq> None) (me_source_refs m),
        FieldError ''source_refs''),
     (\<not> len_between 1 250 (me_transformation m), FieldError ''transformation''),
     (\<not> len_between 1 100 (me_model_version m), FieldError ''model_version''),
     (me_fetched_at m < me_effective_at m,
        ValueError ''effective_at must not be after fetched_at''),
     (me_computed_at m < me_fetched_at m,
        ValueError ''fetched_at must not be after computed_at'')]"

definition metric_valid :: "'v metric_envelope \<Rightarrow> bool" where
  "metric_valid m \<longleftrightarrow> first_error (metric_problems m) = None"

definition mk_metric :: "'v metric_envelope \<Rightarrow> 'v metric_envelope res" where
  "mk_metric m = validated (metric_problems m) m"

section \<open>Evidence, source health, assumptions, audit events\<close>

record evidence_record =
  ev_id :: uuid
  ev_source_id :: string
  ev_source_record_id :: string
  ev_source_url :: "string option"
  ev_dataset :: string
  ev_dataset_version :: string
  ev_effective_at :: datetime
  ev_fetched_at :: datetime
  ev_mode :: data_mode
  ev_truth_class :: truth_class
  ev_raw_payload_hash :: string
  ev_raw_object_ref :: "string option"
  ev_transformation :: string
  ev_confidence :: pyfloat
  ev_license :: string
  ev_parent_evidence_ids :: "uuid list"

definition evidence_problems :: "evidence_record \<Rightarrow> (bool \<times> py_error) list" where
  "evidence_problems e =
    [(\<not> len_between 1 100 (ev_source_id e), FieldError ''source_id''),
     (\<not> len_between 1 500 (ev_source_record_id e), FieldError ''source_record_id''),
     (\<not> len_between 1 200 (ev_dataset e), FieldError ''dataset''),
     (\<not> len_between 1 100 (ev_dataset_version e), FieldError ''dataset_version''),
     (\<not> is_sha256_any_case (ev_raw_payload_hash e), FieldError ''raw_payload_hash''),
     (\<not> opt_ok (\<lambda>r. length r \<le> 1000) (ev_raw_object_ref e), FieldError ''raw_object_ref''),
     (\<not> len_between 1 250 (ev_transformation e), FieldError ''transformation''),
     (\<not> unit_interval (ev_confidence e), FieldError ''confidence''),
     (\<not> len_between 1 500 (ev_license e), FieldError ''license''),
     (ev_fetched_at e < ev_effective_at e,
        ValueError ''effective_at must not be after fetched_at'')]"

definition evidence_valid :: "evidence_record \<Rightarrow> bool" where
  "evidence_valid e \<longleftrightarrow> first_error (evidence_problems e) = None"

record source_health_record =
  sh_id :: uuid
  sh_source_id :: string
  sh_state :: source_state
  sh_checked_at :: datetime
  sh_last_success_at :: "datetime option"
  sh_expected_cadence_seconds :: "int option"
  sh_stale_after_seconds :: "int option"
  sh_lag_seconds :: "pyfloat option"
  sh_message_count :: int
  sh_error_count :: int
  sh_circuit_open :: bool
  sh_mode :: data_mode
  sh_freshness_status :: freshness_status
  sh_error_code :: "string option"

definition source_health_problems :: "source_health_record \<Rightarrow> (bool \<times> py_error) list" where
  "source_health_problems h =
    [(\<not> len_between 1 100 (sh_source_id h), FieldError ''source_id''),
     (\<not> opt_ok (\<lambda>n. 0 < n) (sh_expected_cadence_seconds h), FieldError ''expected_cadence_seconds''),
     (\<not> opt_ok (\<lambda>n. 0 < n) (sh_stale_after_seconds h), FieldError ''stale_after_seconds''),
     (\<not> opt_ok (\<lambda>x. 0 \<le> x) (sh_lag_seconds h), FieldError ''lag_seconds''),
     (sh_message_count h < 0, FieldError ''message_count''),
     (sh_error_count h < 0, FieldError ''error_count''),
     (\<not> opt_ok (\<lambda>c. length c \<le> 100) (sh_error_code h), FieldError ''error_code'')]"

record assumption =
  as_id :: uuid
  as_key :: string
  as_value :: json_value
  as_unit :: string
  as_truth_class :: truth_class
  as_rationale :: string
  as_source_gap :: string
  as_owner :: string
  as_entered_at :: datetime
  as_effective_at :: moment
  as_expires_at :: "moment option"
  as_approved_at :: "datetime option"
  as_approved_by :: "string option"
  as_status :: assumption_status
  as_scenario_id :: "uuid option"
  as_supersedes_id :: "uuid option"

text \<open>\<open>not self.approved_by\<close> holds of None and of the empty string.\<close>

definition falsy_str :: "string option \<Rightarrow> bool" where
  "falsy_str s \<longleftrightarrow> s = None \<or> s = Some ''''"

definition assumption_problems :: "assumption \<Rightarrow> (bool \<times> py_error) list" where
  "assumption_problems a =
    [(\<not> len_between 1 200 (as_key a), FieldError ''key''),
     (\<not> len_between 1 50 (as_unit a), FieldError ''unit''),
     (\<not> len_between 1 2000 (as_rationale a), FieldError ''rationale''),
     (\<not> len_between 1 1000 (as_source_gap a), FieldError ''source_gap''),
     (\<not> len_between 1 200 (as_owner a), FieldError ''owner''),
     (\<not> opt_ok (\<lambda>s. length s \<le> 200) (as_approved_by a), FieldError ''approved_by''),
     (as_truth_class a \<noteq> ASSUMPTION,
        ValueError ''assumptions must use truth_class ASSUMPTION''),
     (\<not> opt_ok (\<lambda>t. aware t = aware (as_effective_at a)) (as_expires_at a), TypeError),
     (\<not> opt_ok (\<lambda>t. mo_instant (as_effective_at a) < mo_instant t) (as_expires_at a),
        ValueError ''expires_at must be after effective_at''),
     (as_status a = AS_APPROVED \<and> falsy_str (as_approved_by a),
        ValueError ''approved assumptions require approved_by'')]"

text \<open>\<open>expires_at is not None and expires_at <= now\<close> for an aware \<open>now\<close>.\<close>

definition assumption_expired :: "datetime \<Rightarrow> assumption \<Rightarrow> bool res" where
  "assumption_expired now a =
    (case as_expires_at a of
       None \<Rightarrow> Inr False
     | Some t \<Rightarrow> rmap Not (moment_less (utc now) t))"

definition assumption_valid :: "assumption \<Rightarrow> bool" where
  "assumption_valid a \<longleftrightarrow> first_error (assumption_problems a) = None"

record audit_event =
  ae_id :: uuid
  ae_occurred_at :: datetime
  ae_actor_id :: string
  ae_actor_type :: string
  ae_action :: string
  ae_resource_type :: string
  ae_resource_id :: string
  ae_before_hash :: "string option"
  ae_after_hash :: "string option"
  ae_reason :: "string option"
  ae_correlation_id :: uuid
  ae_causation_id :: "uuid option"
  ae_outcome :: audit_outcome

definition audit_event_problems :: "audit_event \<Rightarrow> (bool \<times> py_error) list" where
  "audit_event_problems e =
    [(\<not> len_between 1 200 (ae_actor_id e), FieldError ''actor_id''),
     (\<not> len_between 1 50 (ae_actor_type e), FieldError ''actor_type''),
     (\<not> len_between 1 200 (ae_action e), FieldError ''action''),
     (\<not> len_between 1 100 (ae_resource_type e), FieldError ''resource_type''),
     (\<not> len_between 1 200 (ae_resource_id e), FieldError ''resource_id''),
     (\<not> opt_ok is_sha256_any_case (ae_before_hash e), FieldError ''before_hash''),
     (\<not> opt_ok is_sha256_any_case (ae_after_hash e), FieldError ''after_hash''),
     (\<not> opt_ok (\<lambda>s. length s \<le> 2000) (ae_reason e), FieldError ''reason'')]"

section \<open>Lemmas\<close>

lemma metric_validD:
  assumes "metric_valid m"
  shows "me_effective_at m \<le> me_fetched_at m" "me_fetched_at m \<le> me_computed_at m"
    "unit_interval (me_confidence m)" "me_evidence_ids m \<noteq> []" "me_source_refs m \<noteq> []"
  using assms by (auto simp: metric_valid_def metric_problems_def split: if_splits)

lemma mk_metric_Inr: "mk_metric m = Inr m' \<longleftrightarrow> m' = m \<and> metric_valid m"
  by (simp add: mk_metric_def validated_Inr metric_valid_def)

lemma evidence_validD:
  assumes "evidence_valid e"
  shows "ev_effective_at e \<le> ev_fetched_at e" "unit_interval (ev_confidence e)"
    "len_between 1 100 (ev_source_id e)" "len_between 1 500 (ev_source_record_id e)"
  using assms by (auto simp: evidence_valid_def evidence_problems_def split: if_splits)

end
