(* ===== verification/Scenario_Contracts.thy ===== *)
theory Scenario_Contracts imports Truth_Contracts begin

text \<open>
  The scenario contracts, \<open>sanjiv/scenarios/contracts.py\<close>: what a disruption is, the
  parameters and candidate of a scenario, its validation and its confirmation. The canonical
  fingerprint, SHA-256 of the JSON that pydantic produces, and \<open>uuid5\<close> are parameters.
\<close>

section \<open>Enumerations\<close>

datatype scenario_source_mode = SM_STRUCTURED_FORM | SM_DETERMINISTIC_TEXT | SM_LLM_PROVIDER

datatype scenario_compile_mode =
  CM_AUTO | CM_STRUCTURED_FORM | CM_DETERMINISTIC_TEXT | CM_OPTIONAL_PROVIDER

datatype scenario_lifecycle =
  SL_DRAFT | SL_VALIDATED | SL_CONFIRMED | SL_RUNNING | SL_COMPLETED | SL_FAILED | SL_CANCELLED

datatype disruption_target_type = T_CHOKEPOINT | T_ROUTE | T_SUPPLIER | T_PORT | T_REFINERY

datatype disruption_type =
    CHOKEPOINT_CLOSURE
  | CHOKEPOINT_CAPACITY_REDUCTION
  | MARITIME_ROUTE_CAPACITY_REDUCTION
  | SUPPLIER_VOLUME_REDUCTION
  | PORT_DISRUPTION
  | REFINERY_THROUGHPUT_DISRUPTION

datatype duration_unit = HOUR | DAY

datatype commodity = CRUDE_OIL | LPG

section \<open>Quantities and effects\<close>

record duration_quantity =
  dq_value :: pyfloat
  dq_unit :: duration_unit

definition dq_days :: "duration_quantity \<Rightarrow> pyfloat" where
  "dq_days d = (if dq_unit d = HOUR then dq_value d / Fin 24 else dq_value d)"

definition duration_problems :: "duration_quantity \<Rightarrow> (bool \<times> py_error) list" where
  "duration_problems d = [(\<not> isfinite (dq_value d), FieldError ''value'')]"

record percentage_quantity =
  pq_value :: pyfloat

definition percentage_problems :: "percentage_quantity \<Rightarrow> (bool \<times> py_error) list" where
  "percentage_problems p = [(\<not> isfinite (pq_value p), FieldError ''value'')]"

record twin_snapshot_reference =
  tr_snapshot_id :: uuid
  tr_fingerprint :: string
  tr_version :: string
  tr_effective_at :: datetime

definition twin_reference_problems :: "twin_snapshot_reference \<Rightarrow> (bool \<times> py_error) list" where
  "twin_reference_problems r =
    [(\<not> is_sha256 (tr_fingerprint r), FieldError ''fingerprint''),
     (\<not> len_between 1 100 (tr_version r), FieldError ''version'')]"

record disruption_target =
  dt_target_type :: disruption_target_type
  dt_requested_identifier :: string
  dt_asset_id :: "uuid option"
  dt_canonical_id :: "string option"
  dt_display_name :: "string option"

record disruption_effect =
  de_disruption_type :: disruption_type
  de_target :: disruption_target
  de_capacity_reduction :: percentage_quantity

definition effect_problems :: "disruption_effect \<Rightarrow> (bool \<times> py_error) list" where
  "effect_problems e =
    (\<not> len_between 1 200 (dt_requested_identifier (de_target e)), FieldError ''requested_identifier'')
    # percentage_problems (de_capacity_reduction e)"

record scenario_default =
  sd_field :: string
  sd_value :: json_value
  sd_unit :: string
  sd_rationale :: string
  sd_requires_confirmation :: bool

definition scenario_default_problems :: "scenario_default \<Rightarrow> (bool \<times> py_error) list" where
  "scenario_default_problems d =
    [(\<not> len_between 1 200 (sd_field d), FieldError ''field''),
     (\<not> len_between 1 50 (sd_unit d), FieldError ''unit''),
     (\<not> len_between 1 1000 (sd_rationale d), FieldError ''rationale'')]"

record scenario_parameters =
  sp_commodity :: commodity
  sp_disruption_start :: moment
  sp_disruption_duration :: duration_quantity
  sp_simulation_horizon :: duration_quantity
  sp_disruptions :: "disruption_effect list"
  sp_assumptions :: "assumption list"

definition scenario_parameters_problems :: "scenario_parameters \<Rightarrow> (bool \<times> py_error) list" where
  "scenario_parameters_problems p =
    duration_problems (sp_disruption_duration p) @ duration_problems (sp_simulation_horizon p) @
    [(\<not> len_between 1 4 (sp_disruptions p), FieldError ''disruptions''),
     (list_ex (\<lambda>e. first_error (effect_problems e) \<noteq> None) (sp_disruptions p), FieldError ''disruptions''),
     (20 < length (sp_assumptions p), FieldError ''assumptions''),
     (list_ex (\<lambda>a. \<not> assumption_valid a) (sp_assumptions p), FieldError ''assumptions'')]"

record structured_scenario_input =
  si_scenario_name :: string
  si_twin_snapshot_id :: uuid
  si_commodity :: commodity
  si_disruption_start :: "moment option"
  si_disruption_duration :: duration_quantity
  si_simulation_horizon :: "duration_quantity option"
  si_disruptions :: "disruption_effect list"
  si_assumptions :: "assumption list"

definition structured_input_problems :: "structured_scenario_input \<Rightarrow> (bool \<times> py_error) list" where
  "structured_input_problems s =
    (\<not> len_between 1 200 (si_scenario_name s), FieldError ''scenario_name'')
    # duration_problems (si_disruption_duration s) @
    [(\<not> opt_ok (\<lambda>d. isfinite (dq_value d)) (si_simulation_horizon s), FieldError ''simulation_horizon''),
     (\<not> len_between 1 4 (si_disruptions s), FieldError ''disruptions''),
     (list_ex (\<lambda>e. first_error (effect_problems e) \<noteq> None) (si_disruptions s), FieldError ''disruptions''),
     (20 < length (si_assumptions s), FieldError ''assumptions''),
     (list_ex (\<lambda>a. \<not> assumption_valid a) (si_assumptions s), FieldError ''assumptions'')]"

section \<open>Compilation requests and results\<close>

record compile_scenario_request =
  cr_mode :: scenario_compile_mode
  cr_twin_snapshot_id :: uuid
  cr_text :: "string option"
  cr_structured :: "structured_scenario_input option"

definition compile_request_problems :: "compile_scenario_request \<Rightarrow> (bool \<times> py_error) list" where
  "compile_request_problems r =
    (\<not> opt_ok (len_between 1 2000) (cr_text r), FieldError ''text'')
    # (case cr_structured r of None \<Rightarrow> [] | Some s \<Rightarrow> structured_input_problems s) @
    [(cr_mode r = CM_STRUCTURED_FORM \<and> cr_structured r = None,
        ValueError ''structured mode requires structured input''),
     (cr_mode r \<in> {CM_DETERMINISTIC_TEXT, CM_OPTIONAL_PROVIDER} \<and> cr_text r = None,
        ValueError ''text mode requires text input''),
     (\<not> opt_ok (\<lambda>s. si_twin_snapshot_id s = cr_twin_snapshot_id r) (cr_structured r),
        ValueError ''structured and selected twin snapshot IDs must match''),
     (cr_text r = None \<and> cr_structured r = None,
        ValueError ''text or structured input is required'')]"

datatype interpreter_status =
  IS_SUCCEEDED | IS_FAILED | IS_PROVIDER_UNAVAILABLE | IS_TIMED_OUT

record interpretation_result =
  ir_status :: interpreter_status
  ir_source_mode :: "scenario_source_mode option"
  ir_provider :: string
  ir_model :: "string option"
  ir_timeout_seconds :: pyfloat
  ir_warnings :: "string list"
  ir_error_code :: "string option"
  ir_error_message :: "string option"

definition interpretation_problems :: "interpretation_result \<Rightarrow> (bool \<times> py_error) list" where
  "interpretation_problems r =
    [(\<not> len_between 1 100 (ir_provider r), FieldError ''provider''),
     (\<not> opt_ok (\<lambda>s. length s \<le> 200) (ir_model r), FieldError ''model''),
     (\<not> (0 < ir_timeout_seconds r \<and> ir_timeout_seconds r \<le> Fin 60), FieldError ''timeout_seconds''),
     (\<not> opt_ok (\<lambda>s. length s \<le> 100) (ir_error_code r), FieldError ''error_code''),
     (\<not> opt_ok (\<lambda>s. length s \<le> 1000) (ir_error_message r), FieldError ''error_message'')]"

section \<open>Candidates\<close>

record scenario_candidate =
  sc_scenario_id :: uuid
  sc_lifecycle :: scenario_lifecycle
  sc_scenario_name :: string
  sc_original_text :: "string option"
  sc_source_mode :: scenario_source_mode
  sc_interpreter_provider :: string
  sc_interpreter_model :: "string option"
  sc_twin_snapshot :: twin_snapshot_reference
  sc_parameters :: scenario_parameters
  sc_defaults :: "scenario_default list"
  sc_created_at :: datetime
  sc_scenario_fingerprint :: string

text \<open>
  The fingerprint of a scenario is a function of the snapshot reference, the parameters and the
  defaults only; \<open>uuid5\<close> is the URL-namespace name-based UUID.
\<close>

type_synonym scenario_hash =
  "twin_snapshot_reference \<Rightarrow> scenario_parameters \<Rightarrow> scenario_default list \<Rightarrow> string"

type_synonym uuid5_fun = "string \<Rightarrow> uuid"

definition candidate_problems ::
  "scenario_hash \<Rightarrow> uuid5_fun \<Rightarrow> scenario_candidate \<Rightarrow> (bool \<times> py_error) list" where
  "candidate_problems scenario_fingerprint uuid5 c =
    (\<not> len_between 1 200 (sc_scenario_name c), FieldError ''scenario_name'')
    # (\<not> opt_ok (\<lambda>s. length s \<le> 2000) (sc_original_text c), FieldError ''original_text'')
    # (\<not> len_between 1 100 (sc_interpreter_provider c), FieldError ''interpreter_provider'')
    # (\<not> opt_ok (\<lambda>s. length s \<le> 200) (sc_interpreter_model c), FieldError ''interpreter_model'')
    # twin_reference_problems (sc_twin_snapshot c)
    @ scenario_parameters_problems (sc_parameters c)
    @ (list_ex (\<lambda>d. first_error (scenario_default_problems d) \<noteq> None) (sc_defaults c), FieldError ''defaults'')
    # (\<not> is_sha256 (sc_scenario_fingerprint c), FieldError ''scenario_fingerprint'')
    # (let expected = scenario_fingerprint (sc_twin_snapshot c) (sc_parameters c) (sc_defaults c) in
      [(sc_scenario_fingerprint c \<noteq> expected,
          ValueError ''scenario fingerprint does not match canonical execution inputs''),
       (sc_scenario_id c \<noteq> uuid5 (''urn:sanjiv:scenario:'' @ expected),
          ValueError ''scenario_id does not match scenario fingerprint'')])"

definition candidate_create ::
  "scenario_hash \<Rightarrow> uuid5_fun \<Rightarrow> string \<Rightarrow> string option \<Rightarrow> scenario_source_mode \<Rightarrow> string
     \<Rightarrow> string option \<Rightarrow> twin_snapshot_reference \<Rightarrow> scenario_parameters \<Rightarrow> scenario_default list
     \<Rightarrow> datetime \<Rightarrow> scenario_candidate res" where
  "candidate_create scenario_fingerprint uuid5 name text mode provider model twin params defaults created_at =
    (let fingerprint = scenario_fingerprint twin params defaults;
         c = \<lparr>sc_scenario_id = uuid5 (''urn:sanjiv:scenario:'' @ fingerprint),
              sc_lifecycle = SL_DRAFT, sc_scenario_name = name, sc_original_text = text,
              sc_source_mode = mode, sc_interpreter_provider = provider,
              sc_interpreter_model = model, sc_twin_snapshot = twin, sc_parameters = params,
              sc_defaults = defaults, sc_created_at = created_at,
              sc_scenario_fingerprint = fingerprint\<rparr>
     in validated (candidate_problems scenario_fingerprint uuid5 c) c)"

section \<open>Validation and confirmation\<close>

datatype validation_severity =
  VS_ERROR | VS_WARNING | VS_DEFAULT_REQUIRES_CONFIRMATION | VS_ASSUMPTION_REQUIRES_CONFIRMATION

record validation_issue =
  vi_severity :: validation_severity
  vi_code :: string
  vi_field :: string
  vi_message :: string

record resolved_disruption_target =
  rt_requested_identifier :: string
  rt_target_type :: disruption_target_type
  rt_asset_id :: uuid
  rt_canonical_id :: string
  rt_display_name :: string

record scenario_validation_result =
  sv_validation_id :: uuid
  sv_scenario_id :: uuid
  sv_scenario_fingerprint :: string
  sv_twin_snapshot :: twin_snapshot_reference
  sv_valid :: bool
  sv_issues :: "validation_issue list"
  sv_resolved_targets :: "resolved_disruption_target list"
  sv_defaults :: "scenario_default list"
  sv_assumptions :: "assumption list"
  sv_validated_at :: datetime
  sv_validator_version :: string

definition validation_result_problems :: "scenario_validation_result \<Rightarrow> (bool \<times> py_error) list" where
  "validation_result_problems v =
    (\<not> is_sha256 (sv_scenario_fingerprint v), FieldError ''scenario_fingerprint'')
    # twin_reference_problems (sv_twin_snapshot v) @
    [(\<not> len_between 1 100 (sv_validator_version v), FieldError ''validator_version'')]"

record confirm_scenario_request =
  cq_confirming_identity :: string

definition confirm_request_problems :: "confirm_scenario_request \<Rightarrow> (bool \<times> py_error) list" where
  "confirm_request_problems q = [(\<not> len_between 1 200 (cq_confirming_identity q), FieldError ''confirming_identity'')]"

record confirmed_scenario =
  cs_scenario_id :: uuid
  cs_scenario_fingerprint :: string
  cs_twin_snapshot :: twin_snapshot_reference
  cs_candidate :: scenario_candidate
  cs_validation :: scenario_validation_result
  cs_confirmed_by :: string
  cs_confirmed_at :: datetime
  cs_audit_event :: audit_event

definition confirmed_scenario_problems :: "confirmed_scenario \<Rightarrow> (bool \<times> py_error) list" where
  "confirmed_scenario_problems c =
    [(\<not> is_sha256 (cs_scenario_fingerprint c), FieldError ''scenario_fingerprint''),
     (\<not> len_between 1 200 (cs_confirmed_by c), FieldError ''confirmed_by'')]"

section \<open>Responses and form metadata\<close>

record compile_response =
  cm_candidate :: "scenario_candidate option"
  cm_interpretation :: interpretation_result
  cm_validation :: "scenario_validation_result option"
  cm_fallback_available :: bool

record supported_scenario_type =
  su_disruption_type :: disruption_type
  su_target_type :: disruption_target_type
  su_supports_full_closure :: bool
  su_description :: string

record scenario_form_metadata =
  fm_supported_types :: "supported_scenario_type list"
  fm_duration_units :: "duration_unit list"
  fm_duration_min_hours :: pyfloat
  fm_duration_max_days :: pyfloat
  fm_maximum_compound_effects :: int
  fm_interpreter_label :: string
  fm_llm_provider_available :: bool

abbreviation cs_parameters :: "confirmed_scenario \<Rightarrow> scenario_parameters" where
  "cs_parameters c \<equiv> sc_parameters (cs_candidate c)"

end
