(* ===== verification/Twin_Contracts.thy ===== *)
theory Twin_Contracts imports Scenario_Contracts begin

text \<open>
  The digital twin contracts, \<open>sanjiv/twin/contracts.py\<close>: nodes, routes, grades,
  compatibility, baseline flows, the mass-balance report, and the immutable content-addressed
  \<open>TwinSnapshot\<close> with its referential-integrity validator. The record \<open>twin_payload\<close>
  holds the fields the fingerprint covers, so the canonical hash is a function of it alone.
\<close>

section \<open>Assets\<close>

datatype asset_kind = SUPPLIER | LOAD_PORT | CHOKEPOINT | INDIAN_PORT | REFINERY | RESERVE_SITE

datatype compatibility_class = PREFERRED | ACCEPTABLE | DIFFICULT | DISALLOWED

text \<open>The pattern \<open>[a-z0-9][a-z0-9:_-]{2,127}\<close>.\<close>

definition is_canonical_id :: "string \<Rightarrow> bool" where
  "is_canonical_id s \<longleftrightarrow> len_between 3 128 s \<and>
     list_all (\<lambda>c. c \<in> set ''abcdefghijklmnopqrstuvwxyz0123456789:_-'') s \<and>
     hd s \<in> set ''abcdefghijklmnopqrstuvwxyz0123456789''"

record twin_node =
  tn_id :: uuid
  tn_canonical_id :: string
  tn_kind :: asset_kind
  tn_name :: string
  tn_country_code :: string
  tn_latitude :: pyfloat
  tn_longitude :: pyfloat
  tn_capacity :: "metric option"
  tn_baseline_supply :: "metric option"
  tn_baseline_demand :: "metric option"
  tn_evidence_ids :: "uuid list"
  tn_assumption_ids :: "uuid list"
  tn_attributes :: "(string, json_value) dict"

definition twin_node_problems :: "twin_node \<Rightarrow> (bool \<times> py_error) list" where
  "twin_node_problems n =
    [(\<not> is_canonical_id (tn_canonical_id n), FieldError ''canonical_id''),
     (\<not> len_between 1 200 (tn_name n), FieldError ''name''),
     (length (tn_country_code n) \<noteq> 2, FieldError ''country_code''),
     (\<not> (Fin (- 90) \<le> tn_latitude n \<and> tn_latitude n \<le> Fin 90), FieldError ''latitude''),
     (\<not> (Fin (- 180) \<le> tn_longitude n \<and> tn_longitude n \<le> Fin 180), FieldError ''longitude''),
     (\<not> opt_ok metric_valid (tn_capacity n), FieldError ''capacity''),
     (\<not> opt_ok metric_valid (tn_baseline_supply n), FieldError ''baseline_supply''),
     (\<not> opt_ok metric_valid (tn_baseline_demand n), FieldError ''baseline_demand''),
     (tn_evidence_ids n = [], FieldError ''evidence_ids'')]"

record twin_route =
  rt_id :: uuid
  rt_route_canonical_id :: string
  rt_origin_id :: uuid
  rt_destination_id :: uuid
  rt_commodity :: commodity
  rt_capacity :: metric
  rt_transit_time :: metric
  rt_distance :: metric
  rt_chokepoint_ids :: "uuid list"
  rt_evidence_ids :: "uuid list"
  rt_assumption_ids :: "uuid list"
  rt_available :: bool

definition twin_route_problems :: "twin_route \<Rightarrow> (bool \<times> py_error) list" where
  "twin_route_problems r =
    [(\<not> is_canonical_id (rt_route_canonical_id r), FieldError ''canonical_id''),
     (\<not> metric_valid (rt_capacity r), FieldError ''capacity''),
     (\<not> metric_valid (rt_transit_time r), FieldError ''transit_time''),
     (\<not> metric_valid (rt_distance r), FieldError ''distance''),
     (rt_evidence_ids r = [], FieldError ''evidence_ids'')]"

record crude_grade =
  cg_id :: uuid
  cg_canonical_id :: string
  cg_name :: string
  cg_origin_country_code :: string
  cg_load_port_ids :: "uuid list"
  cg_api_gravity :: metric
  cg_sulfur_pct :: metric
  cg_sanctions_state :: string
  cg_evidence_ids :: "uuid list"
  cg_assumption_ids :: "uuid list"

definition crude_grade_problems :: "crude_grade \<Rightarrow> (bool \<times> py_error) list" where
  "crude_grade_problems g =
    [(\<not> is_canonical_id (cg_canonical_id g), FieldError ''canonical_id''),
     (\<not> len_between 1 200 (cg_name g), FieldError ''name''),
     (length (cg_origin_country_code g) \<noteq> 2, FieldError ''origin_country_code''),
     (cg_load_port_ids g = [], FieldError ''load_port_ids''),
     (\<not> metric_valid (cg_api_gravity g), FieldError ''api_gravity''),
     (\<not> metric_valid (cg_sulfur_pct g), FieldError ''sulfur_pct''),
     (\<not> len_between 1 50 (cg_sanctions_state g), FieldError ''sanctions_state''),
     (cg_evidence_ids g = [], FieldError ''evidence_ids'')]"

record refinery_compatibility =
  rc_grade_id :: uuid
  rc_refinery_id :: uuid
  rc_score :: metric
  rc_classification :: compatibility_class
  rc_allowed :: bool
  rc_component_scores :: "(string, pyfloat) dict"
  rc_evidence_ids :: "uuid list"
  rc_assumption_ids :: "uuid list"
  rc_explanation :: string

definition refinery_compatibility_problems :: "refinery_compatibility \<Rightarrow> (bool \<times> py_error) list" where
  "refinery_compatibility_problems c =
    [(\<not> metric_valid (rc_score c), FieldError ''score''),
     (rc_evidence_ids c = [], FieldError ''evidence_ids''),
     (\<not> len_between 1 1000 (rc_explanation c), FieldError ''explanation'')]"

record baseline_flow =
  bf_id :: uuid
  bf_route_id :: uuid
  bf_supplier_id :: uuid
  bf_grade_id :: uuid
  bf_volume :: metric
  bf_evidence_ids :: "uuid list"
  bf_assumption_ids :: "uuid list"

definition baseline_flow_problems :: "baseline_flow \<Rightarrow> (bool \<times> py_error) list" where
  "baseline_flow_problems f =
    [(\<not> metric_valid (bf_volume f), FieldError ''volume''),
     (bf_evidence_ids f = [], FieldError ''evidence_ids'')]"

record mass_balance_report =
  mb_total_supply :: metric
  mb_total_demand :: metric
  mb_absolute_residual :: metric
  mb_tolerance :: metric
  mb_conserved :: bool
  mb_node_residuals :: "(string, pyfloat) dict"
  mb_model_version :: string

section \<open>Snapshots\<close>

record twin_payload =
  ts_version :: string
  ts_effective_at :: datetime
  ts_created_at :: datetime
  ts_nodes :: "twin_node list"
  ts_routes :: "twin_route list"
  ts_grades :: "crude_grade list"
  ts_compatibility :: "refinery_compatibility list"
  ts_baseline_flows :: "baseline_flow list"
  ts_evidence_records :: "evidence_record list"
  ts_assumptions :: "assumption list"
  ts_mass_balance :: mass_balance_report

record twin_snapshot = twin_payload +
  ts_snapshot_id :: uuid
  ts_fingerprint :: string

type_synonym twin_hash = "twin_payload \<Rightarrow> string"

definition payload_of :: "twin_snapshot \<Rightarrow> twin_payload" where
  "payload_of s = twin_payload.truncate s"

text \<open>\<open>_validate_unique\<close>: neither identifiers nor canonical identifiers repeat.\<close>

definition duplicate_ids :: "('a \<Rightarrow> uuid) \<Rightarrow> ('a \<Rightarrow> string) \<Rightarrow> 'a list \<Rightarrow> bool" where
  "duplicate_ids i c xs \<longleftrightarrow> \<not> distinct (map i xs) \<or> \<not> distinct (map c xs)"

definition snapshot_links :: "twin_snapshot \<Rightarrow> (uuid list \<times> uuid list) list" where
  "snapshot_links s =
     map (\<lambda>n. (tn_evidence_ids n, tn_assumption_ids n)) (ts_nodes s)
     @ map (\<lambda>r. (rt_evidence_ids r, rt_assumption_ids r)) (ts_routes s)
     @ map (\<lambda>g. (cg_evidence_ids g, cg_assumption_ids g)) (ts_grades s)
     @ map (\<lambda>c. (rc_evidence_ids c, rc_assumption_ids c)) (ts_compatibility s)
     @ map (\<lambda>f. (bf_evidence_ids f, bf_assumption_ids f)) (ts_baseline_flows s)"

definition snapshot_field_problems :: "twin_snapshot \<Rightarrow> (bool \<times> py_error) list" where
  "snapshot_field_problems s =
    [(\<not> len_between 1 100 (ts_version s), FieldError ''version''),
     (\<not> is_sha256 (ts_fingerprint s), FieldError ''fingerprint''),
     (ts_nodes s = [] \<or> list_ex (\<lambda>n. first_error (twin_node_problems n) \<noteq> None) (ts_nodes s), FieldError ''nodes''),
     (ts_routes s = [] \<or> list_ex (\<lambda>r. first_error (twin_route_problems r) \<noteq> None) (ts_routes s), FieldError ''routes''),
     (\<not> len_between 12 20 (ts_grades s) \<or> list_ex (\<lambda>g. first_error (crude_grade_problems g) \<noteq> None) (ts_grades s), FieldError ''grades''),
     (ts_compatibility s = [] \<or> list_ex (\<lambda>c. first_error (refinery_compatibility_problems c) \<noteq> None) (ts_compatibility s), FieldError ''compatibility''),
     (ts_baseline_flows s = [] \<or> list_ex (\<lambda>f. first_error (baseline_flow_problems f) \<noteq> None) (ts_baseline_flows s), FieldError ''baseline_flows''),
     (ts_evidence_records s = [] \<or> list_ex (\<lambda>e. \<not> evidence_valid e) (ts_evidence_records s), FieldError ''evidence_records''),
     (list_ex (\<lambda>a. \<not> assumption_valid a) (ts_assumptions s), FieldError ''assumptions''),
     (\<not> metric_valid (mb_total_supply (ts_mass_balance s)) \<or> \<not> metric_valid (mb_total_demand (ts_mass_balance s))
       \<or> \<not> metric_valid (mb_absolute_residual (ts_mass_balance s)) \<or> \<not> metric_valid (mb_tolerance (ts_mass_balance s)),
       FieldError ''mass_balance'')]"

definition route_endpoint_bad :: "uuid set \<Rightarrow> twin_route \<Rightarrow> bool" where
  "route_endpoint_bad nodes r \<longleftrightarrow> rt_origin_id r \<notin> nodes \<or> rt_destination_id r \<notin> nodes"

definition route_problem :: "uuid set \<Rightarrow> twin_route \<Rightarrow> py_error option" where
  "route_problem nodes r =
    first_error
      [(route_endpoint_bad nodes r,
          ValueError (''route '' @ rt_route_canonical_id r @ '' has an unknown endpoint'')),
       (\<not> set (rt_chokepoint_ids r) \<subseteq> nodes,
          ValueError (''route '' @ rt_route_canonical_id r @ '' has an unknown chokepoint''))]"

definition grade_problem :: "uuid set \<Rightarrow> crude_grade \<Rightarrow> py_error option" where
  "grade_problem nodes g =
    first_error
      [(\<not> set (cg_load_port_ids g) \<subseteq> nodes,
          ValueError (''grade '' @ cg_canonical_id g @ '' has an unknown load port''))]"

definition compatibility_problem :: "uuid set \<Rightarrow> uuid set \<Rightarrow> refinery_compatibility \<Rightarrow> py_error option" where
  "compatibility_problem grades nodes c =
    first_error
      [(rc_grade_id c \<notin> grades \<or> rc_refinery_id c \<notin> nodes,
          ValueError ''compatibility record has an unknown grade or refinery'')]"

definition flow_problem :: "uuid set \<Rightarrow> uuid set \<Rightarrow> uuid set \<Rightarrow> baseline_flow \<Rightarrow> py_error option" where
  "flow_problem routes grades nodes f =
    first_error
      [(bf_route_id f \<notin> routes \<or> bf_grade_id f \<notin> grades,
          ValueError ''baseline flow has an unknown route or grade''),
       (bf_supplier_id f \<notin> nodes, ValueError ''baseline flow has an unknown supplier'')]"

definition link_problem :: "uuid set \<Rightarrow> uuid set \<Rightarrow> uuid list \<times> uuid list \<Rightarrow> py_error option" where
  "link_problem evidence assumptions l =
    first_error
      [(\<not> set (fst l) \<subseteq> evidence, ValueError ''snapshot entity references missing evidence''),
       (\<not> set (snd l) \<subseteq> assumptions, ValueError ''snapshot entity references missing assumptions'')]"

text \<open>A \<open>for\<close> loop of checks: the checks of each item, in order.\<close>

definition each :: "('a \<Rightarrow> py_error option) \<Rightarrow> 'a list \<Rightarrow> (bool \<times> py_error) list" where
  "each p xs = concat (map (\<lambda>x. nested (p x)) xs)"

definition snapshot_problems ::
  "twin_hash \<Rightarrow> uuid5_fun \<Rightarrow> twin_snapshot \<Rightarrow> (bool \<times> py_error) list" where
  "snapshot_problems sha256 uuid5 s =
    (let expected = sha256 (payload_of s);
         node_ids = set (map tn_id (ts_nodes s));
         grade_ids = set (map cg_id (ts_grades s));
         route_ids = set (map rt_id (ts_routes s));
         evidence_ids = set (map ev_id (ts_evidence_records s));
         assumption_ids = set (map as_id (ts_assumptions s))
     in snapshot_field_problems s
      @ [(ts_fingerprint s \<noteq> expected,
            ValueError ''snapshot fingerprint does not match canonical content''),
         (ts_snapshot_id s \<noteq> uuid5 (''urn:sanjiv:twin-snapshot:'' @ expected),
            ValueError ''snapshot_id does not match fingerprint''),
         (duplicate_ids tn_id tn_canonical_id (ts_nodes s), ValueError ''duplicate node identifier''),
         (duplicate_ids rt_id rt_route_canonical_id (ts_routes s), ValueError ''duplicate route identifier''),
         (duplicate_ids cg_id cg_canonical_id (ts_grades s), ValueError ''duplicate grade identifier'')]
      @ each (route_problem node_ids) (ts_routes s)
      @ each (grade_problem node_ids) (ts_grades s)
      @ each (compatibility_problem grade_ids node_ids) (ts_compatibility s)
      @ each (flow_problem route_ids grade_ids node_ids) (ts_baseline_flows s)
      @ each (link_problem evidence_ids assumption_ids) (snapshot_links s)
      @ [(\<not> mb_conserved (ts_mass_balance s),
            ValueError ''a non-conserving baseline cannot become a twin snapshot'')])"

definition snapshot_valid :: "twin_hash \<Rightarrow> uuid5_fun \<Rightarrow> twin_snapshot \<Rightarrow> bool" where
  "snapshot_valid sha256 uuid5 s \<longleftrightarrow> first_error (snapshot_problems sha256 uuid5 s) = None"

definition snapshot_create :: "twin_hash \<Rightarrow> uuid5_fun \<Rightarrow> twin_payload \<Rightarrow> twin_snapshot res" where
  "snapshot_create sha256 uuid5 p =
    (let fingerprint = sha256 p;
         s = twin_payload.extend p
               (twin_snapshot.fields (uuid5 (''urn:sanjiv:twin-snapshot:'' @ fingerprint)) fingerprint)
     in validated (snapshot_problems sha256 uuid5 s) s)"

definition canonical_uuid :: "uuid5_fun \<Rightarrow> string \<Rightarrow> uuid" where
  "canonical_uuid uuid5 c = uuid5 (''urn:sanjiv:twin:'' @ c)"

section \<open>Lemmas\<close>

lemma each_None [simp]: "first_error (each p xs) = None \<longleftrightarrow> (\<forall>x \<in> set xs. p x = None)"
  by (induction xs) (auto simp: each_def first_error_append split: option.splits)

lemma first_error_append_None:
  "first_error (xs @ ys) = None \<longleftrightarrow> first_error xs = None \<and> first_error ys = None"
  by (simp add: first_error_append split: option.splits)

lemma payload_of_extend: "payload_of (twin_payload.extend p (twin_snapshot.fields i f)) = twin_payload.truncate p"
  by (simp add: payload_of_def twin_payload.defs twin_snapshot.defs)

end
