(* ===== verification/Simulation_Contracts.thy ===== *)
theory Simulation_Contracts imports Twin_Contracts begin

text \<open>
  The simulation contracts, \<open>sanjiv/simulation/contracts.py\<close>: run status, configuration,
  provenance, the result with its timeline, flows, refinery throughput, inventory trajectories
  and sensitivity range, and the physical invariant report.
\<close>

datatype simulation_status = SIM_QUEUED | SIM_RUNNING | SIM_COMPLETED | SIM_FAILED | SIM_CANCELLED

record simulation_configuration =
  cf_time_step :: int
  cf_uncertainty_reduction_delta :: pyfloat

definition configuration_problems :: "simulation_configuration \<Rightarrow> (bool \<times> py_error) list" where
  "configuration_problems c =
    [(\<not> (1 \<le> cf_time_step c \<and> cf_time_step c \<le> 1), FieldError ''time_step''),
     (\<not> (0 \<le> cf_uncertainty_reduction_delta c \<and> cf_uncertainty_reduction_delta c \<le> Fin 25),
        FieldError ''uncertainty_reduction_delta'')]"

definition configuration_valid :: "simulation_configuration \<Rightarrow> bool" where
  "configuration_valid c \<longleftrightarrow> first_error (configuration_problems c) = None"

record start_simulation_request =
  rq_scenario_id :: uuid
  rq_configuration :: simulation_configuration

record simulation_failure_result =
  fr_code :: string
  fr_message :: string
  fr_retryable :: bool
  fr_details :: "(string, json_value) dict"

definition failure_result_problems :: "simulation_failure_result \<Rightarrow> (bool \<times> py_error) list" where
  "failure_result_problems f =
    [(\<not> len_between 1 100 (fr_code f), FieldError ''code''),
     (\<not> len_between 1 1000 (fr_message f), FieldError ''message'')]"

record simulation_progress_event =
  pe_run_id :: uuid
  pe_sequence :: int
  pe_status :: simulation_status
  pe_progress_percent :: pyfloat
  pe_phase :: string
  pe_message :: string
  pe_occurred_at :: datetime

definition progress_event_problems :: "simulation_progress_event \<Rightarrow> (bool \<times> py_error) list" where
  "progress_event_problems e =
    [(pe_sequence e < 1, FieldError ''sequence''),
     (\<not> (0 \<le> pe_progress_percent e \<and> pe_progress_percent e \<le> Fin 100), FieldError ''progress_percent''),
     (\<not> len_between 1 100 (pe_phase e), FieldError ''phase''),
     (\<not> len_between 1 500 (pe_message e), FieldError ''message'')]"

record simulation_provenance =
  sp_scenario_id :: uuid
  sp_twin_snapshot :: twin_snapshot_reference
  sp_scenario_fingerprint :: string
  sp_simulation_fingerprint :: string
  sp_model_version :: string
  sp_evidence_ids :: "uuid list"
  sp_assumption_ids :: "uuid list"
  sp_truth_class :: truth_class
  sp_confidence :: pyfloat
  sp_freshness_status :: freshness_status
  sp_effective_at :: datetime
  sp_fetched_at :: datetime
  sp_computed_at :: datetime
  sp_transformation :: string

definition provenance_problems :: "simulation_provenance \<Rightarrow> (bool \<times> py_error) list" where
  "provenance_problems p =
    [(\<not> is_sha256 (sp_scenario_fingerprint p), FieldError ''scenario_fingerprint''),
     (\<not> is_sha256 (sp_simulation_fingerprint p), FieldError ''simulation_fingerprint''),
     (sp_evidence_ids p = [], FieldError ''evidence_ids''),
     (sp_assumption_ids p = [], FieldError ''assumption_ids''),
     (sp_truth_class p \<noteq> MODELED, FieldError ''truth_class''),
     (\<not> unit_interval (sp_confidence p), FieldError ''confidence'')]"

record baseline_result =
  br_total_supply :: metric
  br_total_demand :: metric
  br_refinery_throughput :: metric
  br_shortfall :: metric

record disrupted_result =
  dr_total_supply :: metric
  dr_total_demand :: metric
  dr_refinery_throughput :: metric
  dr_shortfall :: metric
  dr_cumulative_shortfall :: metric

record timeline_point =
  tp_step :: int
  tp_starts_at :: datetime
  tp_ends_at :: datetime
  tp_baseline_supply :: metric
  tp_disrupted_supply :: metric
  tp_refinery_throughput :: metric
  tp_shortfall :: metric
  tp_cumulative_shortfall :: metric

record flow_result =
  fw_route_id :: uuid
  fw_route_canonical_id :: string
  fw_supplier_id :: uuid
  fw_grade_id :: uuid
  fw_baseline_flow :: metric
  fw_disrupted_flow :: metric
  fw_disrupted_capacity :: metric
  fw_affected :: bool

record refinery_throughput_result =
  rr_refinery_id :: uuid
  rr_refinery_canonical_id :: string
  rr_baseline_throughput :: metric
  rr_disrupted_receipts :: metric
  rr_disrupted_throughput :: metric
  rr_shortfall :: metric

record inventory_point =
  ip_starts_at :: datetime
  ip_ending_inventory :: metric

record inventory_trajectory =
  it_refinery_id :: uuid
  it_refinery_canonical_id :: string
  it_assumption_id :: uuid
  it_points :: "inventory_point list"

record uncertainty_range =
  ur_central :: metric
  ur_lower_bound :: metric
  ur_upper_bound :: metric
  ur_parameters_varied :: "string list"
  ur_assumption_ids :: "uuid list"
  ur_model_version :: string

definition uncertainty_range_problems :: "uncertainty_range \<Rightarrow> (bool \<times> py_error) list" where
  "uncertainty_range_problems u = [(ur_assumption_ids u = [], FieldError ''assumption_ids'')]"

record physical_invariant_report =
  pi_non_negative_flows :: bool
  pi_non_negative_inventories :: bool
  pi_route_capacities_respected :: bool
  pi_closed_routes_zero :: bool
  pi_supplier_limits_respected :: bool
  pi_refinery_limits_respected :: bool
  pi_grade_compatibility_respected :: bool
  pi_mass_conserved :: bool
  pi_cumulative_values_reconcile :: bool
  pi_baseline_unchanged :: bool
  pi_snapshot_unchanged :: bool
  pi_max_mass_balance_residual :: pyfloat
  pi_tolerance :: pyfloat

definition invariant_report_problems :: "physical_invariant_report \<Rightarrow> (bool \<times> py_error) list" where
  "invariant_report_problems r =
    [(\<not> 0 \<le> pi_max_mass_balance_residual r, FieldError ''max_mass_balance_residual''),
     (\<not> 0 < pi_tolerance r, FieldError ''tolerance'')]"

datatype inventory_status = INV_UNKNOWN | INV_ASSUMPTION_DEPENDENT

record simulation_result =
  sr_result_id :: uuid
  sr_run_id :: uuid
  sr_provenance :: simulation_provenance
  sr_baseline :: baseline_result
  sr_disrupted :: disrupted_result
  sr_timeline :: "timeline_point list"
  sr_flows :: "flow_result list"
  sr_refinery_throughput :: "refinery_throughput_result list"
  sr_inventory_trajectories :: "inventory_trajectory list"
  sr_inventory_status :: inventory_status
  sr_affected_asset_ids :: "uuid list"
  sr_affected_route_ids :: "uuid list"
  sr_uncertainty :: uncertainty_range
  sr_invariants :: physical_invariant_report
  sr_runtime_ms :: pyfloat

definition simulation_result_problems :: "simulation_result \<Rightarrow> (bool \<times> py_error) list" where
  "simulation_result_problems r =
    provenance_problems (sr_provenance r) @
    [(sr_timeline r = [], FieldError ''timeline''),
     (sr_flows r = [], FieldError ''flows''),
     (sr_refinery_throughput r = [], FieldError ''refinery_throughput'')] @
    uncertainty_range_problems (sr_uncertainty r) @ invariant_report_problems (sr_invariants r) @
    [(\<not> 0 \<le> sr_runtime_ms r, FieldError ''runtime_ms'')]"

record simulation_run =
  ru_run_id :: uuid
  ru_scenario_id :: uuid
  ru_scenario_fingerprint :: string
  ru_twin_snapshot :: twin_snapshot_reference
  ru_simulation_fingerprint :: string
  ru_model_version :: string
  ru_configuration :: simulation_configuration
  ru_status :: simulation_status
  ru_created_at :: datetime
  ru_started_at :: "datetime option"
  ru_completed_at :: "datetime option"
  ru_runtime_ms :: "pyfloat option"
  ru_reused_result :: bool
  ru_result :: "simulation_result option"
  ru_failure :: "simulation_failure_result option"
  ru_cancellation_requested_at :: "datetime option"

definition simulation_run_problems :: "simulation_run \<Rightarrow> (bool \<times> py_error) list" where
  "simulation_run_problems r =
    [(\<not> is_sha256 (ru_scenario_fingerprint r), FieldError ''scenario_fingerprint''),
     (\<not> is_sha256 (ru_simulation_fingerprint r), FieldError ''simulation_fingerprint''),
     (\<not> opt_ok (\<lambda>x. 0 \<le> x) (ru_runtime_ms r), FieldError ''runtime_ms'')]"

end
