(* ===== verification/Simulation_Engine.thy ===== *)
theory Simulation_Engine imports Simulation_Contracts begin

text \<open>
  The no-action impact simulation, \<open>sanjiv/simulation/engine.py\<close>: a daily mass balance of a
  disrupted twin snapshot. Contents: the effect multipliers, one daily step, the loop over the
  horizon with its inventory state, the sensitivity bounds, the physical invariant checks and the
  run that assembles the result. All arithmetic is binary64.
\<close>

section \<open>Constants and the step state\<close>

definition SIMULATION_MODEL_VERSION :: string where
  "SIMULATION_MODEL_VERSION = ''no-action-impact-1.0.0''"

definition SIMULATION_TRANSFORMATION :: string where
  "SIMULATION_TRANSFORMATION = ''no-action-impact.daily-mass-balance.v1''"

definition MASS_BALANCE_TOLERANCE :: pyfloat where
  "MASS_BALANCE_TOLERANCE = fl (1 / 1000000)"

record step_state =
  st_flow_values :: "(uuid, pyfloat) dict"
  st_route_capacities :: "(uuid, pyfloat) dict"
  st_refinery_receipts :: "(uuid, pyfloat) dict"
  st_refinery_throughput :: "(uuid, pyfloat) dict"
  st_refinery_shortfall :: "(uuid, pyfloat) dict"
  st_inventories :: "(uuid, pyfloat) dict"
  st_total_supply :: pyfloat
  st_total_throughput :: pyfloat
  st_total_shortfall :: pyfloat
  st_residual :: pyfloat

section \<open>Effects\<close>

abbreviation effect_type :: "disruption_effect \<Rightarrow> disruption_target_type" where
  "effect_type e \<equiv> dt_target_type (de_target e)"

abbreviation reduction :: "disruption_effect \<Rightarrow> pyfloat" where
  "reduction e \<equiv> pq_value (de_capacity_reduction e)"

text \<open>The factor \<open>1.0 - effect.capacity_reduction.value / 100.0\<close>.\<close>

definition remaining :: "disruption_effect \<Rightarrow> pyfloat" where
  "remaining e = Fin 1 - reduction e / Fin 100"

definition path_applies :: "uuid \<Rightarrow> twin_route list \<Rightarrow> disruption_effect \<Rightarrow> bool" where
  "path_applies supplier_id routes e =
    (case dt_asset_id (de_target e) of
       None \<Rightarrow> False
     | Some target \<Rightarrow>
        (let route_ids = set (map rt_id routes);
             node_ids = set (map rt_origin_id routes) \<union> set (map rt_destination_id routes);
             chokepoint_ids = set (concat (map rt_chokepoint_ids routes))
         in (effect_type e = T_SUPPLIER \<and> target = supplier_id)
          \<or> (effect_type e = T_ROUTE \<and> target \<in> route_ids)
          \<or> (effect_type e = T_CHOKEPOINT \<and> target \<in> node_ids \<union> chokepoint_ids)
          \<or> (effect_type e \<in> {T_PORT, T_REFINERY} \<and> target \<in> node_ids)))"

text \<open>
  The loop shared by paths and routes: the smallest remaining factor of the effects that apply,
  starting from 1.
\<close>

definition least_remaining :: "(disruption_effect \<Rightarrow> bool) \<Rightarrow> disruption_effect list \<Rightarrow> pyfloat" where
  "least_remaining applies effects =
     foldl (\<lambda>m e. if applies e then py_min m (remaining e) else m) (Fin 1) effects"

definition path_multiplier :: "uuid \<Rightarrow> twin_route list \<Rightarrow> disruption_effect list \<Rightarrow> pyfloat" where
  "path_multiplier supplier_id routes effects =
     py_max 0 (least_remaining (path_applies supplier_id routes) effects)"

definition route_applies :: "twin_route \<Rightarrow> disruption_effect \<Rightarrow> bool" where
  "route_applies r e =
    (case dt_asset_id (de_target e) of
       None \<Rightarrow> False
     | Some target \<Rightarrow>
         (effect_type e = T_ROUTE \<and> target = rt_id r)
       \<or> (effect_type e = T_CHOKEPOINT
            \<and> target \<in> {rt_origin_id r, rt_destination_id r} \<union> set (rt_chokepoint_ids r))
       \<or> (effect_type e = T_PORT \<and> target \<in> {rt_origin_id r, rt_destination_id r}))"

definition effective_route_capacity :: "twin_route \<Rightarrow> disruption_effect list \<Rightarrow> pyfloat" where
  "effective_route_capacity r effects =
     py_max 0 (me_value (rt_capacity r) * least_remaining (route_applies r) effects)"

definition refinery_applies :: "uuid \<Rightarrow> disruption_effect \<Rightarrow> bool" where
  "refinery_applies refinery_id e \<longleftrightarrow>
     de_disruption_type e = REFINERY_THROUGHPUT_DISRUPTION
     \<and> dt_asset_id (de_target e) = Some refinery_id"

text \<open>\<open>next(item for item in snapshot.nodes if item.id == refinery_id)\<close>\<close>

definition node_of :: "twin_snapshot \<Rightarrow> uuid \<Rightarrow> twin_node option" where
  "node_of snapshot i = find (\<lambda>n. tn_id n = i) (ts_nodes snapshot)"

definition node_capacity :: "twin_node \<Rightarrow> pyfloat \<Rightarrow> pyfloat" where
  "node_capacity n fallback = (case tn_capacity n of Some c \<Rightarrow> me_value c | None \<Rightarrow> fallback)"

definition refinery_capacity ::
  "twin_snapshot \<Rightarrow> uuid \<Rightarrow> disruption_effect list \<Rightarrow> pyfloat \<Rightarrow> pyfloat res" where
  "refinery_capacity snapshot refinery_id effects fallback =
    (case node_of snapshot refinery_id of
       None \<Rightarrow> Inl StopIteration
     | Some n \<Rightarrow> Inr (py_max 0
         (foldl (\<lambda>c e. if refinery_applies refinery_id e then c * remaining e else c)
            (node_capacity n fallback) effects)))"

section \<open>One daily step\<close>

definition route_by_id :: "twin_snapshot \<Rightarrow> (uuid, twin_route) dict" where
  "route_by_id snapshot = dict_of (map (\<lambda>r. (rt_id r, r)) (ts_routes snapshot))"

definition dict_index :: "('k, 'v) dict \<Rightarrow> 'k \<Rightarrow> 'v res" where
  "dict_index d k = (case map_of d k of None \<Rightarrow> Inl KeyError | Some v \<Rightarrow> Inr v)"

text \<open>
  Flows are grouped into paths by supplier, grade and volume, in the order in which each key
  first occurs; every flow of a group gets the group's disrupted volume, capped by its own
  route's capacity.
\<close>

type_synonym group_key = "uuid \<times> uuid \<times> pyfloat"

definition group_key :: "baseline_flow \<Rightarrow> group_key" where
  "group_key f = (bf_supplier_id f, bf_grade_id f, me_value (bf_volume f))"

definition flow_groups :: "baseline_flow list \<Rightarrow> (group_key, baseline_flow list) dict" where
  "flow_groups flows =
     foldl (\<lambda>d f. AList.update (group_key f) (dict_get d (group_key f) [] @ [f]) d) [] flows"

definition group_flow_values ::
  "(uuid, twin_route) dict \<Rightarrow> (uuid, pyfloat) dict \<Rightarrow> disruption_effect list
     \<Rightarrow> group_key \<times> baseline_flow list \<Rightarrow> (uuid \<times> pyfloat) list res" where
  "group_flow_values routes capacities effects g =
    (case g of ((supplier_id, grade_id, baseline), path) \<Rightarrow>
       rbind (rtraverse (\<lambda>f. dict_index routes (bf_route_id f)) path) (\<lambda>path_routes.
         let value = py_max 0 (baseline * path_multiplier supplier_id path_routes effects) in
         rtraverse (\<lambda>f. rmap (\<lambda>c. (bf_id f, py_min value c)) (dict_index capacities (bf_route_id f))) path))"

definition disrupted_flow_values ::
  "twin_snapshot \<Rightarrow> (uuid, pyfloat) dict \<Rightarrow> disruption_effect list \<Rightarrow> (uuid, pyfloat) dict res" where
  "disrupted_flow_values snapshot capacities effects =
     rmap (\<lambda>xs. dict_of (concat xs))
       (rtraverse (group_flow_values (route_by_id snapshot) capacities effects)
          (flow_groups (ts_baseline_flows snapshot)))"

text \<open>Receipts: what the flows that end in a refinery deliver to it, summed in flow order.\<close>

definition receipt_of ::
  "(uuid, twin_route) dict \<Rightarrow> (uuid, pyfloat) dict \<Rightarrow> (uuid, pyfloat) dict \<Rightarrow> baseline_flow
     \<Rightarrow> (uuid \<times> pyfloat) option res" where
  "receipt_of routes baseline flow_values f =
     rbind (dict_index routes (bf_route_id f)) (\<lambda>r.
       if dict_has baseline (rt_destination_id r)
       then rmap (\<lambda>v. Some (rt_destination_id r, v)) (dict_index flow_values (bf_id f))
       else Inr None)"

definition refinery_receipts ::
  "twin_snapshot \<Rightarrow> (uuid, pyfloat) dict \<Rightarrow> (uuid, pyfloat) dict \<Rightarrow> (uuid, pyfloat) dict res" where
  "refinery_receipts snapshot baseline flow_values =
     rmap (\<lambda>xs. dd_total fst snd (List.map_filter id xs))
       (rtraverse (receipt_of (route_by_id snapshot) baseline flow_values) (ts_baseline_flows snapshot))"

definition min3 :: "pyfloat \<Rightarrow> pyfloat \<Rightarrow> pyfloat \<Rightarrow> pyfloat" where
  "min3 a b c = py_min (py_min a b) c"

record refinery_day =
  rd_id :: uuid
  rd_demand :: pyfloat
  rd_available :: pyfloat
  rd_processed :: pyfloat

definition refinery_day ::
  "twin_snapshot \<Rightarrow> disruption_effect list \<Rightarrow> (uuid, pyfloat) dict \<Rightarrow> (uuid, pyfloat) dict
     \<Rightarrow> uuid \<times> pyfloat \<Rightarrow> refinery_day res" where
  "refinery_day snapshot effects receipts opening rd =
    (case rd of (refinery_id, demand) \<Rightarrow>
       rbind (refinery_capacity snapshot refinery_id effects demand) (\<lambda>capacity.
         let available = dict_get receipts refinery_id 0 + dict_get opening refinery_id 0 in
         Inr \<lparr>rd_id = refinery_id, rd_demand = demand, rd_available = available,
              rd_processed = min3 demand capacity available\<rparr>))"

definition step_of_days ::
  "(uuid, pyfloat) dict \<Rightarrow> (uuid, pyfloat) dict \<Rightarrow> (uuid, pyfloat) dict \<Rightarrow> (uuid, pyfloat) dict
     \<Rightarrow> refinery_day list \<Rightarrow> step_state" where
  "step_of_days flow_values capacities receipts opening days =
    (let throughput = map (\<lambda>d. (rd_id d, py_max 0 (rd_processed d))) days;
         shortfall = map (\<lambda>d. (rd_id d, py_max 0 (rd_demand d - rd_processed d))) days;
         inventories = map (\<lambda>d. (rd_id d, py_max 0 (rd_available d - rd_processed d)))
                         (filter (\<lambda>d. dict_has opening (rd_id d)) days);
         receipts' = foldl dd_touch receipts (map rd_id days);
         total_supply = py_sum (map snd receipts');
         total_throughput = py_sum (map snd throughput);
         total_shortfall = py_sum (map snd shortfall);
         inventory_change = py_sum (map snd inventories) - py_sum (map snd opening)
     in \<lparr>st_flow_values = flow_values, st_route_capacities = capacities,
         st_refinery_receipts = receipts', st_refinery_throughput = throughput,
         st_refinery_shortfall = shortfall, st_inventories = inventories,
         st_total_supply = total_supply, st_total_throughput = total_throughput,
         st_total_shortfall = total_shortfall,
         st_residual = total_supply - total_throughput - inventory_change\<rparr>)"

definition route_capacities :: "twin_snapshot \<Rightarrow> disruption_effect list \<Rightarrow> (uuid, pyfloat) dict" where
  "route_capacities snapshot effects =
     dict_of (map (\<lambda>r. (rt_id r, effective_route_capacity r effects)) (ts_routes snapshot))"

definition simulate_step ::
  "twin_snapshot \<Rightarrow> disruption_effect list \<Rightarrow> (uuid, pyfloat) dict \<Rightarrow> (uuid, pyfloat) dict
     \<Rightarrow> step_state res" where
  "simulate_step snapshot effects baseline opening =
    (let capacities = route_capacities snapshot effects in
     rbind (disrupted_flow_values snapshot capacities effects) (\<lambda>flow_values.
     rbind (refinery_receipts snapshot baseline flow_values) (\<lambda>receipts.
     rbind (rtraverse (refinery_day snapshot effects receipts opening) baseline) (\<lambda>days.
       Inr (step_of_days flow_values capacities receipts opening days)))))"

section \<open>The horizon\<close>

definition active_effects :: "confirmed_scenario \<Rightarrow> moment \<Rightarrow> disruption_effect list res" where
  "active_effects confirmed starts_at =
    (let p = cs_parameters confirmed; disruption_start = sp_disruption_start p in
     rbind (timedelta_days (dq_days (sp_disruption_duration p))) (\<lambda>duration.
     rbind (moment_add disruption_start duration) (\<lambda>disruption_end.
     rbind (moment_add starts_at day_us) (\<lambda>interval_end.
     rbind (moment_less starts_at disruption_end) (\<lambda>started.
       if \<not> started then Inr []
       else rmap (\<lambda>ends_after. if ends_after then sp_disruptions p else [])
              (moment_less disruption_start interval_end))))))"

definition step_start :: "confirmed_scenario \<Rightarrow> nat \<Rightarrow> moment res" where
  "step_start confirmed step = moment_add (sp_disruption_start (cs_parameters confirmed)) (int step * day_us)"

definition day_active_effects :: "confirmed_scenario \<Rightarrow> nat \<Rightarrow> disruption_effect list res" where
  "day_active_effects confirmed step = rbind (step_start confirmed step) (active_effects confirmed)"

text \<open>
  The daily loop, for steps \<open>k\<close> to \<open>k + n - 1\<close>: the effects of the day, the step, and the
  closing inventories carried to the next day.
\<close>

fun simulate_days ::
  "twin_snapshot \<Rightarrow> (uuid, pyfloat) dict \<Rightarrow> (nat \<Rightarrow> disruption_effect list res)
     \<Rightarrow> (uuid, pyfloat) dict \<Rightarrow> nat \<Rightarrow> nat \<Rightarrow> step_state list res" where
  "simulate_days snapshot baseline effects_on opening k 0 = Inr []"
| "simulate_days snapshot baseline effects_on opening k (Suc n) =
     rbind (effects_on k) (\<lambda>effects.
     rbind (simulate_step snapshot effects baseline opening) (\<lambda>st.
     rmap ((#) st) (simulate_days snapshot baseline effects_on (st_inventories st) (Suc k) n)))"

definition cumulative_shortfall :: "step_state list \<Rightarrow> pyfloat" where
  "cumulative_shortfall states = foldl (\<lambda>c st. c + st_total_shortfall st) (Fin 0) states"

definition horizon_days :: "confirmed_scenario \<Rightarrow> int res" where
  "horizon_days confirmed = py_ceil (dq_days (sp_simulation_horizon (cs_parameters confirmed)))"

definition baseline_by_refinery :: "twin_snapshot \<Rightarrow> (uuid, pyfloat) dict" where
  "baseline_by_refinery snapshot =
     dict_of (List.map_filter (\<lambda>n. case tn_baseline_demand n of
         Some d \<Rightarrow> if tn_kind n = REFINERY then Some (tn_id n, me_value d) else None
       | None \<Rightarrow> None) (ts_nodes snapshot))"

subsection \<open>Sensitivity bounds\<close>

definition shifted_reduction :: "pyfloat \<Rightarrow> pyfloat \<Rightarrow> pyfloat \<Rightarrow> pyfloat" where
  "shifted_reduction direction delta value =
     py_min (Fin 100) (py_max 0 (value + direction * delta))"

definition shift_effect :: "pyfloat \<Rightarrow> pyfloat \<Rightarrow> disruption_effect \<Rightarrow> disruption_effect" where
  "shift_effect direction delta e =
     e\<lparr>de_capacity_reduction := \<lparr>pq_value = shifted_reduction direction delta (reduction e)\<rparr>\<rparr>"

text \<open>The effects of a day in a shifted run: all of them when any is active, else none.\<close>

definition shifted_effects_on ::
  "confirmed_scenario \<Rightarrow> disruption_effect list \<Rightarrow> nat \<Rightarrow> disruption_effect list res" where
  "shifted_effects_on confirmed effects step =
     rmap (\<lambda>active. if active \<noteq> [] then effects else []) (day_active_effects confirmed step)"

definition shifted_total ::
  "confirmed_scenario \<Rightarrow> twin_snapshot \<Rightarrow> simulation_configuration \<Rightarrow> (uuid, pyfloat) dict
     \<Rightarrow> pyfloat \<Rightarrow> pyfloat res" where
  "shifted_total confirmed snapshot configuration baseline direction =
    (let effects = map (shift_effect direction (cf_uncertainty_reduction_delta configuration))
           (sp_disruptions (cs_parameters confirmed)) in
     rbind (horizon_days confirmed) (\<lambda>horizon.
       rmap cumulative_shortfall
         (simulate_days snapshot baseline (shifted_effects_on confirmed effects) [] 0 (nat horizon))))"

definition uncertainty_bounds ::
  "confirmed_scenario \<Rightarrow> twin_snapshot \<Rightarrow> simulation_configuration \<Rightarrow> (uuid, pyfloat) dict
     \<Rightarrow> (pyfloat \<times> pyfloat) res" where
  "uncertainty_bounds confirmed snapshot configuration baseline =
     rbind (shifted_total confirmed snapshot configuration baseline (Fin (- 1))) (\<lambda>a.
     rbind (shifted_total confirmed snapshot configuration baseline (Fin 1)) (\<lambda>b.
       Inr (py_min a b, py_max a b)))"

section \<open>Inventory assumptions\<close>

text \<open>
  \<open>UUID(text)\<close>: all occurrences of \<open>urn:\<close> and then \<open>uuid:\<close> are removed, braces
  are stripped at both ends and hyphens removed; 32 characters must remain and be a hexadecimal
  \<open>int\<close> literal: optional white space, sign and \<open>0x\<close> prefix, digits with single
  underscores between them. A negative value is refused.
\<close>

function remove_all :: "string \<Rightarrow> string \<Rightarrow> string" where
  "remove_all pat [] = []"
| "remove_all pat (c # cs) =
     (if pat \<noteq> [] \<and> take (length pat) (c # cs) = pat
      then remove_all pat (drop (length pat) (c # cs)) else c # remove_all pat cs)"
  by pat_completeness auto
termination
  by (relation "measure (\<lambda>(pat, s). length s)") (auto simp: neq_Nil_conv)

definition strip_chars :: "char set \<Rightarrow> string \<Rightarrow> string" where
  "strip_chars cs s = rev (dropWhile (\<lambda>c. c \<in> cs) (rev (dropWhile (\<lambda>c. c \<in> cs) s)))"

definition hex_value :: "char \<Rightarrow> int option" where
  "hex_value c = (let d = of_char c :: int in
     if 48 \<le> d \<and> d \<le> 57 then Some (d - 48)
     else if 97 \<le> d \<and> d \<le> 102 then Some (d - 87)
     else if 65 \<le> d \<and> d \<le> 70 then Some (d - 55) else None)"

text \<open>Digits with single underscores between; the flag says that a digit must come next.\<close>

fun hex_digits :: "bool \<Rightarrow> int \<Rightarrow> string \<Rightarrow> int option" where
  "hex_digits need acc [] = (if need then None else Some acc)"
| "hex_digits need acc (c # cs) =
     (if c = CHR ''_'' then (if need then None else hex_digits True acc cs)
      else case hex_value c of None \<Rightarrow> None | Some d \<Rightarrow> hex_digits False (16 * acc + d) cs)"

definition white_space :: "char set" where
  "white_space = {CHR '' '', CHR 0x09, CHR 0x0A, CHR 0x0B, CHR 0x0C, CHR 0x0D, CHR 0x1C, CHR 0x1D,
     CHR 0x1E, CHR 0x1F}"

definition int_base16 :: "string \<Rightarrow> int option" where
  "int_base16 text =
    (let s = strip_chars white_space text;
         (sgn, s1) = (case s of CHR ''-'' # r \<Rightarrow> (- 1 :: int, r) | CHR ''+'' # r \<Rightarrow> (1, r) | _ \<Rightarrow> (1, s));
         s2 = (if take 2 s1 \<in> {''0x'', ''0X''}
               then (case drop 2 s1 of CHR ''_'' # r \<Rightarrow> r | r \<Rightarrow> r) else s1)
     in map_option (\<lambda>n. sgn * n) (hex_digits True 0 s2))"

definition uuid_of_text :: "string \<Rightarrow> uuid option" where
  "uuid_of_text text =
    (let h = remove_all ''-'' (strip_chars {CHR ''{'', CHR ''}''}
               (remove_all ''uuid:'' (remove_all ''urn:'' text)))
     in if length h \<noteq> 32 then None
        else case int_base16 h of
          Some n \<Rightarrow> if 0 \<le> n then Some (of_int n) else None
        | None \<Rightarrow> None)"

definition initial_inventory_prefix :: string where
  "initial_inventory_prefix = ''initial_inventory:''"

text \<open>
  A number that is not a Boolean, as a float. \<open>float(n)\<close> of an integer beyond the finite
  range raises.
\<close>

definition json_number :: "json_value \<Rightarrow> pyfloat res option" where
  "json_number v = (case v of
     JInt n \<Rightarrow> Some (if isfinite (of_exact (of_int n)) then Inr (of_exact (of_int n)) else Inl OverflowError)
   | JFloat x \<Rightarrow> Some (Inr x)
   | _ \<Rightarrow> None)"

definition inventory_assumption ::
  "(uuid, pyfloat) dict \<Rightarrow> assumption \<Rightarrow> (uuid \<times> pyfloat \<times> uuid) option res" where
  "inventory_assumption refineries a =
    (if take (length initial_inventory_prefix) (as_key a) \<noteq> initial_inventory_prefix then Inr None
     else case uuid_of_text (drop (length initial_inventory_prefix) (as_key a)) of
       None \<Rightarrow> Inr None
     | Some refinery_id \<Rightarrow>
        if \<not> dict_has refineries refinery_id \<or> as_unit a \<noteq> ''ktonne'' then Inr None
        else (case json_number (as_value a) of
           None \<Rightarrow> Inr None
         | Some number \<Rightarrow>
             rmap (\<lambda>v. if 0 \<le> v then Some (refinery_id, v, as_id a) else None) number))"

definition inventory_assumptions ::
  "confirmed_scenario \<Rightarrow> (uuid, pyfloat) dict \<Rightarrow> (uuid, pyfloat \<times> uuid) dict res" where
  "inventory_assumptions confirmed refineries =
     rmap (\<lambda>xs. dict_of (List.map_filter id xs))
       (rtraverse (inventory_assumption refineries) (sp_assumptions (cs_parameters confirmed)))"

section \<open>Metrics\<close>

definition sim_metric ::
  "pyfloat \<Rightarrow> string \<Rightarrow> twin_snapshot \<Rightarrow> datetime \<Rightarrow> string \<Rightarrow> metric res" where
  "sim_metric value unit snapshot computed_at suffix =
    (case ts_evidence_records snapshot of
       [] \<Rightarrow> Inl (ValueError ''max() iterable argument is empty'')
     | e # es \<Rightarrow>
        (let fetched_at = foldl max (ev_fetched_at e) (map ev_fetched_at es) in
         mk_metric
           \<lparr>me_value = py_round 9 (py_max 0 value),
            me_unit = unit,
            me_truth_class = MODELED,
            me_confidence = py_min_list 0 (map ev_confidence (e # es)),
            me_evidence_ids = map ev_id (e # es),
            me_source_refs = map (\<lambda>e. \<lparr>sr_source_id = ev_source_id e, sr_record_id = ev_source_record_id e\<rparr>) (e # es),
            me_effective_at = foldl max (ev_effective_at e) (map ev_effective_at es),
            me_fetched_at = fetched_at,
            me_computed_at = max computed_at fetched_at,
            me_freshness_status = F_CURRENT,
            me_transformation = SIMULATION_TRANSFORMATION @ ''.'' @ suffix,
            me_model_version = SIMULATION_MODEL_VERSION\<rparr>))"

definition ktpd :: string where "ktpd = ''ktonne_per_day''"

definition ktonne :: string where "ktonne = ''ktonne''"

definition timeline_point ::
  "twin_snapshot \<Rightarrow> datetime \<Rightarrow> nat \<Rightarrow> moment \<Rightarrow> step_state \<Rightarrow> pyfloat \<Rightarrow> timeline_point res" where
  "timeline_point snapshot now step starts_at state cumulative =
     rbind (moment_add starts_at day_us) (\<lambda>ends_at.
     rbind (sim_metric (me_value (mb_total_supply (ts_mass_balance snapshot))) ktpd snapshot now ''baseline-supply'') (\<lambda>base.
     rbind (sim_metric (st_total_supply state) ktpd snapshot now ''disrupted-supply'') (\<lambda>supply.
     rbind (sim_metric (st_total_throughput state) ktpd snapshot now ''refinery-throughput'') (\<lambda>throughput.
     rbind (sim_metric (st_total_shortfall state) ktpd snapshot now ''shortfall'') (\<lambda>shortfall.
     rbind (sim_metric cumulative ktonne snapshot now ''cumulative-shortfall'') (\<lambda>cum.
       Inr \<lparr>tp_step = int step, tp_starts_at = mo_instant starts_at,
            tp_ends_at = mo_instant ends_at,
            tp_baseline_supply = base, tp_disrupted_supply = supply,
            tp_refinery_throughput = throughput, tp_shortfall = shortfall,
            tp_cumulative_shortfall = cum\<rparr>))))))"

definition flow_affected :: "step_state \<Rightarrow> baseline_flow \<Rightarrow> bool res" where
  "flow_affected state f =
     rmap (\<lambda>v. v < me_value (bf_volume f) - MASS_BALANCE_TOLERANCE)
       (dict_index (st_flow_values state) (bf_id f))"

definition flow_result ::
  "twin_snapshot \<Rightarrow> step_state \<Rightarrow> datetime \<Rightarrow> baseline_flow \<Rightarrow> flow_result res" where
  "flow_result snapshot state now f =
     rbind (dict_index (route_by_id snapshot) (bf_route_id f)) (\<lambda>r.
     rbind (sim_metric (me_value (bf_volume f)) ktpd snapshot now ''baseline-flow'') (\<lambda>base.
     rbind (dict_index (st_flow_values state) (bf_id f)) (\<lambda>v.
     rbind (sim_metric v ktpd snapshot now ''disrupted-flow'') (\<lambda>flow.
     rbind (dict_index (st_route_capacities state) (bf_route_id f)) (\<lambda>c.
     rbind (sim_metric c ktpd snapshot now ''disrupted-route-capacity'') (\<lambda>capacity.
     rbind (flow_affected state f) (\<lambda>affected.
       Inr \<lparr>fw_route_id = bf_route_id f, fw_route_canonical_id = rt_route_canonical_id r,
            fw_supplier_id = bf_supplier_id f, fw_grade_id = bf_grade_id f,
            fw_baseline_flow = base, fw_disrupted_flow = flow, fw_disrupted_capacity = capacity,
            fw_affected = affected\<rparr>)))))))"

definition node_by_id :: "twin_snapshot \<Rightarrow> (uuid, twin_node) dict" where
  "node_by_id snapshot = dict_of (map (\<lambda>n. (tn_id n, n)) (ts_nodes snapshot))"

definition refinery_result ::
  "twin_snapshot \<Rightarrow> step_state \<Rightarrow> datetime \<Rightarrow> uuid \<times> pyfloat \<Rightarrow> refinery_throughput_result res" where
  "refinery_result snapshot state now rd =
    (case rd of (refinery_id, demand) \<Rightarrow>
     rbind (dict_index (node_by_id snapshot) refinery_id) (\<lambda>n.
     rbind (sim_metric demand ktpd snapshot now ''baseline-refinery-throughput'') (\<lambda>base.
     rbind (sim_metric (dict_get (st_refinery_receipts state) refinery_id 0) ktpd snapshot now ''disrupted-refinery-receipts'') (\<lambda>receipts.
     rbind (dict_index (st_refinery_throughput state) refinery_id) (\<lambda>t.
     rbind (sim_metric t ktpd snapshot now ''disrupted-refinery-throughput'') (\<lambda>throughput.
     rbind (dict_index (st_refinery_shortfall state) refinery_id) (\<lambda>sf.
     rbind (sim_metric sf ktpd snapshot now ''refinery-shortfall'') (\<lambda>shortfall.
       Inr \<lparr>rr_refinery_id = refinery_id, rr_refinery_canonical_id = tn_canonical_id n,
            rr_baseline_throughput = base, rr_disrupted_receipts = receipts,
            rr_disrupted_throughput = throughput, rr_shortfall = shortfall\<rparr>))))))))"

definition inventory_point ::
  "twin_snapshot \<Rightarrow> confirmed_scenario \<Rightarrow> datetime \<Rightarrow> uuid \<Rightarrow> nat \<times> step_state \<Rightarrow> inventory_point res" where
  "inventory_point snapshot confirmed now refinery_id p =
     rbind (step_start confirmed (fst p)) (\<lambda>starts_at.
     rbind (dict_index (st_inventories (snd p)) refinery_id) (\<lambda>v.
     rmap (\<lambda>m. \<lparr>ip_starts_at = mo_instant starts_at, ip_ending_inventory = m\<rparr>)
       (sim_metric v ktonne snapshot now ''assumption-dependent-inventory'')))"

definition inventory_trajectories ::
  "twin_snapshot \<Rightarrow> step_state list \<Rightarrow> (uuid, pyfloat \<times> uuid) dict \<Rightarrow> confirmed_scenario \<Rightarrow> datetime
     \<Rightarrow> inventory_trajectory list res" where
  "inventory_trajectories snapshot states assumptions confirmed now =
     rtraverse (\<lambda>(refinery_id, value, assumption_id).
       rbind (dict_index (node_by_id snapshot) refinery_id) (\<lambda>n.
       rmap (\<lambda>points. \<lparr>it_refinery_id = refinery_id, it_refinery_canonical_id = tn_canonical_id n,
              it_assumption_id = assumption_id, it_points = points\<rparr>)
         (rtraverse (inventory_point snapshot confirmed now refinery_id) (enumerate 0 states))))
       assumptions"

section \<open>Physical invariant checks\<close>

text \<open>
  Reading a key that every step state has (\<open>step_closed\<close> in \<open>Simulation_Step\<close> shows it); the value for
  a missing key, where Python would raise \<open>KeyError\<close>, is NaN and is never reached.
\<close>

definition dict_at :: "('k, pyfloat) dict \<Rightarrow> 'k \<Rightarrow> pyfloat" where
  "dict_at d k = dict_get d k NaN"

definition route_capacities_respected :: "twin_snapshot \<Rightarrow> step_state list \<Rightarrow> bool" where
  "route_capacities_respected snapshot states =
    (let route_for_flow = dict_of (map (\<lambda>f. (bf_id f, bf_route_id f)) (ts_baseline_flows snapshot)) in
     list_all (\<lambda>st.
       let totals = dd_total (\<lambda>p. dict_get route_for_flow (fst p) 0) snd (st_flow_values st) in
       \<not> list_ex (\<lambda>(route_id, total). dict_at (st_route_capacities st) route_id + MASS_BALANCE_TOLERANCE < total)
           totals) states)"

definition closed_routes :: "confirmed_scenario \<Rightarrow> uuid option list" where
  "closed_routes confirmed =
     map (\<lambda>e. dt_asset_id (de_target e))
       (filter (\<lambda>e. reduction e = Fin 100 \<and> effect_type e = T_ROUTE) (sp_disruptions (cs_parameters confirmed)))"

definition closed_routes_zero :: "confirmed_scenario \<Rightarrow> twin_snapshot \<Rightarrow> step_state list \<Rightarrow> bool" where
  "closed_routes_zero confirmed snapshot states =
    (let closed = closed_routes confirmed in
     list_all (\<lambda>st. list_all (\<lambda>f. Some (bf_route_id f) \<in> set closed
         \<longrightarrow> dict_at (st_flow_values st) (bf_id f) \<le> MASS_BALANCE_TOLERANCE)
       (ts_baseline_flows snapshot)) states)"

definition supplier_limits_respected :: "twin_snapshot \<Rightarrow> step_state list \<Rightarrow> bool" where
  "supplier_limits_respected snapshot states =
    (let first_route_flows = filter (\<lambda>f. list_ex (\<lambda>r. rt_id r = bf_route_id f \<and> rt_origin_id r = bf_supplier_id f)
             (ts_routes snapshot)) (ts_baseline_flows snapshot);
         supplies = dict_of (List.map_filter (\<lambda>n. map_option (\<lambda>m. (tn_id n, me_value m)) (tn_baseline_supply n))
             (ts_nodes snapshot))
     in list_all (\<lambda>st. list_all (\<lambda>(supplier, limit).
          py_sum (map (\<lambda>f. dict_at (st_flow_values st) (bf_id f))
                   (filter (\<lambda>f. bf_supplier_id f = supplier) first_route_flows))
          \<le> limit + MASS_BALANCE_TOLERANCE) supplies) states)"

definition refinery_limit :: "twin_node \<Rightarrow> (uuid \<times> pyfloat) option" where
  "refinery_limit n =
    (case tn_baseline_demand n of
       Some d \<Rightarrow> if tn_kind n = REFINERY then Some (tn_id n, node_capacity n (me_value d)) else None
     | None \<Rightarrow> None)"

definition refinery_limits_respected :: "twin_snapshot \<Rightarrow> step_state list \<Rightarrow> bool" where
  "refinery_limits_respected snapshot states =
    (let limits = dict_of (List.map_filter refinery_limit (ts_nodes snapshot)) in
     list_all (\<lambda>st. list_all (\<lambda>(refinery, value).
         value \<le> dict_at limits refinery + MASS_BALANCE_TOLERANCE) (st_refinery_throughput st)) states)"

definition compatibility_respected :: "twin_snapshot \<Rightarrow> step_state list \<Rightarrow> bool" where
  "compatibility_respected snapshot states =
    (let allowed = dict_of (map (\<lambda>c. ((rc_grade_id c, rc_refinery_id c), rc_allowed c)) (ts_compatibility snapshot));
         destination = (\<lambda>f. case map_of (route_by_id snapshot) (bf_route_id f) of
             Some r \<Rightarrow> rt_destination_id r | None \<Rightarrow> 0)
     in list_all (\<lambda>f. dict_get allowed (bf_grade_id f, destination f) True
          \<or> list_all (\<lambda>st. dict_at (st_flow_values st) (bf_id f) \<le> MASS_BALANCE_TOLERANCE) states)
        (ts_baseline_flows snapshot))"

definition non_negative_values :: "(step_state \<Rightarrow> (uuid, pyfloat) dict) \<Rightarrow> step_state list \<Rightarrow> bool" where
  "non_negative_values sel states =
     list_all (\<lambda>st. list_all (\<lambda>v. - MASS_BALANCE_TOLERANCE \<le> v) (map snd (sel st))) states"

definition invariant_report ::
  "confirmed_scenario \<Rightarrow> twin_snapshot \<Rightarrow> (uuid, pyfloat) dict \<Rightarrow> step_state list \<Rightarrow> pyfloat
     \<Rightarrow> physical_invariant_report" where
  "invariant_report confirmed snapshot baseline states cumulative =
    (let max_residual = py_max_list 0 (map (\<lambda>st. \<bar>st_residual st\<bar>) states);
         base = py_sum (map snd baseline);
         supply = me_value (mb_total_supply (ts_mass_balance snapshot))
     in \<lparr>pi_non_negative_flows = non_negative_values st_flow_values states,
         pi_non_negative_inventories = non_negative_values st_inventories states,
         pi_route_capacities_respected = route_capacities_respected snapshot states,
         pi_closed_routes_zero = closed_routes_zero confirmed snapshot states,
         pi_supplier_limits_respected = supplier_limits_respected snapshot states,
         pi_refinery_limits_respected = refinery_limits_respected snapshot states,
         pi_grade_compatibility_respected = compatibility_respected snapshot states,
         pi_mass_conserved = (max_residual \<le> MASS_BALANCE_TOLERANCE),
         pi_cumulative_values_reconcile =
           (\<bar>cumulative - py_sum (map st_total_shortfall states)\<bar> \<le> MASS_BALANCE_TOLERANCE),
         pi_baseline_unchanged = (supply \<le> base \<and> base \<le> supply),
         pi_snapshot_unchanged = (ts_fingerprint snapshot = ts_fingerprint snapshot),
         pi_max_mass_balance_residual = max_residual,
         pi_tolerance = MASS_BALANCE_TOLERANCE\<rparr>)"

definition invariants_fail :: "physical_invariant_report \<Rightarrow> bool \<Rightarrow> bool" where
  "invariants_fail r has_trajectories \<longleftrightarrow>
     \<not> (pi_non_negative_flows r \<and> pi_route_capacities_respected r \<and> pi_closed_routes_zero r
        \<and> pi_supplier_limits_respected r \<and> pi_refinery_limits_respected r
        \<and> pi_grade_compatibility_respected r \<and> pi_mass_conserved r
        \<and> pi_cumulative_values_reconcile r \<and> pi_baseline_unchanged r \<and> pi_snapshot_unchanged r)
     \<or> (has_trajectories \<and> \<not> pi_non_negative_inventories r)"

section \<open>The run\<close>

text \<open>\<open>max(range(n), key=...)\<close>: the first index with the largest value.\<close>

fun peak_from :: "step_state \<Rightarrow> step_state list \<Rightarrow> step_state" where
  "peak_from best [] = best"
| "peak_from best (st # sts) =
     peak_from (if st_total_shortfall best < st_total_shortfall st then st else best) sts"

text \<open>
  What the run takes from outside: the canonical hash of the run's inputs (SHA-256 of the JSON of
  pydantic's dump), the name-based UUID, and the measured wall-clock time.
\<close>

type_synonym simulation_hash =
  "string \<times> string \<times> string \<times> simulation_configuration \<times> assumption list \<Rightarrow> string"

definition simulation_fingerprint ::
  "simulation_hash \<Rightarrow> confirmed_scenario \<Rightarrow> simulation_configuration \<Rightarrow> string" where
  "simulation_fingerprint sha256 confirmed configuration =
     sha256 (cs_scenario_fingerprint confirmed, tr_fingerprint (cs_twin_snapshot confirmed),
       SIMULATION_MODEL_VERSION, configuration, sp_assumptions (cs_parameters confirmed))"

definition opening_inventory :: "(uuid, pyfloat \<times> uuid) dict \<Rightarrow> (uuid, pyfloat) dict" where
  "opening_inventory assumptions = map (\<lambda>(r, v, a). (r, v)) assumptions"

text \<open>The states of the central run alone, and the loop itself, which stores a timeline point with each.\<close>

definition central_run ::
  "twin_snapshot \<Rightarrow> confirmed_scenario \<Rightarrow> (uuid, pyfloat) dict \<Rightarrow> (uuid, pyfloat \<times> uuid) dict \<Rightarrow> nat
     \<Rightarrow> step_state list res" where
  "central_run snapshot confirmed baseline assumptions n =
     simulate_days snapshot baseline (day_active_effects confirmed) (opening_inventory assumptions) 0 n"

fun run_days ::
  "twin_snapshot \<Rightarrow> confirmed_scenario \<Rightarrow> (uuid, pyfloat) dict \<Rightarrow> datetime \<Rightarrow> (uuid, pyfloat) dict \<Rightarrow> pyfloat
     \<Rightarrow> nat \<Rightarrow> nat \<Rightarrow> (step_state \<times> timeline_point) list res" where
  "run_days snapshot confirmed baseline now opening cumulative k 0 = Inr []"
| "run_days snapshot confirmed baseline now opening cumulative k (Suc n) =
     rbind (step_start confirmed k) (\<lambda>starts_at.
     rbind (active_effects confirmed starts_at) (\<lambda>effects.
     rbind (simulate_step snapshot effects baseline opening) (\<lambda>st.
     let cumulative = cumulative + st_total_shortfall st in
     rbind (timeline_point snapshot now k starts_at st cumulative) (\<lambda>point.
     rmap ((#) (st, point))
       (run_days snapshot confirmed baseline now (st_inventories st) cumulative (Suc k) n)))))"

definition run_baseline :: "twin_snapshot \<Rightarrow> datetime \<Rightarrow> baseline_result res" where
  "run_baseline snapshot now =
    (let total = me_value (mb_total_supply (ts_mass_balance snapshot)) in
     rbind (sim_metric total ktpd snapshot now ''baseline-total-supply'') (\<lambda>supply.
     rbind (sim_metric total ktpd snapshot now ''baseline-total-demand'') (\<lambda>demand.
     rbind (sim_metric total ktpd snapshot now ''baseline-refinery-throughput'') (\<lambda>throughput.
     rbind (sim_metric (Fin 0) ktpd snapshot now ''baseline-shortfall'') (\<lambda>shortfall.
       Inr \<lparr>br_total_supply = supply, br_total_demand = demand,
            br_refinery_throughput = throughput, br_shortfall = shortfall\<rparr>)))))"

definition run_disrupted ::
  "twin_snapshot \<Rightarrow> step_state \<Rightarrow> metric \<Rightarrow> datetime \<Rightarrow> disrupted_result res" where
  "run_disrupted snapshot peak cumulative_metric now =
     rbind (sim_metric (st_total_supply peak) ktpd snapshot now ''disrupted-total-supply'') (\<lambda>supply.
     rbind (sim_metric (me_value (mb_total_supply (ts_mass_balance snapshot))) ktpd snapshot now ''disrupted-total-demand'') (\<lambda>demand.
     rbind (sim_metric (st_total_throughput peak) ktpd snapshot now ''disrupted-refinery-throughput'') (\<lambda>throughput.
     rbind (sim_metric (st_total_shortfall peak) ktpd snapshot now ''disrupted-shortfall'') (\<lambda>shortfall.
       Inr \<lparr>dr_total_supply = supply, dr_total_demand = demand,
            dr_refinery_throughput = throughput, dr_shortfall = shortfall,
            dr_cumulative_shortfall = cumulative_metric\<rparr>))))"

definition run_provenance ::
  "confirmed_scenario \<Rightarrow> twin_snapshot \<Rightarrow> string \<Rightarrow> uuid list \<Rightarrow> uuid list \<Rightarrow> datetime \<Rightarrow> simulation_provenance" where
  "run_provenance confirmed snapshot fingerprint evidence_ids assumption_ids now =
     \<lparr>sp_scenario_id = cs_scenario_id confirmed, sp_twin_snapshot = cs_twin_snapshot confirmed,
      sp_scenario_fingerprint = cs_scenario_fingerprint confirmed,
      sp_simulation_fingerprint = fingerprint, sp_model_version = SIMULATION_MODEL_VERSION,
      sp_evidence_ids = evidence_ids, sp_assumption_ids = assumption_ids,
      sp_truth_class = MODELED,
      sp_confidence = py_min_list 0 (map ev_confidence (ts_evidence_records snapshot)),
      sp_freshness_status = F_CURRENT, sp_effective_at = ts_effective_at snapshot,
      sp_fetched_at = foldl max (ev_fetched_at (hd (ts_evidence_records snapshot)))
        (map ev_fetched_at (tl (ts_evidence_records snapshot))),
      sp_computed_at = now, sp_transformation = SIMULATION_TRANSFORMATION\<rparr>"

definition run_uncertainty ::
  "twin_snapshot \<Rightarrow> metric \<Rightarrow> pyfloat \<times> pyfloat \<Rightarrow> uuid list \<Rightarrow> datetime \<Rightarrow> uncertainty_range res" where
  "run_uncertainty snapshot cumulative_metric bounds assumption_ids now =
     rbind (sim_metric (fst bounds) ktonne snapshot now ''uncertainty-lower'') (\<lambda>lower.
     rbind (sim_metric (snd bounds) ktonne snapshot now ''uncertainty-upper'') (\<lambda>upper.
       Inr \<lparr>ur_central = cumulative_metric, ur_lower_bound = lower, ur_upper_bound = upper,
            ur_parameters_varied = [''capacity_reduction percentage points''],
            ur_assumption_ids = assumption_ids, ur_model_version = SIMULATION_MODEL_VERSION\<rparr>))"

definition run_assumption_ids :: "confirmed_scenario \<Rightarrow> twin_snapshot \<Rightarrow> uuid list" where
  "run_assumption_ids confirmed snapshot =
     unique_first (map as_id (sp_assumptions (cs_parameters confirmed)) @ map as_id (ts_assumptions snapshot))"

text \<open>
  The evidence list is nonempty whenever a metric was built, and every run builds one before the
  provenance is read.
\<close>

definition assemble_result ::
  "simulation_hash \<Rightarrow> uuid5_fun \<Rightarrow> uuid \<Rightarrow> confirmed_scenario \<Rightarrow> twin_snapshot
     \<Rightarrow> simulation_configuration \<Rightarrow> datetime \<Rightarrow> pyfloat \<Rightarrow> (uuid, pyfloat) dict
     \<Rightarrow> (uuid, pyfloat \<times> uuid) dict \<Rightarrow> (step_state \<times> timeline_point) list \<Rightarrow> simulation_result res" where
  "assemble_result sha256 uuid5 run_id confirmed snapshot configuration now runtime_ms baseline assumptions days =
    (let states = map fst days; timeline = map snd days;
         fingerprint = simulation_fingerprint sha256 confirmed configuration;
         cumulative = cumulative_shortfall states;
         peak = peak_from (hd states) (tl states);
         assumption_ids = run_assumption_ids confirmed snapshot;
         affected_assets = List.map_filter (\<lambda>e. dt_asset_id (de_target e)) (sp_disruptions (cs_parameters confirmed));
         report = invariant_report confirmed snapshot baseline states cumulative
     in
     rbind (rtraverse (flow_result snapshot peak now) (ts_baseline_flows snapshot)) (\<lambda>flows.
     rbind (rtraverse (refinery_result snapshot peak now) baseline) (\<lambda>refinery_results.
     rbind (inventory_trajectories snapshot states assumptions confirmed now) (\<lambda>trajectories.
     rbind (uncertainty_bounds confirmed snapshot configuration baseline) (\<lambda>bounds.
     rbind (validated (invariant_report_problems report) report) (\<lambda>report.
     if invariants_fail report (trajectories \<noteq> [])
     then Inl (ValueError ''physical invariant validation failed'')
     else
     rbind (sim_metric cumulative ktonne snapshot now ''cumulative-shortfall'') (\<lambda>cumulative_metric.
     rbind (run_baseline snapshot now) (\<lambda>base.
     rbind (run_disrupted snapshot peak cumulative_metric now) (\<lambda>disrupted.
     rbind (run_uncertainty snapshot cumulative_metric bounds assumption_ids now) (\<lambda>uncertainty.
       let r = \<lparr>sr_result_id = uuid5 (''urn:sanjiv:simulation-result:'' @ fingerprint),
                sr_run_id = run_id,
                sr_provenance = run_provenance confirmed snapshot fingerprint
                  (map ev_id (ts_evidence_records snapshot)) assumption_ids now,
                sr_baseline = base, sr_disrupted = disrupted, sr_timeline = timeline,
                sr_flows = flows, sr_refinery_throughput = refinery_results,
                sr_inventory_trajectories = trajectories,
                sr_inventory_status = (if trajectories \<noteq> [] then INV_ASSUMPTION_DEPENDENT else INV_UNKNOWN),
                sr_affected_asset_ids = unique_first affected_assets,
                sr_affected_route_ids = unique_first (map fw_route_id (filter fw_affected flows)),
                sr_uncertainty = uncertainty, sr_invariants = report, sr_runtime_ms = runtime_ms\<rparr>
       in validated (simulation_result_problems r) r))))))))))"

definition run_no_action_simulation ::
  "simulation_hash \<Rightarrow> uuid5_fun \<Rightarrow> uuid \<Rightarrow> confirmed_scenario \<Rightarrow> twin_snapshot
     \<Rightarrow> simulation_configuration \<Rightarrow> datetime \<Rightarrow> pyfloat \<Rightarrow> simulation_result res" where
  "run_no_action_simulation sha256 uuid5 run_id confirmed snapshot configuration computed_at runtime_ms =
     rbind (horizon_days confirmed) (\<lambda>n.
     if n \<le> 0 \<or> 90 < n
     then Inl (ValueError ''simulation horizon is outside the supported deterministic range'')
     else
      (let baseline = baseline_by_refinery snapshot in
       rbind (inventory_assumptions confirmed baseline) (\<lambda>assumptions.
          rbind (run_days snapshot confirmed baseline computed_at (opening_inventory assumptions) (Fin 0) 0 (nat n)) (\<lambda>days.
            assemble_result sha256 uuid5 run_id confirmed snapshot configuration computed_at runtime_ms
              baseline assumptions days))))"

end
