(* ===== verification/Simulation_Step.thy ===== *)
theory Simulation_Step imports Simulation_Engine begin

text \<open>
  What one daily step of the simulation computes, in closed form. The monadic definitions of
  the engine are refined to plain equations (\<open>step_closed\<close>): the disrupted value of a
  flow, the receipts, capacity, throughput, shortfall and closing inventory of a refinery. The
  later theories argue about these equations only.
\<close>

section \<open>Grouping of the flows\<close>

lemma flow_groups_snoc:
  "flow_groups (fs @ [f]) =
     AList.update (group_key f) (dict_get (flow_groups fs) (group_key f) [] @ [f]) (flow_groups fs)"
  by (simp add: flow_groups_def)

lemma map_of_flow_groups:
  "map_of (flow_groups fs) k =
     (if k \<in> group_key ` set fs then Some (filter (\<lambda>f. group_key f = k) fs) else None)"
proof (induction fs rule: rev_induct)
  case Nil
  then show ?case by (simp add: flow_groups_def)
next
  case (snoc f fs)
  show ?case
  proof (cases "k = group_key f")
    case True
    have "dict_get (flow_groups fs) k [] = filter (\<lambda>f. group_key f = k) fs"
      using snoc by (auto simp: dict_get_def filter_empty_conv eq_commute [of "[]"])
    with True show ?thesis by (simp add: flow_groups_snoc update_conv')
  next
    case False
    with snoc show ?thesis by (auto simp: flow_groups_snoc update_conv')
  qed
qed

lemma distinct_flow_groups: "distinct (map fst (flow_groups fs))"
proof (induction fs rule: rev_induct)
  case Nil
  then show ?case by (simp add: flow_groups_def)
next
  case (snoc f fs)
  then show ?case by (simp add: flow_groups_snoc distinct_update)
qed

lemma in_flow_groups:
  "(k, path) \<in> set (flow_groups fs) \<longleftrightarrow>
     k \<in> group_key ` set fs \<and> path = filter (\<lambda>f. group_key f = k) fs"
  unfolding map_of_eq_Some_iff [OF distinct_flow_groups, symmetric] map_of_flow_groups by auto

section \<open>Disrupted flow values\<close>

definition routes_known :: "twin_snapshot \<Rightarrow> bool" where
  "routes_known snapshot \<longleftrightarrow>
     (\<forall>f \<in> set (ts_baseline_flows snapshot). bf_route_id f \<in> set (map rt_id (ts_routes snapshot)))"

definition flow_route :: "twin_snapshot \<Rightarrow> baseline_flow \<Rightarrow> twin_route" where
  "flow_route snapshot f = the (map_of (route_by_id snapshot) (bf_route_id f))"

definition flow_path :: "twin_snapshot \<Rightarrow> baseline_flow \<Rightarrow> twin_route list" where
  "flow_path snapshot f =
     map (flow_route snapshot)
       (filter (\<lambda>g. group_key g = group_key f) (ts_baseline_flows snapshot))"

definition flow_value :: "twin_snapshot \<Rightarrow> disruption_effect list \<Rightarrow> baseline_flow \<Rightarrow> pyfloat" where
  "flow_value snapshot effects f =
     py_min (py_max 0 (me_value (bf_volume f)
               * path_multiplier (bf_supplier_id f) (flow_path snapshot f) effects))
       (effective_route_capacity (flow_route snapshot f) effects)"

lemma map_of_route_by_id:
  "map_of (route_by_id snapshot) i = map_of (rev (map (\<lambda>r. (rt_id r, r)) (ts_routes snapshot))) i"
  by (simp add: route_by_id_def map_of_dict_of)

lemma map_of_pairs_Some:
  "map_of (rev (map (\<lambda>r. (key r, val r)) rs)) i = Some v \<Longrightarrow> \<exists>r \<in> set rs. key r = i \<and> val r = v"
  by (auto dest!: map_of_SomeD)

lemma map_of_pairs_None:
  "map_of (rev (map (\<lambda>r. (key r, val r)) rs)) i = None \<longleftrightarrow> i \<notin> key ` set rs"
  by (auto simp: map_of_eq_None_iff image_iff)

lemma map_of_map_pairs:
  "map_of (rev (map (\<lambda>r. (key r, g r)) rs)) i = map_option g (map_of (rev (map (\<lambda>r. (key r, r)) rs)) i)"
  by (induction rs rule: rev_induct) auto

lemma flow_route_index:
  assumes "routes_known snapshot" "f \<in> set (ts_baseline_flows snapshot)"
  shows "dict_index (route_by_id snapshot) (bf_route_id f) = Inr (flow_route snapshot f)"
    "flow_route snapshot f \<in> set (ts_routes snapshot)" "rt_id (flow_route snapshot f) = bf_route_id f"
proof -
  from assms have "map_of (route_by_id snapshot) (bf_route_id f) \<noteq> None"
    by (auto simp: routes_known_def map_of_route_by_id map_of_pairs_None)
  then obtain r where r: "map_of (route_by_id snapshot) (bf_route_id f) = Some r" by blast
  then show "dict_index (route_by_id snapshot) (bf_route_id f) = Inr (flow_route snapshot f)"
    by (simp add: dict_index_def flow_route_def)
  from r map_of_pairs_Some [of rt_id "\<lambda>r. r"] show "flow_route snapshot f \<in> set (ts_routes snapshot)"
    "rt_id (flow_route snapshot f) = bf_route_id f"
    by (auto simp: flow_route_def map_of_route_by_id)
qed

lemma route_capacity_index:
  assumes "routes_known snapshot" "f \<in> set (ts_baseline_flows snapshot)"
  shows "dict_index (route_capacities snapshot effects) (bf_route_id f)
     = Inr (effective_route_capacity (flow_route snapshot f) effects)"
proof -
  have "map_of (route_by_id snapshot) (bf_route_id f) = Some (flow_route snapshot f)"
    using flow_route_index [OF assms] by (auto simp: dict_index_def split: option.splits)
  then show ?thesis
    by (simp add: dict_index_def route_capacities_def map_of_dict_of map_of_route_by_id
        map_of_map_pairs [where g = "\<lambda>r. effective_route_capacity r effects"])
qed

lemma group_values_closed:
  assumes "routes_known snapshot" "g \<in> set (flow_groups (ts_baseline_flows snapshot))"
  shows "group_flow_values (route_by_id snapshot) (route_capacities snapshot effects) effects g
     = Inr (map (\<lambda>f. (bf_id f, flow_value snapshot effects f)) (snd g))"
proof -
  obtain s gr v path where g: "g = ((s, gr, v), path)" by (metis prod.collapse)
  with assms(2) have path: "path = filter (\<lambda>f. group_key f = (s, gr, v)) (ts_baseline_flows snapshot)"
    by (simp add: in_flow_groups)
  then have sub: "f \<in> set (ts_baseline_flows snapshot)" "group_key f = (s, gr, v)" if "f \<in> set path" for f
    using that by auto
  have rts: "rtraverse (\<lambda>f. dict_index (route_by_id snapshot) (bf_route_id f)) path
      = Inr (map (flow_route snapshot) path)"
    by (rule rtraverse_Inr) (use flow_route_index assms(1) sub in auto)
  have fp: "flow_path snapshot f = map (flow_route snapshot) path" if "f \<in> set path" for f
    using sub(2) [OF that] path by (simp add: flow_path_def)
  have key: "bf_supplier_id f = s" "me_value (bf_volume f) = v" if "f \<in> set path" for f
    using sub(2) [OF that] by (auto simp: group_key_def)
  have "rtraverse (\<lambda>f. rmap (\<lambda>c. (bf_id f, py_min (py_max 0 (v * path_multiplier s (map (flow_route snapshot) path) effects)) c))
      (dict_index (route_capacities snapshot effects) (bf_route_id f))) path
    = Inr (map (\<lambda>f. (bf_id f, flow_value snapshot effects f)) path)"
    by (rule rtraverse_Inr)
      (use route_capacity_index assms(1) sub(1) in \<open>auto simp: flow_value_def fp key\<close>)
  with rts show ?thesis by (simp add: group_flow_values_def g Let_def)
qed

definition grouped_flows :: "twin_snapshot \<Rightarrow> baseline_flow list" where
  "grouped_flows snapshot = concat (map snd (flow_groups (ts_baseline_flows snapshot)))"

definition flow_dict :: "twin_snapshot \<Rightarrow> disruption_effect list \<Rightarrow> (uuid, pyfloat) dict" where
  "flow_dict snapshot effects =
     dict_of (map (\<lambda>f. (bf_id f, flow_value snapshot effects f)) (grouped_flows snapshot))"

lemma flow_values_closed:
  assumes "routes_known snapshot"
  shows "disrupted_flow_values snapshot (route_capacities snapshot effects) effects
    = Inr (flow_dict snapshot effects)"
proof -
  have "rtraverse (group_flow_values (route_by_id snapshot) (route_capacities snapshot effects) effects)
      (flow_groups (ts_baseline_flows snapshot))
    = Inr (map (\<lambda>g. map (\<lambda>f. (bf_id f, flow_value snapshot effects f)) (snd g)) (flow_groups (ts_baseline_flows snapshot)))"
    by (rule rtraverse_Inr) (rule group_values_closed [OF assms])
  then show ?thesis
    by (simp add: disrupted_flow_values_def flow_dict_def grouped_flows_def map_concat comp_def)
qed

lemma set_grouped_flows [simp]: "set (grouped_flows snapshot) = set (ts_baseline_flows snapshot)"
proof
  show "set (grouped_flows snapshot) \<subseteq> set (ts_baseline_flows snapshot)"
    by (auto simp: grouped_flows_def in_flow_groups)
  show "set (ts_baseline_flows snapshot) \<subseteq> set (grouped_flows snapshot)"
  proof
    fix f assume f: "f \<in> set (ts_baseline_flows snapshot)"
    let ?path = "filter (\<lambda>g. group_key g = group_key f) (ts_baseline_flows snapshot)"
    have "(group_key f, ?path) \<in> set (flow_groups (ts_baseline_flows snapshot))"
      using f by (simp add: in_flow_groups)
    moreover have "f \<in> set ?path" using f by simp
    ultimately show "f \<in> set (grouped_flows snapshot)"
      by (force simp: grouped_flows_def)
  qed
qed

definition flow_ids_distinct :: "twin_snapshot \<Rightarrow> bool" where
  "flow_ids_distinct snapshot \<longleftrightarrow> distinct (map bf_id (ts_baseline_flows snapshot))"

lemma map_of_flow_dict:
  assumes "flow_ids_distinct snapshot" "f \<in> set (ts_baseline_flows snapshot)"
  shows "map_of (flow_dict snapshot effects) (bf_id f) = Some (flow_value snapshot effects f)"
proof -
  let ?m = "map_of (rev (map (\<lambda>f. (bf_id f, flow_value snapshot effects f)) (grouped_flows snapshot))) (bf_id f)"
  have "?m \<noteq> None" using assms(2) unfolding map_of_pairs_None set_grouped_flows by auto
  then obtain v where v: "?m = Some v" by blast
  then obtain g where g: "g \<in> set (grouped_flows snapshot)" "bf_id g = bf_id f" "flow_value snapshot effects g = v"
    using map_of_pairs_Some [of bf_id "flow_value snapshot effects"] by blast
  with assms have "g = f" unfolding set_grouped_flows flow_ids_distinct_def distinct_map
    by (meson inj_onD)
  with v g show ?thesis by (simp add: flow_dict_def map_of_dict_of)
qed

lemma keys_flow_dict: "fst ` set (flow_dict snapshot effects) = bf_id ` set (ts_baseline_flows snapshot)"
proof -
  have "fst ` set (flow_dict snapshot effects) = dom (map_of (flow_dict snapshot effects))"
    by (simp add: dom_map_of_conv_image_fst)
  also have "\<dots> = bf_id ` set (ts_baseline_flows snapshot)"
    unfolding flow_dict_def map_of_dict_of dom_map_of_conv_image_fst by (simp add: image_image)
  finally show ?thesis .
qed

lemma set_flow_dict:
  assumes "flow_ids_distinct snapshot"
  shows "set (flow_dict snapshot effects)
    = (\<lambda>f. (bf_id f, flow_value snapshot effects f)) ` set (ts_baseline_flows snapshot)"
proof -
  have d: "distinct (map fst (flow_dict snapshot effects))" by (simp add: flow_dict_def)
  have "(i, v) \<in> set (flow_dict snapshot effects) \<longleftrightarrow>
      (\<exists>f \<in> set (ts_baseline_flows snapshot). i = bf_id f \<and> v = flow_value snapshot effects f)" for i v
  proof -
    have "(i, v) \<in> set (flow_dict snapshot effects) \<longleftrightarrow> map_of (flow_dict snapshot effects) i = Some v"
      using d by simp
    moreover have "i \<in> bf_id ` set (ts_baseline_flows snapshot)" if "map_of (flow_dict snapshot effects) i = Some v"
      using that keys_flow_dict [of snapshot effects] by (metis domI dom_map_of_conv_image_fst)
    ultimately show ?thesis using map_of_flow_dict [OF assms] by fastforce
  qed
  then show ?thesis by auto
qed

section \<open>Receipts\<close>

definition receipt :: "twin_snapshot \<Rightarrow> disruption_effect list \<Rightarrow> uuid \<Rightarrow> pyfloat" where
  "receipt snapshot effects r =
     py_sum (map (flow_value snapshot effects)
       (filter (\<lambda>f. rt_destination_id (flow_route snapshot f) = r) (ts_baseline_flows snapshot)))"

lemma receipts_closed:
  assumes "routes_known snapshot" "flow_ids_distinct snapshot"
  obtains receipts where "refinery_receipts snapshot baseline (flow_dict snapshot effects) = Inr receipts"
    "\<And>r. dict_has baseline r \<Longrightarrow> dict_get receipts r 0 = receipt snapshot effects r"
proof -
  let ?dest = "\<lambda>f. rt_destination_id (flow_route snapshot f)"
  let ?one = "\<lambda>f. if dict_has baseline (?dest f) then Some (?dest f, flow_value snapshot effects f) else None"
  have "rtraverse (receipt_of (route_by_id snapshot) baseline (flow_dict snapshot effects)) (ts_baseline_flows snapshot)
      = Inr (map ?one (ts_baseline_flows snapshot))"
  proof (rule rtraverse_Inr)
    fix f assume f: "f \<in> set (ts_baseline_flows snapshot)"
    then have "dict_index (flow_dict snapshot effects) (bf_id f) = Inr (flow_value snapshot effects f)"
      using map_of_flow_dict [OF assms(2)] by (simp add: dict_index_def)
    then show "receipt_of (route_by_id snapshot) baseline (flow_dict snapshot effects) f = Inr (?one f)"
      using flow_route_index(1) [OF assms(1) f] by (simp add: receipt_of_def)
  qed
  then have 1: "refinery_receipts snapshot baseline (flow_dict snapshot effects)
      = Inr (dd_total fst snd (List.map_filter id (map ?one (ts_baseline_flows snapshot))))"
    by (simp add: refinery_receipts_def)
  have "map snd (filter (\<lambda>p. fst p = r) (List.map_filter id (map ?one fs)))
      = map (flow_value snapshot effects) (filter (\<lambda>f. ?dest f = r) fs)" if "dict_has baseline r" for r fs
    using that by (induction fs) (auto simp: List.map_filter_simps)
  then have "dict_get (dd_total fst snd (List.map_filter id (map ?one (ts_baseline_flows snapshot)))) r 0
      = receipt snapshot effects r" if "dict_has baseline r" for r
    using that by (simp add: dict_get_dd_total receipt_def)
  with 1 that show ?thesis by blast
qed

section \<open>Refineries\<close>

definition refineries_known :: "twin_snapshot \<Rightarrow> (uuid, pyfloat) dict \<Rightarrow> bool" where
  "refineries_known snapshot baseline \<longleftrightarrow>
     (\<forall>r \<in> set (map fst baseline). r \<in> set (map tn_id (ts_nodes snapshot)))"

definition capacity_of ::
  "twin_snapshot \<Rightarrow> disruption_effect list \<Rightarrow> uuid \<Rightarrow> pyfloat \<Rightarrow> pyfloat" where
  "capacity_of snapshot effects r demand =
     py_max 0 (foldl (\<lambda>c e. if refinery_applies r e then c * remaining e else c)
       (node_capacity (the (node_of snapshot r)) demand) effects)"

definition available_of ::
  "twin_snapshot \<Rightarrow> disruption_effect list \<Rightarrow> (uuid, pyfloat) dict \<Rightarrow> uuid \<Rightarrow> pyfloat" where
  "available_of snapshot effects opening r = receipt snapshot effects r + dict_get opening r 0"

definition processed_of ::
  "twin_snapshot \<Rightarrow> disruption_effect list \<Rightarrow> (uuid, pyfloat) dict \<Rightarrow> uuid \<times> pyfloat \<Rightarrow> pyfloat" where
  "processed_of snapshot effects opening rd =
     min3 (snd rd) (capacity_of snapshot effects (fst rd) (snd rd))
       (available_of snapshot effects opening (fst rd))"

lemma node_of_known:
  "refineries_known snapshot baseline \<Longrightarrow> rd \<in> set baseline \<Longrightarrow> \<exists>n. node_of snapshot (fst rd) = Some n"
proof -
  assume h: "refineries_known snapshot baseline" "rd \<in> set baseline"
  then obtain n where "n \<in> set (ts_nodes snapshot)" "tn_id n = fst rd"
    by (auto simp: refineries_known_def)
  then have "find (\<lambda>n. tn_id n = fst rd) (ts_nodes snapshot) \<noteq> None"
    by (auto simp: find_None_iff)
  then show ?thesis by (auto simp: node_of_def)
qed

theorem step_closed:
  assumes "routes_known snapshot" "flow_ids_distinct snapshot" "refineries_known snapshot baseline"
  obtains st where "simulate_step snapshot effects baseline opening = Inr st"
    "\<And>f. f \<in> set (ts_baseline_flows snapshot) \<Longrightarrow>
       map_of (st_flow_values st) (bf_id f) = Some (flow_value snapshot effects f)"
    "set (st_flow_values st)
       = (\<lambda>f. (bf_id f, flow_value snapshot effects f)) ` set (ts_baseline_flows snapshot)"
    "st_route_capacities st = route_capacities snapshot effects"
    "st_refinery_throughput st
       = map (\<lambda>rd. (fst rd, py_max 0 (processed_of snapshot effects opening rd))) baseline"
    "st_refinery_shortfall st
       = map (\<lambda>rd. (fst rd, py_max 0 (snd rd - processed_of snapshot effects opening rd))) baseline"
    "st_inventories st
       = map (\<lambda>rd. (fst rd, py_max 0 (available_of snapshot effects opening (fst rd)
                                       - processed_of snapshot effects opening rd)))
           (filter (\<lambda>rd. dict_has opening (fst rd)) baseline)"
    "st_total_shortfall st = py_sum (map snd (st_refinery_shortfall st))"
    "st_total_throughput st = py_sum (map snd (st_refinery_throughput st))"
proof -
  let ?fv = "flow_dict snapshot effects"
  obtain receipts where r: "refinery_receipts snapshot baseline ?fv = Inr receipts"
    and rg: "\<And>r. dict_has baseline r \<Longrightarrow> dict_get receipts r 0 = receipt snapshot effects r"
    using receipts_closed [OF assms(1,2)] by metis
  define day where "day = (\<lambda>rd. \<lparr>rd_id = fst rd, rd_demand = snd rd,
      rd_available = available_of snapshot effects opening (fst rd),
      rd_processed = processed_of snapshot effects opening rd\<rparr>)"
  have days: "rtraverse (refinery_day snapshot effects receipts opening) baseline = Inr (map day baseline)"
  proof (rule rtraverse_Inr)
    fix rd assume rd: "rd \<in> set baseline"
    then obtain n where "node_of snapshot (fst rd) = Some n" using node_of_known assms(3) by blast
    moreover have "dict_has baseline (fst rd)" using rd by (simp add: dict_has_def)
    ultimately show "refinery_day snapshot effects receipts opening rd = Inr (day rd)"
      by (cases rd) (simp add: Let_def refinery_day_def refinery_capacity_def rg day_def processed_of_def
          available_of_def capacity_of_def)
  qed
  let ?st = "step_of_days ?fv (route_capacities snapshot effects) receipts opening (map day baseline)"
  have st: "simulate_step snapshot effects baseline opening = Inr ?st"
    using flow_values_closed [OF assms(1)] r days by (simp add: simulate_step_def)
  have fv: "st_flow_values ?st = ?fv" by (simp add: step_of_days_def Let_def)
  have shortfall: "st_refinery_shortfall ?st
       = map (\<lambda>rd. (fst rd, py_max 0 (snd rd - processed_of snapshot effects opening rd))) baseline"
    and throughput: "st_refinery_throughput ?st
       = map (\<lambda>rd. (fst rd, py_max 0 (processed_of snapshot effects opening rd))) baseline"
    and inventories: "st_inventories ?st
       = map (\<lambda>rd. (fst rd, py_max 0 (available_of snapshot effects opening (fst rd)
                                       - processed_of snapshot effects opening rd)))
           (filter (\<lambda>rd. dict_has opening (fst rd)) baseline)"
    by (simp_all add: step_of_days_def Let_def day_def comp_def filter_map)
  show ?thesis
    by (rule that [OF st _ _ _ throughput shortfall inventories])
      (simp_all only: fv map_of_flow_dict [OF assms(2)] set_flow_dict [OF assms(2)],
       simp_all add: step_of_days_def Let_def)
qed

end
