(* ===== verification/Simulation_Order.thy ===== *)
theory Simulation_Order imports Simulation_Step begin

text \<open>
  Bounds and monotonicity of a simulated step. \<open>quantity\<close> is a finite nonnegative float,
  \<open>factor\<close> one between 0 and 1. The loops over the effects are instances of the
  \<open>mono_loop\<close> interface, with severity as the order on effects; from them every derived
  quantity of a step (flow, receipt, capacity, processed volume, shortfall) is bounded and
  monotone in the severity of the effects.
\<close>

section \<open>Quantities and factors\<close>

definition quantity :: "pyfloat \<Rightarrow> bool" where
  "quantity x \<longleftrightarrow> isfinite x \<and> 0 \<le> x \<and> is_float x"

definition factor :: "pyfloat \<Rightarrow> bool" where
  "factor x \<longleftrightarrow> 0 \<le> x \<and> x \<le> Fin 1"

lemma quantityE:
  assumes "quantity x"
  obtains q where "x = Fin q" "0 \<le> q" "rnd64 q = q" "q \<le> max_float"
  using assms by (cases x) (auto simp: quantity_def is_float_def)

lemma factorE:
  assumes "factor x"
  obtains q where "x = Fin q" "0 \<le> q" "q \<le> 1"
  using assms by (cases x) (auto simp: factor_def)

lemma quantity_not_NaN: "quantity x \<Longrightarrow> x \<noteq> NaN" by (auto simp: quantity_def)

lemma quantity_nonneg: "quantity x \<Longrightarrow> 0 \<le> x" by (simp add: quantity_def)

lemma quantity_refl: "quantity x \<Longrightarrow> x \<le> x"
  by (simp add: quantity_not_NaN le_refl_pyfloat)

lemma quantity_scale:
  assumes "quantity x" "factor k"
  shows "quantity (x * k)" "x * k \<le> x"
proof -
  obtain q where q: "x = Fin q" "0 \<le> q" "rnd64 q = q" "q \<le> max_float" using assms(1) by (rule quantityE)
  obtain r where r: "k = Fin r" "0 \<le> r" "r \<le> 1" using assms(2) by (rule factorE)
  have le: "q * r \<le> q" "0 \<le> q * r" using q(2) r by (simp_all add: mult_left_le)
  then have fin: "of_exact (q * r) = Fin (rnd64 (q * r))" using q(4) by (intro of_exact_finite) simp
  have "rnd64 (q * r) \<le> q" using q r by (intro rnd.scale_le)
  with fin q r show "x * k \<le> x" by simp
  have "0 \<le> rnd64 (q * r)" using le(2) by (rule rnd.nonneg)
  with fin q r show "quantity (x * k)"
    using is_float_of_exact [of "q * r"] by (simp add: quantity_def)
qed

lemma scale_mono:
  assumes "quantity x" "quantity y" "x \<le> y" "factor j" "factor k" "j \<le> k"
  shows "x * j \<le> y * k"
  using assms by (auto elim!: quantityE factorE intro: mult_mono_Fin)

lemma quantity_py_min: "quantity x \<Longrightarrow> quantity y \<Longrightarrow> quantity (py_min x y)"
  by (simp add: py_min_def)

lemma py_max_0_quantity: "quantity x \<Longrightarrow> py_max 0 x = x"
  by (simp add: py_max_0_id quantity_nonneg)

lemma quantity_0 [simp]: "quantity 0" "quantity (Fin 0)"
  by (simp_all add: quantity_def)

section \<open>Severity of effects\<close>

definition effect_ok :: "disruption_effect \<Rightarrow> bool" where
  "effect_ok e \<longleftrightarrow> 0 \<le> reduction e \<and> reduction e \<le> Fin 100"

definition severer :: "disruption_effect \<Rightarrow> disruption_effect \<Rightarrow> bool" where
  "severer e e' \<longleftrightarrow> effect_ok e \<and> effect_ok e' \<and> reduction e \<le> reduction e' \<and>
     de_target e = de_target e' \<and> de_disruption_type e = de_disruption_type e'"

lemma effect_okE:
  assumes "effect_ok e" obtains q where "reduction e = Fin q" "0 \<le> q" "q \<le> 100"
  using assms by (cases "reduction e") (auto simp: effect_ok_def)

lemma percent_bounds:
  assumes "0 \<le> q" "q \<le> 100"
  shows "of_exact (q / 100) = Fin (rnd64 (q / 100))" "0 \<le> rnd64 (q / 100)" "rnd64 (q / 100) \<le> 1"
proof -
  have "\<bar>q / 100\<bar> \<le> 1" using assms by simp
  also have "(1::rat) \<le> 2 ^ 1000" by simp
  finally show "of_exact (q / 100) = Fin (rnd64 (q / 100))" by (rule of_exact_small)
  show "0 \<le> rnd64 (q / 100)" using assms by (intro rnd.nonneg) simp
  show "rnd64 (q / 100) \<le> 1" using assms by (intro rnd.le_fixed) simp_all
qed

lemma remaining_closed:
  assumes "effect_ok e" "reduction e = Fin q"
  shows "remaining e = Fin (rnd64 (1 - rnd64 (q / 100)))" "0 \<le> rnd64 (1 - rnd64 (q / 100))"
    "rnd64 (1 - rnd64 (q / 100)) \<le> 1"
proof -
  have q: "0 \<le> q" "q \<le> 100" using assms by (auto simp: effect_ok_def)
  note p = percent_bounds [OF q]
  have "\<bar>1 - rnd64 (q / 100)\<bar> \<le> 1" using p by simp
  also have "(1::rat) \<le> 2 ^ 1000" by simp
  finally have "of_exact (1 - rnd64 (q / 100)) = Fin (rnd64 (1 - rnd64 (q / 100)))" by (rule of_exact_small)
  with p assms show "remaining e = Fin (rnd64 (1 - rnd64 (q / 100)))" by (simp add: remaining_def)
  show "0 \<le> rnd64 (1 - rnd64 (q / 100))" using p by (intro rnd.nonneg) simp
  show "rnd64 (1 - rnd64 (q / 100)) \<le> 1" using p by (intro rnd.le_fixed) simp_all
qed

lemma remaining_factor: "effect_ok e \<Longrightarrow> factor (remaining e)"
  using remaining_closed by (elim effect_okE) (simp add: factor_def effect_ok_def)

lemma remaining_antimono:
  assumes "severer e e'" shows "remaining e' \<le> remaining e"
proof -
  from assms have ok: "effect_ok e" "effect_ok e'" by (simp_all add: severer_def)
  from ok(1) obtain q where q: "reduction e = Fin q" by (rule effect_okE)
  from ok(2) obtain r where r: "reduction e' = Fin r" by (rule effect_okE)
  have "rnd64 (q / 100) \<le> rnd64 (r / 100)"
    using assms q r by (intro rnd64_mono) (auto simp: severer_def divide_right_mono)
  then have "rnd64 (1 - rnd64 (r / 100)) \<le> rnd64 (1 - rnd64 (q / 100))" by (intro rnd64_mono) simp
  then show ?thesis by (simp add: remaining_closed(1) [OF ok(1) q] remaining_closed(1) [OF ok(2) r])
qed

lemma remaining_full: "reduction e = Fin 100 \<Longrightarrow> remaining e = Fin 0"
  by (simp add: remaining_def)

lemma severer_applies:
  assumes "severer e e'"
  shows "path_applies s rs e' = path_applies s rs e" "route_applies r e' = route_applies r e"
    "refinery_applies i e' = refinery_applies i e"
proof -
  from assms have eq: "de_target e' = de_target e" "de_disruption_type e' = de_disruption_type e"
    by (simp_all add: severer_def)
  show "path_applies s rs e' = path_applies s rs e" "route_applies r e' = route_applies r e"
    "refinery_applies i e' = refinery_applies i e"
    unfolding path_applies_def route_applies_def refinery_applies_def eq by (rule refl)+
qed

section \<open>The loops over the effects\<close>

definition factor_ge :: "pyfloat \<Rightarrow> pyfloat \<Rightarrow> bool" where
  "factor_ge a b \<longleftrightarrow> factor a \<and> factor b \<and> b \<le> a"

definition quantity_ge :: "pyfloat \<Rightarrow> pyfloat \<Rightarrow> bool" where
  "quantity_ge a b \<longleftrightarrow> quantity a \<and> quantity b \<and> b \<le> a"

lemma factor_ge_min:
  "factor_ge a b \<Longrightarrow> factor_ge c d \<Longrightarrow> factor_ge (py_min a c) (py_min b d)"
  by (auto simp: factor_ge_def intro: py_min_mono) (simp_all add: py_min_def factor_def)

lemma severer_factor_ge: "severer e e' \<Longrightarrow> factor_ge (remaining e) (remaining e')"
  by (simp add: factor_ge_def remaining_antimono remaining_factor severer_def)

lemma quantity_ge_scale:
  "quantity_ge a b \<Longrightarrow> factor_ge c d \<Longrightarrow> quantity_ge (a * c) (b * d)"
  by (simp add: quantity_ge_def factor_ge_def quantity_scale scale_mono)

interpretation path_loop: mono_loop factor_ge severer
    "\<lambda>m e. if path_applies s rs e then py_min m (remaining e) else m" for s rs
  by unfold_locales (auto simp: severer_applies intro: factor_ge_min severer_factor_ge)

interpretation route_loop: mono_loop factor_ge severer
    "\<lambda>m e. if route_applies r e then py_min m (remaining e) else m" for r
  by unfold_locales (auto simp: severer_applies intro: factor_ge_min severer_factor_ge)

interpretation refinery_loop: mono_loop quantity_ge severer
    "\<lambda>c e. if refinery_applies i e then c * remaining e else c" for i
  by unfold_locales (auto simp: severer_applies intro: quantity_ge_scale severer_factor_ge)

lemma factor_ge_1 [simp]: "factor_ge (Fin 1) (Fin 1)"
  by (simp add: factor_ge_def factor_def)

lemma severer_refl: "effect_ok e \<Longrightarrow> severer e e"
  by (auto simp: severer_def effect_ok_def intro: le_refl_pyfloat dest: le_not_NaN)

lemma severer_all_refl: "list_all effect_ok es \<Longrightarrow> list_all2 severer es es"
  by (simp add: list_all2_same list_all_iff severer_refl)

lemma path_multiplier_ge:
  assumes "list_all2 severer es es'"
  shows "factor_ge (path_multiplier s rs es) (path_multiplier s rs es')"
proof -
  have "factor_ge (least_remaining (path_applies s rs) es) (least_remaining (path_applies s rs) es')"
    unfolding least_remaining_def by (rule path_loop.run_mono [OF factor_ge_1 assms])
  then show ?thesis by (auto simp: path_multiplier_def factor_ge_def factor_def py_max_0_id)
qed

lemma route_least_ge:
  assumes "list_all2 severer es es'"
  shows "factor_ge (least_remaining (route_applies r) es) (least_remaining (route_applies r) es')"
  unfolding least_remaining_def by (rule route_loop.run_mono [OF factor_ge_1 assms])

lemma route_capacity_ge:
  assumes "list_all2 severer es es'" "quantity (me_value (rt_capacity r))"
  shows "quantity_ge (effective_route_capacity r es) (effective_route_capacity r es')"
proof -
  have "quantity_ge (me_value (rt_capacity r)) (me_value (rt_capacity r))"
    using assms(2) by (simp add: quantity_ge_def quantity_refl)
  from quantity_ge_scale [OF this route_least_ge [OF assms(1)]] show ?thesis
    by (auto simp: effective_route_capacity_def quantity_ge_def py_max_0_quantity)
qed

text \<open>An effect that applies bounds the smallest remaining factor.\<close>

lemma foldl_min_le:
  assumes "factor m" "list_all effect_ok es"
  shows "factor (foldl (\<lambda>m e. if applies e then py_min m (remaining e) else m) m es)
    \<and> foldl (\<lambda>m e. if applies e then py_min m (remaining e) else m) m es \<le> m
    \<and> (\<forall>e \<in> set es. applies e \<longrightarrow> foldl (\<lambda>m e. if applies e then py_min m (remaining e) else m) m es \<le> remaining e)"
  using assms
proof (induction es arbitrary: m)
  case Nil
  then show ?case by (auto elim!: factorE)
next
  case (Cons e es)
  let ?m = "if applies e then py_min m (remaining e) else m"
  have r: "factor (remaining e)" using Cons.prems by (simp add: remaining_factor)
  have m: "factor ?m" "?m \<le> m" "applies e \<Longrightarrow> ?m \<le> remaining e"
    using Cons.prems r by (auto simp: py_min_def elim!: factorE)
  with Cons.IH [OF m(1)] Cons.prems show ?case by (auto intro: le_trans_pyfloat)
qed

lemma least_remaining_le:
  assumes "list_all effect_ok es"
  shows "factor (least_remaining applies es)"
    "e \<in> set es \<Longrightarrow> applies e \<Longrightarrow> least_remaining applies es \<le> remaining e"
  using foldl_min_le [of "Fin 1" es applies] assms by (auto simp: least_remaining_def factor_def)

section \<open>Flows\<close>

definition snapshot_quantities :: "twin_snapshot \<Rightarrow> bool" where
  "snapshot_quantities snapshot \<longleftrightarrow>
     (\<forall>f \<in> set (ts_baseline_flows snapshot). quantity (me_value (bf_volume f))) \<and>
     (\<forall>r \<in> set (ts_routes snapshot). quantity (me_value (rt_capacity r))) \<and>
     (\<forall>n \<in> set (ts_nodes snapshot). opt_ok (\<lambda>c. quantity (me_value c)) (tn_capacity n))"

definition demands_ok :: "(uuid, pyfloat) dict \<Rightarrow> bool" where
  "demands_ok baseline \<longleftrightarrow> (\<forall>rd \<in> set baseline. quantity (snd rd))"

lemma flow_value_ge:
  assumes "routes_known snapshot" "snapshot_quantities snapshot" "f \<in> set (ts_baseline_flows snapshot)"
    "list_all2 severer es es'"
  shows "quantity_ge (flow_value snapshot es f) (flow_value snapshot es' f)"
proof -
  have v: "quantity (me_value (bf_volume f))" using assms by (simp add: snapshot_quantities_def)
  then have "quantity_ge (me_value (bf_volume f)) (me_value (bf_volume f))"
    by (simp add: quantity_ge_def quantity_refl)
  from quantity_ge_scale [OF this path_multiplier_ge [OF assms(4)]]
  have 1: "quantity_ge (me_value (bf_volume f) * path_multiplier (bf_supplier_id f) (flow_path snapshot f) es)
     (me_value (bf_volume f) * path_multiplier (bf_supplier_id f) (flow_path snapshot f) es')" .
  have "quantity (me_value (rt_capacity (flow_route snapshot f)))"
    using flow_route_index(2) [OF assms(1,3)] assms(2) by (simp add: snapshot_quantities_def)
  from route_capacity_ge [OF assms(4) this] 1 show ?thesis
    by (auto simp: flow_value_def quantity_ge_def py_max_0_quantity intro: quantity_py_min py_min_mono)
qed

lemma flow_value_bounds:
  assumes "routes_known snapshot" "snapshot_quantities snapshot" "f \<in> set (ts_baseline_flows snapshot)"
    "list_all effect_ok es"
  shows "quantity (flow_value snapshot es f)" "flow_value snapshot es f \<le> me_value (bf_volume f)"
    "flow_value snapshot es f \<le> effective_route_capacity (flow_route snapshot f) es"
    "effective_route_capacity (flow_route snapshot f) es \<le> me_value (rt_capacity (flow_route snapshot f))"
proof -
  let ?r = "flow_route snapshot f"
  have refl: "list_all2 severer es es" using assms(4) by (rule severer_all_refl)
  show "quantity (flow_value snapshot es f)"
    using flow_value_ge [OF assms(1-3) refl] by (simp add: quantity_ge_def)
  have v: "quantity (me_value (bf_volume f))" using assms by (simp add: snapshot_quantities_def)
  have c: "quantity (me_value (rt_capacity ?r))"
    using flow_route_index(2) [OF assms(1,3)] assms(2) by (simp add: snapshot_quantities_def)
  have k: "factor (path_multiplier (bf_supplier_id f) (flow_path snapshot f) es)"
    "factor (least_remaining (route_applies ?r) es)"
    using path_multiplier_ge [OF refl] route_least_ge [OF refl] by (auto simp: factor_ge_def)
  note s = quantity_scale [OF v k(1)]  note s2 = quantity_scale [OF c k(2)]
  have e: "quantity (effective_route_capacity ?r es)"
    using route_capacity_ge [OF refl c] by (simp add: quantity_ge_def)
  show "flow_value snapshot es f \<le> me_value (bf_volume f)"
    unfolding flow_value_def py_max_0_quantity [OF s(1)]
    using py_min_le1 [OF quantity_not_NaN [OF s(1)]] s(2) by (blast intro: le_trans_pyfloat)
  show "flow_value snapshot es f \<le> effective_route_capacity ?r es"
    unfolding flow_value_def py_max_0_quantity [OF s(1)]
    using s(1) e by (intro py_min_le2) (auto dest: quantity_not_NaN)
  show "effective_route_capacity ?r es \<le> me_value (rt_capacity ?r)"
    unfolding effective_route_capacity_def py_max_0_quantity [OF s2(1)] by (rule s2(2))
qed

section \<open>Refineries\<close>

lemma receipt_ge:
  assumes "routes_known snapshot" "snapshot_quantities snapshot" "list_all2 severer es es'"
  shows "0 \<le> receipt snapshot es' r" "receipt snapshot es' r \<le> receipt snapshot es r"
proof -
  have ge: "quantity_ge (flow_value snapshot es f) (flow_value snapshot es' f)"
    if "f \<in> set (ts_baseline_flows snapshot)" for f
    using flow_value_ge [OF assms(1,2) that assms(3)] .
  then show "receipt snapshot es' r \<le> receipt snapshot es r"
    unfolding receipt_def by (intro py_sum_map_mono) (auto simp: quantity_ge_def quantity_nonneg)
  show "0 \<le> receipt snapshot es' r"
    unfolding receipt_def using ge by (intro py_sum_nonneg) (auto simp: quantity_ge_def quantity_nonneg)
qed

lemma node_capacity_quantity:
  assumes "snapshot_quantities snapshot" "refineries_known snapshot baseline" "rd \<in> set baseline"
    "quantity (snd rd)"
  shows "quantity (node_capacity (the (node_of snapshot (fst rd))) (snd rd))"
proof -
  obtain n where n: "node_of snapshot (fst rd) = Some n" using node_of_known assms(2,3) by blast
  then have "n \<in> set (ts_nodes snapshot)" by (auto simp: node_of_def find_Some_iff)
  with assms(1,4) n show ?thesis
    by (auto simp: snapshot_quantities_def node_capacity_def split: option.splits)
qed

lemma capacity_of_ge:
  assumes "snapshot_quantities snapshot" "refineries_known snapshot baseline" "rd \<in> set baseline"
    "quantity (snd rd)" "list_all2 severer es es'"
  shows "quantity_ge (capacity_of snapshot es (fst rd) (snd rd)) (capacity_of snapshot es' (fst rd) (snd rd))"
proof -
  let ?c = "node_capacity (the (node_of snapshot (fst rd))) (snd rd)"
  have "quantity ?c" using node_capacity_quantity [OF assms(1-4)] .
  then have "quantity_ge ?c ?c" by (simp add: quantity_ge_def quantity_refl)
  from refinery_loop.run_mono [OF this assms(5), of "fst rd"] show ?thesis
    by (auto simp: capacity_of_def quantity_ge_def py_max_0_quantity)
qed

definition stock_ok :: "(uuid, pyfloat) dict \<Rightarrow> bool" where
  "stock_ok opening \<longleftrightarrow> (\<forall>v \<in> set (map snd opening). 0 \<le> v)"

lemma stock_get: "stock_ok opening \<Longrightarrow> 0 \<le> dict_get opening r 0"
  using dict_get_cases [of "opening" r "0::pyfloat"] by (auto simp: stock_ok_def)

lemma stock_Nil [simp]: "stock_ok []" by (simp add: stock_ok_def)

lemma available_ge:
  assumes "routes_known snapshot" "snapshot_quantities snapshot" "list_all2 severer es es'"
    "stock_ok opening"
  shows "0 \<le> available_of snapshot es' opening r"
    "available_of snapshot es' opening r \<le> available_of snapshot es opening r"
proof -
  note r = receipt_ge [OF assms(1-3), of r]
  have o: "0 \<le> dict_get opening r 0" using assms(4) by (rule stock_get)
  then have "dict_get opening r 0 \<le> dict_get opening r 0" by (intro le_refl_pyfloat) (auto dest: le_not_NaN)
  with r o show "available_of snapshot es' opening r \<le> available_of snapshot es opening r"
    unfolding available_of_def by (intro add_mono_pyfloat)
  show "0 \<le> available_of snapshot es' opening r"
    unfolding available_of_def using r o by (intro add_nonneg_pyfloat)
qed

lemma min3_le:
  assumes "quantity a" "quantity b" "0 \<le> c"
  shows "0 \<le> min3 a b c" "min3 a b c \<le> a" "min3 a b c \<le> b" "min3 a b c \<le> c"
proof -
  have m: "quantity (py_min a b)" using assms by (simp add: quantity_py_min)
  have ab: "py_min a b \<le> a" "py_min a b \<le> b"
    using assms by (auto intro: py_min_le1 py_min_le2 dest: quantity_not_NaN)
  have c: "c \<noteq> NaN" using assms(3) le_not_NaN by blast
  have le: "min3 a b c \<le> py_min a b" "min3 a b c \<le> c"
    unfolding min3_def using quantity_not_NaN [OF m] c by (auto intro: py_min_le1 py_min_le2)
  then show "min3 a b c \<le> a" "min3 a b c \<le> b" "min3 a b c \<le> c" using ab by (blast intro: le_trans_pyfloat)+
  show "0 \<le> min3 a b c"
    unfolding min3_def using m assms(3) by (simp add: py_min_nonneg quantity_nonneg)
qed

lemma processed_bounds:
  assumes "routes_known snapshot" "snapshot_quantities snapshot" "refineries_known snapshot baseline"
    "demands_ok baseline" "rd \<in> set baseline" "list_all effect_ok es" "stock_ok opening"
  shows "0 \<le> processed_of snapshot es opening rd" "processed_of snapshot es opening rd \<le> snd rd"
    "processed_of snapshot es opening rd \<le> capacity_of snapshot es (fst rd) (snd rd)"
    "processed_of snapshot es opening rd \<le> available_of snapshot es opening (fst rd)"
proof -
  have refl: "list_all2 severer es es" using assms(6) by (rule severer_all_refl)
  have d: "quantity (snd rd)" using assms by (simp add: demands_ok_def)
  have c: "quantity (capacity_of snapshot es (fst rd) (snd rd))"
    using capacity_of_ge [OF assms(2,3,5) d refl] by (simp add: quantity_ge_def)
  note m = min3_le [OF d c available_ge(1) [OF assms(1,2) refl assms(7), of "fst rd"]]
  show "0 \<le> processed_of snapshot es opening rd" "processed_of snapshot es opening rd \<le> snd rd"
    "processed_of snapshot es opening rd \<le> capacity_of snapshot es (fst rd) (snd rd)"
    "processed_of snapshot es opening rd \<le> available_of snapshot es opening (fst rd)"
    using m by (simp_all add: processed_of_def)
qed

lemma processed_ge:
  assumes "routes_known snapshot" "snapshot_quantities snapshot" "refineries_known snapshot baseline"
    "demands_ok baseline" "rd \<in> set baseline" "list_all2 severer es es'" "stock_ok opening"
  shows "processed_of snapshot es' opening rd \<le> processed_of snapshot es opening rd"
proof -
  have d: "quantity (snd rd)" using assms by (simp add: demands_ok_def)
  have c: "capacity_of snapshot es' (fst rd) (snd rd) \<le> capacity_of snapshot es (fst rd) (snd rd)"
    using capacity_of_ge [OF assms(2,3,5) d assms(6)] by (simp add: quantity_ge_def)
  note a = available_ge(2) [OF assms(1,2,6,7), of "fst rd"]
  show ?thesis
    unfolding processed_of_def min3_def by (intro py_min_mono quantity_refl d c a)
qed

text \<open>Severity, for a list of effects of admissible strength.\<close>

lemma severer_all_ok:
  assumes "list_all2 severer es es'" shows "list_all effect_ok es" "list_all effect_ok es'"
  using assms by (auto simp: list_all2_conv_all_nth list_all_length severer_def)

section \<open>Shortfall\<close>

definition shortfall_of ::
  "twin_snapshot \<Rightarrow> disruption_effect list \<Rightarrow> (uuid, pyfloat) dict \<Rightarrow> uuid \<times> pyfloat \<Rightarrow> pyfloat" where
  "shortfall_of snapshot es opening rd = py_max 0 (snd rd - processed_of snapshot es opening rd)"

lemma shortfall_le:
  assumes "routes_known snapshot" "snapshot_quantities snapshot" "refineries_known snapshot baseline"
    "demands_ok baseline" "rd \<in> set baseline" "list_all2 severer es es'" "stock_ok opening"
  shows "shortfall_of snapshot es opening rd \<le> shortfall_of snapshot es' opening rd"
  unfolding shortfall_of_def
  by (intro py_max_0_mono minus_mono_pyfloat processed_ge [OF assms])
    (use assms(4,5) in \<open>auto simp: demands_ok_def quantity_def\<close>)

definition total_shortfall_of ::
  "twin_snapshot \<Rightarrow> disruption_effect list \<Rightarrow> (uuid, pyfloat) dict \<Rightarrow> (uuid, pyfloat) dict \<Rightarrow> pyfloat" where
  "total_shortfall_of snapshot es baseline opening = py_sum (map (shortfall_of snapshot es opening) baseline)"

lemma total_shortfall_nonneg [simp]: "0 \<le> total_shortfall_of snapshot es baseline opening"
  unfolding total_shortfall_of_def by (auto intro!: py_sum_nonneg simp: shortfall_of_def)

lemma total_shortfall_le:
  assumes "routes_known snapshot" "snapshot_quantities snapshot" "refineries_known snapshot baseline"
    "demands_ok baseline" "list_all2 severer es es'" "stock_ok opening"
  shows "total_shortfall_of snapshot es baseline opening \<le> total_shortfall_of snapshot es' baseline opening"
  unfolding total_shortfall_of_def
  using shortfall_le [OF assms(1-4) _ assms(5,6)]
  by (auto intro!: py_sum_map_mono simp: shortfall_of_def)

section \<open>The days of a run\<close>

text \<open>A run meets its preconditions when the snapshot and the demands are well formed.\<close>

definition run_ready :: "twin_snapshot \<Rightarrow> (uuid, pyfloat) dict \<Rightarrow> bool" where
  "run_ready snapshot baseline \<longleftrightarrow>
     routes_known snapshot \<and> flow_ids_distinct snapshot \<and> refineries_known snapshot baseline \<and>
     snapshot_quantities snapshot \<and> demands_ok baseline"

lemma step_shortfalls:
  assumes "routes_known snapshot" "flow_ids_distinct snapshot" "refineries_known snapshot baseline"
  shows "\<exists>st. simulate_step snapshot es baseline opening = Inr st \<and>
    st_refinery_shortfall st = map (\<lambda>rd. (fst rd, shortfall_of snapshot es opening rd)) baseline \<and>
    st_total_shortfall st = total_shortfall_of snapshot es baseline opening"
proof -
  obtain st where "simulate_step snapshot es baseline opening = Inr st"
    "st_refinery_shortfall st = map (\<lambda>rd. (fst rd, py_max 0 (snd rd - processed_of snapshot es opening rd))) baseline"
    "st_total_shortfall st = py_sum (map snd (st_refinery_shortfall st))"
    by (rule step_closed [OF assms, of es "opening"], rule that)
  then show ?thesis by (simp add: total_shortfall_of_def comp_def flip: shortfall_of_def)
qed

lemma step_total_shortfall:
  assumes "run_ready snapshot baseline"
  obtains st where "simulate_step snapshot es baseline opening = Inr st"
    "st_total_shortfall st = total_shortfall_of snapshot es baseline opening"
  using step_shortfalls [of snapshot baseline es "opening"] assms by (auto simp: run_ready_def)

lemma step_no_stock:
  assumes "run_ready snapshot baseline"
  obtains st where "simulate_step snapshot es baseline [] = Inr st" "st_inventories st = []"
    "st_total_shortfall st = total_shortfall_of snapshot es baseline []"
proof -
  from assms have k: "routes_known snapshot" "flow_ids_distinct snapshot" "refineries_known snapshot baseline"
    by (simp_all add: run_ready_def)
  obtain st where st: "simulate_step snapshot es baseline [] = Inr st"
    "st_inventories st = map (\<lambda>rd. (fst rd, py_max 0 (available_of snapshot es [] (fst rd)
        - processed_of snapshot es [] rd))) (filter (\<lambda>rd. dict_has ([] :: (uuid, pyfloat) dict) (fst rd)) baseline)"
    by (rule step_closed [OF k, of es "[]"], rule that)
  moreover obtain st' where "simulate_step snapshot es baseline [] = Inr st'"
    "st_total_shortfall st' = total_shortfall_of snapshot es baseline []"
    by (rule step_total_shortfall [OF assms], rule that)
  ultimately show ?thesis using that by (simp add: dict_has_def)
qed

text \<open>
  Without inventories the days are independent: the run is the list of its daily steps and its
  cumulative shortfall is the sum of the daily totals.
\<close>

lemma days_no_stock:
  assumes "run_ready snapshot baseline" "\<And>j. effects_on j = Inr (es j)"
  obtains sts where "simulate_days snapshot baseline effects_on [] k n = Inr sts"
    "map st_total_shortfall sts = map (\<lambda>j. total_shortfall_of snapshot (es j) baseline []) [k..<k + n]"
proof -
  have "\<exists>sts. simulate_days snapshot baseline effects_on [] k n = Inr sts \<and>
    map st_total_shortfall sts = map (\<lambda>j. total_shortfall_of snapshot (es j) baseline []) [k..<k + n]"
  proof (induction n arbitrary: k)
    case (Suc n)
    obtain st where st: "simulate_step snapshot (es k) baseline [] = Inr st" "st_inventories st = []"
      "st_total_shortfall st = total_shortfall_of snapshot (es k) baseline []"
      using step_no_stock [OF assms(1)] by metis
    obtain sts where "simulate_days snapshot baseline effects_on [] (Suc k) n = Inr sts"
      "map st_total_shortfall sts = map (\<lambda>j. total_shortfall_of snapshot (es j) baseline []) [Suc k..<Suc k + n]"
      using Suc.IH [of "Suc k"] by blast
    moreover have "effects_on k = Inr (es k)" by (rule assms(2))
    ultimately show ?case using st by (simp add: upt_conv_Cons del: upt_Suc)
  qed simp
  with that show ?thesis by blast
qed

lemma cumulative_py_sum: "cumulative_shortfall sts = py_sum (map st_total_shortfall sts)"
  by (simp add: cumulative_shortfall_def py_sum_def foldl_map zero_Fin)

section \<open>Closure and the undisrupted day\<close>

lemma closed_route_capacity:
  assumes "list_all effect_ok effects" "e \<in> set effects" "reduction e = Fin 100" "route_applies r e"
    "quantity (me_value (rt_capacity r))"
  shows "effective_route_capacity r effects \<le> 0"
proof -
  have "least_remaining (route_applies r) effects \<le> Fin 0"
    using least_remaining_le(2) [where applies = "route_applies r", OF assms(1,2,4)] remaining_full [OF assms(3)] by simp
  with least_remaining_le(1) [OF assms(1), of "route_applies r"]
  have "least_remaining (route_applies r) effects = Fin 0" by (auto elim!: factorE)
  with assms(5) show ?thesis
    by (auto simp: effective_route_capacity_def py_max_def less_pyfloat_def zero_pyfloat_def elim!: quantityE)
qed

lemma least_remaining_Nil [simp]: "least_remaining applies [] = Fin 1"
  by (simp add: least_remaining_def)

lemma times_Fin_1: "quantity x \<Longrightarrow> x * Fin 1 = x"
  using times_1_pyfloat [of x] by (simp add: one_pyfloat_def quantity_def)

lemma undisrupted_flow:
  assumes "routes_known snapshot" "snapshot_quantities snapshot" "f \<in> set (ts_baseline_flows snapshot)"
    "me_value (bf_volume f) \<le> me_value (rt_capacity (flow_route snapshot f))"
  shows "flow_value snapshot [] f = me_value (bf_volume f)"
proof -
  have v: "quantity (me_value (bf_volume f))" using assms by (simp add: snapshot_quantities_def)
  have c: "quantity (me_value (rt_capacity (flow_route snapshot f)))"
    using flow_route_index(2) [OF assms(1,3)] assms(2) by (simp add: snapshot_quantities_def)
  have "path_multiplier (bf_supplier_id f) (flow_path snapshot f) [] = Fin 1"
    by (simp add: path_multiplier_def py_max_0_id)
  with v c assms(4) show ?thesis
    by (simp add: flow_value_def effective_route_capacity_def times_Fin_1 py_max_0_quantity py_min_def less_pyfloat_def)
qed

lemma py_sum_zeros: "py_sum (map (\<lambda>x. 0) xs) = 0"
proof -
  have "foldl (\<lambda>a b. a + b) (0::pyfloat) (map (\<lambda>x. 0) xs) = 0" by (induction xs) simp_all
  then show ?thesis by (simp add: py_sum_def)
qed

lemma min3_first: "a \<le> b \<Longrightarrow> a \<le> c \<Longrightarrow> min3 a b c = a"
  by (simp add: min3_def py_min_def less_pyfloat_def)

lemma undisrupted_shortfall:
  assumes "snapshot_quantities snapshot" "refineries_known snapshot baseline" "rd \<in> set baseline"
    "quantity (snd rd)" "snd rd \<le> node_capacity (the (node_of snapshot (fst rd))) (snd rd)"
    "snd rd \<le> receipt snapshot [] (fst rd)"
  shows "shortfall_of snapshot [] [] rd = 0"
proof -
  have "capacity_of snapshot [] (fst rd) (snd rd) = node_capacity (the (node_of snapshot (fst rd))) (snd rd)"
    using node_capacity_quantity [OF assms(1-4)] by (simp add: capacity_of_def py_max_0_quantity)
  moreover have "snd rd \<le> available_of snapshot [] [] (fst rd)"
  proof -
    have "snd rd + 0 \<le> receipt snapshot [] (fst rd) + 0"
      using assms(4,6) by (intro add_right_mono_pyfloat) simp_all
    with assms(4) show ?thesis by (simp add: available_of_def quantity_def)
  qed
  ultimately have "processed_of snapshot [] [] rd = snd rd"
    using assms(5) by (simp add: processed_of_def min3_first)
  with assms(4) show ?thesis by (simp add: shortfall_of_def quantity_def minus_self_pyfloat py_max_def)
qed

end
