(* ===== verification/Simulation_Run.thy ===== *)
theory Simulation_Run imports Simulation_Order begin

text \<open>
  Lemmas on whole runs: the dates a run needs and which effects are active on a day, the states of
  the daily loop, the sensitivity runs, and what a returned result has passed.
\<close>

section \<open>The active window\<close>

abbreviation duration_us :: "confirmed_scenario \<Rightarrow> int res" where
  "duration_us confirmed \<equiv> timedelta_days (dq_days (sp_disruption_duration (cs_parameters confirmed)))"

definition day_effects :: "confirmed_scenario \<Rightarrow> int \<Rightarrow> nat \<Rightarrow> disruption_effect list" where
  "day_effects confirmed d k = (if int k * day_us < d then sp_disruptions (cs_parameters confirmed) else [])"

text \<open>
  The dates a day needs, as readings of the start's own clock: when it starts and ends and when the disruption ends.
\<close>

abbreviation start_reading :: "confirmed_scenario \<Rightarrow> datetime" where
  "start_reading confirmed \<equiv> local_reading (sp_disruption_start (cs_parameters confirmed))"

definition day_in_calendar :: "confirmed_scenario \<Rightarrow> int \<Rightarrow> nat \<Rightarrow> bool" where
  "day_in_calendar confirmed d k \<longleftrightarrow>
     in_calendar (start_reading confirmed + int k * day_us) \<and> in_calendar (start_reading confirmed + d) \<and>
     in_calendar (start_reading confirmed + int (Suc k) * day_us)"

definition run_dates_ok :: "confirmed_scenario \<Rightarrow> int \<Rightarrow> nat \<Rightarrow> bool" where
  "run_dates_ok confirmed d n \<longleftrightarrow>
     in_calendar (start_reading confirmed) \<and> in_calendar (start_reading confirmed + d) \<and>
     in_calendar (start_reading confirmed + int n * day_us)"

lemma run_dates_day:
  assumes "run_dates_ok confirmed d n" "k < n" shows "day_in_calendar confirmed d k"
proof -
  have k: "0 \<le> int k * day_us" "int k * day_us + day_us \<le> int n * day_us"
    using assms(2) by (simp_all add: day_us_def)
  then show ?thesis
    using assms(1) by (auto simp: run_dates_ok_def day_in_calendar_def in_calendar_def distrib_right day_us_def)
qed

lemma run_dates_days: "0 < n \<Longrightarrow> (\<forall>k < n. day_in_calendar confirmed d k) \<longleftrightarrow> run_dates_ok confirmed d n"
  using run_dates_day by (auto simp: day_in_calendar_def run_dates_ok_def gr0_conv_Suc)

lemma step_start_eq:
  "step_start confirmed k = (let m = sp_disruption_start (cs_parameters confirmed) in
     if in_calendar (start_reading confirmed + int k * day_us)
     then Inr (m\<lparr>mo_instant := mo_instant m + int k * day_us\<rparr>) else Inl OverflowError)"
  by (simp add: step_start_def moment_add_eq Let_def)

lemma moment_update_reading [simp]: "local_reading (m\<lparr>mo_instant := t\<rparr>) = t + shift_us m"
  by (simp add: local_reading_def)

lemma day_active_effects_eq:
  assumes "duration_us confirmed = Inr d"
  shows "day_active_effects confirmed k =
    (if day_in_calendar confirmed d k then Inr (day_effects confirmed d k) else Inl OverflowError)"
proof (cases "in_calendar (start_reading confirmed + int k * day_us) \<and> in_calendar (start_reading confirmed + d)")
  case True
  let ?m = "sp_disruption_start (cs_parameters confirmed)"
  let ?at = "?m\<lparr>mo_instant := mo_instant ?m + int k * day_us\<rparr>"
  have at: "step_start confirmed k = Inr ?at" using True by (simp add: step_start_eq Let_def)
  have reading: "local_reading ?at + day_us = start_reading confirmed + int (Suc k) * day_us"
    unfolding moment_update_reading local_reading_def [of ?m] by (simp add: distrib_right)
  have "mo_instant ?m < mo_instant ?m + int k * day_us + day_us" by (simp add: day_us_def)
  then show ?thesis using assms True
    by (simp add: day_active_effects_def at active_effects_def day_in_calendar_def moment_add_eq reading
        day_effects_def moment_less_aware del: moment_update_reading of_nat_Suc)
next
  case False
  then show ?thesis using assms
    by (auto simp: day_active_effects_def active_effects_def step_start_eq day_in_calendar_def moment_add_eq Let_def)
qed

lemma active_effects_day:
  assumes "duration_us confirmed = Inr d" "run_dates_ok confirmed d n" "k < n"
  shows "day_active_effects confirmed k = Inr (day_effects confirmed d k)"
  by (simp add: day_active_effects_eq [OF assms(1)] run_dates_day [OF assms(2,3)])

section \<open>The daily loop\<close>

lemma simulate_days_nth:
  assumes "simulate_days snapshot baseline effects_on opening k n = Inr sts"
  shows "length sts = n" "i < n \<Longrightarrow> \<exists>es inv. effects_on (k + i) = Inr es
      \<and> simulate_step snapshot es baseline inv = Inr (sts ! i)"
  using assms
proof (induction n arbitrary: k "opening" sts i)
  case (Suc n)
  { case 1
    then show ?case by (auto simp: rbind_Inr_iff rmap_def dest: Suc.IH(1))
  next
    case 2
    then obtain es st sts' where s: "effects_on k = Inr es" "simulate_step snapshot es baseline opening = Inr st"
      "simulate_days snapshot baseline effects_on (st_inventories st) (Suc k) n = Inr sts'" "sts = st # sts'"
      by (auto simp: rbind_Inr_iff rmap_def)
    show ?case
    proof (cases i)
      case 0 with s show ?thesis by auto
    next
      case (Suc j)
      with 2 have "j < n" by simp
      from Suc.IH(2) [OF this s(3)] Suc s(4) show ?thesis by simp
    qed
  }
qed auto

text \<open>A run over \<open>n\<close> days reads the effects of these days only.\<close>

lemma simulate_days_cong:
  "(\<And>j. k \<le> j \<Longrightarrow> j < k + n \<Longrightarrow> f j = g j) \<Longrightarrow>
     simulate_days snapshot baseline f opening k n = simulate_days snapshot baseline g opening k n"
proof (induction n arbitrary: k "opening")
  case (Suc n)
  have "simulate_days snapshot baseline f st (Suc k) n = simulate_days snapshot baseline g st (Suc k) n" for st
    by (rule Suc.IH) (use Suc.prems in auto)
  moreover have "f k = g k" using Suc.prems by simp
  ultimately show ?case by simp
qed simp

lemma central_run_eq:
  assumes "duration_us confirmed = Inr d" "run_dates_ok confirmed d n"
  shows "central_run snapshot confirmed baseline assumptions n =
    simulate_days snapshot baseline (\<lambda>k. Inr (day_effects confirmed d k)) (opening_inventory assumptions) 0 n"
  unfolding central_run_def by (rule simulate_days_cong) (simp add: active_effects_day [OF assms])

text \<open>The loop that also builds the timeline computes the same states, with one point for each.\<close>

lemma run_days_Inr:
  assumes "run_days snapshot confirmed baseline now opening c k n = Inr days"
  shows "simulate_days snapshot baseline (day_active_effects confirmed) opening k n = Inr (map fst days) \<and>
    map (\<lambda>day. tp_step (snd day)) days = map int [k..<k + n]"
  using assms
proof (induction n arbitrary: k "opening" c days)
  case (Suc n)
  from Suc.prems obtain m es st p rest where s: "step_start confirmed k = Inr m" "active_effects confirmed m = Inr es"
    "simulate_step snapshot es baseline opening = Inr st"
    "timeline_point snapshot now k m st (c + st_total_shortfall st) = Inr p"
    "run_days snapshot confirmed baseline now (st_inventories st) (c + st_total_shortfall st) (Suc k) n = Inr rest"
    "days = (st, p) # rest"
    by (auto simp: rbind_Inr_iff rmap_def Let_def)
  from Suc.IH [OF s(5)] s(1-4,6) show ?case
    by (auto simp: day_active_effects_def timeline_point_def rbind_Inr_iff upt_conv_Cons simp del: upt_Suc)
qed simp

text \<open>Every day of a run whose inputs are well formed returns a state.\<close>

lemma simulate_days_total:
  assumes "run_ready snapshot baseline" "\<And>j. \<exists>es. effects_on j = Inr es"
  shows "\<exists>sts. simulate_days snapshot baseline effects_on opening k n = Inr sts"
proof (induction n arbitrary: k "opening")
  case (Suc n)
  obtain es where "effects_on k = Inr es" using assms(2) by blast
  moreover obtain st where "simulate_step snapshot es baseline opening = Inr st"
    using step_total_shortfall [OF assms(1), of es "opening"] by blast
  moreover obtain sts where "simulate_days snapshot baseline effects_on (st_inventories st) (Suc k) n = Inr sts"
    using Suc.IH by blast
  ultimately show ?case by simp
qed simp

lemma peak_from_in: "peak_from st sts \<in> set (st # sts)"
proof (induction sts arbitrary: st)
  case (Cons t sts)
  from Cons [of t] Cons [of st] show ?case by auto
qed simp

lemma peak_from_max:
  assumes "\<forall>s \<in> set (st # sts). st_total_shortfall s \<noteq> NaN" "s \<in> set (st # sts)"
  shows "st_total_shortfall s \<le> st_total_shortfall (peak_from st sts)"
  using assms
proof (induction sts arbitrary: st s)
  case Nil
  then show ?case by (simp add: le_refl_pyfloat)
next
  case (Cons t sts)
  let ?b = "if st_total_shortfall st < st_total_shortfall t then t else st"
  have b: "st_total_shortfall ?b \<le> st_total_shortfall (peak_from ?b sts)"
    using Cons.prems(1) by (intro Cons.IH) auto
  have "st_total_shortfall st \<le> st_total_shortfall ?b" "st_total_shortfall t \<le> st_total_shortfall ?b"
    using Cons.prems(1) by (auto simp: le_refl_pyfloat less_imp_le_pyfloat not_le_pyfloat [symmetric])
  with b have "st_total_shortfall st \<le> st_total_shortfall (peak_from ?b sts)"
    "st_total_shortfall t \<le> st_total_shortfall (peak_from ?b sts)" by (blast intro: le_trans_pyfloat)+
  moreover have "s \<in> set sts \<Longrightarrow> st_total_shortfall s \<le> st_total_shortfall (peak_from ?b sts)"
    using Cons.prems(1) by (intro Cons.IH) auto
  ultimately show ?case using Cons.prems(2) by auto
qed

section \<open>Sensitivity runs\<close>

definition reduction_ok :: "disruption_effect \<Rightarrow> bool" where
  "reduction_ok e \<longleftrightarrow> effect_ok e \<and> is_float (reduction e)"

definition delta_ok :: "pyfloat \<Rightarrow> bool" where
  "delta_ok \<delta> \<longleftrightarrow> 0 \<le> \<delta> \<and> \<delta> \<le> Fin 25 \<and> is_float \<delta>"

lemma clamp_bounds:
  "x \<noteq> NaN \<Longrightarrow> 0 \<le> py_min (Fin 100) (py_max 0 x)" "x \<noteq> NaN \<Longrightarrow> py_min (Fin 100) (py_max 0 x) \<le> Fin 100"
  by (cases x; auto simp: py_min_def py_max_def less_pyfloat_def zero_pyfloat_def)+

lemma clamp_mono: "x \<le> y \<Longrightarrow> py_min (Fin 100) (py_max 0 x) \<le> py_min (Fin 100) (py_max 0 y)"
  by (intro py_min_mono py_max_0_mono) simp_all

lemma clamp_id: "0 \<le> x \<Longrightarrow> x \<le> Fin 100 \<Longrightarrow> py_min (Fin 100) (py_max 0 x) = x"
  by (cases x) (auto simp: py_min_def py_max_0_id)

lemma shift_values:
  assumes "reduction_ok e" "delta_ok \<delta>"
  shows "reduction e + Fin (- 1) * \<delta> \<le> reduction e" "reduction e \<le> reduction e + Fin 1 * \<delta>"
    "reduction e + Fin (- 1) * \<delta> \<noteq> NaN" "reduction e + Fin 1 * \<delta> \<noteq> NaN"
proof -
  obtain q where q: "reduction e = Fin q" "0 \<le> q" "q \<le> 100"
    using assms(1) effect_okE unfolding reduction_ok_def by blast
  obtain d where d: "\<delta> = Fin d" "0 \<le> d" "d \<le> 25"
    using assms(2) by (cases \<delta>) (auto simp: delta_ok_def)
  have fq: "of_exact q = Fin q" using assms(1) q by (simp add: reduction_ok_def of_exact_is_float)
  have fd: "of_exact d = Fin d" using assms(2) d by (simp add: delta_ok_def of_exact_is_float)
  have fmd: "of_exact (- d) = Fin (- d)"
  proof -
    have "rnd64 d = d" "\<bar>d\<bar> \<le> max_float" using assms(2) d by (auto simp: delta_ok_def is_float_def)
    then show ?thesis by (simp add: of_exact_finite rnd64_minus)
  qed
  show "reduction e + Fin (- 1) * \<delta> \<le> reduction e" "reduction e \<le> reduction e + Fin 1 * \<delta>"
    using of_exact_mono [of "q - d" q] of_exact_mono [of q "q + d"] q d fq by (simp_all add: fd fmd)
  show "reduction e + Fin (- 1) * \<delta> \<noteq> NaN" "reduction e + Fin 1 * \<delta> \<noteq> NaN"
    using q d by (simp_all add: fd fmd)
qed

lemma shift_severer:
  assumes "reduction_ok e" "delta_ok \<delta>"
  shows "severer (shift_effect (Fin (- 1)) \<delta> e) e" "severer e (shift_effect (Fin 1) \<delta> e)"
proof -
  note v = shift_values [OF assms]
  have e: "0 \<le> reduction e" "reduction e \<le> Fin 100" using assms(1) by (simp_all add: reduction_ok_def effect_ok_def)
  from clamp_mono [OF v(1)] clamp_mono [OF v(2)]
  have "shifted_reduction (Fin (- 1)) \<delta> (reduction e) \<le> reduction e"
    "reduction e \<le> shifted_reduction (Fin 1) \<delta> (reduction e)"
    by (simp_all add: shifted_reduction_def clamp_id [OF e])
  with e clamp_bounds [OF v(3)] clamp_bounds [OF v(4)]
  show "severer (shift_effect (Fin (- 1)) \<delta> e) e" "severer e (shift_effect (Fin 1) \<delta> e)"
    by (simp_all add: severer_def effect_ok_def shift_effect_def shifted_reduction_def)
qed

lemma shifted_effects_day:
  assumes "duration_us confirmed = Inr d" "run_dates_ok confirmed d n" "k < n"
  shows "shifted_effects_on confirmed (map g (sp_disruptions (cs_parameters confirmed))) k
    = Inr (map g (day_effects confirmed d k))"
  by (simp add: shifted_effects_on_def active_effects_day [OF assms]) (auto simp: day_effects_def)

definition days_shortfall ::
  "twin_snapshot \<Rightarrow> (uuid, pyfloat) dict \<Rightarrow> (nat \<Rightarrow> disruption_effect list) \<Rightarrow> nat \<Rightarrow> pyfloat" where
  "days_shortfall snapshot baseline es n =
     py_sum (map (\<lambda>k. total_shortfall_of snapshot (es k) baseline []) [0..<n])"

lemma days_shortfall_le:
  assumes "run_ready snapshot baseline" "\<And>k. list_all2 severer (es k) (es' k)"
  shows "days_shortfall snapshot baseline es n \<le> days_shortfall snapshot baseline es' n"
  unfolding days_shortfall_def using assms
  by (intro py_sum_map_mono) (auto simp: run_ready_def intro: total_shortfall_le)

lemma days_cumulative:
  assumes "run_ready snapshot baseline" "\<And>j. effects_on j = Inr (es j)"
  obtains sts where "simulate_days snapshot baseline effects_on [] 0 n = Inr sts"
    "cumulative_shortfall sts = days_shortfall snapshot baseline es n"
proof -
  from days_no_stock [where effects_on = effects_on and es = es and k = 0 and n = n, OF assms] obtain sts
    where "simulate_days snapshot baseline effects_on [] 0 n = Inr sts"
      "map st_total_shortfall sts = map (\<lambda>j. total_shortfall_of snapshot (es j) baseline []) [0..<n]"
    by auto
  with that show ?thesis by (simp add: cumulative_py_sum days_shortfall_def)
qed

lemma shifted_total_eq:
  assumes "run_ready snapshot baseline" "duration_us confirmed = Inr d" "horizon_days confirmed = Inr n"
    "run_dates_ok confirmed d (nat n)"
  shows "shifted_total confirmed snapshot configuration baseline direction
    = Inr (days_shortfall snapshot baseline
        (\<lambda>k. map (shift_effect direction (cf_uncertainty_reduction_delta configuration)) (day_effects confirmed d k)) (nat n))"
proof -
  let ?g = "shift_effect direction (cf_uncertainty_reduction_delta configuration)"
  let ?on = "shifted_effects_on confirmed (map ?g (sp_disruptions (cs_parameters confirmed)))"
  let ?es = "\<lambda>k. Inr (map ?g (day_effects confirmed d k))"
  have "simulate_days snapshot baseline ?on [] 0 (nat n) = simulate_days snapshot baseline ?es [] 0 (nat n)"
    by (rule simulate_days_cong) (simp add: shifted_effects_day [OF assms(2,4)])
  moreover obtain sts where "simulate_days snapshot baseline ?es [] 0 (nat n) = Inr sts"
    "cumulative_shortfall sts = days_shortfall snapshot baseline (\<lambda>k. map ?g (day_effects confirmed d k)) (nat n)"
    by (rule days_cumulative [where effects_on = ?es and n = "nat n", OF assms(1) refl])
  ultimately have "simulate_days snapshot baseline ?on [] 0 (nat n) = Inr sts"
    "cumulative_shortfall sts = days_shortfall snapshot baseline (\<lambda>k. map ?g (day_effects confirmed d k)) (nat n)"
    by simp_all
  then show ?thesis by (simp add: shifted_total_def assms(3) Let_def)
qed

lemma day_effects_severer:
  assumes "list_all reduction_ok (sp_disruptions (cs_parameters confirmed))" "delta_ok \<delta>"
  shows "list_all2 severer (map (shift_effect (Fin (- 1)) \<delta>) (day_effects confirmed d k)) (day_effects confirmed d k)"
    "list_all2 severer (day_effects confirmed d k) (map (shift_effect (Fin 1) \<delta>) (day_effects confirmed d k))"
  using assms shift_severer
  by (auto simp: day_effects_def list_all2_map1 list_all2_map2 list_all2_same list_all_iff)

text \<open>The sensitivity range does not read the assumptions of the scenario.\<close>

definition with_assumptions :: "assumption list \<Rightarrow> confirmed_scenario \<Rightarrow> confirmed_scenario" where
  "with_assumptions as confirmed =
     confirmed\<lparr>cs_candidate := (cs_candidate confirmed)\<lparr>sc_parameters := (cs_parameters confirmed)\<lparr>sp_assumptions := as\<rparr>\<rparr>\<rparr>"

lemma uncertainty_without_assumptions:
  "uncertainty_bounds (with_assumptions as confirmed) snapshot configuration baseline
     = uncertainty_bounds confirmed snapshot configuration baseline"
proof -
  have p: "sp_disruptions (cs_parameters (with_assumptions as confirmed)) = sp_disruptions (cs_parameters confirmed)"
    "step_start (with_assumptions as confirmed) = step_start confirmed"
    "active_effects (with_assumptions as confirmed) = active_effects confirmed"
    "horizon_days (with_assumptions as confirmed) = horizon_days confirmed"
    by (auto simp: with_assumptions_def step_start_def active_effects_def horizon_days_def fun_eq_iff Let_def
      cong: if_cong)
  have "shifted_effects_on (with_assumptions as confirmed) = shifted_effects_on confirmed"
    by (simp add: shifted_effects_on_def day_active_effects_def fun_eq_iff p)
  then show ?thesis by (simp add: uncertainty_bounds_def shifted_total_def p)
qed

section \<open>What a returned result has passed\<close>

lemma run_result_parts:
  assumes "run_no_action_simulation sha256 uuid5 run_id confirmed snapshot configuration now ms = Inr r"
  obtains n assumptions days states bounds where
    "horizon_days confirmed = Inr n" "0 < n" "n \<le> 90"
    "inventory_assumptions confirmed (baseline_by_refinery snapshot) = Inr assumptions"
    "central_run snapshot confirmed (baseline_by_refinery snapshot) assumptions (nat n) = Inr states"
    "states = map fst days" "map tp_step (sr_timeline r) = map int [0..<nat n]" "sr_timeline r = map snd days"
    "uncertainty_bounds confirmed snapshot configuration (baseline_by_refinery snapshot) = Inr bounds"
    "sr_invariants r = invariant_report confirmed snapshot (baseline_by_refinery snapshot) states (cumulative_shortfall states)"
    "first_error (invariant_report_problems (sr_invariants r)) = None"
    "\<not> invariants_fail (sr_invariants r) (sr_inventory_trajectories r \<noteq> [])"
    "sim_metric (cumulative_shortfall states) ktonne snapshot now ''cumulative-shortfall'' = Inr (ur_central (sr_uncertainty r))"
    "sim_metric (fst bounds) ktonne snapshot now ''uncertainty-lower'' = Inr (ur_lower_bound (sr_uncertainty r))"
    "sim_metric (snd bounds) ktonne snapshot now ''uncertainty-upper'' = Inr (ur_upper_bound (sr_uncertainty r))"
proof -
  let ?base = "baseline_by_refinery snapshot"
  from assms obtain n assumptions days where
    d: "horizon_days confirmed = Inr n" "0 < n" "n \<le> 90" "inventory_assumptions confirmed ?base = Inr assumptions"
      "run_days snapshot confirmed ?base now (opening_inventory assumptions) (Fin 0) 0 (nat n) = Inr days"
      "assemble_result sha256 uuid5 run_id confirmed snapshot configuration now ms ?base assumptions days = Inr r"
    by (auto simp: run_no_action_simulation_def Let_def rbind_Inr_iff split: if_splits)
  note days = run_days_Inr [OF d(5)]
  from d(6) obtain bounds where
    r: "uncertainty_bounds confirmed snapshot configuration ?base = Inr bounds" "sr_timeline r = map snd days"
      "sr_invariants r = invariant_report confirmed snapshot ?base (map fst days) (cumulative_shortfall (map fst days))"
      "first_error (invariant_report_problems (sr_invariants r)) = None"
      "\<not> invariants_fail (sr_invariants r) (sr_inventory_trajectories r \<noteq> [])"
      "sim_metric (cumulative_shortfall (map fst days)) ktonne snapshot now ''cumulative-shortfall'' = Inr (ur_central (sr_uncertainty r))"
      "sim_metric (fst bounds) ktonne snapshot now ''uncertainty-lower'' = Inr (ur_lower_bound (sr_uncertainty r))"
      "sim_metric (snd bounds) ktonne snapshot now ''uncertainty-upper'' = Inr (ur_upper_bound (sr_uncertainty r))"
    by (auto simp: assemble_result_def Let_def rbind_Inr_iff validated_Inr run_uncertainty_def split: if_splits)
  show thesis
    by (rule that [of n assumptions "map fst days" days bounds])
      (use d days r in \<open>simp_all add: central_run_def comp_def\<close>)
qed

lemma run_timeline:
  assumes "run_no_action_simulation sha256 uuid5 run_id confirmed snapshot configuration now ms = Inr r"
    "horizon_days confirmed = Inr n"
  shows "0 < n \<and> n \<le> 90 \<and> map tp_step (sr_timeline r) = [0..n - 1]"
proof -
  from run_result_parts [OF assms(1)] assms(2) have p: "0 < n" "n \<le> 90"
    "map tp_step (sr_timeline r) = map int [0..<nat n]" by (metis Inr_inject)+
  moreover have "map int [0..<nat n] = [0..n - 1]" using p(1) by (intro nth_equalityI) (simp_all add: nth_upto)
  ultimately show ?thesis by simp
qed

lemma max_abs_bound:
  assumes "py_max_list 0 (map abs xs) \<le> t" "NaN \<notin> set xs" "x \<in> set xs"
  shows "\<bar>x\<bar> \<le> (t :: pyfloat)"
proof -
  have "\<bar>y\<bar> \<noteq> NaN" if "y \<noteq> NaN" for y using that by (cases y) (simp_all add: abs_pyfloat_def)
  then have "NaN \<notin> set (map abs xs)" using assms(2) by (metis imageE list.set_map)
  from py_max_list_ge [OF this, of "\<bar>x\<bar>" 0] assms show ?thesis by (auto intro: le_trans_pyfloat)
qed

lemma invariants_passed:
  assumes "\<not> invariants_fail (invariant_report confirmed snapshot baseline states c) b"
  shows "route_capacities_respected snapshot states \<and> closed_routes_zero confirmed snapshot states \<and>
    supplier_limits_respected snapshot states \<and> refinery_limits_respected snapshot states \<and>
    compatibility_respected snapshot states \<and>
    (NaN \<notin> st_residual ` set states \<longrightarrow> (\<forall>st \<in> set states. \<bar>st_residual st\<bar> \<le> MASS_BALANCE_TOLERANCE)) \<and>
    me_value (mb_total_supply (ts_mass_balance snapshot)) = py_sum (map snd baseline)"
  using assms max_abs_bound [of "map st_residual states" MASS_BALANCE_TOLERANCE]
  by (auto simp: invariants_fail_def invariant_report_def Let_def comp_def intro: le_antisym_pyfloat)

lemma inactive_day_not_zero:
  assumes "run_ready snapshot baseline" "duration_us confirmed = Inr d"
    "central_run snapshot confirmed baseline assumptions (nat n) = Inr states" "0 < n" "d \<le> (n - 1) * day_us"
    "e \<in> set (sp_disruptions (cs_parameters confirmed))" "reduction e = Fin 100" "effect_type e = T_ROUTE"
    "dt_asset_id (de_target e) = Some (bf_route_id f)" "f \<in> set (ts_baseline_flows snapshot)"
    "me_value (bf_volume f) \<le> me_value (rt_capacity (flow_route snapshot f))"
    "MASS_BALANCE_TOLERANCE < me_value (bf_volume f)"
  shows "\<not> closed_routes_zero confirmed snapshot states"
proof -
  from assms(1) have k: "routes_known snapshot" "flow_ids_distinct snapshot" "refineries_known snapshot baseline"
    "snapshot_quantities snapshot" by (simp_all add: run_ready_def)
  define i where "i = nat n - 1"
  have i: "i < nat n" "int i = n - 1" using assms(4) by (auto simp: i_def)
  note d = assms(3) [unfolded central_run_def]
  from simulate_days_nth(2) [OF d i(1)] i(2) assms(5)
  obtain inv where "simulate_step snapshot [] baseline inv = Inr (states ! i)"
    by (auto simp: day_active_effects_eq [OF assms(2)] day_effects_def split: if_splits)
  moreover obtain st where "simulate_step snapshot [] baseline inv = Inr st"
    "\<And>f. f \<in> set (ts_baseline_flows snapshot) \<Longrightarrow> map_of (st_flow_values st) (bf_id f) = Some (flow_value snapshot [] f)"
    by (rule step_closed [OF k(1-3), of "[]" inv], rule that)
  ultimately have "dict_at (st_flow_values (states ! i)) (bf_id f) = me_value (bf_volume f)"
    using assms(10) undisrupted_flow [OF k(1,4) assms(10,11)] by (simp add: dict_at_def dict_get_def)
  moreover have "states ! i \<in> set states" using i(1) simulate_days_nth(1) [OF d] by simp
  moreover have "Some (bf_route_id f) \<in> set (closed_routes confirmed)"
    using assms(6-9) by (force simp: closed_routes_def)
  moreover have "\<not> me_value (bf_volume f) \<le> MASS_BALANCE_TOLERANCE"
    using assms(12) by (simp add: less_pyfloat_def)
  ultimately show ?thesis using assms(10)
    unfolding closed_routes_zero_def Let_def list_all_iff by metis
qed

lemma days_shortfall_nonneg:
  assumes "run_ready snapshot baseline" "simulate_days snapshot baseline effects_on opening k n = Inr states"
    "st \<in> set states"
  shows "0 \<le> st_total_shortfall st"
proof -
  from assms(3) obtain i where i: "i < length states" "st = states ! i" by (metis in_set_conv_nth)
  with simulate_days_nth [OF assms(2)] obtain es inv where "simulate_step snapshot es baseline inv = Inr st" by metis
  moreover obtain st' where "simulate_step snapshot es baseline inv = Inr st'"
    "st_total_shortfall st' = total_shortfall_of snapshot es baseline inv"
    by (rule step_total_shortfall [OF assms(1), of es inv], rule that)
  ultimately show ?thesis by simp
qed

end
