(* ===== verification/Simulation_Total.thy ===== *)
theory Simulation_Total imports Simulation_Run begin

text \<open>
  When a run returns. Every metric of a run over valid evidence is constructible and every table
  lookup of the assembly succeeds on the states of the run, so the calendar, the residual of the
  report and the physical checks decide between a result and an error.
\<close>

section \<open>Metrics\<close>

definition evidence_ok :: "twin_snapshot \<Rightarrow> bool" where
  "evidence_ok snapshot \<longleftrightarrow>
     ts_evidence_records snapshot \<noteq> [] \<and> list_all evidence_valid (ts_evidence_records snapshot)"

lemma foldl_max_mono:
  "list_all2 (\<le>) xs ys \<Longrightarrow> a \<le> b \<Longrightarrow> foldl max a xs \<le> foldl max (b :: int) ys"
  by (induction xs ys arbitrary: a b rule: list_all2_induct) (auto intro: max.mono)

lemma py_min_list_unit:
  assumes "xs \<noteq> []" "list_all unit_interval xs" shows "unit_interval (py_min_list d xs)"
  using py_min_list_in [OF assms(1), of d] assms(2) by (simp add: list_all_iff)

lemma sim_metric_total:
  assumes "evidence_ok snapshot" "len_between 1 50 unit" "length suffix \<le> 200"
  shows "\<exists>m. sim_metric v unit snapshot now suffix = Inr m \<and> me_value m = py_round 9 (py_max 0 v)
    \<and> me_truth_class m = MODELED \<and> metric_valid m"
proof -
  obtain e es where es: "ts_evidence_records snapshot = e # es"
    using assms(1) by (auto simp: evidence_ok_def neq_Nil_conv)
  then have ok: "\<And>x. x \<in> set (e # es) \<Longrightarrow> evidence_valid x"
    using assms(1) by (auto simp: evidence_ok_def list_all_iff)
  have "list_all2 (\<le>) (map ev_effective_at es) (map ev_fetched_at es)"
    using ok evidence_validD(1) by (simp add: list_all2_map1 list_all2_map2 list_all2_same)
  then have t: "foldl max (ev_effective_at e) (map ev_effective_at es) \<le> foldl max (ev_fetched_at e) (map ev_fetched_at es)"
    using ok evidence_validD(1) by (intro foldl_max_mono) simp_all
  have c: "unit_interval (py_min_list 0 (map ev_confidence (e # es)))"
    using ok evidence_validD(2) by (intro py_min_list_unit) (auto simp: list_all_iff)
  have r: "\<not> list_ex (\<lambda>r. first_error (source_ref_problems r) \<noteq> None)
     (map (\<lambda>e. \<lparr>sr_source_id = ev_source_id e, sr_record_id = ev_source_record_id e\<rparr>) (e # es))"
    using ok evidence_validD(3,4) by (auto simp: list_ex_iff source_ref_problems_def)
  have l: "len_between 1 250 (SIMULATION_TRANSFORMATION @ ''.'' @ suffix)" "len_between 1 100 SIMULATION_MODEL_VERSION"
    using assms(3) by (simp_all add: len_between_def SIMULATION_TRANSFORMATION_def SIMULATION_MODEL_VERSION_def)
  show ?thesis
    unfolding sim_metric_def es list.case Let_def mk_metric_Inr
    using t c r l assms(2) by (simp add: metric_valid_def metric_problems_def)
qed

lemma units_ok: "len_between 1 50 ktpd" "len_between 1 50 ktonne"
  by (simp_all add: len_between_def ktpd_def ktonne_def)

definition metric_of :: "twin_snapshot \<Rightarrow> datetime \<Rightarrow> pyfloat \<Rightarrow> string \<Rightarrow> string \<Rightarrow> metric" where
  "metric_of snapshot now v unit suffix = projr (sim_metric v unit snapshot now suffix)"

lemma sim_metric_eq:
  assumes "evidence_ok snapshot" "len_between 1 50 unit" "length suffix \<le> 200"
  shows "sim_metric v unit snapshot now suffix = Inr (metric_of snapshot now v unit suffix)"
  using sim_metric_total [OF assms, of v now] by (auto simp: metric_of_def)

lemmas sim_metric_eqs = sim_metric_eq [OF _ units_ok(1)] sim_metric_eq [OF _ units_ok(2)]

section \<open>Assembling the parts\<close>

lemma timeline_total:
  assumes "evidence_ok snapshot" "moment_add starts_at day_us = Inr ends_at"
  shows "\<exists>t. timeline_point snapshot now k starts_at st c = Inr t"
  by (simp add: timeline_point_def sim_metric_eqs assms)

text \<open>The keys that a state of a run has.\<close>

definition state_keys :: "twin_snapshot \<Rightarrow> (uuid, pyfloat) dict \<Rightarrow> uuid set \<Rightarrow> step_state \<Rightarrow> bool" where
  "state_keys snapshot baseline stocks st \<longleftrightarrow>
     (\<forall>f \<in> set (ts_baseline_flows snapshot). \<exists>v. map_of (st_flow_values st) (bf_id f) = Some v) \<and>
     (\<forall>f \<in> set (ts_baseline_flows snapshot). \<exists>v. map_of (st_route_capacities st) (bf_route_id f) = Some v) \<and>
     (\<forall>r \<in> fst ` set baseline. \<exists>v w. map_of (st_refinery_throughput st) r = Some v \<and> map_of (st_refinery_shortfall st) r = Some w) \<and>
     fst ` set (st_inventories st) = stocks"

lemma map_of_map_Some: "k \<in> fst ` set xs \<Longrightarrow> \<exists>v. map_of (map (\<lambda>x. (fst x, g x)) xs) k = Some v"
  by (induction xs) auto

lemma step_keys:
  assumes "run_ready snapshot baseline" "fst ` set opening \<subseteq> fst ` set baseline"
  shows "\<exists>st. simulate_step snapshot es baseline opening = Inr st \<and> state_keys snapshot baseline (fst ` set opening) st"
proof -
  from assms have k: "routes_known snapshot" "flow_ids_distinct snapshot" "refineries_known snapshot baseline"
    by (simp_all add: run_ready_def)
  obtain st where st: "simulate_step snapshot es baseline opening = Inr st"
    "\<And>f. f \<in> set (ts_baseline_flows snapshot) \<Longrightarrow> map_of (st_flow_values st) (bf_id f) = Some (flow_value snapshot es f)"
    "st_route_capacities st = route_capacities snapshot es"
    "st_refinery_throughput st = map (\<lambda>rd. (fst rd, py_max 0 (processed_of snapshot es opening rd))) baseline"
    "st_refinery_shortfall st = map (\<lambda>rd. (fst rd, py_max 0 (snd rd - processed_of snapshot es opening rd))) baseline"
    "st_inventories st = map (\<lambda>rd. (fst rd, py_max 0 (available_of snapshot es opening (fst rd)
        - processed_of snapshot es opening rd))) (filter (\<lambda>rd. dict_has opening (fst rd)) baseline)"
    by (rule step_closed [OF k, of es "opening"], rule that)
  have "\<exists>v. map_of (route_capacities snapshot es) (bf_route_id f) = Some v"
    if "f \<in> set (ts_baseline_flows snapshot)" for f
    using route_capacity_index [OF k(1) that, of es] by (auto simp: dict_index_def split: option.splits)
  moreover have "fst ` set (st_inventories st) = fst ` set opening"
  proof -
    have "fst ` set (st_inventories st) = fst ` {rd \<in> set baseline. fst rd \<in> fst ` set opening}"
      unfolding st(6) by (simp add: dict_has_def image_image)
    also have "\<dots> = fst ` set baseline \<inter> fst ` set opening" by blast
    also have "\<dots> = fst ` set opening" using assms(2) by blast
    finally show ?thesis .
  qed
  moreover have "\<exists>v w. map_of (st_refinery_throughput st) r = Some v \<and> map_of (st_refinery_shortfall st) r = Some w"
    if "r \<in> fst ` set baseline" for r
    unfolding st(4,5)
    using map_of_map_Some [OF that, of "\<lambda>rd. py_max 0 (processed_of snapshot es opening rd)"]
      map_of_map_Some [OF that, of "\<lambda>rd. py_max 0 (snd rd - processed_of snapshot es opening rd)"] by auto
  ultimately have "state_keys snapshot baseline (fst ` set opening) st"
    using st(2,3) by (simp add: state_keys_def)
  with st(1) show ?thesis by blast
qed

lemma run_keys:
  assumes "run_ready snapshot baseline" "fst ` set opening \<subseteq> fst ` set baseline"
    "simulate_days snapshot baseline effects_on opening k n = Inr sts"
  shows "\<forall>st \<in> set sts. state_keys snapshot baseline (fst ` set opening) st"
  using assms(2,3)
proof (induction n arbitrary: k "opening" sts)
  case (Suc n)
  from Suc.prems(2) obtain es st rest where es: "simulate_step snapshot es baseline opening = Inr st"
    "simulate_days snapshot baseline effects_on (st_inventories st) (Suc k) n = Inr rest" "sts = st # rest"
    by (auto simp: rbind_Inr_iff rmap_def)
  have st: "state_keys snapshot baseline (fst ` set opening) st"
    using step_keys [OF assms(1) Suc.prems(1), of es] es(1) by auto
  then have inv: "fst ` set (st_inventories st) = fst ` set opening" by (simp add: state_keys_def)
  with Suc.prems have "fst ` set (st_inventories st) \<subseteq> fst ` set baseline" by simp
  from Suc.IH [OF this es(2)] es(3) st inv show ?case by simp
qed simp

text \<open>The loop ends with its states, or with the first date that leaves the calendar.\<close>

lemma run_days_decided:
  assumes "run_ready snapshot baseline" "evidence_ok snapshot" "duration_us confirmed = Inr d"
  shows "if \<forall>j. k \<le> j \<and> j < k + n \<longrightarrow> day_in_calendar confirmed d j
    then \<exists>days. run_days snapshot confirmed baseline now opening c k n = Inr days
    else run_days snapshot confirmed baseline now opening c k n = Inl OverflowError"
proof (induction n arbitrary: k "opening" c)
  case (Suc n)
  have range: "(\<forall>j. k \<le> j \<and> j < k + Suc n \<longrightarrow> P j) \<longleftrightarrow> P k \<and> (\<forall>j. Suc k \<le> j \<and> j < Suc k + n \<longrightarrow> P j)" for P
    by (metis Suc_leD Suc_le_eq add_Suc_right add_Suc less_add_Suc1 nat_less_le order_refl)
  note day = day_active_effects_eq [OF assms(3), of k, unfolded day_active_effects_def]
  show ?case
  proof (cases "day_in_calendar confirmed d k")
    case False
    with day have "run_days snapshot confirmed baseline now opening c k (Suc n) = Inl OverflowError"
      by (cases "step_start confirmed k") (auto simp: rbind_def split: sum.splits)
    with False show ?thesis by auto
  next
    case True
    with day obtain m where m: "step_start confirmed k = Inr m"
      "active_effects confirmed m = Inr (day_effects confirmed d k)" by (auto simp: rbind_Inr_iff)
    obtain ends_at where e: "moment_add m day_us = Inr ends_at"
      using m(2) assms(3) by (auto simp: active_effects_def Let_def rbind_Inr_iff)
    obtain st where st: "simulate_step snapshot (day_effects confirmed d k) baseline opening = Inr st"
      using step_total_shortfall [OF assms(1), of "day_effects confirmed d k" "opening"] by blast
    obtain p where p: "timeline_point snapshot now k m st (c + st_total_shortfall st) = Inr p"
      using timeline_total [OF assms(2) e] by blast
    from Suc.IH [of "Suc k" "st_inventories st" "c + st_total_shortfall st"] True show ?thesis
      unfolding range by (auto simp: m st p)
  qed
qed simp

lemma flow_result_total:
  assumes "run_ready snapshot baseline" "evidence_ok snapshot" "state_keys snapshot baseline stocks st"
    "f \<in> set (ts_baseline_flows snapshot)"
  shows "\<exists>r. flow_result snapshot st now f = Inr r"
proof -
  from assms(1) have "routes_known snapshot" by (simp add: run_ready_def)
  note r = flow_route_index(1) [OF this assms(4)]
  from assms(3,4) obtain v c where "map_of (st_flow_values st) (bf_id f) = Some v"
    "map_of (st_route_capacities st) (bf_route_id f) = Some c" unfolding state_keys_def by blast
  with r show ?thesis
    by (simp add: flow_result_def sim_metric_eqs assms(2) dict_index_def flow_affected_def)
qed

lemma node_index:
  "r \<in> set (map tn_id (ts_nodes snapshot)) \<Longrightarrow> \<exists>n. dict_index (node_by_id snapshot) r = Inr n"
  using map_of_pairs_None [of tn_id "\<lambda>n. n" "ts_nodes snapshot" r]
  by (auto simp: dict_index_def node_by_id_def map_of_dict_of split: option.splits)

lemma refinery_result_total:
  assumes "run_ready snapshot baseline" "evidence_ok snapshot" "state_keys snapshot baseline stocks st" "rd \<in> set baseline"
  shows "\<exists>r. refinery_result snapshot st now rd = Inr r"
proof -
  obtain r d where rd: "rd = (r, d)" by force
  with assms(1,4) have "r \<in> set (map tn_id (ts_nodes snapshot))"
    by (auto simp: run_ready_def refineries_known_def)
  from node_index [OF this] obtain n where n: "dict_index (node_by_id snapshot) r = Inr n" by blast
  from assms(3,4) rd obtain v w where "map_of (st_refinery_throughput st) r = Some v"
    "map_of (st_refinery_shortfall st) r = Some w" unfolding state_keys_def by (metis fst_conv image_eqI)
  with n show ?thesis by (simp add: refinery_result_def rd sim_metric_eqs assms(2) dict_index_def)
qed

lemma trajectories_total:
  assumes "run_ready snapshot baseline" "evidence_ok snapshot" "fst ` set assumptions \<subseteq> fst ` set baseline"
    "\<forall>st \<in> set states. state_keys snapshot baseline (fst ` set assumptions) st"
    "\<And>k. k < length states \<Longrightarrow> \<exists>m. step_start confirmed k = Inr m"
  shows "\<exists>t. inventory_trajectories snapshot states assumptions confirmed now = Inr t \<and> length t = length assumptions"
  unfolding inventory_trajectories_def
proof (rule rtraverse_total)
  fix x assume x: "x \<in> set assumptions"
  obtain r v a where xr: "x = (r, v, a)" by (metis prod.collapse)
  with x assms(3) have rk: "r \<in> fst ` set baseline" by force
  with assms(1) have "r \<in> set (map tn_id (ts_nodes snapshot))" by (auto simp: run_ready_def refineries_known_def)
  from node_index [OF this] obtain n where n: "dict_index (node_by_id snapshot) r = Inr n" by blast
  have "\<exists>p. inventory_point snapshot confirmed now r q = Inr p" if "q \<in> set (enumerate 0 states)" for q
  proof -
    from that have "fst q < length states" by (auto simp: enumerate_eq_zip in_set_zip)
    then obtain m where m: "step_start confirmed (fst q) = Inr m" using assms(5) by blast
    from that have "snd q \<in> set states" unfolding enumerate_eq_zip by (metis set_zip_rightD surjective_pairing)
    with assms(4) have "state_keys snapshot baseline (fst ` set assumptions) (snd q)" by blast
    then have "fst ` set (st_inventories (snd q)) = fst ` set assumptions" by (simp add: state_keys_def)
    moreover have "r \<in> fst ` set assumptions" using x xr by (metis fst_conv image_eqI)
    ultimately have "r \<in> fst ` set (st_inventories (snd q))" by blast
    then obtain w where "map_of (st_inventories (snd q)) r = Some w" by (metis map_of_eq_None_iff option.exhaust)
    then show ?thesis by (simp add: inventory_point_def m dict_index_def sim_metric_eqs assms(2))
  qed
  then obtain ps where "rtraverse (inventory_point snapshot confirmed now r) (enumerate 0 states) = Inr ps"
    using rtraverse_total by blast
  with n show "\<exists>y. (case x of (refinery_id, value, assumption_id) \<Rightarrow>
       rbind (dict_index (node_by_id snapshot) refinery_id) (\<lambda>n.
       rmap (\<lambda>points. \<lparr>it_refinery_id = refinery_id, it_refinery_canonical_id = tn_canonical_id n,
              it_assumption_id = assumption_id, it_points = points\<rparr>)
         (rtraverse (inventory_point snapshot confirmed now refinery_id) (enumerate 0 states)))) = Inr y"
    by (simp add: xr)
qed

section \<open>A run returns unless a physical check fails\<close>

text \<open>
  What the caller provides: a nonempty twin over valid evidence, an admissible horizon and
  duration, at least one assumption, digests that are SHA-256 texts, a nonnegative clock reading.
\<close>

definition run_inputs_ok ::
  "simulation_hash \<Rightarrow> confirmed_scenario \<Rightarrow> twin_snapshot \<Rightarrow> simulation_configuration \<Rightarrow> pyfloat \<Rightarrow> bool" where
  "run_inputs_ok sha256 confirmed snapshot configuration ms \<longleftrightarrow>
     run_ready snapshot (baseline_by_refinery snapshot) \<and> evidence_ok snapshot \<and>
     ts_baseline_flows snapshot \<noteq> [] \<and> baseline_by_refinery snapshot \<noteq> [] \<and>
     run_assumption_ids confirmed snapshot \<noteq> [] \<and> is_sha256 (cs_scenario_fingerprint confirmed) \<and>
     is_sha256 (simulation_fingerprint sha256 confirmed configuration) \<and> 0 \<le> ms"

lemma inventory_keys:
  assumes "inventory_assumptions confirmed baseline = Inr assumptions"
  shows "fst ` set assumptions \<subseteq> fst ` set baseline"
proof -
  obtain xs where xs: "rtraverse (inventory_assumption baseline) (sp_assumptions (cs_parameters confirmed)) = Inr xs"
    "assumptions = dict_of (List.map_filter id xs)"
    using assms by (auto simp: inventory_assumptions_def rmap_def rbind_Inr_iff)
  have one: "dict_has baseline r" if "inventory_assumption baseline a = Inr (Some (r, v, i))" for a r v i
    using that by (auto simp: inventory_assumption_def rmap_def rbind_Inr_iff split: if_splits option.splits)
  have "r \<in> fst ` set baseline" if "Some (r, v, i) \<in> set xs" for r v i
  proof -
    from that obtain j where j: "j < length xs" "xs ! j = Some (r, v, i)" by (auto simp: in_set_conv_nth)
    then have "inventory_assumption baseline (sp_assumptions (cs_parameters confirmed) ! j) = Inr (Some (r, v, i))"
      using rtraverse_InrD [OF xs(1)] by (simp add: list_all2_conv_all_nth)
    from one [OF this] show ?thesis by (simp add: dict_has_def)
  qed
  then have "fst ` set (List.map_filter id xs) \<subseteq> fst ` set baseline"
    by (auto simp: List.map_filter_def)
  moreover have "fst ` set assumptions = fst ` set (List.map_filter id xs)"
    using dom_map_of_conv_image_fst [of assumptions] dom_map_of_conv_image_fst [of "rev (List.map_filter id xs)"]
    by (simp add: xs(2) map_of_dict_of)
  ultimately show ?thesis by simp
qed

lemma unit_interval_evidence:
  "evidence_ok snapshot \<Longrightarrow> unit_interval (py_min_list 0 (map ev_confidence (ts_evidence_records snapshot)))"
  by (intro py_min_list_unit) (auto simp: evidence_ok_def list_all_iff evidence_validD(2))

lemma max_residual_nonneg:
  assumes "sts \<noteq> []" "py_max_list 0 (map (\<lambda>st. \<bar>st_residual st\<bar>) sts) \<le> t"
  shows "0 \<le> py_max_list 0 (map (\<lambda>st. \<bar>st_residual st\<bar>) sts)"
proof -
  have "py_max_list 0 (map (\<lambda>st. \<bar>st_residual st\<bar>) sts) \<in> set (map (\<lambda>st. \<bar>st_residual st\<bar>) sts)"
    using assms(1) by (intro py_max_list_in) simp
  then obtain x where x: "py_max_list 0 (map (\<lambda>st. \<bar>st_residual st\<bar>) sts) = \<bar>x\<bar>" by auto
  then have "\<bar>x\<bar> \<noteq> NaN" using assms(2) le_not_NaN by metis
  then show ?thesis unfolding x
    by (cases x) (auto simp: abs_pyfloat_def zero_pyfloat_def less_pyfloat_def)
qed

lemma tolerance_pos: "0 < MASS_BALANCE_TOLERANCE" by code_simp

lemma report_valid:
  assumes "\<not> invariants_fail (invariant_report confirmed snapshot baseline states c) b" "states \<noteq> []"
  shows "first_error (invariant_report_problems (invariant_report confirmed snapshot baseline states c)) = None"
  using assms max_residual_nonneg [OF assms(2), of MASS_BALANCE_TOLERANCE] tolerance_pos
  by (simp add: invariants_fail_def invariant_report_problems_def) (simp add: invariant_report_def Let_def)

text \<open>
  The report of a run, and what pydantic makes of it: a residual that is not a number is no value of its field.
\<close>

abbreviation central_report :: "confirmed_scenario \<Rightarrow> twin_snapshot \<Rightarrow> step_state list \<Rightarrow> physical_invariant_report" where
  "central_report confirmed snapshot states \<equiv>
     invariant_report confirmed snapshot (baseline_by_refinery snapshot) states (cumulative_shortfall states)"

lemma report_checked:
  "validated (invariant_report_problems (central_report confirmed snapshot states)) x =
    (if 0 \<le> pi_max_mass_balance_residual (central_report confirmed snapshot states) then Inr x
     else Inl (FieldError ''max_mass_balance_residual''))"
  using tolerance_pos by (simp add: validated_def invariant_report_problems_def) (simp add: invariant_report_def Let_def)

lemma run_base_total: "evidence_ok snapshot \<Longrightarrow> \<exists>b. run_baseline snapshot now = Inr b"
  by (simp add: run_baseline_def Let_def sim_metric_eqs)

lemma run_disrupted_total: "evidence_ok snapshot \<Longrightarrow> \<exists>d. run_disrupted snapshot peak m now = Inr d"
  by (simp add: run_disrupted_def sim_metric_eqs)

lemma run_uncertainty_total:
  "evidence_ok snapshot \<Longrightarrow> \<exists>u. run_uncertainty snapshot m bounds ids now = Inr u \<and> ur_assumption_ids u = ids"
  by (simp add: run_uncertainty_def sim_metric_eqs)

lemma assemble_decided:
  assumes ok: "run_inputs_ok sha256 confirmed snapshot configuration ms"
    and days: "days \<noteq> []" "states = map fst days" "\<And>k. k < length states \<Longrightarrow> \<exists>m. step_start confirmed k = Inr m"
    and states: "\<forall>st \<in> set states. state_keys snapshot (baseline_by_refinery snapshot) (fst ` set assumptions) st"
    and keys: "fst ` set assumptions \<subseteq> fst ` set (baseline_by_refinery snapshot)"
    and bounds: "uncertainty_bounds confirmed snapshot configuration (baseline_by_refinery snapshot) = Inr bounds"
    and run: "run = assemble_result sha256 uuid5 run_id confirmed snapshot configuration now ms
      (baseline_by_refinery snapshot) assumptions days"
  shows "if \<not> 0 \<le> pi_max_mass_balance_residual (central_report confirmed snapshot states)
    then run = Inl (FieldError ''max_mass_balance_residual'')
    else if invariants_fail (central_report confirmed snapshot states) (assumptions \<noteq> [])
    then run = Inl (ValueError ''physical invariant validation failed'')
    else \<exists>r. run = Inr r"
proof -
  let ?base = "baseline_by_refinery snapshot"
  let ?peak = "peak_from (hd states) (tl states)"
  have rr: "run_ready snapshot ?base" and ev: "evidence_ok snapshot" and ne: "ts_baseline_flows snapshot \<noteq> []" "?base \<noteq> []"
    using ok by (simp_all add: run_inputs_ok_def)
  have "states \<noteq> []" using days(1,2) by simp
  then have "?peak \<in> set states" using peak_from_in [of "hd states" "tl states"] by simp
  then have pk: "state_keys snapshot ?base (fst ` set assumptions) ?peak" using states by blast
  obtain flows where fl: "rtraverse (flow_result snapshot ?peak now) (ts_baseline_flows snapshot) = Inr flows"
    "length flows = length (ts_baseline_flows snapshot)"
    using rtraverse_total [of "ts_baseline_flows snapshot" "flow_result snapshot ?peak now"] flow_result_total [OF rr ev pk] by blast
  obtain refs where rf: "rtraverse (refinery_result snapshot ?peak now) ?base = Inr refs" "length refs = length ?base"
    using rtraverse_total [of ?base "refinery_result snapshot ?peak now"] refinery_result_total [OF rr ev pk] by blast
  obtain tr where tr: "inventory_trajectories snapshot states assumptions confirmed now = Inr tr" "length tr = length assumptions"
    using trajectories_total [OF rr ev keys states days(3)] by blast
  then have trne: "tr \<noteq> [] \<longleftrightarrow> assumptions \<noteq> []" by auto
  obtain b where b: "run_baseline snapshot now = Inr b" using run_base_total [OF ev] by blast
  let ?m = "metric_of snapshot now (cumulative_shortfall states) ktonne ''cumulative-shortfall''"
  obtain d where d: "run_disrupted snapshot ?peak ?m now = Inr d" using run_disrupted_total [OF ev] by blast
  obtain u where u: "run_uncertainty snapshot ?m bounds (run_assumption_ids confirmed snapshot) now = Inr u"
    "ur_assumption_ids u = run_assumption_ids confirmed snapshot" using run_uncertainty_total [OF ev] by blast
  have c: "unit_interval (py_min_list 0 (map ev_confidence (ts_evidence_records snapshot)))"
    by (rule unit_interval_evidence [OF ev])
  have ne2: "flows \<noteq> []" "refs \<noteq> []" using fl(2) rf(2) ne by auto
  note parts = assemble_result_def Let_def days(2) [symmetric] fl(1) rf(1) tr(1) bounds report_checked trne
  show ?thesis
  proof (cases "0 \<le> pi_max_mass_balance_residual (central_report confirmed snapshot states) \<and>
      \<not> invariants_fail (central_report confirmed snapshot states) (assumptions \<noteq> [])")
    case False
    then show ?thesis by (auto simp: run parts)
  next
    case True
    then have v: "first_error (invariant_report_problems (central_report confirmed snapshot states)) = None"
      using report_checked [of confirmed snapshot states "()"] by (auto simp: validated_Inr)
    show ?thesis
      using True v ok c u ne2 ev days(1)
      by (simp add: run parts b d sim_metric_eqs validated_Inr
          simulation_result_problems_def provenance_problems_def uncertainty_range_problems_def
          run_provenance_def run_inputs_ok_def evidence_ok_def first_error_append)
  qed
qed

lemma run_decided:
  assumes "run_inputs_ok sha256 confirmed snapshot configuration ms" "duration_us confirmed = Inr d"
    "horizon_days confirmed = Inr n" "0 < n" "n \<le> 90"
    "inventory_assumptions confirmed (baseline_by_refinery snapshot) = Inr assumptions"
    "run = run_no_action_simulation sha256 uuid5 run_id confirmed snapshot configuration now ms"
  shows "if \<not> run_dates_ok confirmed d (nat n) then run = Inl OverflowError
    else \<exists>states. central_run snapshot confirmed (baseline_by_refinery snapshot) assumptions (nat n) = Inr states \<and>
      (if \<not> 0 \<le> pi_max_mass_balance_residual (central_report confirmed snapshot states)
       then run = Inl (FieldError ''max_mass_balance_residual'')
       else if invariants_fail (central_report confirmed snapshot states) (assumptions \<noteq> [])
       then run = Inl (ValueError ''physical invariant validation failed'')
       else \<exists>r. run = Inr r)"
proof -
  let ?base = "baseline_by_refinery snapshot"
  let ?days = "run_days snapshot confirmed ?base now (opening_inventory assumptions) (Fin 0) 0 (nat n)"
  have rr: "run_ready snapshot ?base" and ev: "evidence_ok snapshot" using assms(1) by (simp_all add: run_inputs_ok_def)
  have keys: "fst ` set assumptions \<subseteq> fst ` set ?base" by (rule inventory_keys [OF assms(6)])
  have op: "fst ` set (opening_inventory assumptions) = fst ` set assumptions"
    by (force simp: opening_inventory_def image_iff split: prod.splits)
  have run: "run = rbind ?days (assemble_result sha256 uuid5 run_id confirmed snapshot configuration now ms ?base assumptions)"
    using assms(3-7) by (simp add: run_no_action_simulation_def Let_def)
  have dates: "(\<forall>j. 0 \<le> j \<and> j < 0 + nat n \<longrightarrow> day_in_calendar confirmed d j) \<longleftrightarrow> run_dates_ok confirmed d (nat n)"
    using run_dates_days [of "nat n" confirmed d] assms(4) by simp
  note decided = run_days_decided [OF rr ev assms(2), of 0 "nat n" now "opening_inventory assumptions" "Fin 0", unfolded dates]
  show ?thesis
  proof (cases "run_dates_ok confirmed d (nat n)")
    case True
    with decided obtain days where days: "?days = Inr days" by auto
    note st = run_days_Inr [OF days]
    have run': "run = assemble_result sha256 uuid5 run_id confirmed snapshot configuration now ms ?base assumptions days"
      by (simp add: run days)
    have len: "length days = nat n" using st by (metis length_map length_upt add_0 diff_zero)
    then have ne: "days \<noteq> []" using assms(4) by auto
    have starts: "\<exists>m. step_start confirmed k = Inr m" if "k < length (map fst days)" for k
      using run_dates_day [OF True] that len by (simp add: step_start_eq day_in_calendar_def Let_def)
    have kept: "\<forall>s \<in> set (map fst days). state_keys snapshot ?base (fst ` set assumptions) s"
      using run_keys [of snapshot ?base "opening_inventory assumptions", OF rr] st keys unfolding op by blast
    obtain bounds where b: "uncertainty_bounds confirmed snapshot configuration ?base = Inr bounds"
      using shifted_total_eq [OF rr assms(2,3) True] by (simp add: uncertainty_bounds_def)
    from assemble_decided [OF assms(1) ne refl starts kept keys b run'] st True show ?thesis
      by (auto simp: central_run_def)
  qed (use decided run in auto)
qed

end
