(* ===== verification/Simulation_Example.thy ===== *)
theory Simulation_Example imports Simulation_Order begin

text \<open>
  A concrete twin: one supplier, one refinery, one chokepoint, one route with one flow of 100
  ktonne per day into a demand of 100, and scenarios over it. The witnesses of the simulation
  properties evaluate the model on it.
\<close>

definition example_evidence :: evidence_record where
  "example_evidence = \<lparr>ev_id = 901, ev_source_id = ''ppac'', ev_source_record_id = ''2024-01'',
     ev_source_url = None, ev_dataset = ''flows'', ev_dataset_version = ''1'', ev_effective_at = 0,
     ev_fetched_at = 10, ev_mode = DM_FIXTURE, ev_truth_class = DERIVED,
     ev_raw_payload_hash = replicate 64 (CHR ''0''), ev_raw_object_ref = None,
     ev_transformation = ''none'', ev_confidence = Fin (1 / 2), ev_license = ''open'',
     ev_parent_evidence_ids = []\<rparr>"

definition example_metric :: "pyfloat \<Rightarrow> string \<Rightarrow> metric" where
  "example_metric v u = \<lparr>me_value = v, me_unit = u, me_truth_class = DERIVED, me_confidence = Fin (1 / 2),
     me_evidence_ids = [901], me_source_refs = [\<lparr>sr_source_id = ''ppac'', sr_record_id = ''2024-01''\<rparr>],
     me_effective_at = 0, me_fetched_at = 10, me_computed_at = 20, me_freshness_status = F_CURRENT,
     me_transformation = ''none'', me_model_version = ''1''\<rparr>"

definition example_node :: "uuid \<Rightarrow> string \<Rightarrow> asset_kind \<Rightarrow> metric option \<Rightarrow> metric option \<Rightarrow> metric option \<Rightarrow> twin_node" where
  "example_node i c k capacity supply demand =
     \<lparr>tn_id = i, tn_canonical_id = c, tn_kind = k, tn_name = ''node'',
      tn_country_code = ''IN'', tn_latitude = Fin 20, tn_longitude = Fin 70, tn_capacity = capacity,
      tn_baseline_supply = supply, tn_baseline_demand = demand, tn_evidence_ids = [901],
      tn_assumption_ids = [], tn_attributes = []\<rparr>"

definition example_route :: twin_route where
  "example_route = \<lparr>rt_id = 11, rt_route_canonical_id = ''route:gulf'', rt_origin_id = 1,
     rt_destination_id = 2, rt_commodity = CRUDE_OIL,
     rt_capacity = example_metric (Fin 120) ''ktonne_per_day'',
     rt_transit_time = example_metric (Fin 3) ''day'', rt_distance = example_metric (Fin 900) ''km'',
     rt_chokepoint_ids = [3], rt_evidence_ids = [901], rt_assumption_ids = [], rt_available = True\<rparr>"

definition example_flow :: baseline_flow where
  "example_flow = \<lparr>bf_id = 21, bf_route_id = 11, bf_supplier_id = 1, bf_grade_id = 31,
     bf_volume = example_metric (Fin 100) ''ktonne_per_day'', bf_evidence_ids = [901],
     bf_assumption_ids = []\<rparr>"

definition example_twin :: twin_snapshot where
  "example_twin = \<lparr>ts_version = ''1'', ts_effective_at = 0, ts_created_at = 0,
     ts_nodes = [example_node 1 ''supplier:gulf'' SUPPLIER None (Some (example_metric (Fin 100) ''ktonne_per_day'')) None,
       example_node 2 ''refinery:west'' REFINERY (Some (example_metric (Fin 110) ''ktonne_per_day'')) None
         (Some (example_metric (Fin 100) ''ktonne_per_day'')),
       example_node 3 ''chokepoint:strait'' CHOKEPOINT None None None],
     ts_routes = [example_route], ts_grades = [], ts_compatibility = [],
     ts_baseline_flows = [example_flow], ts_evidence_records = [example_evidence],
     ts_assumptions = [],
     ts_mass_balance = \<lparr>mb_total_supply = example_metric (Fin 100) ''ktonne_per_day'',
       mb_total_demand = example_metric (Fin 100) ''ktonne_per_day'',
       mb_absolute_residual = example_metric (Fin 0) ''ktonne_per_day'',
       mb_tolerance = example_metric (Fin 1) ''ktonne_per_day'',
       mb_conserved = True, mb_node_residuals = [], mb_model_version = ''1''\<rparr>,
     ts_snapshot_id = 99, ts_fingerprint = ''f''\<rparr>"

definition example_effect :: "disruption_target_type \<Rightarrow> uuid \<Rightarrow> pyfloat \<Rightarrow> disruption_effect" where
  "example_effect t i p = \<lparr>de_disruption_type = MARITIME_ROUTE_CAPACITY_REDUCTION,
     de_target = \<lparr>dt_target_type = t, dt_requested_identifier = ''target'', dt_asset_id = Some i,
        dt_canonical_id = None, dt_display_name = None\<rparr>,
     de_capacity_reduction = \<lparr>pq_value = p\<rparr>\<rparr>"

definition example_inventory :: "pyfloat \<Rightarrow> assumption" where
  "example_inventory v = \<lparr>as_id = 71, as_key = ''initial_inventory:00000000-0000-0000-0000-000000000002'', as_value = JFloat v,
     as_unit = ''ktonne'', as_truth_class = ASSUMPTION, as_rationale = ''stock'', as_source_gap = ''none'',
     as_owner = ''analyst'', as_entered_at = 0, as_effective_at = utc 0, as_expires_at = None,
     as_approved_at = None, as_approved_by = None, as_status = AS_DRAFT, as_scenario_id = None,
     as_supersedes_id = None\<rparr>"

definition example_parameters :: "pyfloat \<Rightarrow> pyfloat \<Rightarrow> disruption_effect list \<Rightarrow> assumption list \<Rightarrow> scenario_parameters" where
  "example_parameters duration horizon effects assumptions =
     \<lparr>sp_commodity = CRUDE_OIL, sp_disruption_start = utc 1000,
      sp_disruption_duration = \<lparr>dq_value = duration, dq_unit = DAY\<rparr>,
      sp_simulation_horizon = \<lparr>dq_value = horizon, dq_unit = DAY\<rparr>,
      sp_disruptions = effects, sp_assumptions = assumptions\<rparr>"

definition example_reference :: twin_snapshot_reference where
  "example_reference = \<lparr>tr_snapshot_id = 99, tr_fingerprint = ''f'', tr_version = ''1'', tr_effective_at = 0\<rparr>"

definition example_confirmed :: "scenario_parameters \<Rightarrow> confirmed_scenario" where
  "example_confirmed p =
    \<lparr>cs_scenario_id = 51, cs_scenario_fingerprint = replicate 64 (CHR ''1''),
     cs_twin_snapshot = example_reference,
     cs_candidate = \<lparr>sc_scenario_id = 51, sc_lifecycle = SL_CONFIRMED, sc_scenario_name = ''example'',
       sc_original_text = None, sc_source_mode = SM_STRUCTURED_FORM, sc_interpreter_provider = ''form'',
       sc_interpreter_model = None, sc_twin_snapshot = example_reference, sc_parameters = p,
       sc_defaults = [], sc_created_at = 0, sc_scenario_fingerprint = replicate 64 (CHR ''1'')\<rparr>,
     cs_validation = \<lparr>sv_validation_id = 52, sv_scenario_id = 51,
       sv_scenario_fingerprint = replicate 64 (CHR ''1''), sv_twin_snapshot = example_reference,
       sv_valid = True, sv_issues = [], sv_resolved_targets = [], sv_defaults = [],
       sv_assumptions = sp_assumptions p, sv_validated_at = 0, sv_validator_version = ''1''\<rparr>,
     cs_confirmed_by = ''analyst'', cs_confirmed_at = 0,
     cs_audit_event = \<lparr>ae_id = 53, ae_occurred_at = 0, ae_actor_id = ''analyst'', ae_actor_type = ''user'',
       ae_action = ''confirm'', ae_resource_type = ''scenario'', ae_resource_id = ''51'', ae_before_hash = None,
       ae_after_hash = None, ae_reason = None, ae_correlation_id = 54, ae_causation_id = None,
       ae_outcome = AO_SUCCEEDED\<rparr>\<rparr>"

end
