(* ===== verification/Simulation_Props.thy ===== *)
theory Simulation_Props imports Simulation_Total Simulation_Example begin

text \<open>
  The properties of the no-action simulation. Each is stated over the engine's own definitions
  and rests on the closed form of a step, the bounds and monotonicity lemmas and the facts on
  runs; the witnesses evaluate the concrete twin.
\<close>

section \<open>Facts on the concrete twin\<close>

abbreviation example_baseline :: "(uuid, pyfloat) dict" where
  "example_baseline \<equiv> baseline_by_refinery example_twin"

abbreviation half_closed :: disruption_effect where
  "half_closed \<equiv> example_effect T_ROUTE 11 (Fin 50)"

abbreviation fully_closed :: disruption_effect where
  "fully_closed \<equiv> example_effect T_ROUTE 11 (Fin 100)"

lemma example_baseline_eq: "example_baseline = [(2, Fin 100)]" by code_simp

lemma example_ready: "run_ready example_twin example_baseline" by code_simp

lemma example_effects_ok: "list_all effect_ok [half_closed]" "effect_ok fully_closed" by code_simp+

lemma example_severer: "list_all2 severer [half_closed] [fully_closed]" by code_simp

abbreviation partial_scenario :: "assumption list \<Rightarrow> confirmed_scenario" where
  "partial_scenario as \<equiv> example_confirmed (example_parameters (Fin 1) (Fin 2) [half_closed] as)"

abbreviation example_configuration :: simulation_configuration where
  "example_configuration \<equiv> \<lparr>cf_time_step = 1, cf_uncertainty_reduction_delta = Fin 5\<rparr>"

definition example_hash :: simulation_hash where
  "example_hash inputs = replicate 64 (CHR ''2'')"

lemma partial_duration: "duration_us (partial_scenario []) = Inr day_us" by code_simp

lemma partial_horizon: "horizon_days (partial_scenario []) = Inr 2" by code_simp

lemma partial_dates: "run_dates_ok (partial_scenario []) day_us (nat 2)" by code_simp

lemma partial_effects: "list_all reduction_ok (sp_disruptions (cs_parameters (partial_scenario [])))"
  by code_simp

lemma example_delta: "delta_ok (cf_uncertainty_reduction_delta example_configuration)" by code_simp

text \<open>The same scenario with an initial inventory of 100: its two days, its range, its checks.\<close>

abbreviation stocked :: confirmed_scenario where
  "stocked \<equiv> partial_scenario [example_inventory (Fin 100)]"

lemma stocked_duration: "duration_us stocked = Inr day_us" by code_simp

lemma stocked_horizon: "horizon_days stocked = Inr 2" by code_simp

lemma stocked_dates: "run_dates_ok stocked day_us (nat 2)" by code_simp

lemma stocked_inputs: "run_inputs_ok example_hash stocked example_twin example_configuration (Fin 3)" by code_simp

definition two_days :: "disruption_effect list \<Rightarrow> step_state list" where
  "two_days es =
     (let st = projr (simulate_step example_twin es [(2, Fin 100)] [(2, Fin 100)])
      in [st, projr (simulate_step example_twin [] [(2, Fin 100)] (st_inventories st))])"

abbreviation stocked_days :: "step_state list" where
  "stocked_days \<equiv> two_days [half_closed]"

lemma two_days_run:
  assumes "day_active_effects c 0 = Inr es" "day_active_effects c (Suc 0) = Inr []"
  shows "central_run example_twin c example_baseline [(2, Fin 100, 71)] 2 = Inr (two_days es)"
proof -
  have total: "\<exists>st. simulate_step example_twin es [(2, Fin 100)] inv = Inr st" for es inv
    using step_total_shortfall [OF example_ready, of es inv] unfolding example_baseline_eq by blast
  obtain st where st: "simulate_step example_twin es [(2, Fin 100)] [(2, Fin 100)] = Inr st"
    using total by blast
  obtain st' where st': "simulate_step example_twin [] [(2, Fin 100)] (st_inventories st) = Inr st'"
    using total by blast
  show ?thesis
    by (simp add: central_run_def opening_inventory_def example_baseline_eq numeral_2_eq_2 assms st st' two_days_def)
qed

lemma stocked_run:
  "inventory_assumptions stocked example_baseline = Inr [(2, Fin 100, 71)]"
  "central_run example_twin stocked example_baseline [(2, Fin 100, 71)] 2 = Inr stocked_days"
  by code_simp (rule two_days_run; code_simp)

lemma stocked_passes:
  "0 \<le> pi_max_mass_balance_residual (central_report stocked example_twin stocked_days)"
  "\<not> invariants_fail (central_report stocked example_twin stocked_days) True"
  by code_simp+

abbreviation stocked_result :: "simulation_result res" where
  "stocked_result \<equiv> run_no_action_simulation example_hash (\<lambda>_. 77) 5 stocked example_twin example_configuration 100 (Fin 3)"

lemma stocked_cumulative: "cumulative_shortfall stocked_days = Fin 0" by code_simp

definition stocked_total :: "pyfloat \<Rightarrow> pyfloat" where
  "stocked_total direction = py_sum
     [total_shortfall_of example_twin [shift_effect direction (Fin 5) half_closed] example_baseline [],
      total_shortfall_of example_twin [] example_baseline []]"

lemma stocked_shifted: "shifted_total stocked example_twin example_configuration example_baseline direction
    = Inr (stocked_total direction)"
proof -
  have "day_effects stocked day_us 0 = [half_closed]" "day_effects stocked day_us (Suc 0) = []" by code_simp+
  then show ?thesis
    unfolding shifted_total_eq [OF example_ready stocked_duration stocked_horizon stocked_dates]
    by (simp add: days_shortfall_def stocked_total_def numeral_2_eq_2)
qed

lemma stocked_bounds: "uncertainty_bounds stocked example_twin example_configuration example_baseline
   = Inr (py_min (stocked_total (Fin (- 1))) (stocked_total (Fin 1)), py_max (stocked_total (Fin (- 1))) (stocked_total (Fin 1)))"
  by (simp add: uncertainty_bounds_def stocked_shifted)

lemma stocked_below:
  "cumulative_shortfall stocked_days < py_min (stocked_total (Fin (- 1))) (stocked_total (Fin 1))"
  by code_simp

section \<open>One day\<close>

text \<open>C3: On every input a run accepts, a day of the simulation returns, and every flow it computes
  is nonnegative, at most its baseline volume, and at most the disrupted capacity of its own route,
  which is itself at most the route's capacity.\<close>

theorem simulated_flow_bounds:
  assumes "run_ready snapshot baseline" "list_all effect_ok effects"
  shows "\<exists>st. simulate_step snapshot effects baseline opening = Inr st \<and>
    (\<forall>f \<in> set (ts_baseline_flows snapshot). \<exists>v.
       map_of (st_flow_values st) (bf_id f) = Some v \<and> 0 \<le> v \<and> v \<le> me_value (bf_volume f) \<and>
       v \<le> effective_route_capacity (flow_route snapshot f) effects \<and>
       effective_route_capacity (flow_route snapshot f) effects \<le> me_value (rt_capacity (flow_route snapshot f)))"
proof -
  from assms have k: "routes_known snapshot" "flow_ids_distinct snapshot" "refineries_known snapshot baseline"
    "snapshot_quantities snapshot" by (simp_all add: run_ready_def)
  obtain st where "simulate_step snapshot effects baseline opening = Inr st"
    "\<And>f. f \<in> set (ts_baseline_flows snapshot) \<Longrightarrow>
       map_of (st_flow_values st) (bf_id f) = Some (flow_value snapshot effects f)"
    by (rule step_closed [OF k(1-3), of effects "opening"], rule that)
  with flow_value_bounds [OF k(1,4) _ assms(2)] show ?thesis by (auto simp: quantity_nonneg)
qed

theorem simulated_flow_bounds_witness:
  "\<exists>st. simulate_step example_twin [half_closed] example_baseline [] = Inr st \<and>
    (\<forall>f \<in> set (ts_baseline_flows example_twin). \<exists>v.
       map_of (st_flow_values st) (bf_id f) = Some v \<and> 0 \<le> v \<and> v \<le> me_value (bf_volume f) \<and>
       v \<le> effective_route_capacity (flow_route example_twin f) [half_closed] \<and>
       effective_route_capacity (flow_route example_twin f) [half_closed]
         \<le> me_value (rt_capacity (flow_route example_twin f)))"
  using simulated_flow_bounds [OF example_ready example_effects_ok(1)] .

text \<open>C13: On every input a run accepts, with any nonnegative opening inventories, a refinery's
  throughput of the day is nonnegative and at most its demand, its disrupted capacity and what is
  available to it (its receipts and its opening stock); its shortfall, its closing inventory and the
  totals are nonnegative.\<close>

theorem refinery_day_bounds:
  assumes "run_ready snapshot baseline" "list_all effect_ok effects" "stock_ok opening"
  shows "\<exists>st. simulate_step snapshot effects baseline opening = Inr st \<and>
    list_all2 (\<lambda>rd (r, t). r = fst rd \<and> 0 \<le> t \<and> t \<le> snd rd \<and> t \<le> capacity_of snapshot effects (fst rd) (snd rd)
        \<and> t \<le> receipt snapshot effects (fst rd) + dict_get opening (fst rd) 0)
      baseline (st_refinery_throughput st) \<and>
    (\<forall>s \<in> set (map snd (st_refinery_shortfall st)). 0 \<le> s) \<and> stock_ok (st_inventories st) \<and>
    0 \<le> st_total_shortfall st \<and> 0 \<le> st_total_throughput st"
proof -
  from assms have k: "routes_known snapshot" "flow_ids_distinct snapshot" "refineries_known snapshot baseline"
    "snapshot_quantities snapshot" "demands_ok baseline" by (simp_all add: run_ready_def)
  obtain st where st: "simulate_step snapshot effects baseline opening = Inr st"
    "st_refinery_throughput st = map (\<lambda>rd. (fst rd, py_max 0 (processed_of snapshot effects opening rd))) baseline"
    "st_refinery_shortfall st = map (\<lambda>rd. (fst rd, py_max 0 (snd rd - processed_of snapshot effects opening rd))) baseline"
    "st_inventories st = map (\<lambda>rd. (fst rd, py_max 0 (available_of snapshot effects opening (fst rd)
        - processed_of snapshot effects opening rd))) (filter (\<lambda>rd. dict_has opening (fst rd)) baseline)"
    "st_total_shortfall st = py_sum (map snd (st_refinery_shortfall st))"
    "st_total_throughput st = py_sum (map snd (st_refinery_throughput st))"
    by (rule step_closed [OF k(1-3), of effects "opening"], rule that)
  note p = processed_bounds [OF k(1,4,3,5) _ assms(2,3)]
  show ?thesis
    using st p by (auto simp: list_all2_map2 list_all2_same py_max_0_id available_of_def stock_ok_def
        intro!: py_sum_nonneg)
qed

theorem refinery_day_bounds_witness:
  "\<exists>st. simulate_step example_twin [half_closed] example_baseline [(2, Fin 20)] = Inr st \<and>
    list_all2 (\<lambda>rd (r, t). r = fst rd \<and> 0 \<le> t \<and> t \<le> snd rd \<and> t \<le> capacity_of example_twin [half_closed] (fst rd) (snd rd)
        \<and> t \<le> receipt example_twin [half_closed] (fst rd) + dict_get [(2, Fin 20)] (fst rd) 0)
      example_baseline (st_refinery_throughput st) \<and>
    (\<forall>s \<in> set (map snd (st_refinery_shortfall st)). 0 \<le> s) \<and> stock_ok (st_inventories st) \<and>
    0 \<le> st_total_shortfall st \<and> 0 \<le> st_total_throughput st"
  using refinery_day_bounds [OF example_ready example_effects_ok(1), of "[(2, Fin 20)]"]
  by (simp add: stock_ok_def)

text \<open>C21: A ROUTE effect of 100 percent closes its route on the day it is active: every flow on that
  route carries exactly zero.\<close>

theorem closed_route_carries_nothing:
  assumes "run_ready snapshot baseline" "list_all effect_ok effects"
    "e \<in> set effects" "reduction e = Fin 100" "effect_type e = T_ROUTE"
    "dt_asset_id (de_target e) = Some (bf_route_id f)" "f \<in> set (ts_baseline_flows snapshot)"
  shows "\<exists>st. simulate_step snapshot effects baseline opening = Inr st \<and>
    map_of (st_flow_values st) (bf_id f) = Some 0"
proof -
  from assms have k: "routes_known snapshot" "flow_ids_distinct snapshot" "refineries_known snapshot baseline"
    "snapshot_quantities snapshot" by (simp_all add: run_ready_def)
  have "rt_id (flow_route snapshot f) = bf_route_id f" by (rule flow_route_index(3) [OF k(1) assms(7)])
  then have "route_applies (flow_route snapshot f) e" using assms(5,6) by (simp add: route_applies_def)
  then have "effective_route_capacity (flow_route snapshot f) effects \<le> 0"
    using closed_route_capacity [OF assms(2,3,4)] flow_route_index(2) [OF k(1) assms(7)] k(4)
    by (simp add: snapshot_quantities_def)
  then have "flow_value snapshot effects f = 0"
    using flow_value_bounds [OF k(1,4) assms(7,2)]
    by (meson le_antisym_pyfloat le_trans_pyfloat quantity_nonneg)
  moreover obtain st where "simulate_step snapshot effects baseline opening = Inr st"
    "\<And>f. f \<in> set (ts_baseline_flows snapshot) \<Longrightarrow>
       map_of (st_flow_values st) (bf_id f) = Some (flow_value snapshot effects f)"
    by (rule step_closed [OF k(1-3), of effects "opening"], rule that)
  ultimately show ?thesis using assms(7) by auto
qed

theorem closed_route_carries_nothing_witness:
  "\<exists>st. simulate_step example_twin [half_closed, fully_closed] example_baseline [] = Inr st \<and>
    map_of (st_flow_values st) (bf_id example_flow) = Some 0"
  by (rule closed_route_carries_nothing [OF example_ready, of _ fully_closed]; code_simp)

text \<open>Without disruption the day reproduces the baseline: when every refinery's demand is within
  its capacity and its baseline receipts, and every flow is within its route's capacity, every flow
  carries its baseline volume and the total shortfall is zero.\<close>

lemma undisrupted_day_is_baseline:
  assumes "run_ready snapshot baseline"
    "\<And>f. f \<in> set (ts_baseline_flows snapshot) \<Longrightarrow> me_value (bf_volume f) \<le> me_value (rt_capacity (flow_route snapshot f))"
    "\<And>rd. rd \<in> set baseline \<Longrightarrow> snd rd \<le> node_capacity (the (node_of snapshot (fst rd))) (snd rd)"
    "\<And>rd. rd \<in> set baseline \<Longrightarrow> snd rd \<le> py_sum (map (\<lambda>f. me_value (bf_volume f))
        (filter (\<lambda>f. rt_destination_id (flow_route snapshot f) = fst rd) (ts_baseline_flows snapshot)))"
  shows "\<exists>st. simulate_step snapshot [] baseline [] = Inr st \<and>
    (\<forall>f \<in> set (ts_baseline_flows snapshot). map_of (st_flow_values st) (bf_id f) = Some (me_value (bf_volume f))) \<and>
    st_total_shortfall st = 0"
proof -
  from assms have k: "routes_known snapshot" "flow_ids_distinct snapshot" "refineries_known snapshot baseline"
    "snapshot_quantities snapshot" "demands_ok baseline" by (simp_all add: run_ready_def)
  have fv: "flow_value snapshot [] f = me_value (bf_volume f)" if "f \<in> set (ts_baseline_flows snapshot)" for f
    by (rule undisrupted_flow [OF k(1,4) that assms(2) [OF that]])
  then have "receipt snapshot [] r = py_sum (map (\<lambda>f. me_value (bf_volume f))
        (filter (\<lambda>f. rt_destination_id (flow_route snapshot f) = r) (ts_baseline_flows snapshot)))" for r
    unfolding receipt_def by (intro arg_cong [where f = py_sum] map_cong) auto
  then have "shortfall_of snapshot [] [] rd = 0" if "rd \<in> set baseline" for rd
    using undisrupted_shortfall [OF k(4,3) that] assms(3,4) [OF that] k(5) that
    by (simp add: demands_ok_def)
  then have "total_shortfall_of snapshot [] baseline [] = 0"
    by (simp add: total_shortfall_of_def py_sum_zeros cong: map_cong)
  moreover obtain st where "simulate_step snapshot [] baseline [] = Inr st"
    "\<And>f. f \<in> set (ts_baseline_flows snapshot) \<Longrightarrow> map_of (st_flow_values st) (bf_id f) = Some (flow_value snapshot [] f)"
    by (rule step_closed [OF k(1-3), of "[]" "[]"], rule that)
  moreover obtain st' where "simulate_step snapshot [] baseline [] = Inr st'"
    "st_total_shortfall st' = total_shortfall_of snapshot [] baseline []"
    by (rule step_no_stock [OF assms(1)], rule that)
  ultimately show ?thesis using fv by simp
qed

text \<open>C6: A more severe disruption never helps: raising the capacity reductions of the effects can only
  raise the shortfall of every refinery and the total shortfall of the day, at any opening
  inventories.\<close>

theorem severity_monotone_day:
  assumes "run_ready snapshot baseline" "list_all2 severer effects effects'" "stock_ok opening"
  shows "\<exists>st st'. simulate_step snapshot effects baseline opening = Inr st \<and>
    simulate_step snapshot effects' baseline opening = Inr st' \<and>
    list_all2 (\<lambda>(r, s) (r', s'). r = r' \<and> s \<le> s') (st_refinery_shortfall st) (st_refinery_shortfall st') \<and>
    st_total_shortfall st \<le> st_total_shortfall st'"
proof -
  from assms have k: "routes_known snapshot" "flow_ids_distinct snapshot" "refineries_known snapshot baseline"
    "snapshot_quantities snapshot" "demands_ok baseline" by (simp_all add: run_ready_def)
  have step: "\<exists>st. simulate_step snapshot es baseline opening = Inr st \<and>
    st_refinery_shortfall st = map (\<lambda>rd. (fst rd, shortfall_of snapshot es opening rd)) baseline \<and>
    st_total_shortfall st = total_shortfall_of snapshot es baseline opening" for es
    by (rule step_shortfalls [OF k(1-3), of es "opening"])
  from step [of effects] step [of effects'] show ?thesis
    using shortfall_le [OF k(1,4,3,5) _ assms(2,3)] total_shortfall_le [OF k(1,4,3,5) assms(2,3)]
    by (auto simp: list_all2_map1 list_all2_map2 list_all2_same)
qed

theorem severity_monotone_day_witness:
  "\<exists>st st'. simulate_step example_twin [half_closed] example_baseline [] = Inr st \<and>
    simulate_step example_twin [fully_closed] example_baseline [] = Inr st' \<and>
    list_all2 (\<lambda>(r, s) (r', s'). r = r' \<and> s \<le> s') (st_refinery_shortfall st) (st_refinery_shortfall st') \<and>
    st_total_shortfall st \<le> st_total_shortfall st'"
  using severity_monotone_day [OF example_ready example_severer, of "[]"] by simp

section \<open>The sensitivity range\<close>

text \<open>C25: Without inventories and with dates inside the calendar the sensitivity range brackets the central estimate: both shifted runs
  and the central run return, the lower bound is the run with the reductions lowered by the delta, the
  upper bound the one with them raised, and lower, central and upper cumulative shortfall are ordered.\<close>

theorem uncertainty_brackets_central:
  assumes "run_ready snapshot baseline" "duration_us confirmed = Inr d" "horizon_days confirmed = Inr n"
    "list_all reduction_ok (sp_disruptions (cs_parameters confirmed))"
    "delta_ok (cf_uncertainty_reduction_delta configuration)" "run_dates_ok confirmed d (nat n)"
  shows "\<exists>lower upper states. uncertainty_bounds confirmed snapshot configuration baseline = Inr (lower, upper) \<and>
    central_run snapshot confirmed baseline [] (nat n) = Inr states \<and>
    shifted_total confirmed snapshot configuration baseline (Fin (- 1)) = Inr lower \<and>
    shifted_total confirmed snapshot configuration baseline (Fin 1) = Inr upper \<and>
    lower \<le> cumulative_shortfall states \<and> cumulative_shortfall states \<le> upper"
proof -
  let ?\<delta> = "cf_uncertainty_reduction_delta configuration"
  let ?es = "day_effects confirmed d"
  let ?lo = "days_shortfall snapshot baseline (\<lambda>k. map (shift_effect (Fin (- 1)) ?\<delta>) (?es k)) (nat n)"
  let ?hi = "days_shortfall snapshot baseline (\<lambda>k. map (shift_effect (Fin 1) ?\<delta>) (?es k)) (nat n)"
  note sev = day_effects_severer [OF assms(4,5)]
  obtain sts where sts: "central_run snapshot confirmed baseline [] (nat n) = Inr sts"
    "cumulative_shortfall sts = days_shortfall snapshot baseline ?es (nat n)"
    by (rule days_cumulative [where n = "nat n", OF assms(1) refl [of "Inr (?es _)"]])
      (simp add: central_run_eq [OF assms(2,6)] opening_inventory_def)
  have le: "?lo \<le> cumulative_shortfall sts" "cumulative_shortfall sts \<le> ?hi"
    unfolding sts(2) by (rule days_shortfall_le [OF assms(1)], rule sev)+
  then have "?lo \<le> ?hi" by (rule le_trans_pyfloat)
  then have "py_min ?lo ?hi = ?lo" "py_max ?lo ?hi = ?hi"
    using le_antisym_pyfloat by (auto simp: py_min_def py_max_def less_pyfloat_def)
  with sts le show ?thesis
    by (simp add: uncertainty_bounds_def shifted_total_eq [OF assms(1-3,6)])
qed

theorem uncertainty_brackets_central_witness:
  "\<exists>lower upper states. uncertainty_bounds (partial_scenario []) example_twin example_configuration example_baseline
      = Inr (lower, upper) \<and>
    central_run example_twin (partial_scenario []) example_baseline [] (nat 2) = Inr states \<and>
    shifted_total (partial_scenario []) example_twin example_configuration example_baseline (Fin (- 1)) = Inr lower \<and>
    shifted_total (partial_scenario []) example_twin example_configuration example_baseline (Fin 1) = Inr upper \<and>
    lower \<le> cumulative_shortfall states \<and> cumulative_shortfall states \<le> upper"
  by (rule uncertainty_brackets_central
      [OF example_ready partial_duration partial_horizon partial_effects example_delta partial_dates])

text \<open>C26: The sensitivity range ignores the scenario's assumptions altogether, initial inventories
  included, while the central estimate uses them; so with an initial inventory the central cumulative
  shortfall can lie strictly below the lower bound of its own range.\<close>

theorem uncertainty_ignores_inventory:
  "uncertainty_bounds (with_assumptions as confirmed) snapshot configuration baseline
     = uncertainty_bounds confirmed snapshot configuration baseline \<and>
   (\<exists>assumptions states lower upper.
     inventory_assumptions stocked example_baseline = Inr assumptions \<and>
     central_run example_twin stocked example_baseline assumptions 2 = Inr states \<and>
     uncertainty_bounds stocked example_twin example_configuration example_baseline = Inr (lower, upper) \<and>
     cumulative_shortfall states < lower)"
  using uncertainty_without_assumptions [of as confirmed snapshot configuration baseline]
    stocked_run(1,2) stocked_bounds stocked_below by blast

section \<open>The run\<close>

text \<open>The disruption is applied on exactly the days that start before its end: day k of the run uses
  all effects of the scenario when k days are less than the duration, and none afterwards.\<close>

lemma active_window:
  assumes "timedelta_days (dq_days (sp_disruption_duration (cs_parameters confirmed))) = Inr d"
    "run_dates_ok confirmed d n" "k < n"
  shows "day_active_effects confirmed k =
    Inr (if int k * day_us < d then sp_disruptions (cs_parameters confirmed) else [])"
  using active_effects_day [OF assms] by (simp add: day_effects_def)

text \<open>A horizon of no day or of more than 90 days is refused, and a returned result has one timeline
  point for every day of a horizon between 1 and 90 days.\<close>

lemma horizon_guard:
  assumes "horizon_days confirmed = Inr n"
  shows "(n \<le> 0 \<or> 90 < n \<longrightarrow> run_no_action_simulation sha256 uuid5 run_id confirmed snapshot configuration now ms
      = Inl (ValueError ''simulation horizon is outside the supported deterministic range'')) \<and>
    (\<forall>r. run_no_action_simulation sha256 uuid5 run_id confirmed snapshot configuration now ms = Inr r
      \<longrightarrow> 0 < n \<and> n \<le> 90 \<and> map tp_step (sr_timeline r) = [0..n - 1])"
  using assms run_timeline [OF _ assms] by (auto simp: run_no_action_simulation_def)

text \<open>C5: On admissible inputs the run decides between a result and three errors, in this order: a date outside the
  calendar (the end of the disruption or of a day) is an overflow; then every day is computed, and a residual
  that is not a number is refused as a field of the invariant report, a failed physical check raises the
  physical validation error, and otherwise a result is returned.\<close>

theorem run_fails_only_by_physical_check:
  assumes "run_inputs_ok sha256 confirmed snapshot configuration ms" "duration_us confirmed = Inr d"
    "horizon_days confirmed = Inr n" "0 < n" "n \<le> 90"
    "inventory_assumptions confirmed (baseline_by_refinery snapshot) = Inr assumptions"
    "run = run_no_action_simulation sha256 uuid5 run_id confirmed snapshot configuration now ms"
  shows "if \<not> run_dates_ok confirmed d (nat n) then run = Inl OverflowError
    else \<exists>states. central_run snapshot confirmed (baseline_by_refinery snapshot) assumptions (nat n) = Inr states \<and>
      (if \<not> 0 \<le> pi_max_mass_balance_residual (central_report confirmed snapshot states)
       then run = Inl (FieldError ''max_mass_balance_residual'')
       else if invariants_fail (central_report confirmed snapshot states) (assumptions \<noteq> [])
       then run = Inl (ValueError ''physical invariant validation failed'')
       else \<exists>r. run = Inr r)"
  by (rule run_decided [OF assms])

theorem run_fails_only_by_physical_check_witness: "\<exists>r. stocked_result = Inr r"
  using run_fails_only_by_physical_check [OF stocked_inputs stocked_duration stocked_horizon _ _ stocked_run(1) refl,
      of "\<lambda>_. 77" 5 100]
    stocked_dates stocked_run(2) stocked_passes by simp









text \<open>The day reported as the disrupted result is a day of the run with the largest total
  shortfall.\<close>

lemma peak_is_worst_day:
  assumes "run_ready snapshot baseline" "simulate_days snapshot baseline effects_on opening 0 n = Inr states"
    "st \<in> set states"
  shows "peak_from (hd states) (tl states) \<in> set states \<and>
    st_total_shortfall st \<le> st_total_shortfall (peak_from (hd states) (tl states))"
proof -
  have st: "hd states # tl states = states" using assms(3) by (cases states) simp_all
  have "\<forall>s \<in> set (hd states # tl states). st_total_shortfall s \<noteq> NaN"
    unfolding st using days_shortfall_nonneg [OF assms(1,2)] le_not_NaN by blast
  from peak_from_max [OF this, of st] peak_from_in [of "hd states" "tl states"] assms(3)
  show ?thesis unfolding st by blast
qed

end
