(* ===== verification/Twin_Props.thy ===== *)
theory Twin_Props imports Simulation_Example begin

text \<open>
  Properties of the twin snapshot: the content-addressed constructor and the validator are inverse
  to each other, and a valid snapshot supplies what the simulation needs of it.
\<close>

section \<open>Content addressing\<close>

lemma valid_snapshot_fingerprint:
  assumes "snapshot_valid sha256 uuid5 s"
  shows "ts_fingerprint s = sha256 (payload_of s)"
    "ts_snapshot_id s = uuid5 (''urn:sanjiv:twin-snapshot:'' @ sha256 (payload_of s))"
  using assms unfolding snapshot_valid_def snapshot_problems_def Let_def first_error_append_None
  by (auto split: if_splits)

lemma extend_payload:
  "twin_payload.extend (payload_of s) (twin_snapshot.fields (ts_snapshot_id s) (ts_fingerprint s)) = s"
  by (cases s) (simp add: payload_of_def twin_payload.defs twin_snapshot.defs)

lemma truncate_payload: "twin_payload.truncate p = p" for p :: twin_payload
  by (cases p) (simp add: twin_payload.defs)

text \<open>C7: A snapshot is determined by its content. Creating a snapshot from a payload returns s exactly when s
  passes the snapshot validator and carries that payload; so validation accepts nothing but what the
  constructor builds, and rebuilding a valid snapshot from its own payload gives it back.\<close>

theorem snapshot_create_roundtrip:
  "snapshot_create sha256 uuid5 p = Inr s \<longleftrightarrow> snapshot_valid sha256 uuid5 s \<and> payload_of s = p"
proof
  assume "snapshot_create sha256 uuid5 p = Inr s"
  then show "snapshot_valid sha256 uuid5 s \<and> payload_of s = p"
    by (auto simp: snapshot_create_def Let_def validated_Inr snapshot_valid_def payload_of_extend truncate_payload)
next
  assume v: "snapshot_valid sha256 uuid5 s \<and> payload_of s = p"
  then have "twin_payload.extend p (twin_snapshot.fields (uuid5 (''urn:sanjiv:twin-snapshot:'' @ sha256 p)) (sha256 p)) = s"
    using extend_payload [of s] valid_snapshot_fingerprint [of sha256 uuid5 s] by metis
  with v show "snapshot_create sha256 uuid5 p = Inr s"
    by (simp add: snapshot_create_def Let_def validated_ok snapshot_valid_def)
qed

section \<open>Ready for simulation\<close>

lemma valid_flow_known:
  assumes "snapshot_valid sha256 uuid5 s" "f \<in> set (ts_baseline_flows s)"
  shows "bf_route_id f \<in> set (map rt_id (ts_routes s))" "bf_grade_id f \<in> set (map cg_id (ts_grades s))"
    "bf_supplier_id f \<in> set (map tn_id (ts_nodes s))"
proof -
  have "flow_problem (set (map rt_id (ts_routes s))) (set (map cg_id (ts_grades s))) (set (map tn_id (ts_nodes s))) f = None"
    using assms unfolding snapshot_valid_def snapshot_problems_def Let_def first_error_append_None each_None by blast
  then show "bf_route_id f \<in> set (map rt_id (ts_routes s))" "bf_grade_id f \<in> set (map cg_id (ts_grades s))"
    "bf_supplier_id f \<in> set (map tn_id (ts_nodes s))"
    by (auto simp: flow_problem_def split: if_splits)
qed

lemma baseline_refineries: "refineries_known s (baseline_by_refinery s)"
proof -
  have "fst ` set (dict_of kvs) \<subseteq> fst ` set kvs" for kvs :: "(uuid \<times> pyfloat) list"
  proof -
    have "k \<in> fst ` set kvs" if "map_of (dict_of kvs) k \<noteq> None" for k
      using that by (auto simp: map_of_dict_of map_of_eq_None_iff)
    then show ?thesis by (metis map_of_eq_None_iff subsetI)
  qed
  then show ?thesis
    by (fastforce simp: refineries_known_def baseline_by_refinery_def List.map_filter_def split: option.splits if_splits)
qed

text \<open>C24: A valid snapshot is ready for simulation. Its validator guarantees that every flow has its route
  and the refineries with demand are its nodes; with flow identifiers that do not repeat and finite
  nonnegative volumes, capacities and demands (which the validator does not check) every simulated
  day returns, for any effects and opening inventories.\<close>

theorem valid_snapshot_simulates:
  assumes "snapshot_valid sha256 uuid5 s" "flow_ids_distinct s" "snapshot_quantities s"
    "demands_ok (baseline_by_refinery s)"
  shows "run_ready s (baseline_by_refinery s) \<and>
    (\<exists>st. simulate_step s effects (baseline_by_refinery s) opening = Inr st)"
proof -
  have r: "run_ready s (baseline_by_refinery s)"
    using assms valid_flow_known(1) [OF assms(1)] baseline_refineries [of s] by (simp add: run_ready_def routes_known_def)
  then have k: "routes_known s" "flow_ids_distinct s" "refineries_known s (baseline_by_refinery s)"
    by (simp_all add: run_ready_def)
  obtain st where "simulate_step s effects (baseline_by_refinery s) opening = Inr st"
    by (rule step_closed [OF k, of effects "opening"])
  with r show ?thesis by blast
qed

definition example_grade :: "nat \<Rightarrow> crude_grade" where
  "example_grade n = \<lparr>cg_id = of_nat (30 + n), cg_canonical_id = ''grade:'' @ replicate n (CHR ''a''), cg_name = ''grade'',
     cg_origin_country_code = ''IN'', cg_load_port_ids = [1], cg_api_gravity = example_metric (Fin 30) ''deg'',
     cg_sulfur_pct = example_metric (Fin 1) ''pct'', cg_sanctions_state = ''none'', cg_evidence_ids = [901],
     cg_assumption_ids = []\<rparr>"

definition twin_sha256 :: twin_hash where "twin_sha256 p = replicate 64 (CHR ''0'')"

definition twin_uuid5 :: uuid5_fun where "twin_uuid5 s = 77"

definition valid_twin :: twin_snapshot where
  "valid_twin = example_twin
    \<lparr>ts_grades := map example_grade [1..<13],
     ts_compatibility := [\<lparr>rc_grade_id = 31, rc_refinery_id = 2, rc_score = example_metric (Fin 1) ''fraction'',
       rc_classification = PREFERRED, rc_allowed = True, rc_component_scores = [], rc_evidence_ids = [901],
       rc_assumption_ids = [], rc_explanation = ''ok''\<rparr>],
     ts_snapshot_id := 77, ts_fingerprint := replicate 64 (CHR ''0'')\<rparr>"

lemma valid_twin_ok: "snapshot_valid twin_sha256 twin_uuid5 valid_twin" "flow_ids_distinct valid_twin"
  "snapshot_quantities valid_twin" "demands_ok (baseline_by_refinery valid_twin)"
  by code_simp+

theorem valid_snapshot_simulates_witness:
  "run_ready valid_twin (baseline_by_refinery valid_twin)"
  using valid_snapshot_simulates [OF valid_twin_ok] by blast

end
