(* ===== verification/Procurement_Contracts.thy ===== *)
theory Procurement_Contracts imports Twin_Contracts begin

text \<open>
  The procurement contracts, \<open>sanjiv/procurement/contracts.py\<close>: the optimisation input with
  its options and demands, the solver result with its actions, objective, constraint report and
  independent check, the plan, and the plan lifecycle. Fields whose type admits a single literal are
  left out. The canonical hashes (SHA-256 of the sorted JSON of pydantic's dump) are parameters;
  a record that carries its own hash extends the record of the hashed fields.
\<close>

section \<open>Enumerations\<close>

datatype procurement_profile = LOWEST_COST | BALANCED | HIGHEST_RESILIENCE

datatype solver_status = OPTIMAL | FEASIBLE | INFEASIBLE | TIMEOUT | ERROR | CANCELLED | NOT_RUN

datatype plan_lifecycle =
    L_REQUESTED | L_SOLVING | L_CHECKING | L_FEASIBLE | L_APPROVED | L_REJECTED | L_FAILED | L_SUPERSEDED

datatype constraint_family =
    F_PHYSICAL | F_SUPPLIER_CAPACITY | F_ROUTE_CAPACITY | F_REFINERY_CAPACITY | F_DELIVERY_WINDOW
  | F_BUDGET | F_SANCTIONS | F_COMPATIBILITY | F_POLICY | F_CONCENTRATION | F_MASS_BALANCE

text \<open>\<open>list(ConstraintFamily)\<close>, in definition order.\<close>

definition all_families :: "constraint_family list" where
  "all_families = [F_PHYSICAL, F_SUPPLIER_CAPACITY, F_ROUTE_CAPACITY, F_REFINERY_CAPACITY,
     F_DELIVERY_WINDOW, F_BUDGET, F_SANCTIONS, F_COMPATIBILITY, F_POLICY, F_CONCENTRATION, F_MASS_BALANCE]"

datatype rejection_reason =
    RR_SANCTIONED | RR_HARD_INCOMPATIBLE | RR_DISCONNECTED | RR_ROUTE_CLOSED | RR_CAPACITY_EXHAUSTED
  | RR_SUPPLIER_LIMIT | RR_PORT_LIMIT | RR_DELIVERY_TOO_LATE | RR_BUDGET_LIMIT | RR_CONCENTRATION_LIMIT
  | RR_HIGHER_OBJECTIVE | RR_MISSING_COMMERCIAL_INPUT | RR_EXPIRED_ASSUMPTION | RR_INVALID_PROVENANCE
  | RR_SANCTIONS_EXCLUSION | RR_GRADE_INCOMPATIBLE | RR_SUPPLIER_CAPACITY_EXCEEDED
  | RR_ROUTE_CAPACITY_EXCEEDED | RR_REFINERY_CAPACITY_EXCEEDED | RR_DELIVERY_WINDOW_MISSED
  | RR_BUDGET_EXCEEDED | RR_CONCENTRATION_LIMIT_EXCEEDED | RR_COMMERCIAL_AVAILABILITY_UNVERIFIED
  | RR_TRANSPORT_AVAILABILITY_UNVERIFIED | RR_POLICY_EXCLUSION | RR_DOMINATED

datatype transport_status = TS_NOT_ASSESSED | TS_CANDIDATE | TS_EVIDENCE_BACKED_CONFIRMED | TS_UNAVAILABLE

datatype failure_stage = FS_INPUT_VALIDATION | FS_SOLVER | FS_INDEPENDENT_CHECK | FS_CONTRACT

definition MAX_OPTIONS :: nat where "MAX_OPTIONS = 500"

definition MAX_ACTIONS :: nat where "MAX_ACTIONS = 500"

definition MAX_REFERENCES :: nat where "MAX_REFERENCES = 2000"

section \<open>Shared checks\<close>

definition at_most :: "nat \<Rightarrow> 'a list \<Rightarrow> bool" where
  "at_most n xs \<longleftrightarrow> length xs \<le> n"

definition require_unique :: "'a list \<Rightarrow> string \<Rightarrow> bool \<times> py_error" where
  "require_unique xs label = (\<not> distinct xs, ValueError (label @ '' must not contain duplicates''))"

definition require_unit :: "string \<Rightarrow> string \<Rightarrow> string \<Rightarrow> bool \<times> py_error" where
  "require_unit unit allowed field = (unit \<noteq> allowed, ValueError (field @ '' unit must be one of: '' @ allowed))"

definition finite_metric_problems :: "metric \<Rightarrow> string \<Rightarrow> (bool \<times> py_error) list" where
  "finite_metric_problems m field =
    [(\<not> isfinite (me_value m), ValueError (field @ '' must be finite'')),
     (\<not> at_most MAX_REFERENCES (me_evidence_ids m) \<or> \<not> at_most MAX_REFERENCES (me_source_refs m),
        ValueError (field @ '' provenance exceeds the bounded reference limit''))]"

definition non_negative_metric_problems :: "metric \<Rightarrow> string \<Rightarrow> string \<Rightarrow> (bool \<times> py_error) list" where
  "non_negative_metric_problems m unit field =
     finite_metric_problems m field @
     [(me_value m < 0, ValueError (field @ '' must not be negative'')), require_unit (me_unit m) unit field]"

definition fraction_metric_problems :: "metric \<Rightarrow> string \<Rightarrow> (bool \<times> py_error) list" where
  "fraction_metric_problems m field =
     non_negative_metric_problems m ''fraction'' field @
     [(1 < me_value m, ValueError (field @ '' must be at most 1 fraction''))]"

definition modeled_metric_problems :: "metric \<Rightarrow> string \<Rightarrow> string \<Rightarrow> (bool \<times> py_error) list" where
  "modeled_metric_problems m unit field =
     non_negative_metric_problems m unit field @
     [(me_truth_class m \<noteq> MODELED, ValueError (field @ '' optimiser output must use truth class MODELED''))]"

section \<open>References and configuration\<close>

record evidence_fingerprint =
  ef_evidence_id :: uuid
  ef_raw_payload_hash :: string

record assumption_fingerprint =
  af_assumption_id :: uuid
  af_assumption_hash :: string
  af_status :: assumption_status

record run_reference =
  rf_run_id :: uuid
  rf_scenario_id :: uuid
  rf_scenario_fingerprint :: string
  rf_simulation_fingerprint :: string
  rf_twin_snapshot_id :: uuid
  rf_twin_snapshot_fingerprint :: string
  rf_model_version :: string

record result_reference =
  rs_result_id :: uuid
  rs_run_id :: uuid
  rs_scenario_id :: uuid
  rs_scenario_fingerprint :: string
  rs_simulation_fingerprint :: string
  rs_twin_snapshot_id :: uuid
  rs_twin_snapshot_fingerprint :: string

record confirmed_reference =
  cn_scenario_id :: uuid
  cn_scenario_fingerprint :: string
  cn_confirmed_at :: datetime

record solver_quantity =
  sq_value :: pyfloat
  sq_unit :: string

definition solver_quantity_ok :: "solver_quantity \<Rightarrow> bool" where
  "solver_quantity_ok q \<longleftrightarrow> isfinite (sq_value q) \<and> 0 \<le> sq_value q \<and>
     sq_unit q \<in> {''second'', ''fraction'', ''iteration''}"

record solver_configuration =
  so_solver_version :: string
  so_time_limit :: solver_quantity
  so_relative_mip_gap :: solver_quantity
  so_thread_count :: int
  so_random_seed :: int

definition solver_configuration_problems :: "solver_configuration \<Rightarrow> (bool \<times> py_error) list" where
  "solver_configuration_problems c =
    [(\<not> len_between 1 100 (so_solver_version c), FieldError ''solver_version''),
     (\<not> solver_quantity_ok (so_time_limit c), FieldError ''time_limit''),
     (\<not> solver_quantity_ok (so_relative_mip_gap c), FieldError ''relative_mip_gap''),
     (\<not> (1 \<le> so_thread_count c \<and> so_thread_count c \<le> 64), FieldError ''thread_count''),
     (\<not> (0 \<le> so_random_seed c \<and> so_random_seed c \<le> 2147483647), FieldError ''random_seed''),
     require_unit (sq_unit (so_time_limit c)) ''second'' ''time_limit'',
     require_unit (sq_unit (so_relative_mip_gap c)) ''fraction'' ''relative_mip_gap'',
     (1 < sq_value (so_relative_mip_gap c), ValueError ''relative_mip_gap must be at most 1 fraction'')]"

text \<open>An \<open>ObjectiveWeight\<close> is its value, its unit being fixed.\<close>

record objective_weights =
  ow_profile :: procurement_profile
  ow_version :: string
  ow_landed_cost :: pyfloat
  ow_shortfall :: pyfloat
  ow_delay :: pyfloat
  ow_route_risk :: pyfloat
  ow_supplier_concentration :: pyfloat
  ow_corridor_concentration :: pyfloat
  ow_compatibility_penalty :: pyfloat
  ow_emissions :: pyfloat

definition weight_values :: "objective_weights \<Rightarrow> pyfloat list" where
  "weight_values w = [ow_landed_cost w, ow_shortfall w, ow_delay w, ow_route_risk w,
     ow_supplier_concentration w, ow_corridor_concentration w, ow_compatibility_penalty w, ow_emissions w]"

definition objective_weights_problems :: "objective_weights \<Rightarrow> (bool \<times> py_error) list" where
  "objective_weights_problems w =
    [(\<not> len_between 1 100 (ow_version w), FieldError ''version''),
     (list_ex (\<lambda>v. \<not> isfinite v \<or> \<not> 0 \<le> v) (weight_values w), FieldError ''value''),
     (\<not> list_ex (\<lambda>v. 0 < v) (weight_values w),
        ValueError ''at least one objective weight must be positive'')]"

record reserve_policy_input =
  rp_policy_id :: string
  rp_policy_version :: string
  rp_policy_fingerprint :: string
  rp_evidence_ids :: "uuid list"
  rp_assumption_ids :: "uuid list"

definition reserve_policy_problems :: "reserve_policy_input \<Rightarrow> (bool \<times> py_error) list" where
  "reserve_policy_problems p =
    [(\<not> len_between 1 100 (rp_policy_id p), FieldError ''policy_id''),
     (\<not> len_between 1 100 (rp_policy_version p), FieldError ''policy_version''),
     (\<not> is_sha256 (rp_policy_fingerprint p), FieldError ''policy_fingerprint''),
     (\<not> at_most MAX_REFERENCES (rp_evidence_ids p), FieldError ''evidence_ids''),
     (\<not> at_most MAX_REFERENCES (rp_assumption_ids p), FieldError ''assumption_ids''),
     (rp_evidence_ids p = [] \<and> rp_assumption_ids p = [],
        ValueError ''fixed reserve policy requires evidence or assumption references''),
     require_unique (rp_evidence_ids p) ''reserve policy evidence'',
     require_unique (rp_assumption_ids p) ''reserve policy assumptions'']"

record hard_constraints =
  hc_version :: string
  hc_budget_limit :: metric
  hc_supplier_concentration_limit :: metric
  hc_corridor_concentration_limit :: metric

definition hard_constraints_problems :: "hard_constraints \<Rightarrow> (bool \<times> py_error) list" where
  "hard_constraints_problems h =
    [(\<not> len_between 1 100 (hc_version h), FieldError ''version''),
     (\<not> metric_valid (hc_budget_limit h), FieldError ''budget_limit''),
     (\<not> metric_valid (hc_supplier_concentration_limit h), FieldError ''supplier_concentration_limit''),
     (\<not> metric_valid (hc_corridor_concentration_limit h), FieldError ''corridor_concentration_limit'')] @
    non_negative_metric_problems (hc_budget_limit h) ''USD'' ''budget_limit'' @
    fraction_metric_problems (hc_supplier_concentration_limit h) ''supplier_concentration_limit'' @
    fraction_metric_problems (hc_corridor_concentration_limit h) ''corridor_concentration_limit''"

record transport_availability =
  tv_status :: transport_status
  tv_candidate_reference :: "string option"
  tv_commercially_confirmed :: bool
  tv_evidence_ids :: "uuid list"
  tv_assumption_ids :: "uuid list"

definition transport_problems :: "transport_availability \<Rightarrow> (bool \<times> py_error) list" where
  "transport_problems t =
    [(\<not> opt_ok (len_between 1 200) (tv_candidate_reference t), FieldError ''candidate_reference''),
     (\<not> at_most 100 (tv_evidence_ids t), FieldError ''evidence_ids''),
     (\<not> at_most 100 (tv_assumption_ids t), FieldError ''assumption_ids''),
     require_unique (tv_evidence_ids t) ''transport evidence'',
     require_unique (tv_assumption_ids t) ''transport assumptions'',
     (tv_status t = TS_EVIDENCE_BACKED_CONFIRMED
        \<and> (\<not> tv_commercially_confirmed t \<or> tv_evidence_ids t = [] \<or> tv_assumption_ids t \<noteq> []),
        ValueError ''commercially confirmed transport requires verified evidence and no assumptions''),
     (tv_status t \<noteq> TS_EVIDENCE_BACKED_CONFIRMED \<and> tv_commercially_confirmed t,
        ValueError ''candidate or unverified transport cannot be commercially confirmed''),
     (tv_status t = TS_CANDIDATE \<and> tv_evidence_ids t = [] \<and> tv_assumption_ids t = [],
        ValueError ''candidate transport requires visible evidence or assumptions'')]"

section \<open>Demands and options\<close>

record procurement_demand =
  dm_refinery_id :: uuid
  dm_interval_start :: datetime
  dm_interval_end :: datetime
  dm_required_volume :: metric

definition demand_problems :: "procurement_demand \<Rightarrow> (bool \<times> py_error) list" where
  "demand_problems d =
    [(\<not> metric_valid (dm_required_volume d), FieldError ''required_volume''),
     (dm_interval_end d \<le> dm_interval_start d, ValueError ''procurement demand interval is invalid'')] @
    non_negative_metric_problems (dm_required_volume d) ''ktonne'' ''required_volume''"

record landed_cost =
  lc_commodity_price :: metric
  lc_quality_differential :: metric
  lc_freight :: metric
  lc_insurance_and_risk_premium :: metric
  lc_port_and_handling :: metric
  lc_route_fees :: metric
  lc_financing :: metric
  lc_emissions :: metric
  lc_compatibility_penalty :: metric
  lc_total :: metric

definition landed_cost_metrics :: "landed_cost \<Rightarrow> (string \<times> metric) list" where
  "landed_cost_metrics c =
    [(''commodity_price'', lc_commodity_price c), (''quality_differential'', lc_quality_differential c),
     (''freight'', lc_freight c), (''insurance_and_risk_premium'', lc_insurance_and_risk_premium c),
     (''port_and_handling'', lc_port_and_handling c), (''route_fees'', lc_route_fees c),
     (''financing'', lc_financing c), (''emissions'', lc_emissions c),
     (''compatibility_penalty'', lc_compatibility_penalty c), (''total'', lc_total c)]"

definition landed_cost_problems :: "landed_cost \<Rightarrow> (bool \<times> py_error) list" where
  "landed_cost_problems c =
     map (\<lambda>(name, m). (\<not> metric_valid m, FieldError name)) (landed_cost_metrics c) @
     concat (map (\<lambda>(name, m). modeled_metric_problems m ''USD_per_tonne'' name) (landed_cost_metrics c))"

record option_payload =
  op_option_id :: uuid
  op_supplier_id :: uuid
  op_grade_id :: uuid
  op_route_id :: uuid
  op_refinery_id :: uuid
  op_delivery_window_start :: datetime
  op_delivery_window_end :: datetime
  op_supplier_capacity :: metric
  op_commercially_available_volume :: metric
  op_route_capacity :: metric
  op_refinery_receiving_capacity :: metric
  op_commodity_price :: metric
  op_freight :: metric
  op_sanctions_permitted :: bool
  op_compatibility_permitted :: bool
  op_transport_availability :: transport_availability
  op_evidence_ids :: "uuid list"
  op_assumption_ids :: "uuid list"
  op_landed_cost :: "landed_cost option"
  op_route_distance :: "metric option"
  op_transit_time :: "metric option"
  op_chokepoint_ids :: "uuid list"
  op_load_port_id :: "uuid option"
  op_receiving_port_id :: "uuid option"
  op_route_segment_ids :: "uuid list"
  op_route_segment_capacities :: "(uuid, pyfloat) dict"

record procurement_option = option_payload +
  op_option_fingerprint :: "string option"

type_synonym option_hash = "option_payload \<Rightarrow> string"

definition procurement_option_fingerprint :: "option_hash \<Rightarrow> procurement_option \<Rightarrow> string" where
  "procurement_option_fingerprint sha256 o' = sha256 (option_payload.truncate o')"

definition option_capacity_metrics :: "procurement_option \<Rightarrow> (string \<times> metric) list" where
  "option_capacity_metrics o' =
    [(''supplier_capacity'', op_supplier_capacity o'),
     (''commercially_available_volume'', op_commercially_available_volume o'),
     (''route_capacity'', op_route_capacity o'),
     (''refinery_receiving_capacity'', op_refinery_receiving_capacity o')]"

definition option_metrics :: "procurement_option \<Rightarrow> metric list" where
  "option_metrics o' = map snd (option_capacity_metrics o') @ [op_commodity_price o', op_freight o']"

definition option_field_problems :: "procurement_option \<Rightarrow> (bool \<times> py_error) list" where
  "option_field_problems o' =
    [(list_ex (\<lambda>m. \<not> metric_valid m) (option_metrics o'), FieldError ''metric''),
     (first_error (transport_problems (op_transport_availability o')) \<noteq> None, FieldError ''transport_availability''),
     (op_evidence_ids o' = [] \<or> \<not> at_most MAX_REFERENCES (op_evidence_ids o'), FieldError ''evidence_ids''),
     (\<not> at_most MAX_REFERENCES (op_assumption_ids o'), FieldError ''assumption_ids''),
     (\<not> opt_ok (\<lambda>c. first_error (landed_cost_problems c) = None) (op_landed_cost o'), FieldError ''landed_cost''),
     (\<not> opt_ok metric_valid (op_route_distance o'), FieldError ''route_distance''),
     (\<not> opt_ok metric_valid (op_transit_time o'), FieldError ''transit_time''),
     (\<not> at_most 100 (op_chokepoint_ids o'), FieldError ''chokepoint_ids''),
     (\<not> at_most 100 (op_route_segment_ids o'), FieldError ''route_segment_ids''),
     (\<not> at_most 100 (op_route_segment_capacities o'), FieldError ''route_segment_capacities''),
     (\<not> opt_ok is_sha256 (op_option_fingerprint o'), FieldError ''option_fingerprint'')]"

definition option_problems :: "option_hash \<Rightarrow> procurement_option \<Rightarrow> (bool \<times> py_error) list" where
  "option_problems sha256 o' =
    option_field_problems o' @
    [(op_delivery_window_end o' \<le> op_delivery_window_start o',
        ValueError ''delivery window end must be after start'')] @
    concat (map (\<lambda>(name, m). non_negative_metric_problems m ''ktonne'' name) (option_capacity_metrics o')) @
    non_negative_metric_problems (op_commodity_price o') ''USD_per_tonne'' ''commodity_price'' @
    non_negative_metric_problems (op_freight o') ''USD_per_tonne'' ''freight'' @
    [require_unique (op_evidence_ids o') ''option evidence'',
     require_unique (op_assumption_ids o') ''option assumptions'',
     (\<not> set (concat (map me_evidence_ids (option_metrics o'))) \<subseteq> set (op_evidence_ids o'),
        ValueError ''option metric evidence must be declared by the option''),
     (list_ex (\<lambda>m. me_truth_class m = ASSUMPTION) (option_metrics o') \<and> op_assumption_ids o' = [],
        ValueError ''assumption-backed commercial values require visible assumptions''),
     require_unique (op_route_segment_ids o') ''route segments'',
     (set (map fst (op_route_segment_capacities o')) \<noteq> set (op_route_segment_ids o'),
        ValueError ''every route segment requires an exact capacity''),
     (list_ex (\<lambda>v. \<not> isfinite v \<or> v < 0) (map snd (op_route_segment_capacities o')),
        ValueError ''route segment capacities must be finite and nonnegative''),
     (\<not> opt_ok (\<lambda>f. f = procurement_option_fingerprint sha256 o') (op_option_fingerprint o'),
        ValueError ''option fingerprint does not match canonical option inputs'')]"

section \<open>The optimisation input\<close>

record procurement_provenance =
  pv_simulation_run :: run_reference
  pv_simulation_result :: result_reference
  pv_confirmed_scenario :: confirmed_reference
  pv_twin_snapshot :: twin_snapshot_reference
  pv_evidence :: "evidence_fingerprint list"
  pv_assumptions :: "assumption_fingerprint list"

definition provenance_reference_problems :: "procurement_provenance \<Rightarrow> (bool \<times> py_error) list" where
  "provenance_reference_problems p =
    (let run = pv_simulation_run p; result = pv_simulation_result p; scenario = pv_confirmed_scenario p in
    [(\<not> list_all is_sha256 [rf_scenario_fingerprint run, rf_simulation_fingerprint run, rf_twin_snapshot_fingerprint run]
        \<or> \<not> len_between 1 100 (rf_model_version run), FieldError ''simulation_run''),
     (\<not> list_all is_sha256 [rs_scenario_fingerprint result, rs_simulation_fingerprint result, rs_twin_snapshot_fingerprint result],
        FieldError ''simulation_result''),
     (\<not> is_sha256 (cn_scenario_fingerprint scenario), FieldError ''confirmed_scenario''),
     (first_error (twin_reference_problems (pv_twin_snapshot p)) \<noteq> None, FieldError ''twin_snapshot''),
     (pv_evidence p = [] \<or> \<not> at_most MAX_REFERENCES (pv_evidence p)
        \<or> \<not> list_all (\<lambda>e. is_sha256 (ef_raw_payload_hash e)) (pv_evidence p), FieldError ''evidence''),
     (\<not> at_most MAX_REFERENCES (pv_assumptions p)
        \<or> \<not> list_all (\<lambda>a. is_sha256 (af_assumption_hash a)) (pv_assumptions p), FieldError ''assumptions'')])"

definition procurement_provenance_problems :: "procurement_provenance \<Rightarrow> (bool \<times> py_error) list" where
  "procurement_provenance_problems p =
    provenance_reference_problems p @
    (let run = pv_simulation_run p; result = pv_simulation_result p; scenario = pv_confirmed_scenario p;
         twin = pv_twin_snapshot p in
    [(rs_run_id result \<noteq> rf_run_id run,
        ValueError ''simulation result must belong to the exact scenario run''),
     (rs_simulation_fingerprint result \<noteq> rf_simulation_fingerprint run,
        ValueError ''simulation result fingerprint must match the scenario run''),
     (rs_scenario_id result \<noteq> rf_scenario_id run,
        ValueError ''simulation result scenario must match the scenario run''),
     (rs_scenario_fingerprint result \<noteq> rf_scenario_fingerprint run,
        ValueError ''simulation result scenario fingerprint must match the run''),
     (cn_scenario_id scenario \<noteq> rf_scenario_id run,
        ValueError ''confirmed scenario must match the scenario run''),
     (cn_scenario_fingerprint scenario \<noteq> rf_scenario_fingerprint run,
        ValueError ''confirmed scenario fingerprint must match the scenario run''),
     (\<not> ((rs_twin_snapshot_id result, rs_twin_snapshot_fingerprint result)
            = (rf_twin_snapshot_id run, rf_twin_snapshot_fingerprint run)
         \<and> (tr_snapshot_id twin, tr_fingerprint twin) = (rf_twin_snapshot_id run, rf_twin_snapshot_fingerprint run)),
        ValueError ''run, result and procurement input must bind the same twin snapshot''),
     require_unique (map ef_evidence_id (pv_evidence p)) ''input evidence'',
     require_unique (map af_assumption_id (pv_assumptions p)) ''input assumptions''])"

record input_payload =
  oi_provenance :: procurement_provenance
  oi_hard_constraints :: hard_constraints
  oi_reserve_policy :: reserve_policy_input
  oi_options :: "procurement_option list"
  oi_demands :: "procurement_demand list"

record optimisation_input = input_payload +
  oi_input_fingerprint :: string

type_synonym input_hash = "input_payload \<Rightarrow> string"

definition input_fingerprint :: "input_hash \<Rightarrow> optimisation_input \<Rightarrow> string" where
  "input_fingerprint sha256 i = sha256 (input_payload.truncate i)"

definition limit_metrics :: "optimisation_input \<Rightarrow> metric list" where
  "limit_metrics i = [hc_budget_limit (oi_hard_constraints i),
     hc_supplier_concentration_limit (oi_hard_constraints i), hc_corridor_concentration_limit (oi_hard_constraints i)]"

definition referenced_evidence :: "optimisation_input \<Rightarrow> uuid set" where
  "referenced_evidence i =
     set (rp_evidence_ids (oi_reserve_policy i))
     \<union> set (concat (map (\<lambda>o'. op_evidence_ids o' @ tv_evidence_ids (op_transport_availability o')) (oi_options i)))
     \<union> set (concat (map me_evidence_ids (limit_metrics i)))
     \<union> set (concat (map (\<lambda>d. me_evidence_ids (dm_required_volume d)) (oi_demands i)))"

definition referenced_assumptions :: "optimisation_input \<Rightarrow> uuid set" where
  "referenced_assumptions i =
     set (rp_assumption_ids (oi_reserve_policy i))
     \<union> set (concat (map (\<lambda>o'. op_assumption_ids o' @ tv_assumption_ids (op_transport_availability o')) (oi_options i)))"

definition optimisation_input_problems ::
  "option_hash \<Rightarrow> input_hash \<Rightarrow> optimisation_input \<Rightarrow> (bool \<times> py_error) list" where
  "optimisation_input_problems option_sha256 input_sha256 i =
    (let evidence_ids = set (map ef_evidence_id (pv_evidence (oi_provenance i)));
         assumption_ids = set (map af_assumption_id (pv_assumptions (oi_provenance i)))
     in
    [(first_error (procurement_provenance_problems (oi_provenance i)) \<noteq> None, FieldError ''provenance''),
     (first_error (hard_constraints_problems (oi_hard_constraints i)) \<noteq> None, FieldError ''hard_constraints''),
     (first_error (reserve_policy_problems (oi_reserve_policy i)) \<noteq> None, FieldError ''reserve_policy''),
     (\<not> len_between 1 MAX_OPTIONS (oi_options i)
        \<or> list_ex (\<lambda>o'. first_error (option_problems option_sha256 o') \<noteq> None) (oi_options i), FieldError ''options''),
     (\<not> at_most MAX_OPTIONS (oi_demands i)
        \<or> list_ex (\<lambda>d. first_error (demand_problems d) \<noteq> None) (oi_demands i), FieldError ''demands''),
     (\<not> is_sha256 (oi_input_fingerprint i), FieldError ''input_fingerprint''),
     require_unique (map op_option_id (oi_options i)) ''procurement options'',
     require_unique (map (\<lambda>d. (dm_refinery_id d, dm_interval_start d)) (oi_demands i)) ''procurement demands'',
     (referenced_evidence i \<noteq> evidence_ids,
        ValueError ''procurement input evidence fingerprints must exactly match referenced evidence''),
     (referenced_assumptions i \<noteq> assumption_ids,
        ValueError ''procurement input assumption fingerprints must exactly match referenced assumptions''),
     (list_ex (\<lambda>m. me_truth_class m = ASSUMPTION) (limit_metrics i) \<and> assumption_ids = {},
        ValueError ''assumption-backed hard constraints require visible assumptions''),
     (list_ex (\<lambda>a. af_status a \<noteq> AS_APPROVED) (pv_assumptions (oi_provenance i)),
        ValueError ''procurement input assumptions must be approved''),
     (oi_input_fingerprint i \<noteq> input_fingerprint input_sha256 i,
        ValueError ''input fingerprint does not match canonical procurement inputs'')])"

definition optimisation_input_valid :: "option_hash \<Rightarrow> input_hash \<Rightarrow> optimisation_input \<Rightarrow> bool" where
  "optimisation_input_valid option_sha256 input_sha256 i \<longleftrightarrow>
     first_error (optimisation_input_problems option_sha256 input_sha256 i) = None"

record plan_request =
  pr_optimisation_input :: optimisation_input
  pr_profiles :: "procurement_profile list"
  pr_objective_weights :: "objective_weights list"
  pr_solver_configuration :: solver_configuration
  pr_model_version :: string

definition plan_request_problems :: "plan_request \<Rightarrow> (bool \<times> py_error) list" where
  "plan_request_problems r =
    [(\<not> len_between 1 3 (pr_profiles r), FieldError ''profiles''),
     (\<not> len_between 1 3 (pr_objective_weights r)
        \<or> list_ex (\<lambda>w. first_error (objective_weights_problems w) \<noteq> None) (pr_objective_weights r), FieldError ''objective_weights''),
     (first_error (solver_configuration_problems (pr_solver_configuration r)) \<noteq> None, FieldError ''solver_configuration''),
     (\<not> len_between 1 100 (pr_model_version r), FieldError ''model_version''),
     require_unique (pr_profiles r) ''requested profiles'',
     require_unique (map ow_profile (pr_objective_weights r)) ''objective weight profiles'',
     (set (map ow_profile (pr_objective_weights r)) \<noteq> set (pr_profiles r),
        ValueError ''every requested profile requires exactly one objective weight set'')]"

section \<open>Solver results\<close>

record supplier_allocation =
  sa_supplier_id :: uuid
  sa_grade_id :: uuid
  sa_volume :: metric

record route_allocation =
  ra_route_id :: uuid
  ra_volume :: metric

record refinery_allocation =
  fa_refinery_id :: uuid
  fa_grade_id :: uuid
  fa_volume :: metric

definition allocation_problems :: "metric \<Rightarrow> string \<Rightarrow> (bool \<times> py_error) list" where
  "allocation_problems m field =
     (\<not> metric_valid m, FieldError ''volume'') # modeled_metric_problems m ''ktonne'' field"

definition supplier_allocation_problems :: "supplier_allocation \<Rightarrow> (bool \<times> py_error) list" where
  "supplier_allocation_problems a = allocation_problems (sa_volume a) ''supplier allocation volume''"

definition route_allocation_problems :: "route_allocation \<Rightarrow> (bool \<times> py_error) list" where
  "route_allocation_problems a = allocation_problems (ra_volume a) ''route allocation volume''"

definition refinery_allocation_problems :: "refinery_allocation \<Rightarrow> (bool \<times> py_error) list" where
  "refinery_allocation_problems a = allocation_problems (fa_volume a) ''refinery allocation volume''"

record procurement_action =
  ac_action_id :: uuid
  ac_option_id :: uuid
  ac_supplier :: supplier_allocation
  ac_route :: route_allocation
  ac_refinery :: refinery_allocation
  ac_delivery_window_start :: datetime
  ac_delivery_window_end :: datetime
  ac_landed_cost :: landed_cost
  ac_evidence_ids :: "uuid list"
  ac_assumption_ids :: "uuid list"
  ac_option_fingerprint :: "string option"
  ac_load_port_id :: "uuid option"
  ac_receiving_port_id :: "uuid option"
  ac_route_segment_ids :: "uuid list"

definition action_problems :: "procurement_action \<Rightarrow> (bool \<times> py_error) list" where
  "action_problems a =
    (let volumes = [me_value (sa_volume (ac_supplier a)), me_value (ra_volume (ac_route a)), me_value (fa_volume (ac_refinery a))]
     in
    [(first_error (supplier_allocation_problems (ac_supplier a)) \<noteq> None, FieldError ''supplier''),
     (first_error (route_allocation_problems (ac_route a)) \<noteq> None, FieldError ''route''),
     (first_error (refinery_allocation_problems (ac_refinery a)) \<noteq> None, FieldError ''refinery''),
     (first_error (landed_cost_problems (ac_landed_cost a)) \<noteq> None, FieldError ''landed_cost''),
     (ac_evidence_ids a = [] \<or> \<not> at_most MAX_REFERENCES (ac_evidence_ids a), FieldError ''evidence_ids''),
     (\<not> at_most MAX_REFERENCES (ac_assumption_ids a), FieldError ''assumption_ids''),
     (\<not> opt_ok is_sha256 (ac_option_fingerprint a), FieldError ''option_fingerprint''),
     (\<not> at_most 100 (ac_route_segment_ids a), FieldError ''route_segment_ids''),
     (ac_delivery_window_end a \<le> ac_delivery_window_start a,
        ValueError ''procurement action delivery window is invalid''),
     (fl (1 / 1000000000) < py_max_list 0 volumes - py_min_list 0 volumes,
        ValueError ''supplier, route and refinery action volumes must reconcile''),
     require_unique (ac_evidence_ids a) ''action evidence'',
     require_unique (ac_assumption_ids a) ''action assumptions'',
     require_unique (ac_route_segment_ids a) ''action route segments''])"

record objective_breakdown =
  ob_landed_cost :: metric
  ob_shortfall_penalty :: metric
  ob_delay_penalty :: metric
  ob_route_risk_penalty :: metric
  ob_supplier_concentration_penalty :: metric
  ob_corridor_concentration_penalty :: metric
  ob_compatibility_penalty :: metric
  ob_emissions_penalty :: metric
  ob_total :: metric
  ob_raw_metrics :: "(string, pyfloat) dict"
  ob_weights :: "(string, pyfloat) dict"
  ob_weighted_contributions :: "(string, pyfloat) dict"

definition objective_metrics :: "objective_breakdown \<Rightarrow> (string \<times> metric) list" where
  "objective_metrics b =
    [(''landed_cost'', ob_landed_cost b), (''shortfall_penalty'', ob_shortfall_penalty b),
     (''delay_penalty'', ob_delay_penalty b), (''route_risk_penalty'', ob_route_risk_penalty b),
     (''supplier_concentration_penalty'', ob_supplier_concentration_penalty b),
     (''corridor_concentration_penalty'', ob_corridor_concentration_penalty b),
     (''compatibility_penalty'', ob_compatibility_penalty b), (''emissions_penalty'', ob_emissions_penalty b),
     (''total'', ob_total b)]"

definition objective_breakdown_problems :: "objective_breakdown \<Rightarrow> (bool \<times> py_error) list" where
  "objective_breakdown_problems b =
    map (\<lambda>(name, m). (\<not> metric_valid m, FieldError name)) (objective_metrics b) @
    [(\<not> at_most 20 (ob_raw_metrics b), FieldError ''raw_metrics''),
     (\<not> at_most 20 (ob_weights b), FieldError ''weights''),
     (\<not> at_most 20 (ob_weighted_contributions b), FieldError ''weighted_contributions'')] @
    concat (map (\<lambda>(name, m). modeled_metric_problems m ''objective_point'' name) (objective_metrics b)) @
    [(list_ex (\<lambda>v. \<not> isfinite v \<or> v < 0) (map snd (ob_raw_metrics b) @ map snd (ob_weights b) @ map snd (ob_weighted_contributions b)),
        ValueError ''objective values must be finite and nonnegative''),
     (ob_weighted_contributions b \<noteq> [] \<and>
        fl (1 / 1000000) < \<bar>py_sum (map snd (ob_weighted_contributions b)) - me_value (ob_total b)\<bar>,
        ValueError ''weighted objective contributions must reconcile to total'')]"

record constraint_violation =
  cv_constraint_id :: string
  cv_family :: constraint_family
  cv_message :: string
  cv_actual :: metric
  cv_limit :: metric
  cv_excess :: metric
  cv_option_id :: "uuid option"

definition violation_problems :: "constraint_violation \<Rightarrow> (bool \<times> py_error) list" where
  "violation_problems v =
    [(\<not> len_between 1 200 (cv_constraint_id v), FieldError ''constraint_id''),
     (\<not> len_between 1 1000 (cv_message v), FieldError ''message''),
     (\<not> metric_valid (cv_actual v), FieldError ''actual''),
     (\<not> metric_valid (cv_limit v), FieldError ''limit''),
     (\<not> metric_valid (cv_excess v), FieldError ''excess'')] @
    finite_metric_problems (cv_actual v) ''actual'' @
    finite_metric_problems (cv_limit v) ''limit'' @
    finite_metric_problems (cv_excess v) ''excess'' @
    [(\<not> (me_unit (cv_limit v) = me_unit (cv_actual v) \<and> me_unit (cv_excess v) = me_unit (cv_actual v)),
        ValueError ''constraint violation quantities must use the same unit''),
     (me_value (cv_excess v) \<le> 0, ValueError ''constraint violation excess must be positive'')]"

record constraint_report =
  cp_feasible :: bool
  cp_hard_constraint_version :: string
  cp_checked_families :: "constraint_family list"
  cp_checked_constraint_ids :: "string list"
  cp_violations :: "constraint_violation list"

definition report_problems :: "constraint_report \<Rightarrow> (bool \<times> py_error) list" where
  "report_problems r =
    [(\<not> len_between 1 100 (cp_hard_constraint_version r), FieldError ''hard_constraint_version''),
     (\<not> len_between 1 20 (cp_checked_families r), FieldError ''checked_families''),
     (\<not> len_between 1 2000 (cp_checked_constraint_ids r)
        \<or> \<not> list_all (len_between 1 200) (cp_checked_constraint_ids r), FieldError ''checked_constraint_ids''),
     (\<not> at_most 2000 (cp_violations r)
        \<or> list_ex (\<lambda>v. first_error (violation_problems v) \<noteq> None) (cp_violations r), FieldError ''violations''),
     require_unique (cp_checked_families r) ''checked constraint families'',
     require_unique (cp_checked_constraint_ids r) ''checked constraints'',
     (cp_feasible r \<and> cp_violations r \<noteq> [],
        ValueError ''feasible constraint report cannot contain violations''),
     (\<not> cp_feasible r \<and> cp_violations r = [],
        ValueError ''infeasible constraint report requires violations''),
     (cp_feasible r \<and> set (cp_checked_families r) \<noteq> set all_families,
        ValueError ''feasible report must cover every hard constraint family'')]"

record rejected_option =
  ro_option_id :: uuid
  ro_reason_codes :: "rejection_reason list"
  ro_violated_constraint_ids :: "string list"
  ro_explanation :: string

definition rejected_option_problems :: "rejected_option \<Rightarrow> (bool \<times> py_error) list" where
  "rejected_option_problems r =
    [(\<not> len_between 1 20 (ro_reason_codes r), FieldError ''reason_codes''),
     (\<not> len_between 1 100 (ro_violated_constraint_ids r)
        \<or> \<not> list_all (len_between 1 200) (ro_violated_constraint_ids r), FieldError ''violated_constraint_ids''),
     (\<not> len_between 1 1000 (ro_explanation r), FieldError ''explanation''),
     require_unique (ro_reason_codes r) ''rejected option reasons'',
     require_unique (ro_violated_constraint_ids r) ''rejected option constraints'']"

record solver_metadata =
  md_solver_version :: string
  md_model_version :: string
  md_objective_weight_version :: string
  md_hard_constraint_version :: string
  md_configuration :: solver_configuration
  md_started_at :: "datetime option"
  md_completed_at :: "datetime option"
  md_runtime :: "solver_quantity option"
  md_iterations :: "solver_quantity option"

definition metadata_problems :: "solver_metadata \<Rightarrow> (bool \<times> py_error) list" where
  "metadata_problems m =
    [(\<not> len_between 1 100 (md_solver_version m), FieldError ''solver_version''),
     (\<not> len_between 1 100 (md_model_version m), FieldError ''model_version''),
     (\<not> len_between 1 100 (md_objective_weight_version m), FieldError ''objective_weight_version''),
     (\<not> len_between 1 100 (md_hard_constraint_version m), FieldError ''hard_constraint_version''),
     (first_error (solver_configuration_problems (md_configuration m)) \<noteq> None, FieldError ''configuration''),
     (\<not> opt_ok solver_quantity_ok (md_runtime m), FieldError ''runtime''),
     (\<not> opt_ok solver_quantity_ok (md_iterations m), FieldError ''iterations''),
     (md_completed_at m \<noteq> None \<and> md_started_at m = None,
        ValueError ''completed solver metadata requires started_at''),
     (case (md_started_at m, md_completed_at m) of (Some s, Some c) \<Rightarrow> c < s | _ \<Rightarrow> False,
        ValueError ''solver completed_at must not precede started_at'')] @
    (case md_runtime m of None \<Rightarrow> [] | Some q \<Rightarrow> [require_unit (sq_unit q) ''second'' ''runtime'']) @
    (case md_iterations m of None \<Rightarrow> [] | Some q \<Rightarrow> [require_unit (sq_unit q) ''iteration'' ''iterations''])"

record independent_check_result =
  ic_checker_version :: string
  ic_checked_at :: datetime
  ic_passed :: bool
  ic_mass_balance_passed :: bool
  ic_bounds_passed :: bool
  ic_objective_reconstruction_passed :: bool
  ic_sanctions_exclusion_passed :: bool
  ic_compatibility_exclusion_passed :: bool
  ic_fingerprint_reproduction_passed :: bool
  ic_reported_objective :: metric
  ic_reconstructed_objective :: metric
  ic_tolerance :: metric
  ic_failure_codes :: "string list"
  ic_hard_constraints_recalculated :: bool
  ic_landed_cost_recalculated :: bool
  ic_concentration_recalculated :: bool
  ic_delivery_timing_recalculated :: bool
  ic_inventory_balance_recalculated :: bool

definition check_expected :: "independent_check_result \<Rightarrow> bool" where
  "check_expected c \<longleftrightarrow>
     ic_mass_balance_passed c \<and> ic_bounds_passed c \<and> ic_objective_reconstruction_passed c \<and>
     ic_sanctions_exclusion_passed c \<and> ic_compatibility_exclusion_passed c \<and>
     ic_fingerprint_reproduction_passed c \<and> ic_hard_constraints_recalculated c \<and>
     ic_landed_cost_recalculated c \<and> ic_concentration_recalculated c \<and>
     ic_delivery_timing_recalculated c \<and> ic_inventory_balance_recalculated c \<and> ic_failure_codes c = []"

definition check_result_problems :: "independent_check_result \<Rightarrow> (bool \<times> py_error) list" where
  "check_result_problems c =
    [(\<not> len_between 1 100 (ic_checker_version c), FieldError ''checker_version''),
     (\<not> metric_valid (ic_reported_objective c), FieldError ''reported_objective''),
     (\<not> metric_valid (ic_reconstructed_objective c), FieldError ''reconstructed_objective''),
     (\<not> metric_valid (ic_tolerance c), FieldError ''tolerance''),
     (\<not> at_most 100 (ic_failure_codes c) \<or> \<not> list_all (len_between 1 100) (ic_failure_codes c), FieldError ''failure_codes'')] @
    modeled_metric_problems (ic_reported_objective c) ''objective_point'' ''reported_objective'' @
    modeled_metric_problems (ic_reconstructed_objective c) ''objective_point'' ''reconstructed_objective'' @
    modeled_metric_problems (ic_tolerance c) ''objective_point'' ''tolerance'' @
    [(ic_objective_reconstruction_passed c \<noteq>
        (\<bar>me_value (ic_reported_objective c) - me_value (ic_reconstructed_objective c)\<bar> \<le> me_value (ic_tolerance c)),
        ValueError ''objective reconstruction status does not match values and tolerance''),
     (ic_passed c \<noteq> check_expected c,
        ValueError ''independent check status does not match its check results''),
     (\<not> ic_passed c \<and> ic_failure_codes c = [],
        ValueError ''failed independent check requires failure codes''),
     require_unique (ic_failure_codes c) ''independent check failures'']"

record procurement_failure =
  pf_code :: string
  pf_message :: string
  pf_stage :: failure_stage
  pf_retryable :: bool
  pf_details :: "(string, json_value) dict"

text \<open>The pattern \<open>[A-Z][A-Z0-9_]*\<close>, and the bounded detail values.\<close>

definition is_failure_code :: "string \<Rightarrow> bool" where
  "is_failure_code s \<longleftrightarrow> len_between 1 100 s \<and> hd s \<in> set ''ABCDEFGHIJKLMNOPQRSTUVWXYZ'' \<and>
     list_all (\<lambda>c. c \<in> set ''ABCDEFGHIJKLMNOPQRSTUVWXYZ0123456789_'') s"

definition detail_value_ok :: "json_value \<Rightarrow> bool" where
  "detail_value_ok v = (case v of
     JStr s \<Rightarrow> length s \<le> 1000
   | JFloat x \<Rightarrow> Fin (- 1000000000000) \<le> x \<and> x \<le> Fin 1000000000000
   | JInt n \<Rightarrow> - 1000000000000 \<le> n \<and> n \<le> 1000000000000
   | JBool b \<Rightarrow> True
   | _ \<Rightarrow> False)"

definition failure_problems :: "procurement_failure \<Rightarrow> (bool \<times> py_error) list" where
  "failure_problems f =
    [(\<not> is_failure_code (pf_code f), FieldError ''code''),
     (\<not> len_between 1 1000 (pf_message f), FieldError ''message''),
     (\<not> at_most 50 (pf_details f) \<or> \<not> list_all (\<lambda>(k, v). len_between 1 100 k \<and> detail_value_ok v) (pf_details f), FieldError ''details''),
     (list_ex (\<lambda>(k, v). case v of JFloat x \<Rightarrow> \<not> isfinite x | _ \<Rightarrow> False) (pf_details f),
        ValueError ''failure details cannot contain non-finite values'')]"

record solver_result =
  re_result_id :: uuid
  re_profile :: procurement_profile
  re_status :: solver_status
  re_metadata :: solver_metadata
  re_objective :: "objective_breakdown option"
  re_actions :: "procurement_action list"
  re_supplier_allocations :: "supplier_allocation list"
  re_route_allocations :: "route_allocation list"
  re_refinery_allocations :: "refinery_allocation list"
  re_constraints :: "constraint_report option"
  re_rejected_options :: "rejected_option list"
  re_independent_check :: "independent_check_result option"
  re_failure :: "procurement_failure option"
  re_delivered_volume :: "metric option"
  re_shortage :: "metric option"

definition solver_result_field_problems :: "solver_result \<Rightarrow> (bool \<times> py_error) list" where
  "solver_result_field_problems r =
    [(first_error (metadata_problems (re_metadata r)) \<noteq> None, FieldError ''metadata''),
     (\<not> opt_ok (\<lambda>b. first_error (objective_breakdown_problems b) = None) (re_objective r), FieldError ''objective''),
     (\<not> at_most MAX_ACTIONS (re_actions r)
        \<or> list_ex (\<lambda>a. first_error (action_problems a) \<noteq> None) (re_actions r), FieldError ''actions''),
     (\<not> at_most MAX_ACTIONS (re_supplier_allocations r)
        \<or> list_ex (\<lambda>a. first_error (supplier_allocation_problems a) \<noteq> None) (re_supplier_allocations r), FieldError ''supplier_allocations''),
     (\<not> at_most MAX_ACTIONS (re_route_allocations r)
        \<or> list_ex (\<lambda>a. first_error (route_allocation_problems a) \<noteq> None) (re_route_allocations r), FieldError ''route_allocations''),
     (\<not> at_most MAX_ACTIONS (re_refinery_allocations r)
        \<or> list_ex (\<lambda>a. first_error (refinery_allocation_problems a) \<noteq> None) (re_refinery_allocations r), FieldError ''refinery_allocations''),
     (\<not> opt_ok (\<lambda>c. first_error (report_problems c) = None) (re_constraints r), FieldError ''constraints''),
     (\<not> at_most MAX_OPTIONS (re_rejected_options r)
        \<or> list_ex (\<lambda>o'. first_error (rejected_option_problems o') \<noteq> None) (re_rejected_options r), FieldError ''rejected_options''),
     (\<not> opt_ok (\<lambda>c. first_error (check_result_problems c) = None) (re_independent_check r), FieldError ''independent_check''),
     (\<not> opt_ok (\<lambda>f. first_error (failure_problems f) = None) (re_failure r), FieldError ''failure''),
     (\<not> opt_ok metric_valid (re_delivered_volume r), FieldError ''delivered_volume''),
     (\<not> opt_ok metric_valid (re_shortage r), FieldError ''shortage'')]"

definition optional_volume_problems :: "metric option \<Rightarrow> string \<Rightarrow> (bool \<times> py_error) list" where
  "optional_volume_problems m field =
     (case m of None \<Rightarrow> [] | Some v \<Rightarrow> modeled_metric_problems v ''ktonne'' field)"

definition check_passed :: "independent_check_result option \<Rightarrow> bool" where
  "check_passed c = (case c of None \<Rightarrow> False | Some x \<Rightarrow> ic_passed x)"

definition usable_result_problems :: "solver_result \<Rightarrow> (bool \<times> py_error) list" where
  "usable_result_problems r =
    [(re_actions r = [] \<or> re_objective r = None \<or> re_constraints r = None,
        ValueError ''feasible solver result requires actions, objective and constraints''),
     (\<not> opt_ok cp_feasible (re_constraints r),
        ValueError ''feasible solver status requires a feasible constraint report''),
     (\<not> check_passed (re_independent_check r),
        ValueError ''feasible solver status requires a passed independent check''),
     (re_failure r \<noteq> None, ValueError ''feasible solver status cannot include a failure'')] @
    optional_volume_problems (re_delivered_volume r) ''delivered_volume'' @
    optional_volume_problems (re_shortage r) ''shortage''"

definition unusable_result_problems :: "solver_result \<Rightarrow> (bool \<times> py_error) list" where
  "unusable_result_problems r =
    [(re_actions r \<noteq> [] \<or> re_supplier_allocations r \<noteq> [] \<or> re_route_allocations r \<noteq> [] \<or> re_refinery_allocations r \<noteq> [],
        ValueError ''non-feasible solver result cannot contain procurement actions''),
     (re_objective r \<noteq> None, ValueError ''non-feasible solver result cannot contain an objective''),
     (re_status r = INFEASIBLE \<and> opt_ok cp_feasible (re_constraints r),
        ValueError ''infeasible solver result requires violated constraints''),
     (re_status r \<in> {TIMEOUT, ERROR} \<and> re_failure r = None,
        ValueError ''timeout or error solver result requires a typed failure''),
     (re_status r = NOT_RUN \<and> (re_constraints r \<noteq> None \<or> re_independent_check r \<noteq> None \<or> re_failure r \<noteq> None),
        ValueError ''not-run solver result cannot contain execution output'')]"

definition usable_status :: "solver_status \<Rightarrow> bool" where
  "usable_status s \<longleftrightarrow> s \<in> {OPTIMAL, FEASIBLE}"

definition solver_result_problems :: "solver_result \<Rightarrow> (bool \<times> py_error) list" where
  "solver_result_problems r =
    (let m = re_metadata r in
    solver_result_field_problems r @
    (if usable_status (re_status r) then usable_result_problems r else unusable_result_problems r) @
    [(re_status r = NOT_RUN \<and> (md_started_at m \<noteq> None \<or> md_completed_at m \<noteq> None \<or> md_runtime m \<noteq> None \<or> md_iterations m \<noteq> None),
        ValueError ''not-run solver result cannot contain execution metadata''),
     (re_status r \<noteq> NOT_RUN \<and> (md_started_at m = None \<or> md_completed_at m = None \<or> md_runtime m = None),
        ValueError ''executed solver result requires complete execution metadata'')])"

definition solver_result_valid :: "solver_result \<Rightarrow> bool" where
  "solver_result_valid r \<longleftrightarrow> first_error (solver_result_problems r) = None"

section \<open>Plans\<close>

record plan_fingerprint_inputs =
  fi_model_version :: string
  fi_profile :: procurement_profile
  fi_objective_weights :: objective_weights
  fi_solver_configuration :: solver_configuration
  fi_optimisation_input :: optimisation_input
  fi_optimisation_input_fingerprint :: string
  fi_simulation_run :: run_reference
  fi_simulation_result :: result_reference
  fi_confirmed_scenario :: confirmed_reference
  fi_twin_snapshot :: twin_snapshot_reference
  fi_hard_constraint_version :: string
  fi_reserve_policy_fingerprint :: string
  fi_evidence :: "evidence_fingerprint list"
  fi_assumptions :: "assumption_fingerprint list"

definition fingerprint_provenance :: "plan_fingerprint_inputs \<Rightarrow> procurement_provenance" where
  "fingerprint_provenance f = \<lparr>pv_simulation_run = fi_simulation_run f, pv_simulation_result = fi_simulation_result f,
     pv_confirmed_scenario = fi_confirmed_scenario f, pv_twin_snapshot = fi_twin_snapshot f,
     pv_evidence = fi_evidence f, pv_assumptions = fi_assumptions f\<rparr>"

definition fingerprint_inputs_problems ::
  "option_hash \<Rightarrow> input_hash \<Rightarrow> plan_fingerprint_inputs \<Rightarrow> (bool \<times> py_error) list" where
  "fingerprint_inputs_problems option_sha256 input_sha256 f =
    [(\<not> len_between 1 100 (fi_model_version f), FieldError ''model_version''),
     (first_error (objective_weights_problems (fi_objective_weights f)) \<noteq> None, FieldError ''objective_weights''),
     (first_error (solver_configuration_problems (fi_solver_configuration f)) \<noteq> None, FieldError ''solver_configuration''),
     (\<not> optimisation_input_valid option_sha256 input_sha256 (fi_optimisation_input f), FieldError ''optimisation_input''),
     (\<not> is_sha256 (fi_optimisation_input_fingerprint f), FieldError ''optimisation_input_fingerprint''),
     (\<not> len_between 1 100 (fi_hard_constraint_version f), FieldError ''hard_constraint_version''),
     (\<not> is_sha256 (fi_reserve_policy_fingerprint f), FieldError ''reserve_policy_fingerprint''),
     (ow_profile (fi_objective_weights f) \<noteq> fi_profile f,
        ValueError ''objective weights must match the fingerprint profile''),
     (oi_input_fingerprint (fi_optimisation_input f) \<noteq> fi_optimisation_input_fingerprint f,
        ValueError ''fingerprint inputs must contain the exact optimisation input''),
     (fingerprint_provenance f \<noteq> oi_provenance (fi_optimisation_input f),
        ValueError ''fingerprint references must match the exact optimisation input''),
     (fi_hard_constraint_version f \<noteq> hc_version (oi_hard_constraints (fi_optimisation_input f)),
        ValueError ''hard constraint version must match the optimisation input''),
     (fi_reserve_policy_fingerprint f \<noteq> rp_policy_fingerprint (oi_reserve_policy (fi_optimisation_input f)),
        ValueError ''reserve policy fingerprint must match the optimisation input'')] @
    procurement_provenance_problems (fingerprint_provenance f)"

record procurement_plan =
  pl_plan_id :: uuid
  pl_run_id :: uuid
  pl_profile :: procurement_profile
  pl_lifecycle :: plan_lifecycle
  pl_fingerprint_inputs :: plan_fingerprint_inputs
  pl_plan_fingerprint :: string
  pl_solver_result :: solver_result
  pl_created_at :: datetime
  pl_audit_event_ids :: "uuid list"

type_synonym plan_hash = "plan_fingerprint_inputs \<times> solver_result \<Rightarrow> string"

definition procurement_plan_fingerprint ::
  "plan_hash \<Rightarrow> plan_fingerprint_inputs \<Rightarrow> solver_result \<Rightarrow> string" where
  "procurement_plan_fingerprint sha256 inputs result = sha256 (inputs, result)"

definition option_cap :: "procurement_option \<Rightarrow> pyfloat" where
  "option_cap o' = py_min_list 0 (map (\<lambda>(n, m). me_value m) (option_capacity_metrics o'))"

definition reference_problem :: "uuid set \<Rightarrow> uuid set \<Rightarrow> procurement_action \<Rightarrow> py_error option" where
  "reference_problem evidence assumptions a =
    first_error
      [(\<not> set (ac_evidence_ids a) \<subseteq> evidence,
          ValueError ''plan action references evidence outside fingerprint inputs''),
       (\<not> set (ac_assumption_ids a) \<subseteq> assumptions,
          ValueError ''plan action references assumptions outside fingerprint inputs'')]"

definition action_option_problems :: "procurement_action \<Rightarrow> procurement_option \<Rightarrow> (bool \<times> py_error) list" where
  "action_option_problems a o' =
    [(\<not> op_sanctions_permitted o' \<or> \<not> op_compatibility_permitted o',
        ValueError ''plan action cannot select a sanctioned or incompatible option''),
     (sa_supplier_id (ac_supplier a) \<noteq> op_supplier_id o' \<or> sa_grade_id (ac_supplier a) \<noteq> op_grade_id o'
        \<or> ra_route_id (ac_route a) \<noteq> op_route_id o' \<or> fa_refinery_id (ac_refinery a) \<noteq> op_refinery_id o'
        \<or> fa_grade_id (ac_refinery a) \<noteq> op_grade_id o',
        ValueError ''plan action allocations must match the referenced input option''),
     (ac_option_fingerprint a \<noteq> None \<and> ac_option_fingerprint a \<noteq> op_option_fingerprint o',
        ValueError ''plan action fingerprint must match its exact input option''),
     (ac_delivery_window_start a < op_delivery_window_start o' \<or> op_delivery_window_end o' < ac_delivery_window_end a,
        ValueError ''plan action delivery window must fit the input option''),
     (option_cap o' < me_value (sa_volume (ac_supplier a)),
        ValueError ''plan action volume exceeds the referenced option capacity'')]"

definition plan_action_problem :: "procurement_option list \<Rightarrow> procurement_action \<Rightarrow> py_error option" where
  "plan_action_problem options a =
    (case map_of (dict_of (map (\<lambda>o'. (op_option_id o', o')) options)) (ac_option_id a) of
       None \<Rightarrow> Some (ValueError ''plan action must reference an exact optimisation input option'')
     | Some o' \<Rightarrow> first_error (action_option_problems a o'))"

definition plan_binding_problems :: "plan_hash \<Rightarrow> procurement_plan \<Rightarrow> (bool \<times> py_error) list" where
  "plan_binding_problems sha256 p =
    (let f = pl_fingerprint_inputs p; r = pl_solver_result p; m = re_metadata r in
    [(pl_run_id p \<noteq> rf_run_id (fi_simulation_run f), ValueError ''plan run must match fingerprint inputs''),
     (pl_profile p \<noteq> fi_profile f, ValueError ''plan profile must match fingerprint inputs''),
     (re_profile r \<noteq> pl_profile p, ValueError ''solver result profile must match plan profile''),
     (md_model_version m \<noteq> fi_model_version f,
        ValueError ''solver metadata model version must match fingerprint inputs''),
     (md_objective_weight_version m \<noteq> ow_version (fi_objective_weights f),
        ValueError ''solver objective weight version must match fingerprint inputs''),
     (md_hard_constraint_version m \<noteq> fi_hard_constraint_version f,
        ValueError ''solver hard constraint version must match fingerprint inputs''),
     (md_configuration m \<noteq> fi_solver_configuration f,
        ValueError ''solver configuration must match fingerprint inputs''),
     (\<not> usable_status (re_status r),
        ValueError ''operational procurement plan requires feasible solver status''),
     (\<not> check_passed (re_independent_check r),
        ValueError ''operational procurement plan requires a passed independent check''),
     (pl_plan_fingerprint p \<noteq> procurement_plan_fingerprint sha256 f r,
        ValueError ''plan fingerprint does not match canonical fingerprint inputs'')])"

definition plan_problems ::
  "option_hash \<Rightarrow> input_hash \<Rightarrow> plan_hash \<Rightarrow> procurement_plan \<Rightarrow> (bool \<times> py_error) list" where
  "plan_problems option_sha256 input_sha256 plan_sha256 p =
    (let f = pl_fingerprint_inputs p; r = pl_solver_result p in
    [(pl_lifecycle p \<notin> {L_FEASIBLE, L_APPROVED, L_REJECTED, L_SUPERSEDED}, FieldError ''lifecycle''),
     (first_error (fingerprint_inputs_problems option_sha256 input_sha256 f) \<noteq> None, FieldError ''fingerprint_inputs''),
     (\<not> is_sha256 (pl_plan_fingerprint p), FieldError ''plan_fingerprint''),
     (\<not> solver_result_valid r, FieldError ''solver_result''),
     (\<not> len_between 1 1000 (pl_audit_event_ids p), FieldError ''audit_event_ids'')] @
    plan_binding_problems plan_sha256 p @
    each (reference_problem (set (map ef_evidence_id (fi_evidence f))) (set (map af_assumption_id (fi_assumptions f)))) (re_actions r) @
    each (plan_action_problem (oi_options (fi_optimisation_input f))) (re_actions r) @
    [require_unique (pl_audit_event_ids p) ''plan audit events''])"

definition plan_valid :: "option_hash \<Rightarrow> input_hash \<Rightarrow> plan_hash \<Rightarrow> procurement_plan \<Rightarrow> bool" where
  "plan_valid option_sha256 input_sha256 plan_sha256 p \<longleftrightarrow>
     first_error (plan_problems option_sha256 input_sha256 plan_sha256 p) = None"

record plan_response =
  rz_request_id :: uuid
  rz_run_id :: uuid
  rz_results :: "solver_result list"
  rz_plans :: "procurement_plan list"
  rz_failures :: "procurement_failure list"
  rz_reused :: bool

definition plan_response_problems ::
  "option_hash \<Rightarrow> input_hash \<Rightarrow> plan_hash \<Rightarrow> plan_response \<Rightarrow> (bool \<times> py_error) list" where
  "plan_response_problems option_sha256 input_sha256 plan_sha256 r =
    [(\<not> len_between 1 3 (rz_results r) \<or> list_ex (\<lambda>x. \<not> solver_result_valid x) (rz_results r), FieldError ''results''),
     (\<not> at_most 3 (rz_plans r)
        \<or> list_ex (\<lambda>p. \<not> plan_valid option_sha256 input_sha256 plan_sha256 p) (rz_plans r), FieldError ''plans''),
     (\<not> at_most 3 (rz_failures r)
        \<or> list_ex (\<lambda>f. first_error (failure_problems f) \<noteq> None) (rz_failures r), FieldError ''failures''),
     require_unique (map re_profile (rz_results r)) ''response result profiles'',
     require_unique (map pl_profile (rz_plans r)) ''response plan profiles'',
     (set (map pl_profile (rz_plans r)) \<noteq> set (map re_profile (filter (\<lambda>x. usable_status (re_status x)) (rz_results r))),
        ValueError ''plans must exist exactly for independently checked feasible results''),
     (list_ex (\<lambda>p. pl_run_id p \<noteq> rz_run_id r) (rz_plans r),
        ValueError ''response plans must belong to the requested run'')]"

section \<open>The plan lifecycle\<close>

fun allowed_targets :: "plan_lifecycle \<Rightarrow> plan_lifecycle set" where
  "allowed_targets L_REQUESTED = {L_SOLVING, L_FAILED}"
| "allowed_targets L_SOLVING = {L_CHECKING, L_FAILED}"
| "allowed_targets L_CHECKING = {L_FEASIBLE, L_FAILED}"
| "allowed_targets L_FEASIBLE = {L_APPROVED, L_REJECTED, L_SUPERSEDED}"
| "allowed_targets L_APPROVED = {L_SUPERSEDED}"
| "allowed_targets L_REJECTED = {}"
| "allowed_targets L_FAILED = {}"
| "allowed_targets L_SUPERSEDED = {}"

fun lifecycle_name :: "plan_lifecycle \<Rightarrow> string" where
  "lifecycle_name L_REQUESTED = ''REQUESTED''"
| "lifecycle_name L_SOLVING = ''SOLVING''"
| "lifecycle_name L_CHECKING = ''CHECKING''"
| "lifecycle_name L_FEASIBLE = ''FEASIBLE''"
| "lifecycle_name L_APPROVED = ''APPROVED''"
| "lifecycle_name L_REJECTED = ''REJECTED''"
| "lifecycle_name L_FAILED = ''FAILED''"
| "lifecycle_name L_SUPERSEDED = ''SUPERSEDED''"

record lifecycle_transition =
  lt_current :: plan_lifecycle
  lt_target :: plan_lifecycle

definition lifecycle_transition_problems :: "lifecycle_transition \<Rightarrow> (bool \<times> py_error) list" where
  "lifecycle_transition_problems t =
    [(lt_target t \<notin> allowed_targets (lt_current t),
        ValueError (''invalid procurement lifecycle transition: '' @ lifecycle_name (lt_current t)
          @ ''->'' @ lifecycle_name (lt_target t)))]"

end
