(* ===== verification/Procurement_Costs.thy ===== *)
theory Procurement_Costs imports Procurement_Contracts begin

text \<open>
  Landed cost and objective calibration: \<open>sanjiv/procurement/costs.py\<close> (normalisation of a
  cost value, reconciliation of the nine components into a breakdown) and
  \<open>sanjiv/procurement/profiles.py\<close> (the calibrated weights of the three profiles).
\<close>

section \<open>Cost configuration and inputs\<close>

record cost_configuration =
  cc_version :: string
  cc_canonical_unit :: string
  cc_tolerance :: pyfloat
  cc_emissions_enabled :: bool
  cc_emissions_disabled_rationale :: "string option"

definition cost_configuration_problems :: "cost_configuration \<Rightarrow> (bool \<times> py_error) list" where
  "cost_configuration_problems c =
    [(\<not> len_between 1 100 (cc_version c), FieldError ''version''),
     (\<not> (0 < cc_tolerance c \<and> cc_tolerance c \<le> fl (1 / 1000)), FieldError ''tolerance''),
     (\<not> opt_ok (at_most 500) (cc_emissions_disabled_rationale c), FieldError ''emissions_disabled_rationale'')]"

record cost_input =
  ci_values :: "(string, pyfloat) dict"
  ci_evidence_ids :: "uuid list"
  ci_assumption_ids :: "uuid list"
  ci_currency :: string
  ci_basis_unit :: string
  ci_effective_at :: datetime
  ci_expires_at :: "datetime option"

definition cost_input_problems :: "cost_input \<Rightarrow> (bool \<times> py_error) list" where
  "cost_input_problems c =
    [(\<not> at_most 2000 (ci_evidence_ids c), FieldError ''evidence_ids''),
     (\<not> at_most 2000 (ci_assumption_ids c), FieldError ''assumption_ids''),
     (length (ci_currency c) \<noteq> 3, FieldError ''currency''),
     (\<not> len_between 1 50 (ci_basis_unit c), FieldError ''basis_unit'')]"

record conversion_rate =
  cr_from_currency :: string
  cr_to_currency :: string
  cr_rate :: pyfloat
  cr_effective_at :: datetime
  cr_expires_at :: "datetime option"
  cr_evidence_ids :: "uuid list"

definition conversion_rate_problems :: "conversion_rate \<Rightarrow> (bool \<times> py_error) list" where
  "conversion_rate_problems c =
    [(length (cr_from_currency c) \<noteq> 3, FieldError ''from_currency''),
     (length (cr_to_currency c) \<noteq> 3, FieldError ''to_currency''),
     (\<not> 0 < cr_rate c, FieldError ''rate''),
     (\<not> len_between 1 100 (cr_evidence_ids c), FieldError ''evidence_ids'')]"

section \<open>Normalisation\<close>

definition conversion_matches :: "string \<Rightarrow> string \<Rightarrow> conversion_rate \<Rightarrow> bool" where
  "conversion_matches from_currency canonical_currency c \<longleftrightarrow>
     cr_from_currency c = from_currency \<and> cr_to_currency c = canonical_currency"

definition conversion_stale :: "datetime \<Rightarrow> conversion_rate \<Rightarrow> bool" where
  "conversion_stale now c \<longleftrightarrow> now < cr_effective_at c \<or> (case cr_expires_at c of None \<Rightarrow> False | Some e \<Rightarrow> e \<le> now)"

definition normalize_cost_value ::
  "pyfloat \<Rightarrow> string \<Rightarrow> string \<Rightarrow> string \<Rightarrow> string \<Rightarrow> conversion_rate option \<Rightarrow> datetime \<Rightarrow> pyfloat res" where
  "normalize_cost_value value from_currency from_unit canonical_currency canonical_unit conversion now =
    (if \<not> isfinite value \<or> value < 0 then Inl (ValueError ''cost value must be finite and non-negative'')
     else if from_unit \<noteq> ''per_tonne'' then Inl (ValueError ''unsupported cost basis unit'')
     else if from_currency = canonical_currency then Inr value
     else case conversion of
       None \<Rightarrow> Inl (ValueError ''an exact currency conversion is required'')
     | Some c \<Rightarrow>
         if \<not> conversion_matches from_currency canonical_currency c
         then Inl (ValueError ''an exact currency conversion is required'')
         else if conversion_stale now c then Inl (ValueError ''currency conversion is stale or expired'')
         else if canonical_unit \<noteq> ''USD_per_tonne'' then Inl (ValueError ''unsupported canonical cost unit'')
         else Inr (value * cr_rate c))"

section \<open>Reconciliation\<close>

definition cost_names :: "string list" where
  "cost_names = [''commodity_price'', ''quality_differential'', ''freight'', ''insurance_and_risk_premium'',
     ''port_and_handling'', ''route_fees'', ''financing'', ''emissions'', ''compatibility_penalty'']"

definition cost_metric :: "cost_configuration \<Rightarrow> uuid list \<Rightarrow> datetime \<Rightarrow> pyfloat \<Rightarrow> string \<Rightarrow> metric res" where
  "cost_metric configuration evidence_ids now value name =
     mk_metric \<lparr>me_value = value, me_unit = cc_canonical_unit configuration, me_truth_class = MODELED,
       me_confidence = Fin 1, me_evidence_ids = (if evidence_ids = [] then [0] else evidence_ids),
       me_source_refs = [\<lparr>sr_source_id = ''procurement-cost-model'', sr_record_id = name\<rparr>],
       me_effective_at = now, me_fetched_at = now, me_computed_at = now, me_freshness_status = F_CURRENT,
       me_transformation = ''procurement.landed-cost.v1'', me_model_version = cc_version configuration\<rparr>"

text \<open>The breakdown is built from the nine component metrics, in order, and the total.\<close>

fun breakdown_of :: "metric list \<Rightarrow> metric \<Rightarrow> landed_cost res" where
  "breakdown_of [a, b, c, d, e, f, g, h, i] t =
     (let r = \<lparr>lc_commodity_price = a, lc_quality_differential = b, lc_freight = c,
        lc_insurance_and_risk_premium = d, lc_port_and_handling = e, lc_route_fees = f,
        lc_financing = g, lc_emissions = h, lc_compatibility_penalty = i, lc_total = t\<rparr>
      in validated (landed_cost_problems r) r)"
| "breakdown_of _ t = Inl KeyError"

definition reconcile_landed_cost ::
  "(string, pyfloat) dict \<Rightarrow> cost_configuration \<Rightarrow> uuid list \<Rightarrow> uuid list \<Rightarrow> datetime \<Rightarrow> landed_cost res" where
  "reconcile_landed_cost components configuration evidence_ids assumption_ids now =
    (if list_ex (\<lambda>name. \<not> dict_has components name) cost_names
     then Inl (ValueError ''all structural landed-cost components are required'')
     else
       let values = map (\<lambda>name. (name, dict_get components name 0)) cost_names;
           total = py_sum (map snd values)
       in if list_ex (\<lambda>v. \<not> isfinite v \<or> v < 0) (map snd values)
          then Inl (ValueError ''landed-cost components must be finite and non-negative'')
          else if \<not> cc_emissions_enabled configuration \<and> cc_tolerance configuration < \<bar>dict_get values ''emissions'' 0\<bar>
          then Inl (ValueError ''disabled emissions component must be zero'')
          else if \<not> cc_emissions_enabled configuration \<and> falsy_str (cc_emissions_disabled_rationale configuration)
          then Inl (ValueError ''disabled emissions component requires an explicit rationale'')
          else if \<not> isfinite total \<or> cc_tolerance configuration < \<bar>total - py_sum (map snd values)\<bar>
          then Inl (ValueError ''landed-cost components do not reconcile'')
          else rbind (rtraverse (\<lambda>(name, v). cost_metric configuration evidence_ids now v name) values) (\<lambda>metrics.
               rbind (cost_metric configuration evidence_ids now total ''total'') (\<lambda>total_metric.
                 breakdown_of metrics total_metric)))"

section \<open>Objective profiles\<close>

definition PROFILE_VERSION :: string where
  "PROFILE_VERSION = ''procurement-objectives-v1''"

text \<open>The calibration rows, in the order of the weight fields.\<close>

fun calibration :: "procurement_profile \<Rightarrow> pyfloat list" where
  "calibration LOWEST_COST =
     [Fin 1, Fin 1000, fl (5 / 100), fl (2 / 100), Fin 2, Fin 2, fl (1 / 10), fl (2 / 100)]"
| "calibration BALANCED =
     [fl (8 / 10), Fin 1000, fl (2 / 10), fl (15 / 100), Fin 20, Fin 20, fl (5 / 10), fl (1 / 10)]"
| "calibration HIGHEST_RESILIENCE =
     [fl (3 / 10), Fin 1000, fl (5 / 10), fl (5 / 10), Fin 80, Fin 80, Fin 1, fl (2 / 10)]"

fun profile_value :: "procurement_profile \<Rightarrow> string" where
  "profile_value LOWEST_COST = ''lowest_cost''"
| "profile_value BALANCED = ''balanced''"
| "profile_value HIGHEST_RESILIENCE = ''highest_resilience''"

definition objective_weights_of :: "procurement_profile \<Rightarrow> objective_weights res" where
  "objective_weights_of profile =
    (let v = calibration profile;
         w = \<lparr>ow_profile = profile, ow_version = PROFILE_VERSION @ '':'' @ profile_value profile,
              ow_landed_cost = v ! 0, ow_shortfall = v ! 1, ow_delay = v ! 2, ow_route_risk = v ! 3,
              ow_supplier_concentration = v ! 4, ow_corridor_concentration = v ! 5,
              ow_compatibility_penalty = v ! 6, ow_emissions = v ! 7\<rparr>
     in validated (objective_weights_problems w) w)"

definition all_objective_weights :: "objective_weights list res" where
  "all_objective_weights = rtraverse objective_weights_of [LOWEST_COST, BALANCED, HIGHEST_RESILIENCE]"

end
