(* ===== verification/Procurement_Checker.thy ===== *)
theory Procurement_Checker imports Procurement_Costs begin

text \<open>
  The independent check of a procurement answer, \<open>sanjiv/procurement/checker.py\<close>: every hard
  constraint is recomputed from the optimisation input and the reported quantities and shortages,
  the objective is rebuilt, and the outcome is a check result, an objective breakdown and a
  constraint report.
\<close>

definition CHECKER_VERSION :: string where
  "CHECKER_VERSION = ''procurement-independent-checker-v1''"

definition TOLERANCE :: pyfloat where
  "TOLERANCE = fl (1 / 1000000)"

definition OBJECTIVE_TOLERANCE :: pyfloat where
  "OBJECTIVE_TOLERANCE = fl (1 / 100000)"

section \<open>Metrics and violations\<close>

definition checker_metric :: "optimisation_input \<Rightarrow> datetime \<Rightarrow> pyfloat \<Rightarrow> string \<Rightarrow> metric res" where
  "checker_metric i now value unit =
     mk_metric \<lparr>me_value = py_max 0 value, me_unit = unit, me_truth_class = MODELED, me_confidence = Fin 1,
       me_evidence_ids = map ef_evidence_id (pv_evidence (oi_provenance i)),
       me_source_refs = [\<lparr>sr_source_id = ''procurement-checker'', sr_record_id = CHECKER_VERSION\<rparr>],
       me_effective_at = now, me_fetched_at = now, me_computed_at = now, me_freshness_status = F_CURRENT,
       me_transformation = CHECKER_VERSION, me_model_version = CHECKER_VERSION\<rparr>"

text \<open>The arguments of a call of \<open>_violation\<close>, and the violation it appends.\<close>

record violation_spec =
  vs_constraint_id :: string
  vs_family :: constraint_family
  vs_actual :: pyfloat
  vs_limit :: pyfloat
  vs_unit :: string
  vs_option_id :: "uuid option"

definition violation :: "optimisation_input \<Rightarrow> datetime \<Rightarrow> violation_spec \<Rightarrow> constraint_violation res" where
  "violation i now s =
     rbind (checker_metric i now (py_max 0 (vs_actual s)) (vs_unit s)) (\<lambda>actual.
     rbind (checker_metric i now (py_max 0 (vs_limit s)) (vs_unit s)) (\<lambda>limit.
     rbind (checker_metric i now (py_max TOLERANCE (vs_actual s - vs_limit s)) (vs_unit s)) (\<lambda>excess.
       let v = \<lparr>cv_constraint_id = vs_constraint_id s, cv_family = vs_family s,
                cv_message = vs_constraint_id s @ '' exceeded its hard limit'',
                cv_actual = actual, cv_limit = limit, cv_excess = excess, cv_option_id = vs_option_id s\<rparr>
       in validated (violation_problems v) v)))"

text \<open>\<open>if problem: _violation(...)\<close>: the violations a test appends, none or one.\<close>

definition violation_if ::
  "optimisation_input \<Rightarrow> datetime \<Rightarrow> bool \<Rightarrow> violation_spec \<Rightarrow> constraint_violation list res" where
  "violation_if i now problem s = (if problem then rmap (\<lambda>v. [v]) (violation i now s) else Inr [])"

definition in_turn :: "('a list res) list \<Rightarrow> 'a list res" where
  "in_turn rs = rmap concat (rtraverse (\<lambda>r. r) rs)"

section \<open>Options\<close>

definition option_dict :: "optimisation_input \<Rightarrow> (uuid, procurement_option) dict" where
  "option_dict i = dict_of (map (\<lambda>o'. (op_option_id o', o')) (oi_options i))"

definition demand_dict :: "optimisation_input \<Rightarrow> (uuid, pyfloat) dict" where
  "demand_dict i = dict_of (map (\<lambda>d. (dm_refinery_id d, me_value (dm_required_volume d))) (oi_demands i))"

definition quantity_of :: "(uuid, pyfloat) dict \<Rightarrow> procurement_option \<Rightarrow> pyfloat" where
  "quantity_of quantities o' = dict_get quantities (op_option_id o') 0"

definition constraint_id :: "string \<Rightarrow> uuid \<Rightarrow> string \<Rightarrow> string" where
  "constraint_id prefix u suffix = prefix @ '':'' @ uuid_str u @ '':'' @ suffix"

definition out_of_bounds :: "pyfloat \<Rightarrow> pyfloat \<Rightarrow> bool" where
  "out_of_bounds quantity cap \<longleftrightarrow> \<not> isfinite quantity \<or> quantity < - TOLERANCE \<or> cap + TOLERANCE < quantity"

definition delivery_misses_demand :: "optimisation_input \<Rightarrow> procurement_option \<Rightarrow> bool" where
  "delivery_misses_demand i o' \<longleftrightarrow>
     list_ex (\<lambda>d. dm_refinery_id d = op_refinery_id o' \<and>
        (op_delivery_window_start o' < dm_interval_start d \<or> dm_interval_end d < op_delivery_window_end o'))
       (oi_demands i)"

definition fingerprint_reproduced :: "option_hash \<Rightarrow> procurement_option \<Rightarrow> bool" where
  "fingerprint_reproduced sha256 o' \<longleftrightarrow>
     op_option_fingerprint o' = Some (procurement_option_fingerprint sha256 o')"

definition option_check ::
  "optimisation_input \<Rightarrow> datetime \<Rightarrow> (uuid, pyfloat) dict \<Rightarrow> procurement_option \<Rightarrow> constraint_violation list res" where
  "option_check i now quantities o' =
    (let quantity = quantity_of quantities o'; cap = option_cap o'; u = op_option_id o';
         spec = (\<lambda>suffix family actual limit unit.
           \<lparr>vs_constraint_id = constraint_id ''option'' u suffix, vs_family = family, vs_actual = actual,
            vs_limit = limit, vs_unit = unit, vs_option_id = Some u\<rparr>)
     in in_turn
       [violation_if i now (out_of_bounds quantity cap) (spec ''bounds'' F_PHYSICAL quantity cap ''ktonne''),
        violation_if i now (TOLERANCE < quantity \<and> \<not> op_sanctions_permitted o')
          (spec ''sanctions'' F_SANCTIONS quantity 0 ''ktonne''),
        violation_if i now (TOLERANCE < quantity \<and> \<not> op_compatibility_permitted o')
          (spec ''compatibility'' F_COMPATIBILITY quantity 0 ''ktonne''),
        violation_if i now (delivery_misses_demand i o')
          (spec ''delivery'' F_DELIVERY_WINDOW 1 0 ''violation'')])"

section \<open>What the answer delivers\<close>

abbreviation delivered_by :: "(procurement_option \<Rightarrow> uuid) \<Rightarrow> (uuid, pyfloat) dict \<Rightarrow> procurement_option list \<Rightarrow> (uuid, pyfloat) dict" where
  "delivered_by key quantities \<equiv> dd_total key (quantity_of quantities)"

definition delivered_by_segment :: "(uuid, pyfloat) dict \<Rightarrow> procurement_option list \<Rightarrow> (uuid, pyfloat) dict" where
  "delivered_by_segment quantities options =
     dd_total fst snd (concat (map (\<lambda>o'. map (\<lambda>s. (s, quantity_of quantities o')) (op_route_segment_ids o')) options))"

definition delivered_by_port ::
  "(procurement_option \<Rightarrow> uuid option) \<Rightarrow> (uuid, pyfloat) dict \<Rightarrow> procurement_option list \<Rightarrow> (uuid, pyfloat) dict" where
  "delivered_by_port port quantities options =
     dd_total fst snd (List.map_filter (\<lambda>o'. map_option (\<lambda>p. (p, quantity_of quantities o')) (port o')) options)"

section \<open>Demands\<close>

definition shortage_of :: "(uuid, pyfloat) dict \<Rightarrow> uuid \<Rightarrow> pyfloat" where
  "shortage_of shortages refinery_id = dict_get shortages refinery_id 0"

definition demand_unreconciled :: "pyfloat \<Rightarrow> pyfloat \<Rightarrow> pyfloat \<Rightarrow> bool" where
  "demand_unreconciled delivered shortage demand \<longleftrightarrow>
     TOLERANCE < \<bar>(delivered + shortage) - demand\<bar> \<or> shortage < - TOLERANCE"

definition demand_check ::
  "optimisation_input \<Rightarrow> datetime \<Rightarrow> (uuid, pyfloat) dict \<Rightarrow> (uuid, pyfloat) dict \<Rightarrow> uuid \<times> pyfloat
     \<Rightarrow> constraint_violation list res" where
  "demand_check i now delivered shortages d =
    (case d of (refinery_id, demand) \<Rightarrow>
       let got = dict_get delivered refinery_id 0; shortage = shortage_of shortages refinery_id in
       violation_if i now (demand_unreconciled got shortage demand)
         \<lparr>vs_constraint_id = constraint_id ''demand'' refinery_id ''reconciliation'', vs_family = F_MASS_BALANCE,
          vs_actual = got + shortage, vs_limit = demand, vs_unit = ''ktonne'', vs_option_id = None\<rparr>)"

section \<open>Aggregate capacities\<close>

text \<open>\<open>max\<close> and \<open>min\<close> of a possibly empty sequence, without default.\<close>

definition max_of :: "pyfloat list \<Rightarrow> pyfloat res" where
  "max_of xs = (if xs = [] then Inl (ValueError ''max() arg is an empty sequence'') else Inr (py_max_list 0 xs))"

definition min_of :: "pyfloat list \<Rightarrow> pyfloat res" where
  "min_of xs = (if xs = [] then Inl (ValueError ''min() arg is an empty sequence'') else Inr (py_min_list 0 xs))"

definition supplier_limit :: "procurement_option list \<Rightarrow> uuid \<Rightarrow> pyfloat res" where
  "supplier_limit options u =
     max_of (map (\<lambda>o'. me_value (op_supplier_capacity o')) (filter (\<lambda>o'. op_supplier_id o' = u) options))"

definition segment_limit :: "procurement_option list \<Rightarrow> uuid \<Rightarrow> pyfloat res" where
  "segment_limit options u =
     min_of (List.map_filter (\<lambda>o'. map_of (op_route_segment_capacities o') u) options)"

definition refinery_receiving_limit :: "procurement_option list \<Rightarrow> uuid \<Rightarrow> pyfloat res" where
  "refinery_receiving_limit options u =
     max_of (map (\<lambda>o'. me_value (op_refinery_receiving_capacity o')) (filter (\<lambda>o'. op_refinery_id o' = u) options))"

definition port_limit ::
  "(procurement_option \<Rightarrow> uuid option) \<Rightarrow> procurement_option list \<Rightarrow> uuid \<Rightarrow> pyfloat res" where
  "port_limit port options u =
     max_of (map (\<lambda>o'. py_max_list 0 (map snd (op_route_segment_capacities o'))) (filter (\<lambda>o'. port o' = Some u) options))"

definition capacity_check ::
  "optimisation_input \<Rightarrow> datetime \<Rightarrow> string \<Rightarrow> constraint_family \<Rightarrow> (uuid \<Rightarrow> pyfloat res) \<Rightarrow> uuid \<times> pyfloat
     \<Rightarrow> constraint_violation list res" where
  "capacity_check i now label family limit_of e =
    (case e of (u, actual) \<Rightarrow> rbind (limit_of u) (\<lambda>limit.
       violation_if i now (limit + TOLERANCE < actual)
         \<lparr>vs_constraint_id = constraint_id label u ''capacity'', vs_family = family, vs_actual = actual,
          vs_limit = limit, vs_unit = ''ktonne'', vs_option_id = None\<rparr>))"

text \<open>
  The five capacity loops. Reading \<open>delivered_by_refinery[id]\<close> for every demand has stored an
  entry for each demanded refinery.
\<close>

definition refinery_deliveries :: "optimisation_input \<Rightarrow> (uuid, pyfloat) dict \<Rightarrow> (uuid, pyfloat) dict" where
  "refinery_deliveries i quantities =
     foldl dd_touch (delivered_by op_refinery_id quantities (map snd (option_dict i))) (map fst (demand_dict i))"

definition capacity_loops ::
  "optimisation_input \<Rightarrow> (uuid, pyfloat) dict
     \<Rightarrow> (string \<times> constraint_family \<times> (uuid \<Rightarrow> pyfloat res) \<times> (uuid, pyfloat) dict) list" where
  "capacity_loops i quantities =
    (let options = map snd (option_dict i) in
     [(''supplier'', F_SUPPLIER_CAPACITY, supplier_limit options, delivered_by op_supplier_id quantities options),
      (''segment'', F_ROUTE_CAPACITY, segment_limit options, delivered_by_segment quantities options),
      (''refinery'', F_REFINERY_CAPACITY, refinery_receiving_limit options, refinery_deliveries i quantities),
      (''load-port'', F_ROUTE_CAPACITY, port_limit op_load_port_id options,
         delivered_by_port op_load_port_id quantities options),
      (''receiving-port'', F_ROUTE_CAPACITY, port_limit op_receiving_port_id options,
         delivered_by_port op_receiving_port_id quantities options)])"

definition capacity_checks ::
  "optimisation_input \<Rightarrow> datetime \<Rightarrow> (uuid, pyfloat) dict \<Rightarrow> constraint_violation list res" where
  "capacity_checks i now quantities =
     in_turn (concat (map (\<lambda>(label, family, limit_of, delivered).
       map (capacity_check i now label family limit_of) delivered) (capacity_loops i quantities)))"

section \<open>The objective\<close>

definition cost_of :: "procurement_option \<Rightarrow> pyfloat res" where
  "cost_of o' = (case op_landed_cost o' of
     None \<Rightarrow> Inl (ValueError ''eligible procurement option is missing landed cost'')
   | Some c \<Rightarrow> Inr (me_value (lc_total c)))"

definition metric_or_zero :: "metric option \<Rightarrow> pyfloat" where
  "metric_or_zero m = (case m of None \<Rightarrow> 0 | Some m \<Rightarrow> me_value m)"

text \<open>The rate of an option's landed-cost component, counted only where a breakdown exists.\<close>

definition landed_terms ::
  "(landed_cost \<Rightarrow> metric) \<Rightarrow> (uuid, pyfloat) dict \<Rightarrow> procurement_option list \<Rightarrow> pyfloat list" where
  "landed_terms component quantities options =
     List.map_filter (\<lambda>o'. map_option (\<lambda>c. me_value (component c) * quantity_of quantities o' / Fin 1000)
       (op_landed_cost o')) options"

definition objective_raw ::
  "optimisation_input \<Rightarrow> (uuid, pyfloat) dict \<Rightarrow> (uuid, pyfloat) dict \<Rightarrow> (string, pyfloat) dict res" where
  "objective_raw i quantities shortages =
    (let options = oi_options i; q = quantity_of quantities;
         denominator = py_max (py_sum (map (\<lambda>d. me_value (dm_required_volume d)) (oi_demands i))) (Fin 1)
     in rbind (rtraverse (\<lambda>o'. rmap (\<lambda>c. c * q o' / Fin 1000) (cost_of o')) options) (\<lambda>costs. Inr
       [(''landed_cost'', py_sum costs),
        (''shortfall'', py_sum (map snd shortages)),
        (''delay'', py_sum (map (\<lambda>o'. metric_or_zero (op_transit_time o') * q o' / Fin 1000) options)),
        (''route_risk'', py_sum (map (\<lambda>o'. metric_or_zero (op_route_distance o') * q o' / Fin 1000000) options)),
        (''supplier_concentration'',
           py_max_list 0 (map snd (delivered_by op_supplier_id quantities options)) / denominator),
        (''corridor_concentration'',
           py_max_list 0 (map snd (delivered_by op_route_id quantities options)) / denominator),
        (''compatibility_penalty'', py_sum (landed_terms lc_compatibility_penalty quantities options)),
        (''emissions'', py_sum (landed_terms lc_emissions quantities options))]))"

text \<open>\<open>weights\<close> by attribute name, in the order of the raw metrics.\<close>

definition weight_dict :: "objective_weights \<Rightarrow> (string, pyfloat) dict" where
  "weight_dict w =
    [(''landed_cost'', ow_landed_cost w), (''shortfall'', ow_shortfall w), (''delay'', ow_delay w),
     (''route_risk'', ow_route_risk w), (''supplier_concentration'', ow_supplier_concentration w),
     (''corridor_concentration'', ow_corridor_concentration w),
     (''compatibility_penalty'', ow_compatibility_penalty w), (''emissions'', ow_emissions w)]"

definition objective_components ::
  "optimisation_input \<Rightarrow> objective_weights \<Rightarrow> (uuid, pyfloat) dict \<Rightarrow> (uuid, pyfloat) dict
     \<Rightarrow> ((string, pyfloat) dict \<times> (string, pyfloat) dict) res" where
  "objective_components i weights quantities shortages =
     rmap (\<lambda>raw. (raw, map (\<lambda>(key, value). (key, value * dict_get (weight_dict weights) key 0)) raw))
       (objective_raw i quantities shortages)"

section \<open>Policies\<close>

definition budget_used :: "optimisation_input \<Rightarrow> (uuid, pyfloat) dict \<Rightarrow> pyfloat res" where
  "budget_used i quantities =
     rmap py_sum (rtraverse (\<lambda>o'. rmap (\<lambda>c. quantity_of quantities o' * Fin 1000 * c) (cost_of o')) (oi_options i))"

definition peak_share :: "(procurement_option \<Rightarrow> uuid) \<Rightarrow> optimisation_input \<Rightarrow> (uuid, pyfloat) dict \<Rightarrow> pyfloat" where
  "peak_share key i quantities =
     py_max_list 0 (map snd (delivered_by key quantities (map snd (option_dict i))))
       / py_max (py_sum (map snd (demand_dict i))) (Fin 1)"

definition policy_check ::
  "optimisation_input \<Rightarrow> datetime \<Rightarrow> string \<Rightarrow> constraint_family \<Rightarrow> string \<Rightarrow> pyfloat \<Rightarrow> metric
     \<Rightarrow> constraint_violation list res" where
  "policy_check i now cid family unit actual limit =
     violation_if i now (me_value limit + TOLERANCE < actual)
       \<lparr>vs_constraint_id = cid, vs_family = family, vs_actual = actual, vs_limit = me_value limit,
        vs_unit = unit, vs_option_id = None\<rparr>"

definition policy_checks ::
  "optimisation_input \<Rightarrow> datetime \<Rightarrow> (uuid, pyfloat) dict \<Rightarrow> pyfloat \<Rightarrow> constraint_violation list res" where
  "policy_checks i now quantities budget =
    (let h = oi_hard_constraints i in in_turn
      [policy_check i now ''policy:budget'' F_BUDGET ''USD'' budget (hc_budget_limit h),
       policy_check i now ''policy:supplier-concentration'' F_CONCENTRATION ''fraction''
         (peak_share op_supplier_id i quantities) (hc_supplier_concentration_limit h),
       policy_check i now ''policy:corridor-concentration'' F_CONCENTRATION ''fraction''
         (peak_share op_route_id i quantities) (hc_corridor_concentration_limit h)])"

section \<open>The check\<close>

text \<open>The identifiers of the constraints, in the order in which they are checked.\<close>

definition checked_constraint_ids :: "optimisation_input \<Rightarrow> (uuid, pyfloat) dict \<Rightarrow> string list" where
  "checked_constraint_ids i quantities =
     map (\<lambda>(u, o'). constraint_id ''option'' u ''bounds'') (option_dict i) @
     map (\<lambda>(u, d). constraint_id ''demand'' u ''reconciliation'') (demand_dict i) @
     concat (map (\<lambda>(label, family, limit_of, delivered).
       map (\<lambda>(u, a). constraint_id label u ''capacity'') delivered) (capacity_loops i quantities)) @
     [''policy:budget'', ''policy:supplier-concentration'', ''policy:corridor-concentration'']"

definition failure_codes_of :: "bool \<Rightarrow> bool \<Rightarrow> bool \<Rightarrow> bool \<Rightarrow> bool \<Rightarrow> bool \<Rightarrow> bool \<Rightarrow> bool \<Rightarrow> string list" where
  "failure_codes_of mass_ok bounds_ok all_constraints objective_ok sanctions_ok compatibility_ok fingerprint_ok timing_ok =
     unique_first (concat (map (\<lambda>(failed, code). if failed then [code] else [])
       [(\<not> mass_ok, ''MASS_BALANCE''),
        (\<not> bounds_ok \<or> \<not> all_constraints, ''HARD_CONSTRAINT''),
        (\<not> objective_ok, ''OBJECTIVE_RECONSTRUCTION''),
        (\<not> sanctions_ok, ''SANCTIONS_EXCLUSION''),
        (\<not> compatibility_ok, ''COMPATIBILITY_EXCLUSION''),
        (\<not> fingerprint_ok, ''FINGERPRINT_MISMATCH''),
        (\<not> timing_ok, ''DELIVERY_TIMING'')]))"

text \<open>
  \<open>bounds_ok\<close> is cleared by an option out of bounds and by each violation of a capacity loop,
  \<open>mass_ok\<close> by each unreconciled demand.
\<close>

definition check_of ::
  "option_hash \<Rightarrow> optimisation_input \<Rightarrow> datetime \<Rightarrow> (uuid, pyfloat) dict \<Rightarrow> constraint_violation list
     \<Rightarrow> constraint_violation list \<Rightarrow> constraint_violation list \<Rightarrow> pyfloat \<Rightarrow> pyfloat \<Rightarrow> independent_check_result res" where
  "check_of sha256 i now quantities demand_violations capacity_violations violations reported reconstructed =
    (let options = map snd (option_dict i);
         q = quantity_of quantities;
         bounds_ok = (list_all (\<lambda>o'. \<not> out_of_bounds (q o') (option_cap o')) options \<and> capacity_violations = []);
         mass_ok = (demand_violations = []);
         sanctions_ok = list_all (\<lambda>o'. \<not> (TOLERANCE < q o' \<and> \<not> op_sanctions_permitted o')) options;
         compatibility_ok = list_all (\<lambda>o'. \<not> (TOLERANCE < q o' \<and> \<not> op_compatibility_permitted o')) options;
         fingerprint_ok = list_all (fingerprint_reproduced sha256) options;
         timing_ok = list_all (\<lambda>o'. \<not> delivery_misses_demand i o') options;
         objective_ok = (\<bar>reported - reconstructed\<bar> \<le> OBJECTIVE_TOLERANCE);
         all_constraints = (violations = []);
         codes = failure_codes_of mass_ok bounds_ok all_constraints objective_ok sanctions_ok compatibility_ok
           fingerprint_ok timing_ok
     in
     rbind (checker_metric i now reported ''objective_point'') (\<lambda>reported_metric.
     rbind (checker_metric i now reconstructed ''objective_point'') (\<lambda>reconstructed_metric.
     rbind (checker_metric i now OBJECTIVE_TOLERANCE ''objective_point'') (\<lambda>tolerance_metric.
       let c = \<lparr>ic_checker_version = CHECKER_VERSION, ic_checked_at = now, ic_passed = (codes = []),
         ic_mass_balance_passed = mass_ok, ic_bounds_passed = (bounds_ok \<and> all_constraints),
         ic_objective_reconstruction_passed = objective_ok, ic_sanctions_exclusion_passed = sanctions_ok,
         ic_compatibility_exclusion_passed = compatibility_ok, ic_fingerprint_reproduction_passed = fingerprint_ok,
         ic_reported_objective = reported_metric, ic_reconstructed_objective = reconstructed_metric,
         ic_tolerance = tolerance_metric, ic_failure_codes = codes,
         ic_hard_constraints_recalculated = all_constraints, ic_landed_cost_recalculated = True,
         ic_concentration_recalculated = True, ic_delivery_timing_recalculated = timing_ok,
         ic_inventory_balance_recalculated = True\<rparr>
       in validated (check_result_problems c) c))))"

definition report_of ::
  "optimisation_input \<Rightarrow> (uuid, pyfloat) dict \<Rightarrow> constraint_violation list \<Rightarrow> constraint_report res" where
  "report_of i quantities violations =
    (let r = \<lparr>cp_feasible = (violations = []), cp_hard_constraint_version = hc_version (oi_hard_constraints i),
              cp_checked_families = all_families,
              cp_checked_constraint_ids = checked_constraint_ids i quantities, cp_violations = violations\<rparr>
     in validated (report_problems r) r)"

definition breakdown_for ::
  "optimisation_input \<Rightarrow> datetime \<Rightarrow> objective_weights \<Rightarrow> (string, pyfloat) dict \<Rightarrow> (string, pyfloat) dict \<Rightarrow> pyfloat
     \<Rightarrow> objective_breakdown res" where
  "breakdown_for i now weights raw weighted reconstructed =
    (let metric = (\<lambda>key. checker_metric i now (dict_get weighted key 0) ''objective_point'') in
     rbind (metric ''landed_cost'') (\<lambda>landed. rbind (metric ''shortfall'') (\<lambda>shortfall.
     rbind (metric ''delay'') (\<lambda>delay. rbind (metric ''route_risk'') (\<lambda>risk.
     rbind (metric ''supplier_concentration'') (\<lambda>supplier. rbind (metric ''corridor_concentration'') (\<lambda>corridor.
     rbind (metric ''compatibility_penalty'') (\<lambda>compatibility. rbind (metric ''emissions'') (\<lambda>emissions.
     rbind (checker_metric i now reconstructed ''objective_point'') (\<lambda>total.
       let b = \<lparr>ob_landed_cost = landed, ob_shortfall_penalty = shortfall, ob_delay_penalty = delay,
         ob_route_risk_penalty = risk, ob_supplier_concentration_penalty = supplier,
         ob_corridor_concentration_penalty = corridor, ob_compatibility_penalty = compatibility,
         ob_emissions_penalty = emissions, ob_total = total, ob_raw_metrics = raw,
         ob_weights = weight_dict weights, ob_weighted_contributions = weighted\<rparr>
       in validated (objective_breakdown_problems b) b))))))))))"

definition independent_check ::
  "option_hash \<Rightarrow> optimisation_input \<Rightarrow> objective_weights \<Rightarrow> (uuid, pyfloat) dict \<Rightarrow> (uuid, pyfloat) dict \<Rightarrow> pyfloat
     \<Rightarrow> datetime \<Rightarrow> (independent_check_result \<times> objective_breakdown \<times> constraint_report) res" where
  "independent_check sha256 i weights quantities shortages reported now =
    (let options = map snd (option_dict i);
         delivered = delivered_by op_refinery_id quantities options
     in
     rbind (in_turn (map (option_check i now quantities) options)) (\<lambda>option_violations.
     rbind (in_turn (map (demand_check i now delivered shortages) (demand_dict i))) (\<lambda>demand_violations.
     rbind (capacity_checks i now quantities) (\<lambda>capacity_violations.
     rbind (objective_components i weights quantities shortages) (\<lambda>(raw, weighted).
     rbind (budget_used i quantities) (\<lambda>budget.
     rbind (policy_checks i now quantities budget) (\<lambda>policy_violations.
       let violations = option_violations @ demand_violations @ capacity_violations @ policy_violations;
           reconstructed = py_sum (map snd weighted)
       in
       rbind (check_of sha256 i now quantities demand_violations capacity_violations violations reported reconstructed) (\<lambda>check.
       rbind (report_of i quantities violations) (\<lambda>report.
       rbind (breakdown_for i now weights raw weighted reconstructed) (\<lambda>breakdown.
         Inr (check, breakdown, report)))))))))))"

end
