(* ===== verification/Validation_Facts.thy ===== *)
theory Validation_Facts imports Twin_Contracts begin

text \<open>
  Facts every component's proofs about validated values share: what an accepted list of checks
  rules out, the comparison and finiteness of the float operations, entries of dictionaries.
\<close>

section \<open>Accepted values\<close>

lemma first_error_Cons_None: "first_error (c # cs) = None \<longleftrightarrow> \<not> fst c \<and> first_error cs = None"
  by (cases c) simp

lemmas no_error_simps = first_error_Cons_None first_error_append_None first_error.simps(1) fst_conv

lemma first_error_NoneD: "first_error cs = None \<Longrightarrow> (problem, e) \<in> set cs \<Longrightarrow> \<not> problem"
  by (auto simp: first_error_None)

section \<open>Floats\<close>

lemma finite_not_NaN: "isfinite x \<Longrightarrow> x \<noteq> NaN"
  by auto

lemma not_less_pyfloat: "a \<noteq> NaN \<Longrightarrow> b \<noteq> NaN \<Longrightarrow> \<not> (a < b) \<longleftrightarrow> b \<le> a" for a b :: pyfloat
  by (cases a; cases b) (auto simp: less_pyfloat_def)

lemma finite_add_not_NaN: "isfinite x \<Longrightarrow> isfinite y \<Longrightarrow> x + y \<noteq> NaN"
  by (cases x; cases y) (simp_all add: of_exact_def Let_def)

lemma minus_finite_not_NaN: "x \<noteq> NaN \<Longrightarrow> isfinite y \<Longrightarrow> x - y \<noteq> NaN" for x y :: pyfloat
  by (cases x; cases y) (simp_all add: minus_pyfloat_def)

lemma abs_zero_pyfloat: "\<bar>0 :: pyfloat\<bar> = 0"
  by (simp add: abs_pyfloat_def zero_pyfloat_def less_pyfloat_def)

lemma abs_not_NaN: "x \<noteq> NaN \<Longrightarrow> \<bar>x\<bar> \<noteq> NaN" for x :: pyfloat
  by (cases x) (simp_all add: abs_pyfloat_def zero_pyfloat_def less_pyfloat_def)

lemma times_finite_not_NaN: "isfinite x \<Longrightarrow> isfinite y \<Longrightarrow> x * y \<noteq> NaN" for x y :: pyfloat
  by (cases x; cases y) simp_all

lemma add_finite_not_NaN: "x \<noteq> NaN \<Longrightarrow> isfinite y \<Longrightarrow> x + y \<noteq> NaN" for x y :: pyfloat
  by (cases x; cases y) simp_all

lemma isfinite_addD: "isfinite (a + b) \<Longrightarrow> isfinite a \<and> isfinite b"
  by (cases a; cases b) simp_all

lemma isfinite_multD: "isfinite (a * b) \<Longrightarrow> isfinite a \<and> isfinite b"
  by (cases a; cases b) (auto simp: inf_of_sign_def split: if_splits)

lemma isfinite_divD: "isfinite (a / Fin c) \<Longrightarrow> isfinite a"
  by (cases a) (auto simp: inf_of_sign_def split: if_splits)

lemma isfinite_foldlD: "isfinite (foldl (+) a xs) \<Longrightarrow> isfinite a \<and> (\<forall>x \<in> set xs. isfinite x)"
proof (induction xs arbitrary: a)
  case (Cons x xs)
  have "isfinite (foldl (+) (a + x) xs)" using Cons.prems by (simp only: foldl_Cons)
  from Cons.IH [OF this] have "isfinite (a + x) \<and> (\<forall>x \<in> set xs. isfinite x)" .
  with isfinite_addD [of a x] show ?case by simp
qed simp

lemma isfinite_sumD: "isfinite (py_sum xs) \<Longrightarrow> x \<in> set xs \<Longrightarrow> isfinite x"
  unfolding py_sum_def by (drule isfinite_foldlD) blast

lemma sum_finite_not_NaN: "(\<And>x. x \<in> set xs \<Longrightarrow> isfinite x) \<Longrightarrow> py_sum xs \<noteq> NaN"
proof -
  have "a \<noteq> NaN \<Longrightarrow> (\<And>x. x \<in> set xs \<Longrightarrow> isfinite x) \<Longrightarrow> foldl (+) a xs \<noteq> NaN" for a :: pyfloat and xs
    by (induction xs arbitrary: a) (auto simp: add_finite_not_NaN)
  then show "(\<And>x. x \<in> set xs \<Longrightarrow> isfinite x) \<Longrightarrow> py_sum xs \<noteq> NaN" by (simp add: py_sum_def)
qed

text \<open>The values the objective models accept: finite and nonnegative.\<close>

definition values_ok :: "pyfloat list \<Rightarrow> bool" where
  "values_ok xs \<longleftrightarrow> list_all (\<lambda>v. isfinite v \<and> 0 \<le> v) xs"

section \<open>Dictionaries\<close>

lemma dict_entries:
  "distinct (map fst d) \<Longrightarrow> (\<forall>(u, a) \<in> set d. P u a) \<longleftrightarrow> (\<forall>u \<in> fst ` set d. P u (dict_get d u w))"
  by (auto simp: dict_get_in image_iff)

lemma dict_of_subset: "set (dict_of kvs) \<subseteq> set kvs"
proof -
  have u: "set (AList.update k v d) \<subseteq> insert (k, v) (set d)" for k v and d :: "('x \<times> 'y) list"
    by (induction d) auto
  have "set (foldl (\<lambda>d (k, v). AList.update k v d) d kvs) \<subseteq> set d \<union> set kvs" for d :: "('x \<times> 'y) list" and kvs
  proof (induction kvs arbitrary: d)
    case (Cons kv kvs)
    obtain k v where kv: "kv = (k, v)" by force
    from Cons [of "AList.update k v d"] u [of k v d] show ?case by (auto simp: kv)
  qed simp
  from this [of "[]"] show ?thesis by (simp add: dict_of_def)
qed

end
