(* ===== verification/Procurement_Check.thy ===== *)
theory Procurement_Check imports Procurement_Checker Validation_Facts begin

text \<open>
  What the independent check decides. \<open>hard_constraints_met\<close> states the hard constraints over the
  shipped sums, without the bookkeeping of violations; the loops of the checker are refined to it.
\<close>

section \<open>Sequences of tests\<close>

lemma rtraverse_id_Inr: "rtraverse (\<lambda>r. r) rs = Inr xs \<longleftrightarrow> rs = map Inr xs"
  by (induction rs arbitrary: xs) (auto simp: rbind_Inr_iff rmap_def)

lemma in_turn_InrE:
  assumes "in_turn rs = Inr vs"
  obtains vss where "rs = map Inr vss" "vs = concat vss"
  using assms by (auto simp: in_turn_def rmap_def rbind_Inr_iff rtraverse_id_Inr)

lemma in_turn_Inr: "in_turn rs = Inr vs \<Longrightarrow> vs = [] \<longleftrightarrow> (\<forall>r \<in> set rs. r = Inr [])"
  by (erule in_turn_InrE) auto

lemma in_turn_Inr_each: "in_turn rs = Inr vs \<Longrightarrow> r \<in> set rs \<Longrightarrow> \<exists>v. r = Inr v"
  by (erule in_turn_InrE) auto

lemma in_turn_Nil: "in_turn rs = Inr [] \<longleftrightarrow> (\<forall>r \<in> set rs. r = Inr [])"
proof
  show "in_turn rs = Inr [] \<Longrightarrow> \<forall>r \<in> set rs. r = Inr []" using in_turn_Inr by blast
  show "\<forall>r \<in> set rs. r = Inr [] \<Longrightarrow> in_turn rs = Inr []"
    using rtraverse_Inr [of rs "\<lambda>r. r" "\<lambda>r. []"] by (simp add: in_turn_def)
qed

lemma violation_if_Nil [simp]: "violation_if i now problem s = Inr [] \<longleftrightarrow> \<not> problem"
  by (cases "violation i now s") (auto simp: violation_if_def)

lemma option_check_Nil:
  "option_check i now quantities o' = Inr [] \<longleftrightarrow>
     \<not> out_of_bounds (quantity_of quantities o') (option_cap o') \<and>
     (TOLERANCE < quantity_of quantities o' \<longrightarrow> op_sanctions_permitted o' \<and> op_compatibility_permitted o') \<and>
     \<not> delivery_misses_demand i o'"
  by (auto simp: option_check_def Let_def in_turn_Nil)

lemma demand_check_Nil:
  "demand_check i now delivered shortages (u, d) = Inr [] \<longleftrightarrow>
     \<not> demand_unreconciled (dict_get delivered u 0) (shortage_of shortages u) d"
  by (simp add: demand_check_def Let_def)

definition fits_limit :: "pyfloat res \<Rightarrow> pyfloat \<Rightarrow> bool" where
  "fits_limit limit actual \<longleftrightarrow> (case limit of Inl e \<Rightarrow> False | Inr l \<Rightarrow> \<not> (l + TOLERANCE < actual))"

lemma capacity_check_Nil:
  "capacity_check i now label family limit_of (u, actual) = Inr [] \<longleftrightarrow> fits_limit (limit_of u) actual"
  by (cases "limit_of u") (simp_all add: capacity_check_def fits_limit_def)

lemma policy_check_Nil:
  "policy_check i now cid family unit actual limit = Inr [] \<longleftrightarrow> \<not> (me_value limit + TOLERANCE < actual)"
  by (simp add: policy_check_def)

section \<open>The constraints over shipped sums\<close>

text \<open>What is shipped on the options that satisfy a predicate.\<close>

definition shipped :: "(procurement_option \<Rightarrow> bool) \<Rightarrow> optimisation_input \<Rightarrow> (uuid, pyfloat) dict \<Rightarrow> pyfloat" where
  "shipped P i quantities = py_sum (map (quantity_of quantities) (filter P (oi_options i)))"

definition options_met :: "optimisation_input \<Rightarrow> (uuid, pyfloat) dict \<Rightarrow> bool" where
  "options_met i quantities \<longleftrightarrow>
     (\<forall>o' \<in> set (oi_options i). let q = quantity_of quantities o' in
        isfinite q \<and> - TOLERANCE \<le> q \<and> q \<le> option_cap o' + TOLERANCE \<and>
        (TOLERANCE < q \<longrightarrow> op_sanctions_permitted o' \<and> op_compatibility_permitted o') \<and>
        (\<forall>d \<in> set (oi_demands i). dm_refinery_id d = op_refinery_id o' \<longrightarrow>
           dm_interval_start d \<le> op_delivery_window_start o' \<and> op_delivery_window_end o' \<le> dm_interval_end d))"

definition demands_met :: "optimisation_input \<Rightarrow> (uuid, pyfloat) dict \<Rightarrow> (uuid, pyfloat) dict \<Rightarrow> bool" where
  "demands_met i quantities shortages \<longleftrightarrow>
     (\<forall>(u, demand) \<in> set (demand_dict i).
        \<not> demand_unreconciled (shipped (\<lambda>o'. op_refinery_id o' = u) i quantities) (shortage_of shortages u) demand)"

definition capacities_met :: "optimisation_input \<Rightarrow> (uuid, pyfloat) dict \<Rightarrow> bool" where
  "capacities_met i quantities \<longleftrightarrow>
    (\<forall>u \<in> op_supplier_id ` set (oi_options i).
       fits_limit (supplier_limit (oi_options i) u) (shipped (\<lambda>o'. op_supplier_id o' = u) i quantities)) \<and>
    (\<forall>u \<in> (\<Union>o' \<in> set (oi_options i). set (op_route_segment_ids o')).
       fits_limit (segment_limit (oi_options i) u) (shipped (\<lambda>o'. u \<in> set (op_route_segment_ids o')) i quantities)) \<and>
    (\<forall>u \<in> op_refinery_id ` set (oi_options i) \<union> dm_refinery_id ` set (oi_demands i).
       fits_limit (refinery_receiving_limit (oi_options i) u) (shipped (\<lambda>o'. op_refinery_id o' = u) i quantities)) \<and>
    list_all (\<lambda>port. \<forall>o' \<in> set (oi_options i). opt_ok (\<lambda>u.
       fits_limit (port_limit port (oi_options i) u) (shipped (\<lambda>o'. port o' = Some u) i quantities)) (port o'))
      [op_load_port_id, op_receiving_port_id]"

definition policies_met :: "optimisation_input \<Rightarrow> (uuid, pyfloat) dict \<Rightarrow> pyfloat \<Rightarrow> bool" where
  "policies_met i quantities budget \<longleftrightarrow>
     (let h = oi_hard_constraints i in
      \<not> (me_value (hc_budget_limit h) + TOLERANCE < budget) \<and>
      \<not> (me_value (hc_supplier_concentration_limit h) + TOLERANCE < peak_share op_supplier_id i quantities) \<and>
      \<not> (me_value (hc_corridor_concentration_limit h) + TOLERANCE < peak_share op_route_id i quantities))"

definition hard_constraints_met ::
  "optimisation_input \<Rightarrow> (uuid, pyfloat) dict \<Rightarrow> (uuid, pyfloat) dict \<Rightarrow> bool" where
  "hard_constraints_met i quantities shortages \<longleftrightarrow>
     options_met i quantities \<and> demands_met i quantities shortages \<and> capacities_met i quantities \<and>
     (case budget_used i quantities of Inl e \<Rightarrow> False | Inr budget \<Rightarrow> policies_met i quantities budget)"

text \<open>The identifiers an input must have for its dictionaries to hold every option.\<close>

definition input_distinct :: "optimisation_input \<Rightarrow> bool" where
  "input_distinct i \<longleftrightarrow> distinct (map op_option_id (oi_options i)) \<and>
     (\<forall>o' \<in> set (oi_options i). distinct (op_route_segment_ids o'))"

lemma valid_options:
  assumes "optimisation_input_valid option_sha256 input_sha256 i" "o' \<in> set (oi_options i)"
  shows "first_error (option_problems option_sha256 o') = None"
proof -
  have "\<not> (\<not> len_between 1 MAX_OPTIONS (oi_options i)
        \<or> list_ex (\<lambda>o'. first_error (option_problems option_sha256 o') \<noteq> None) (oi_options i))"
    by (rule first_error_NoneD [OF assms(1) [unfolded optimisation_input_valid_def], of _ "FieldError ''options''"])
      (simp add: optimisation_input_problems_def Let_def)
  with assms(2) show ?thesis unfolding list_ex_iff by blast
qed

lemma valid_input_distinct:
  assumes "optimisation_input_valid option_sha256 input_sha256 i"
  shows "input_distinct i"
proof -
  have "\<not> \<not> distinct (map op_option_id (oi_options i))"
    by (rule first_error_NoneD [OF assms [unfolded optimisation_input_valid_def],
          of _ "ValueError (''procurement options'' @ '' must not contain duplicates'')"])
      (simp add: optimisation_input_problems_def Let_def require_unique_def)
  moreover have "distinct (op_route_segment_ids o')" if "o' \<in> set (oi_options i)" for o'
  proof -
    have "\<not> \<not> distinct (op_route_segment_ids o')"
      by (rule first_error_NoneD [OF valid_options [OF assms that],
            of _ "ValueError (''route segments'' @ '' must not contain duplicates'')"])
        (simp add: option_problems_def require_unique_def)
    then show ?thesis by simp
  qed
  ultimately show ?thesis by (simp add: input_distinct_def)
qed

lemma option_dict_snd: "input_distinct i \<Longrightarrow> map snd (option_dict i) = oi_options i"
  by (simp add: option_dict_def input_distinct_def dict_of_distinct comp_def)

lemma tolerance_finite: "isfinite TOLERANCE" "isfinite (- TOLERANCE)" by code_simp+

lemma metric_problems_sound:
  assumes "first_error cs = None" "set (non_negative_metric_problems m unit name) \<subseteq> set cs"
  shows "isfinite (me_value m)" "\<not> me_value m < 0"
proof -
  have *: "first_error (non_negative_metric_problems m unit name) = None"
    using assms by (auto simp: first_error_None)
  show "isfinite (me_value m)" "\<not> me_value m < 0"
    using * unfolding non_negative_metric_problems_def finite_metric_problems_def no_error_simps by simp_all
qed

lemma valid_capacity_metrics:
  assumes "first_error (option_problems sha256 o') = None" "(n, m) \<in> set (option_capacity_metrics o')"
  shows "isfinite (me_value m)" "\<not> me_value m < 0"
proof -
  have "set (non_negative_metric_problems m ''ktonne'' n) \<subseteq> set (option_problems sha256 o')"
    unfolding option_problems_def set_append set_concat set_map using assms(2) by blast
  from metric_problems_sound [OF assms(1) this] show "isfinite (me_value m)" "\<not> me_value m < 0" .
qed

lemma valid_option_cap:
  assumes "first_error (option_problems sha256 o') = None"
  shows "isfinite (option_cap o')"
proof -
  have "option_cap o' \<in> set (map (\<lambda>(n, m). me_value m) (option_capacity_metrics o'))"
    unfolding option_cap_def by (rule py_min_list_in) (simp add: option_capacity_metrics_def)
  with valid_capacity_metrics [OF assms] show ?thesis by auto
qed

lemma bounds_met:
  assumes "isfinite cap"
  shows "\<not> out_of_bounds q cap \<longleftrightarrow> isfinite q \<and> - TOLERANCE \<le> q \<and> q \<le> cap + TOLERANCE"
proof (cases "isfinite q")
  case True
  have "q \<noteq> NaN" "- TOLERANCE \<noteq> NaN" "cap + TOLERANCE \<noteq> NaN"
    using True assms tolerance_finite by (simp_all add: finite_not_NaN finite_add_not_NaN)
  then show ?thesis using True by (simp add: out_of_bounds_def not_less_pyfloat)
qed (simp add: out_of_bounds_def)


section \<open>Entries of the accumulated dictionaries\<close>

lemma map_filter_eq: "List.map_filter f xs = map (the \<circ> f) (filter (\<lambda>x. f x \<noteq> None) xs)"
  by (simp add: List.map_filter_def)

lemma dict_get_dd_touch [simp]: "dict_get (dd_touch d k) u 0 = dict_get d u 0"
  by (auto simp: dd_touch_def dict_has_map_of dict_get_def update_conv')

lemma update_keys: "fst ` set (AList.update k v d) = insert k (fst ` set d)"
  using dom_update [of k v d] by simp

lemma keys_foldl_dd_touch: "fst ` set (foldl dd_touch d ks) = fst ` set d \<union> set ks"
proof (induction ks arbitrary: d)
  case (Cons k ks)
  have "fst ` set (dd_touch d k) = insert k (fst ` set d)"
    by (auto simp: dd_touch_def dict_has_def dom_update [simplified])
  with Cons show ?case by auto
qed simp

lemma dict_get_foldl_dd_touch [simp]: "dict_get (foldl dd_touch d ks) u 0 = dict_get d u 0"
  by (induction ks arbitrary: d) simp_all

lemma distinct_foldl_dd_touch: "distinct (map fst d) \<Longrightarrow> distinct (map fst (foldl dd_touch d ks))"
  by (induction ks arbitrary: d) (auto simp: dd_touch_def distinct_update)

lemma delivered_shipped:
  "dict_get (delivered_by key quantities (oi_options i)) u 0 = shipped (\<lambda>o'. key o' = u) i quantities"
  by (simp add: dict_get_dd_total shipped_def)

lemma delivered_by_port_shipped:
  "dict_get (delivered_by_port port quantities (oi_options i)) u 0 = shipped (\<lambda>o'. port o' = Some u) i quantities"
proof -
  have "map snd (filter (\<lambda>x. fst x = u) (List.map_filter (\<lambda>o'. map_option (\<lambda>p. (p, quantity_of quantities o')) (port o')) os))
      = map (quantity_of quantities) (filter (\<lambda>o'. port o' = Some u) os)" for os
    by (induction os) (auto simp: map_filter_simps split: option.splits)
  then show ?thesis by (simp add: delivered_by_port_def dict_get_dd_total shipped_def)
qed

lemma delivered_by_segment_shipped:
  assumes "input_distinct i"
  shows "dict_get (delivered_by_segment quantities (oi_options i)) u 0 =
    shipped (\<lambda>o'. u \<in> set (op_route_segment_ids o')) i quantities"
proof -
  have f: "distinct ss \<Longrightarrow> map snd (filter (\<lambda>x. fst x = u) (map (\<lambda>s. (s, q)) ss)) = (if u \<in> set ss then [q] else [])"
    for ss and q :: pyfloat
    by (induction ss) auto
  have "\<forall>o' \<in> set os. distinct (op_route_segment_ids o') \<Longrightarrow>
     map snd (filter (\<lambda>x. fst x = u) (concat (map (\<lambda>o'. map (\<lambda>s. (s, quantity_of quantities o')) (op_route_segment_ids o')) os)))
      = map (quantity_of quantities) (filter (\<lambda>o'. u \<in> set (op_route_segment_ids o')) os)" for os
    by (induction os) (simp_all add: f)
  with assms show ?thesis by (simp add: delivered_by_segment_def dict_get_dd_total shipped_def input_distinct_def)
qed

lemma delivered_by_port_keys:
  "fst ` set (delivered_by_port port quantities os) = {u. \<exists>o' \<in> set os. port o' = Some u}"
  by (force simp: delivered_by_port_def keys_dd_total map_filter_eq image_iff)

lemma delivered_by_segment_keys:
  "fst ` set (delivered_by_segment quantities os) = (\<Union>o' \<in> set os. set (op_route_segment_ids o'))"
  by (force simp: delivered_by_segment_def keys_dd_total image_iff)

lemma delivered_distinct [simp]:
  "distinct (map fst (delivered_by_port port quantities os))" "distinct (map fst (delivered_by_segment quantities os))"
  by (simp_all add: delivered_by_port_def delivered_by_segment_def)

lemma demand_dict_keys: "fst ` set (demand_dict i) = dm_refinery_id ` set (oi_demands i)"
proof -
  have "fst ` set (foldl (\<lambda>d (k, v). AList.update k v d) d kvs) = fst ` set d \<union> fst ` set kvs" for d kvs :: "(uuid \<times> pyfloat) list"
    by (induction kvs arbitrary: d) (simp_all add: update_keys split_beta)
  then show ?thesis by (simp add: demand_dict_def dict_of_def image_image)
qed

section \<open>The loops decide the constraints\<close>

lemma options_decided:
  assumes "optimisation_input_valid option_sha256 input_sha256 i"
  shows "(\<forall>o' \<in> set (oi_options i). option_check i now quantities o' = Inr []) \<longleftrightarrow> options_met i quantities"
proof -
  have "option_check i now quantities o' = Inr [] \<longleftrightarrow> (let q = quantity_of quantities o' in
        isfinite q \<and> - TOLERANCE \<le> q \<and> q \<le> option_cap o' + TOLERANCE \<and>
        (TOLERANCE < q \<longrightarrow> op_sanctions_permitted o' \<and> op_compatibility_permitted o') \<and>
        (\<forall>d \<in> set (oi_demands i). dm_refinery_id d = op_refinery_id o' \<longrightarrow>
           dm_interval_start d \<le> op_delivery_window_start o' \<and> op_delivery_window_end o' \<le> dm_interval_end d))"
    if "o' \<in> set (oi_options i)" for o'
    using valid_option_cap [OF valid_options [OF assms that]]
    by (auto simp: option_check_Nil bounds_met Let_def delivery_misses_demand_def list_ex_iff not_less)
  then show ?thesis by (simp add: options_met_def)
qed

lemma demands_decided:
  assumes "input_distinct i"
  shows "(\<forall>d \<in> set (demand_dict i). demand_check i now (delivered_by op_refinery_id quantities (map snd (option_dict i))) shortages d = Inr [])
    \<longleftrightarrow> demands_met i quantities shortages"
  by (auto simp: demands_met_def demand_check_Nil option_dict_snd [OF assms] delivered_shipped)

lemma capacity_loop_decided:
  assumes "distinct (map fst d)"
  shows "(\<forall>e \<in> set d. capacity_check i now label family limit_of e = Inr []) \<longleftrightarrow>
    (\<forall>u \<in> fst ` set d. fits_limit (limit_of u) (dict_get d u 0))"
  using dict_entries [OF assms, of "\<lambda>u a. fits_limit (limit_of u) a" 0] by (auto simp: capacity_check_Nil)

lemma capacities_decided:
  assumes "input_distinct i"
  shows "capacity_checks i now quantities = Inr [] \<longleftrightarrow> capacities_met i quantities"
proof -
  have "capacity_checks i now quantities = Inr [] \<longleftrightarrow> (\<forall>(label, family, limit_of, d) \<in> set (capacity_loops i quantities).
      \<forall>e \<in> set d. capacity_check i now label family limit_of e = Inr [])"
    unfolding capacity_checks_def in_turn_Nil by (fastforce simp: image_iff)
  also have "\<dots> \<longleftrightarrow> capacities_met i quantities"
    unfolding capacity_loops_def Let_def option_dict_snd [OF assms] capacities_met_def
    by (simp add: capacity_loop_decided refinery_deliveries_def option_dict_snd [OF assms]
        distinct_foldl_dd_touch keys_foldl_dd_touch keys_dd_total delivered_by_port_keys delivered_by_segment_keys
        delivered_shipped delivered_by_port_shipped delivered_by_segment_shipped [OF assms] demand_dict_keys opt_ok_def split: option.split) blast
  finally show ?thesis .
qed

lemma policies_decided:
  "policy_checks i now quantities budget = Inr [] \<longleftrightarrow> policies_met i quantities budget"
  by (auto simp: policy_checks_def Let_def in_turn_Nil policy_check_Nil policies_met_def)

section \<open>The parts of a returned check\<close>

lemma failure_codes_none:
  "failure_codes_of mass bounds_ok alls objective sanctions compatibility fingerprints timing = [] \<longleftrightarrow>
     mass \<and> bounds_ok \<and> alls \<and> objective \<and> sanctions \<and> compatibility \<and> fingerprints \<and> timing"
  by (simp add: failure_codes_of_def unique_first_def)

lemma independent_check_parts:
  assumes "independent_check sha256 i weights quantities shortages reported now = Inr (check, breakdown, report)"
  obtains ov dv cv pv raw weighted budget where
    "in_turn (map (option_check i now quantities) (map snd (option_dict i))) = Inr ov"
    "in_turn (map (demand_check i now (delivered_by op_refinery_id quantities (map snd (option_dict i))) shortages)
       (demand_dict i)) = Inr dv"
    "capacity_checks i now quantities = Inr cv"
    "objective_components i weights quantities shortages = Inr (raw, weighted)"
    "budget_used i quantities = Inr budget"
    "policy_checks i now quantities budget = Inr pv"
    "check_of sha256 i now quantities dv cv (ov @ dv @ cv @ pv) reported (py_sum (map snd weighted)) = Inr check"
    "report_of i quantities (ov @ dv @ cv @ pv) = Inr report"
    "breakdown_for i now weights raw weighted (py_sum (map snd weighted)) = Inr breakdown"
  using assms unfolding independent_check_def Let_def rbind_Inr_iff by (auto simp: rbind_Inr_iff)

lemma violations_decided:
  assumes "optimisation_input_valid option_sha256 input_sha256 i"
    "in_turn (map (option_check i now quantities) (map snd (option_dict i))) = Inr ov"
    "in_turn (map (demand_check i now (delivered_by op_refinery_id quantities (map snd (option_dict i))) shortages)
       (demand_dict i)) = Inr dv"
    "capacity_checks i now quantities = Inr cv" "budget_used i quantities = Inr budget"
    "policy_checks i now quantities budget = Inr pv"
  shows "ov = [] \<longleftrightarrow> options_met i quantities" "dv = [] \<longleftrightarrow> demands_met i quantities shortages"
    "cv = [] \<longleftrightarrow> capacities_met i quantities" "pv = [] \<longleftrightarrow> policies_met i quantities budget"
    "ov @ dv @ cv @ pv = [] \<longleftrightarrow> hard_constraints_met i quantities shortages"
proof -
  note d = valid_input_distinct [OF assms(1)]
  show ov: "ov = [] \<longleftrightarrow> options_met i quantities"
    using in_turn_Inr [OF assms(2)] options_decided [OF assms(1)] by (simp add: option_dict_snd [OF d])
  show dv: "dv = [] \<longleftrightarrow> demands_met i quantities shortages"
    using in_turn_Inr [OF assms(3)] demands_decided [OF d] by simp
  show cv: "cv = [] \<longleftrightarrow> capacities_met i quantities" using capacities_decided [OF d, of now quantities] assms(4) by simp
  show pv: "pv = [] \<longleftrightarrow> policies_met i quantities budget" using policies_decided [of i now quantities budget] assms(6) by simp
  show "ov @ dv @ cv @ pv = [] \<longleftrightarrow> hard_constraints_met i quantities shortages"
    using ov dv cv pv assms(5) by (simp add: hard_constraints_met_def)
qed

lemma check_of_passed:
  assumes "check_of sha256 i now quantities dv cv vs reported reconstructed = Inr check"
  shows "ic_passed check \<longleftrightarrow> dv = [] \<and> cv = [] \<and> vs = [] \<and> \<bar>reported - reconstructed\<bar> \<le> OBJECTIVE_TOLERANCE \<and>
    (\<forall>o' \<in> set (map snd (option_dict i)). \<not> out_of_bounds (quantity_of quantities o') (option_cap o') \<and>
      \<not> (TOLERANCE < quantity_of quantities o' \<and> \<not> op_sanctions_permitted o') \<and>
      \<not> (TOLERANCE < quantity_of quantities o' \<and> \<not> op_compatibility_permitted o') \<and>
      fingerprint_reproduced sha256 o' \<and> \<not> delivery_misses_demand i o')"
  using assms unfolding check_of_def Let_def rbind_Inr_iff validated_Inr
  by (elim exE conjE) (simp add: failure_codes_none list_all_iff ball_conj_distrib del: set_map, blast)

lemma check_of_valid:
  assumes "check_of sha256 i now quantities dv cv vs reported reconstructed = Inr check"
  shows "first_error (check_result_problems check) = None"
  using assms unfolding check_of_def Let_def rbind_Inr_iff validated_Inr by (elim exE conjE) (simp only:)

lemma checker_metric_value: "checker_metric i now value unit = Inr m \<Longrightarrow> me_value m = py_max 0 value"
  by (auto simp: checker_metric_def mk_metric_def validated_Inr)

lemma breakdown_for_parts:
  assumes "breakdown_for i now weights raw weighted reconstructed = Inr breakdown"
  shows "ob_raw_metrics breakdown = raw" "ob_weighted_contributions breakdown = weighted"
    "ob_weights breakdown = weight_dict weights"
    "me_value (ob_total breakdown) = py_max 0 reconstructed"
    "map (\<lambda>(name, m). me_value m) (objective_metrics breakdown) =
       map (\<lambda>key. py_max 0 (dict_get weighted key 0)) [''landed_cost'', ''shortfall'', ''delay'', ''route_risk'',
         ''supplier_concentration'', ''corridor_concentration'', ''compatibility_penalty'', ''emissions'']
       @ [py_max 0 reconstructed]"
    "first_error (objective_breakdown_problems breakdown) = None"
proof -
  have "ob_raw_metrics breakdown = raw \<and> ob_weighted_contributions breakdown = weighted \<and>
    ob_weights breakdown = weight_dict weights \<and> me_value (ob_total breakdown) = py_max 0 reconstructed \<and>
    map (\<lambda>(name, m). me_value m) (objective_metrics breakdown) =
       map (\<lambda>key. py_max 0 (dict_get weighted key 0)) [''landed_cost'', ''shortfall'', ''delay'', ''route_risk'',
         ''supplier_concentration'', ''corridor_concentration'', ''compatibility_penalty'', ''emissions'']
       @ [py_max 0 reconstructed] \<and>
    first_error (objective_breakdown_problems breakdown) = None"
    using assms unfolding breakdown_for_def Let_def rbind_Inr_iff validated_Inr
    by (elim exE conjE) ((drule checker_metric_value)+, simp add: objective_metrics_def)
  then show "ob_raw_metrics breakdown = raw" "ob_weighted_contributions breakdown = weighted"
    "ob_weights breakdown = weight_dict weights"
    "me_value (ob_total breakdown) = py_max 0 reconstructed"
    "map (\<lambda>(name, m). me_value m) (objective_metrics breakdown) =
       map (\<lambda>key. py_max 0 (dict_get weighted key 0)) [''landed_cost'', ''shortfall'', ''delay'', ''route_risk'',
         ''supplier_concentration'', ''corridor_concentration'', ''compatibility_penalty'', ''emissions'']
       @ [py_max 0 reconstructed]"
    "first_error (objective_breakdown_problems breakdown) = None" by blast+
qed

lemma breakdown_values:
  assumes "first_error (objective_breakdown_problems breakdown) = None"
    "x \<in> snd ` set (ob_raw_metrics breakdown) \<union> snd ` set (ob_weighted_contributions breakdown)"
  shows "isfinite x" "0 \<le> x"
proof -
  have "\<not> list_ex (\<lambda>v. \<not> isfinite v \<or> v < 0) (map snd (ob_raw_metrics breakdown) @ map snd (ob_weights breakdown)
      @ map snd (ob_weighted_contributions breakdown))"
    by (rule first_error_NoneD [OF assms(1), of _ "ValueError ''objective values must be finite and nonnegative''"])
      (simp add: objective_breakdown_problems_def)
  with assms(2) have "isfinite x \<and> \<not> x < 0" unfolding list_ex_iff by auto
  then show "isfinite x" "0 \<le> x" by (auto simp: zero_pyfloat_def less_pyfloat_def)
qed

lemma objective_raw_InrE:
  assumes "objective_raw i quantities shortages = Inr raw"
  obtains costs where
    "rtraverse (\<lambda>o'. rmap (\<lambda>c. c * quantity_of quantities o' / Fin 1000) (cost_of o')) (oi_options i) = Inr costs"
    "py_sum costs \<in> snd ` set raw" "py_sum (map snd shortages) \<in> snd ` set raw"
  using assms that unfolding objective_raw_def Let_def rbind_Inr_iff by (elim exE conjE) auto

text \<open>A check that returns saw finite quantities and shortages only.\<close>

lemma checked_finite:
  assumes "objective_components i weights quantities shortages = Inr (raw, weighted)"
    "\<And>x. x \<in> snd ` set raw \<Longrightarrow> isfinite x"
  shows "o' \<in> set (oi_options i) \<Longrightarrow> isfinite (quantity_of quantities o')"
    "s \<in> snd ` set shortages \<Longrightarrow> isfinite s"
proof -
  have "objective_raw i quantities shortages = Inr raw"
    using assms(1) by (auto simp: objective_components_def rmap_def rbind_Inr_iff)
  then obtain costs where
    c: "rtraverse (\<lambda>o'. rmap (\<lambda>c. c * quantity_of quantities o' / Fin 1000) (cost_of o')) (oi_options i) = Inr costs"
    "py_sum costs \<in> snd ` set raw" "py_sum (map snd shortages) \<in> snd ` set raw"
    by (rule objective_raw_InrE)
  show "s \<in> snd ` set shortages \<Longrightarrow> isfinite s"
    using isfinite_sumD [OF assms(2) [OF c(3)], of s] by auto
  assume "o' \<in> set (oi_options i)"
  then obtain n where n: "n < length (oi_options i)" "o' = oi_options i ! n" by (auto simp: in_set_conv_nth)
  note l = rtraverse_InrD [OF c(1)]
  obtain x where x: "x \<in> set costs"
    "rmap (\<lambda>c. c * quantity_of quantities o' / Fin 1000) (cost_of o') = Inr x"
    using list_all2_nthD [OF l n(1)] list_all2_lengthD [OF l] n that [of "costs ! n"] by simp
  then obtain c where "isfinite (c * quantity_of quantities o' / Fin 1000)"
    using isfinite_sumD [OF assms(2) [OF c(2)] x(1)] by (auto simp: rmap_def rbind_Inr_iff)
  then show "isfinite (quantity_of quantities o')" using isfinite_divD isfinite_multD by blast
qed

end
