(* ===== verification/Procurement_Total.thy ===== *)
theory Procurement_Total imports Procurement_Check begin

text \<open>
  When the independent check returns: on a valid input whose options carry landed costs, an answer
  that meets the hard constraints and whose objective is finite always gets a check result, a
  breakdown and a report, and passes.
\<close>

section \<open>Constraint identifiers\<close>

lemma length_uuid_str [simp]: "length (uuid_str u) = 36"
  by (simp add: uuid_str_def Let_def)

lemma constraint_id_inj: "constraint_id p u s = constraint_id p v s \<longleftrightarrow> u = v"
  by (simp add: constraint_id_def uuid_str_inj)

lemma constraint_id_prefix: "take (length p + 1) (constraint_id p u s) = p @ '':''"
  by (simp add: constraint_id_def)

lemma distinct_ids: "distinct us \<Longrightarrow> distinct (map (\<lambda>u. constraint_id p u s) us)"
  by (simp add: distinct_map inj_on_def constraint_id_inj)

lemma ids_disjoint:
  assumes "take (min (length p) (length p')) (p @ '':'') \<noteq> take (min (length p) (length p')) (p' @ '':'')"
  shows "constraint_id p u s \<noteq> constraint_id p' v s'"
proof
  assume "constraint_id p u s = constraint_id p' v s'"
  then have "take (min (length p) (length p')) (constraint_id p u s) = take (min (length p) (length p')) (constraint_id p' v s')"
    by simp
  with assms show False by (simp add: constraint_id_def min_def split: if_splits)
qed

lemma map_fst_case: "map (\<lambda>(u, x). f u) d = map f (map fst d)"
  by (induction d) auto

lemma checked_ids_distinct: "distinct (checked_constraint_ids i quantities)"
proof -
  have d: "distinct (map (\<lambda>(u, x). constraint_id p u s) d)" if "distinct (map fst d)" for p s and d :: "(uuid \<times> 'x) list"
    unfolding map_fst_case by (rule distinct_ids [OF that])
  show ?thesis
    unfolding checked_constraint_ids_def capacity_loops_def Let_def
    by (auto simp: d option_dict_def demand_dict_def refinery_deliveries_def distinct_foldl_dd_touch ids_disjoint)
      (auto simp: constraint_id_def)
qed


lemma checked_ids_lengths: "list_all (len_between 1 200) (checked_constraint_ids i quantities)"
  unfolding checked_constraint_ids_def capacity_loops_def Let_def
  by (auto simp: list_all_iff len_between_def constraint_id_def)

section \<open>Metrics of the checker\<close>

lemma valid_input_parts:
  assumes "optimisation_input_valid option_sha256 input_sha256 i"
  shows "pv_evidence (oi_provenance i) \<noteq> []" "at_most MAX_REFERENCES (pv_evidence (oi_provenance i))"
    "len_between 1 100 (hc_version (oi_hard_constraints i))"
proof -
  note no = first_error_NoneD [OF assms [unfolded optimisation_input_valid_def]]
  have p: "first_error (procurement_provenance_problems (oi_provenance i)) = None"
    using no [of "first_error (procurement_provenance_problems (oi_provenance i)) \<noteq> None" "FieldError ''provenance''"]
    by (simp add: optimisation_input_problems_def Let_def)
  have h: "first_error (hard_constraints_problems (oi_hard_constraints i)) = None"
    using no [of "first_error (hard_constraints_problems (oi_hard_constraints i)) \<noteq> None" "FieldError ''hard_constraints''"]
    by (simp add: optimisation_input_problems_def Let_def)
  show "len_between 1 100 (hc_version (oi_hard_constraints i))"
    using first_error_NoneD [OF h, of _ "FieldError ''version''"] by (auto simp: hard_constraints_problems_def)
  have "\<not> (pv_evidence (oi_provenance i) = [] \<or> \<not> at_most MAX_REFERENCES (pv_evidence (oi_provenance i))
        \<or> \<not> list_all (\<lambda>e. is_sha256 (ef_raw_payload_hash e)) (pv_evidence (oi_provenance i)))"
    by (rule first_error_NoneD [OF p, of _ "FieldError ''evidence''"])
      (simp add: procurement_provenance_problems_def provenance_reference_problems_def Let_def)
  then show "pv_evidence (oi_provenance i) \<noteq> []" "at_most MAX_REFERENCES (pv_evidence (oi_provenance i))" by blast+
qed

definition metric_for :: "optimisation_input \<Rightarrow> datetime \<Rightarrow> pyfloat \<Rightarrow> string \<Rightarrow> metric" where
  "metric_for i now value unit =
     \<lparr>me_value = py_max 0 value, me_unit = unit, me_truth_class = MODELED, me_confidence = Fin 1,
       me_evidence_ids = map ef_evidence_id (pv_evidence (oi_provenance i)),
       me_source_refs = [\<lparr>sr_source_id = ''procurement-checker'', sr_record_id = CHECKER_VERSION\<rparr>],
       me_effective_at = now, me_fetched_at = now, me_computed_at = now, me_freshness_status = F_CURRENT,
       me_transformation = CHECKER_VERSION, me_model_version = CHECKER_VERSION\<rparr>"

lemma metric_for_valid:
  assumes "optimisation_input_valid option_sha256 input_sha256 i" "len_between 1 50 unit"
  shows "metric_valid (metric_for i now value unit)" "checker_metric i now value unit = Inr (metric_for i now value unit)"
proof -
  have "first_error (metric_problems (metric_for i now value unit)) = None"
    unfolding metric_problems_def no_error_simps
    using assms(2) valid_input_parts(1) [OF assms(1)]
    by (simp add: metric_for_def source_ref_problems_def len_between_def CHECKER_VERSION_def unit_interval_def
        zero_pyfloat_def one_pyfloat_def)
  then show "metric_valid (metric_for i now value unit)" "checker_metric i now value unit = Inr (metric_for i now value unit)"
    by (simp_all add: metric_valid_def checker_metric_def mk_metric_def metric_for_def validated_ok)
qed

lemma metric_for_objective:
  assumes "optimisation_input_valid option_sha256 input_sha256 i" "isfinite value"
  shows "first_error (modeled_metric_problems (metric_for i now value ''objective_point'') ''objective_point'' name) = None"
  unfolding modeled_metric_problems_def non_negative_metric_problems_def finite_metric_problems_def no_error_simps
  using assms valid_input_parts(2) [OF assms(1)]
  by (auto simp: metric_for_def require_unit_def at_most_def MAX_REFERENCES_def zero_pyfloat_def py_max_def
      less_pyfloat_def)


section \<open>The three results\<close>

lemma report_returns:
  assumes "optimisation_input_valid option_sha256 input_sha256 i"
    "length (checked_constraint_ids i quantities) \<le> 2000"
  shows "report_of i quantities [] = Inr \<lparr>cp_feasible = True, cp_hard_constraint_version = hc_version (oi_hard_constraints i),
      cp_checked_families = all_families, cp_checked_constraint_ids = checked_constraint_ids i quantities,
      cp_violations = []\<rparr>"
proof -
  have "checked_constraint_ids i quantities \<noteq> []" by (simp add: checked_constraint_ids_def)
  then have "len_between 1 2000 (checked_constraint_ids i quantities)"
    using assms(2) by (auto simp: len_between_def Suc_le_eq)
  with valid_input_parts(3) [OF assms(1)] show ?thesis
    unfolding report_of_def Let_def
    by (simp add: validated_def report_problems_def require_unique_def checked_ids_distinct
        checked_ids_lengths [unfolded One_nat_def] all_families_def at_most_def)
      (simp add: len_between_def)
qed

lemma mapped_no_error:
  "(\<And>x. x \<in> set xs \<Longrightarrow> first_error (f x) = None) \<Longrightarrow> first_error (concat (map f xs)) = None"
  by (induction xs) (simp_all add: first_error_append_None)

lemma mapped_single_no_error:
  "(\<And>x. x \<in> set xs \<Longrightarrow> \<not> fst (f x)) \<Longrightarrow> first_error (map f xs) = None"
  by (induction xs) (simp_all add: first_error_Cons_None del: first_error.simps(2))

lemma breakdown_returns:
  assumes "optimisation_input_valid option_sha256 input_sha256 i" "first_error (objective_weights_problems weights) = None"
    "objective_components i weights quantities shortages = Inr (raw, weighted)"
    "values_ok (map snd raw)" "values_ok (map snd weighted)" "isfinite (py_sum (map snd weighted))"
  shows "\<exists>b. breakdown_for i now weights raw weighted (py_sum (map snd weighted)) = Inr b"
proof -
  let ?sum = "py_sum (map snd weighted)"
  let ?m = "\<lambda>key. metric_for i now (dict_get weighted key 0) ''objective_point''"
  define b where "b = \<lparr>ob_landed_cost = ?m ''landed_cost'', ob_shortfall_penalty = ?m ''shortfall'', ob_delay_penalty = ?m ''delay'',
         ob_route_risk_penalty = ?m ''route_risk'', ob_supplier_concentration_penalty = ?m ''supplier_concentration'',
         ob_corridor_concentration_penalty = ?m ''corridor_concentration'',
         ob_compatibility_penalty = ?m ''compatibility_penalty'', ob_emissions_penalty = ?m ''emissions'',
         ob_total = metric_for i now ?sum ''objective_point'', ob_raw_metrics = raw,
         ob_weights = weight_dict weights, ob_weighted_contributions = weighted\<rparr>"
  have unit: "len_between 1 50 ''objective_point''" by (simp add: len_between_def)
  have fin: "isfinite (dict_get weighted key 0)" for key
    using dict_get_cases [of weighted key 0] assms(5) by (auto simp: values_ok_def list_all_iff)
  have om: "\<exists>v. isfinite v \<and> m = metric_for i now v ''objective_point''" if "(name, m) \<in> set (objective_metrics b)" for name m
    using that fin assms(6) by (auto simp: objective_metrics_def b_def)
  have "first_error (map (\<lambda>(name, m). (\<not> metric_valid m, FieldError name)) (objective_metrics b)) = None"
    using om metric_for_valid(1) [OF assms(1) unit] by (intro mapped_single_no_error) fastforce
  moreover have "first_error (concat (map (\<lambda>(name, m). modeled_metric_problems m ''objective_point'' name) (objective_metrics b))) = None"
    using om metric_for_objective [OF assms(1)] by (intro mapped_no_error) fastforce
  moreover have len: "length raw = 8" "length weighted = 8"
    using assms(3) by (auto simp: objective_components_def objective_raw_def Let_def rmap_def rbind_Inr_iff)
  moreover have w: "list_all (\<lambda>v. isfinite v \<and> 0 \<le> v) (map snd (weight_dict weights))"
    using assms(2) unfolding objective_weights_problems_def no_error_simps by (simp add: weight_dict_def weight_values_def)
  moreover have bf: "ob_raw_metrics b = raw" "ob_weights b = weight_dict weights"
    "ob_weighted_contributions b = weighted" by (simp_all add: b_def)
  moreover have tol: "\<not> fl (1 / 1000000) < 0" by code_simp
  moreover have wl: "length (weight_dict weights) = 8" by (simp add: weight_dict_def)
  moreover have sum: "0 \<le> ?sum"
    using assms(5) by (intro py_sum_nonneg) (auto simp: values_ok_def list_all_iff)
  then have "\<bar>?sum - me_value (ob_total b)\<bar> = 0"
    using assms(6) by (simp add: b_def metric_for_def py_max_0_id minus_self_pyfloat abs_zero_pyfloat)
  moreover have "\<not> list_ex (\<lambda>v. \<not> isfinite v \<or> v < 0) (map snd (ob_raw_metrics b) @ map snd (ob_weights b)
      @ map snd (ob_weighted_contributions b))"
    using assms(4,5) w by (auto simp: b_def values_ok_def list_all_iff list_ex_iff less_pyfloat_def)
  ultimately have "first_error (objective_breakdown_problems b) = None"
    unfolding objective_breakdown_problems_def no_error_simps
    using tol by (simp add: bf wl at_most_def)
  then have "breakdown_for i now weights raw weighted ?sum = Inr b"
    unfolding breakdown_for_def Let_def metric_for_valid(2) [OF assms(1) unit] rbind_simps b_def [symmetric]
    by (rule validated_ok)
  then show ?thesis ..
qed


lemma check_returns:
  assumes "optimisation_input_valid option_sha256 input_sha256 i"
    "list_all (\<lambda>o'. \<not> out_of_bounds (quantity_of quantities o') (option_cap o') \<and>
      \<not> (TOLERANCE < quantity_of quantities o' \<and> \<not> op_sanctions_permitted o') \<and>
      \<not> (TOLERANCE < quantity_of quantities o' \<and> \<not> op_compatibility_permitted o') \<and>
      fingerprint_reproduced sha256 o' \<and> \<not> delivery_misses_demand i o') (map snd (option_dict i))"
    "isfinite reported" "0 \<le> reported" "isfinite reconstructed" "0 \<le> reconstructed"
    "\<bar>reported - reconstructed\<bar> \<le> OBJECTIVE_TOLERANCE"
  shows "\<exists>c. check_of sha256 i now quantities [] [] [] reported reconstructed = Inr c \<and> ic_passed c"
proof -
  let ?m = "\<lambda>v. metric_for i now v ''objective_point''"
  define c where "c = \<lparr>ic_checker_version = CHECKER_VERSION, ic_checked_at = now, ic_passed = True,
         ic_mass_balance_passed = True, ic_bounds_passed = True,
         ic_objective_reconstruction_passed = True, ic_sanctions_exclusion_passed = True,
         ic_compatibility_exclusion_passed = True, ic_fingerprint_reproduction_passed = True,
         ic_reported_objective = ?m reported, ic_reconstructed_objective = ?m reconstructed,
         ic_tolerance = ?m OBJECTIVE_TOLERANCE, ic_failure_codes = [],
         ic_hard_constraints_recalculated = True, ic_landed_cost_recalculated = True,
         ic_concentration_recalculated = True, ic_delivery_timing_recalculated = True,
         ic_inventory_balance_recalculated = True\<rparr>"
  have unit: "len_between 1 50 ''objective_point''" by (simp add: len_between_def)
  have tol: "isfinite OBJECTIVE_TOLERANCE" "0 \<le> OBJECTIVE_TOLERANCE" by code_simp+
  have "first_error (check_result_problems c) = None"
    unfolding check_result_problems_def no_error_simps
    using metric_for_objective [OF assms(1)] metric_for_valid(1) [OF assms(1) unit] assms(3-7) tol
    by (simp add: c_def check_expected_def require_unique_def at_most_def CHECKER_VERSION_def len_between_def)
      (simp add: metric_for_def py_max_0_id)
  moreover have "check_of sha256 i now quantities [] [] [] reported reconstructed = validated (check_result_problems c) c"
    unfolding check_of_def Let_def metric_for_valid(2) [OF assms(1) unit] rbind_simps c_def
    using assms(2,7) by (simp add: list_all_iff failure_codes_of_def unique_first_def)
  ultimately show ?thesis by (simp add: validated_ok c_def)
qed

lemma feasible_check_returns:
  assumes "optimisation_input_valid option_sha256 input_sha256 i" "first_error (objective_weights_problems weights) = None"
    "hard_constraints_met i quantities shortages" "list_all (fingerprint_reproduced sha256) (oi_options i)"
    "objective_components i weights quantities shortages = Inr (raw, weighted)"
    "values_ok (map snd raw)" "values_ok (map snd weighted)" "isfinite (py_sum (map snd weighted))"
    "values_ok [reported]" "\<bar>reported - py_sum (map snd weighted)\<bar> \<le> OBJECTIVE_TOLERANCE"
    "length (checked_constraint_ids i quantities) \<le> 2000"
  shows "\<exists>check breakdown report.
    independent_check sha256 i weights quantities shortages reported now = Inr (check, breakdown, report) \<and>
    ic_passed check \<and> cp_feasible report"
proof -
  note d = valid_input_distinct [OF assms(1)]
  obtain budget where h: "options_met i quantities" "demands_met i quantities shortages" "capacities_met i quantities"
    "budget_used i quantities = Inr budget" "policies_met i quantities budget"
    using assms(3) by (auto simp: hard_constraints_met_def split: sum.splits)
  have ov: "in_turn (map (option_check i now quantities) (map snd (option_dict i))) = Inr []"
    using h(1) options_decided [OF assms(1), of now quantities] by (simp add: in_turn_Nil option_dict_snd [OF d])
  have dv: "in_turn (map (demand_check i now (delivered_by op_refinery_id quantities (map snd (option_dict i))) shortages)
       (demand_dict i)) = Inr []"
    using h(2) demands_decided [OF d, of now quantities shortages] by (simp add: in_turn_Nil)
  have cv: "capacity_checks i now quantities = Inr []" using h(3) capacities_decided [OF d] by simp
  have pv: "policy_checks i now quantities budget = Inr []" using h(5) policies_decided by simp
  have "\<forall>o' \<in> set (oi_options i). option_check i now quantities o' = Inr []"
    using h(1) options_decided [OF assms(1)] by simp
  then have opts: "list_all (\<lambda>o'. \<not> out_of_bounds (quantity_of quantities o') (option_cap o') \<and>
      \<not> (TOLERANCE < quantity_of quantities o' \<and> \<not> op_sanctions_permitted o') \<and>
      \<not> (TOLERANCE < quantity_of quantities o' \<and> \<not> op_compatibility_permitted o') \<and>
      fingerprint_reproduced sha256 o' \<and> \<not> delivery_misses_demand i o') (map snd (option_dict i))"
    using assms(4) unfolding option_dict_snd [OF d] by (simp add: list_all_iff option_check_Nil)
  have sum: "0 \<le> py_sum (map snd weighted)"
    using assms(7) by (intro py_sum_nonneg) (auto simp: values_ok_def list_all_iff)
  have rep: "isfinite reported" "0 \<le> reported" using assms(9) by (simp_all add: values_ok_def)
  obtain c where c: "check_of sha256 i now quantities [] [] [] reported (py_sum (map snd weighted)) = Inr c" "ic_passed c"
    using check_returns [OF assms(1) opts rep assms(8) sum assms(10)] by blast
  obtain b where b: "breakdown_for i now weights raw weighted (py_sum (map snd weighted)) = Inr b"
    using breakdown_returns [OF assms(1,2,5-8)] by blast
  show ?thesis
    unfolding independent_check_def Let_def ov dv cv assms(5) h(4) rbind_simps prod.case pv append_Nil c(1)
      report_returns [OF assms(1,11)] b
    using c(2) by simp
qed

text \<open>What a returned check decides: its report the hard constraints, its verdict also the fingerprints and the objective.\<close>

lemma check_decides:
  assumes "optimisation_input_valid sha256 input_sha256 i"
    "independent_check sha256 i weights quantities shortages reported now = Inr (check, breakdown, report)"
  shows "(cp_feasible report \<longleftrightarrow> hard_constraints_met i quantities shortages) \<and>
    (ic_passed check \<longleftrightarrow> hard_constraints_met i quantities shortages \<and>
       (\<forall>o' \<in> set (oi_options i). fingerprint_reproduced sha256 o') \<and>
       \<bar>reported - py_sum (map snd (ob_weighted_contributions breakdown))\<bar> \<le> OBJECTIVE_TOLERANCE)"
proof -
  from assms(2) obtain ov dv cv pv raw weighted budget where p:
    "in_turn (map (option_check i now quantities) (map snd (option_dict i))) = Inr ov"
    "in_turn (map (demand_check i now (delivered_by op_refinery_id quantities (map snd (option_dict i))) shortages)
       (demand_dict i)) = Inr dv"
    "capacity_checks i now quantities = Inr cv"
    "budget_used i quantities = Inr budget" "policy_checks i now quantities budget = Inr pv"
    "check_of sha256 i now quantities dv cv (ov @ dv @ cv @ pv) reported (py_sum (map snd weighted)) = Inr check"
    "report_of i quantities (ov @ dv @ cv @ pv) = Inr report"
    "breakdown_for i now weights raw weighted (py_sum (map snd weighted)) = Inr breakdown"
    by (rule independent_check_parts) blast
  note v = violations_decided [OF assms(1) p(1-5)]
  note o = option_dict_snd [OF valid_input_distinct [OF assms(1)]]
  have "cp_feasible report \<longleftrightarrow> ov @ dv @ cv @ pv = []"
    using p(7) by (auto simp: report_of_def Let_def validated_Inr)
  moreover have "\<forall>o' \<in> set (oi_options i). option_check i now quantities o' = Inr []" if "options_met i quantities"
    using that options_decided [OF assms(1)] by blast
  ultimately show ?thesis
    using v(5) check_of_passed [OF p(6)] breakdown_for_parts(2) [OF p(8)] unfolding o
    by (auto simp: option_check_Nil hard_constraints_met_def)
qed

end
