(* ===== verification/Procurement_Example.thy ===== *)
theory Procurement_Example imports Procurement_Total begin

text \<open>
  A concrete procurement problem: one supplier option of up to 50 ktonne for one refinery that
  needs 60, so 10 remain short. The witnesses of the procurement properties evaluate it.
\<close>

definition sixty_four :: string where
  "sixty_four = replicate 64 CHR ''a''"

definition procurement_metric :: "pyfloat \<Rightarrow> string \<Rightarrow> metric" where
  "procurement_metric v unit =
     \<lparr>me_value = v, me_unit = unit, me_truth_class = MODELED, me_confidence = Fin 1, me_evidence_ids = [1],
      me_source_refs = [\<lparr>sr_source_id = ''s'', sr_record_id = ''r''\<rparr>], me_effective_at = 0, me_fetched_at = 0,
      me_computed_at = 0, me_freshness_status = F_CURRENT, me_transformation = ''t'', me_model_version = ''v''\<rparr>"

definition example_landed_cost :: landed_cost where
  "example_landed_cost = (let m = (\<lambda>v. procurement_metric v ''USD_per_tonne'') in
     \<lparr>lc_commodity_price = m (Fin 400), lc_quality_differential = m 0, lc_freight = m (Fin 100),
      lc_insurance_and_risk_premium = m 0, lc_port_and_handling = m 0, lc_route_fees = m 0, lc_financing = m 0,
      lc_emissions = m 0, lc_compatibility_penalty = m 0, lc_total = m (Fin 500)\<rparr>)"

definition example_option_payload :: option_payload where
  "example_option_payload =
     \<lparr>op_option_id = 11, op_supplier_id = 12, op_grade_id = 13, op_route_id = 14, op_refinery_id = 15,
      op_delivery_window_start = 10, op_delivery_window_end = 20,
      op_supplier_capacity = procurement_metric (Fin 80) ''ktonne'',
      op_commercially_available_volume = procurement_metric (Fin 50) ''ktonne'',
      op_route_capacity = procurement_metric (Fin 90) ''ktonne'',
      op_refinery_receiving_capacity = procurement_metric (Fin 70) ''ktonne'',
      op_commodity_price = procurement_metric (Fin 400) ''USD_per_tonne'',
      op_freight = procurement_metric (Fin 100) ''USD_per_tonne'',
      op_sanctions_permitted = True, op_compatibility_permitted = True,
      op_transport_availability = \<lparr>tv_status = TS_EVIDENCE_BACKED_CONFIRMED, tv_candidate_reference = None,
        tv_commercially_confirmed = True, tv_evidence_ids = [1], tv_assumption_ids = []\<rparr>,
      op_evidence_ids = [1], op_assumption_ids = [], op_landed_cost = Some example_landed_cost,
      op_route_distance = None, op_transit_time = None, op_chokepoint_ids = [], op_load_port_id = Some 16,
      op_receiving_port_id = None, op_route_segment_ids = [17], op_route_segment_capacities = [(17, Fin 90)]\<rparr>"

definition example_option_hash :: option_hash where "example_option_hash p = sixty_four"

definition example_input_hash :: input_hash where "example_input_hash p = sixty_four"

definition example_option :: procurement_option where
  "example_option = option_payload.extend example_option_payload (procurement_option.fields (Some sixty_four))"

definition example_provenance :: procurement_provenance where
  "example_provenance =
     \<lparr>pv_simulation_run = \<lparr>rf_run_id = 21, rf_scenario_id = 22, rf_scenario_fingerprint = sixty_four,
        rf_simulation_fingerprint = sixty_four, rf_twin_snapshot_id = 23, rf_twin_snapshot_fingerprint = sixty_four,
        rf_model_version = ''m''\<rparr>,
      pv_simulation_result = \<lparr>rs_result_id = 24, rs_run_id = 21, rs_scenario_id = 22,
        rs_scenario_fingerprint = sixty_four, rs_simulation_fingerprint = sixty_four, rs_twin_snapshot_id = 23,
        rs_twin_snapshot_fingerprint = sixty_four\<rparr>,
      pv_confirmed_scenario = \<lparr>cn_scenario_id = 22, cn_scenario_fingerprint = sixty_four, cn_confirmed_at = 0\<rparr>,
      pv_twin_snapshot = \<lparr>tr_snapshot_id = 23, tr_fingerprint = sixty_four, tr_version = ''1'', tr_effective_at = 0\<rparr>,
      pv_evidence = [\<lparr>ef_evidence_id = 1, ef_raw_payload_hash = sixty_four\<rparr>], pv_assumptions = []\<rparr>"

definition example_payload :: "procurement_option list \<Rightarrow> input_payload" where
  "example_payload options =
     \<lparr>oi_provenance = example_provenance,
      oi_hard_constraints = \<lparr>hc_version = ''procurement-hard-constraints-v1'', hc_budget_limit = procurement_metric (Fin 30000000) ''USD'',
        hc_supplier_concentration_limit = procurement_metric (Fin 1) ''fraction'',
        hc_corridor_concentration_limit = procurement_metric (Fin 1) ''fraction''\<rparr>,
      oi_reserve_policy = \<lparr>rp_policy_id = ''p'', rp_policy_version = ''v'', rp_policy_fingerprint = sixty_four,
        rp_evidence_ids = [1], rp_assumption_ids = []\<rparr>,
      oi_options = options,
      oi_demands = [\<lparr>dm_refinery_id = 15, dm_interval_start = 0, dm_interval_end = 30,
        dm_required_volume = procurement_metric (Fin 60) ''ktonne''\<rparr>]\<rparr>"

definition example_input :: optimisation_input where
  "example_input = input_payload.extend (example_payload [example_option]) (optimisation_input.fields sixty_four)"

definition example_weights :: objective_weights where
  "example_weights = \<lparr>ow_profile = BALANCED, ow_version = ''w'', ow_landed_cost = 1, ow_shortfall = 1, ow_delay = 0,
     ow_route_risk = 0, ow_supplier_concentration = 0, ow_corridor_concentration = 0, ow_compatibility_penalty = 0,
     ow_emissions = 0\<rparr>"

lemma example_input_valid: "optimisation_input_valid example_option_hash example_input_hash example_input"
  by code_simp


section \<open>A plan for it\<close>

definition example_action :: procurement_action where
  "example_action = (let volume = procurement_metric (Fin 50) ''ktonne'' in
     \<lparr>ac_action_id = 31, ac_option_id = 11,
      ac_supplier = \<lparr>sa_supplier_id = 12, sa_grade_id = 13, sa_volume = volume\<rparr>,
      ac_route = \<lparr>ra_route_id = 14, ra_volume = volume\<rparr>,
      ac_refinery = \<lparr>fa_refinery_id = 15, fa_grade_id = 13, fa_volume = volume\<rparr>,
      ac_delivery_window_start = 12, ac_delivery_window_end = 18, ac_landed_cost = example_landed_cost,
      ac_evidence_ids = [1], ac_assumption_ids = [], ac_option_fingerprint = Some sixty_four,
      ac_load_port_id = Some 16, ac_receiving_port_id = None, ac_route_segment_ids = [17]\<rparr>)"

definition example_breakdown :: objective_breakdown where
  "example_breakdown = (let m = (\<lambda>v. procurement_metric v ''objective_point'') in
     \<lparr>ob_landed_cost = m (Fin 25), ob_shortfall_penalty = m (Fin 10), ob_delay_penalty = m 0,
      ob_route_risk_penalty = m 0, ob_supplier_concentration_penalty = m 0,
      ob_corridor_concentration_penalty = m 0, ob_compatibility_penalty = m 0, ob_emissions_penalty = m 0,
      ob_total = m (Fin 35), ob_raw_metrics = [], ob_weights = [], ob_weighted_contributions = []\<rparr>)"

definition example_check :: independent_check_result where
  "example_check =
     \<lparr>ic_checker_version = ''c'', ic_checked_at = 0, ic_passed = True, ic_mass_balance_passed = True,
      ic_bounds_passed = True, ic_objective_reconstruction_passed = True, ic_sanctions_exclusion_passed = True,
      ic_compatibility_exclusion_passed = True, ic_fingerprint_reproduction_passed = True,
      ic_reported_objective = procurement_metric (Fin 35) ''objective_point'',
      ic_reconstructed_objective = procurement_metric (Fin 35) ''objective_point'',
      ic_tolerance = procurement_metric 0 ''objective_point'', ic_failure_codes = [],
      ic_hard_constraints_recalculated = True, ic_landed_cost_recalculated = True,
      ic_concentration_recalculated = True, ic_delivery_timing_recalculated = True,
      ic_inventory_balance_recalculated = True\<rparr>"

definition example_configuration' :: solver_configuration where
  "example_configuration' =
     \<lparr>so_solver_version = ''s'', so_time_limit = \<lparr>sq_value = Fin 10, sq_unit = ''second''\<rparr>,
      so_relative_mip_gap = \<lparr>sq_value = 0, sq_unit = ''fraction''\<rparr>, so_thread_count = 1, so_random_seed = 0\<rparr>"

definition example_result :: solver_result where
  "example_result =
     \<lparr>re_result_id = 32, re_profile = BALANCED, re_status = OPTIMAL,
      re_metadata = \<lparr>md_solver_version = ''s'', md_model_version = ''m'', md_objective_weight_version = ''w'',
        md_hard_constraint_version = ''procurement-hard-constraints-v1'', md_configuration = example_configuration', md_started_at = Some 0,
        md_completed_at = Some 1, md_runtime = Some \<lparr>sq_value = 1, sq_unit = ''second''\<rparr>, md_iterations = None\<rparr>,
      re_objective = Some example_breakdown, re_actions = [example_action],
      re_supplier_allocations = [ac_supplier example_action], re_route_allocations = [ac_route example_action],
      re_refinery_allocations = [ac_refinery example_action],
      re_constraints = Some \<lparr>cp_feasible = True, cp_hard_constraint_version = ''h'',
        cp_checked_families = all_families, cp_checked_constraint_ids = [''c''], cp_violations = []\<rparr>,
      re_rejected_options = [], re_independent_check = Some example_check, re_failure = None,
      re_delivered_volume = None, re_shortage = None\<rparr>"

definition example_plan_hash :: plan_hash where "example_plan_hash p = sixty_four"

definition example_plan :: procurement_plan where
  "example_plan =
     \<lparr>pl_plan_id = 33, pl_run_id = 21, pl_profile = BALANCED, pl_lifecycle = L_FEASIBLE,
      pl_fingerprint_inputs = \<lparr>fi_model_version = ''m'', fi_profile = BALANCED,
        fi_objective_weights = example_weights, fi_solver_configuration = example_configuration',
        fi_optimisation_input = example_input, fi_optimisation_input_fingerprint = sixty_four,
        fi_simulation_run = pv_simulation_run example_provenance,
        fi_simulation_result = pv_simulation_result example_provenance,
        fi_confirmed_scenario = pv_confirmed_scenario example_provenance,
        fi_twin_snapshot = pv_twin_snapshot example_provenance, fi_hard_constraint_version = ''procurement-hard-constraints-v1'',
        fi_reserve_policy_fingerprint = sixty_four, fi_evidence = pv_evidence example_provenance,
        fi_assumptions = []\<rparr>,
      pl_plan_fingerprint = sixty_four, pl_solver_result = example_result, pl_created_at = 0,
      pl_audit_event_ids = [34]\<rparr>"

lemma example_plan_valid: "plan_valid example_option_hash example_input_hash example_plan_hash example_plan"
  by code_simp

end
