(* ===== verification/Procurement_Props.thy ===== *)
theory Procurement_Props imports Procurement_Example begin

text \<open>
  The properties of procurement: what the independent check decides, when it returns and when it
  raises, the objective, the plan, the profiles and the landed costs.
\<close>

abbreviation example_answer :: "(uuid, pyfloat) dict" where
  "example_answer \<equiv> [(11, Fin 50)]"

abbreviation example_shortage :: "(uuid, pyfloat) dict" where
  "example_shortage \<equiv> [(15, Fin 10)]"

lemma example_options: "oi_options example_input = [example_option]"
  by (simp add: example_input_def example_payload_def input_payload.defs optimisation_input.defs)

lemma example_weights_ok: "first_error (objective_weights_problems example_weights) = None" by code_simp

definition example_raw :: "(string, pyfloat) dict" where
  "example_raw = (case objective_components example_input example_weights example_answer example_shortage of
     Inr (raw, weighted) \<Rightarrow> raw | _ \<Rightarrow> [])"

definition example_weighted :: "(string, pyfloat) dict" where
  "example_weighted = (case objective_components example_input example_weights example_answer example_shortage of
     Inr (raw, weighted) \<Rightarrow> weighted | _ \<Rightarrow> [])"

lemma example_objective:
  "objective_components example_input example_weights example_answer example_shortage = Inr (example_raw, example_weighted)"
proof -
  have "case objective_components example_input example_weights example_answer example_shortage of
     Inr (raw, weighted) \<Rightarrow> True | _ \<Rightarrow> False" by code_simp
  then show ?thesis by (auto simp: example_raw_def example_weighted_def split: sum.splits prod.splits)
qed

lemma example_values: "values_ok (map snd example_raw)" "values_ok (map snd example_weighted)"
  "isfinite (py_sum (map snd example_weighted))" "values_ok [Fin 35]"
  "\<bar>Fin 35 - py_sum (map snd example_weighted)\<bar> \<le> OBJECTIVE_TOLERANCE"
  by code_simp+

lemma example_hard: "hard_constraints_met example_input example_answer example_shortage"
  by code_simp

lemma example_ids: "length (checked_constraint_ids example_input example_answer) \<le> 2000"
  by code_simp

lemma example_fingerprints: "list_all (fingerprint_reproduced example_option_hash) (oi_options example_input)"
  by code_simp


lemma example_checked:
  obtains check breakdown report where
    "independent_check example_option_hash example_input example_weights example_answer example_shortage (Fin 35) 0
       = Inr (check, breakdown, report)"
    "ic_passed check" "cp_feasible report"
  using feasible_check_returns [OF example_input_valid example_weights_ok example_hard example_fingerprints
      example_objective example_values example_ids, of 0] by blast

definition unserved_demand :: procurement_demand where
  "unserved_demand = \<lparr>dm_refinery_id = 99, dm_interval_start = 0, dm_interval_end = 30,
     dm_required_volume = procurement_metric (Fin 60) ''ktonne''\<rparr>"

section \<open>The independent check\<close>

text \<open>C1: The independent check decides feasibility. On a valid input, a check that returns reports
  feasible exactly when the answer meets the hard constraints (bounds, sanctions, compatibility,
  delivery windows, mass balance, aggregate capacities, budget and concentration, each stated over
  the shipped sums), and it passes exactly when moreover every option's fingerprint is reproduced
  and the reported objective agrees with the recomputed one within 1e-5.\<close>

theorem check_passes_iff_feasible:
  assumes "optimisation_input_valid sha256 input_sha256 i"
    "independent_check sha256 i weights quantities shortages reported now = Inr (check, breakdown, report)"
  shows "(cp_feasible report \<longleftrightarrow> hard_constraints_met i quantities shortages) \<and>
    (ic_passed check \<longleftrightarrow> hard_constraints_met i quantities shortages \<and>
       (\<forall>o' \<in> set (oi_options i). fingerprint_reproduced sha256 o') \<and>
       \<bar>reported - py_sum (map snd (ob_weighted_contributions breakdown))\<bar> \<le> OBJECTIVE_TOLERANCE)"
  by (rule check_decides [OF assms])

theorem check_passes_iff_feasible_witness:
  "\<exists>check breakdown report.
    independent_check example_option_hash example_input example_weights example_answer example_shortage (Fin 35) 0
      = Inr (check, breakdown, report) \<and>
    \<bar>Fin 35 - py_sum (map snd (ob_weighted_contributions breakdown))\<bar> \<le> OBJECTIVE_TOLERANCE"
proof -
  obtain check breakdown report where c:
    "independent_check example_option_hash example_input example_weights example_answer example_shortage (Fin 35) 0
       = Inr (check, breakdown, report)" "ic_passed check" by (rule example_checked)
  from check_passes_iff_feasible [OF example_input_valid c(1)] c show ?thesis by blast
qed

text \<open>C2: The independent check returns on every good answer. On a valid input, an answer that meets the
  hard constraints, whose options carry landed costs and reproduce their fingerprints, whose
  objective terms are finite and nonnegative and whose reported objective is right, gets a result
  that passes and a feasible report, as long as at most 2000 constraints are checked.\<close>

theorem feasible_answer_passes:
  assumes "optimisation_input_valid option_sha256 input_sha256 i" "first_error (objective_weights_problems weights) = None"
    "hard_constraints_met i quantities shortages" "list_all (fingerprint_reproduced sha256) (oi_options i)"
    "objective_components i weights quantities shortages = Inr (raw, weighted)"
    "values_ok (map snd raw)" "values_ok (map snd weighted)" "isfinite (py_sum (map snd weighted))"
    "values_ok [reported]" "\<bar>reported - py_sum (map snd weighted)\<bar> \<le> OBJECTIVE_TOLERANCE"
    "length (checked_constraint_ids i quantities) \<le> 2000"
  shows "\<exists>check breakdown report.
    independent_check sha256 i weights quantities shortages reported now = Inr (check, breakdown, report) \<and>
    ic_passed check \<and> cp_feasible report"
  by (rule feasible_check_returns [OF assms])

theorem feasible_answer_passes_witness:
  "\<exists>check breakdown report.
    independent_check example_option_hash example_input example_weights example_answer example_shortage (Fin 35) 0
      = Inr (check, breakdown, report) \<and> ic_passed check \<and> cp_feasible report"
  by (rule feasible_answer_passes [OF example_input_valid example_weights_ok example_hard example_fingerprints
      example_objective example_values example_ids])

text \<open>C22: A check result is never returned for an answer with an infinite or NaN quantity or shortage: the
  construction of the breakdown or of the violation raises instead, whatever the other inputs.\<close>

theorem nonfinite_answer_refused:
  assumes "(\<exists>o' \<in> set (oi_options i). \<not> isfinite (quantity_of quantities o')) \<or> (\<exists>s \<in> snd ` set shortages. \<not> isfinite s)"
  shows "\<exists>e. independent_check sha256 i weights quantities shortages reported now = Inl e"
proof (cases "independent_check sha256 i weights quantities shortages reported now")
  case (Inr r)
  obtain check breakdown report where "r = (check, breakdown, report)" by (cases r)
  with Inr obtain raw weighted where p: "objective_components i weights quantities shortages = Inr (raw, weighted)"
    "breakdown_for i now weights raw weighted (py_sum (map snd weighted)) = Inr breakdown"
    by (auto elim: independent_check_parts)
  have "isfinite x" if "x \<in> snd ` set raw" for x
    using breakdown_values(1) [OF breakdown_for_parts(6) [OF p(2)], of x] that breakdown_for_parts(1) [OF p(2)] by simp
  with checked_finite [OF p(1)] assms show ?thesis by blast
qed blast

theorem nonfinite_answer_refused_witness:
  "\<exists>e. independent_check example_option_hash example_input example_weights [(11, PInf)] example_shortage (Fin 35) 0 = Inl e"
  by (rule nonfinite_answer_refused)
    (simp add: example_options quantity_of_def example_option_def example_option_payload_def option_payload.defs
      procurement_option.defs dict_get_def)

text \<open>C23: A demand of a refinery that no option serves makes the check raise: the delivery it reads for the
  demand adds the refinery to the capacity loop, whose limit is the maximum of an empty sequence.\<close>

theorem unserved_refinery_raises:
  assumes "d \<in> set (oi_demands i)" "\<forall>o' \<in> set (oi_options i). op_refinery_id o' \<noteq> dm_refinery_id d"
  shows "\<exists>e. independent_check sha256 i weights quantities shortages reported now = Inl e"
proof (cases "independent_check sha256 i weights quantities shortages reported now")
  case (Inr r)
  obtain check breakdown report where "r = (check, breakdown, report)" by (cases r)
  with Inr obtain cv where cv: "capacity_checks i now quantities = Inr cv" by (auto elim: independent_check_parts)
  let ?os = "map snd (option_dict i)"
  have "set ?os \<subseteq> set (oi_options i)"
    using dict_of_subset [of "map (\<lambda>o'. (op_option_id o', o')) (oi_options i)"] by (auto simp: option_dict_def)
  then have limit: "refinery_receiving_limit ?os (dm_refinery_id d) = Inl (ValueError ''max() arg is an empty sequence'')"
    using assms(2) by (auto simp: refinery_receiving_limit_def max_of_def filter_empty_conv)
  have "dm_refinery_id d \<in> fst ` set (refinery_deliveries i quantities)"
    using assms(1) demand_dict_keys [of i] by (auto simp: refinery_deliveries_def keys_foldl_dd_touch)
  then obtain a where a: "(dm_refinery_id d, a) \<in> set (refinery_deliveries i quantities)" by auto
  let ?r = "capacity_check i now ''refinery'' F_REFINERY_CAPACITY (refinery_receiving_limit ?os) (dm_refinery_id d, a)"
  have "?r \<in> set (concat (map (\<lambda>(label, family, limit_of, delivered).
       map (capacity_check i now label family limit_of) delivered) (capacity_loops i quantities)))"
    using a by (auto simp: capacity_loops_def Let_def)
  then have "\<exists>v. ?r = Inr v" by (rule in_turn_Inr_each [OF cv [unfolded capacity_checks_def]])
  then show ?thesis using limit by (simp add: capacity_check_def)
qed blast

theorem unserved_refinery_raises_witness:
  "\<exists>e. independent_check example_option_hash (example_input\<lparr>oi_demands := [unserved_demand]\<rparr>)
      example_weights [] [(99, Fin 60)] (Fin 60) 0 = Inl e"
  by (rule unserved_refinery_raises [of unserved_demand])
    (simp_all add: example_options unserved_demand_def example_option_def example_option_payload_def
      option_payload.defs procurement_option.defs)

text \<open>The objective of a returned check reconciles: there are eight weighted contributions, each is the raw
  term times its weight, all are finite and nonnegative, and the reported total is their sum.\<close>

lemma objective_reconciles:
  assumes "independent_check sha256 i weights quantities shortages reported now = Inr (check, breakdown, report)"
  shows "ob_weighted_contributions breakdown =
      map (\<lambda>(key, value). (key, value * dict_get (weight_dict weights) key 0)) (ob_raw_metrics breakdown) \<and>
    map fst (ob_raw_metrics breakdown) = map fst (weight_dict weights) \<and>
    (\<forall>v \<in> snd ` set (ob_raw_metrics breakdown) \<union> snd ` set (ob_weighted_contributions breakdown). isfinite v \<and> 0 \<le> v) \<and>
    me_value (ob_total breakdown) = py_sum (map snd (ob_weighted_contributions breakdown))"
proof -
  from assms obtain raw weighted where p: "objective_components i weights quantities shortages = Inr (raw, weighted)"
    "breakdown_for i now weights raw weighted (py_sum (map snd weighted)) = Inr breakdown"
    by (rule independent_check_parts) blast
  note b = breakdown_for_parts [OF p(2)]
  have w: "weighted = map (\<lambda>(key, value). (key, value * dict_get (weight_dict weights) key 0)) raw"
    "map fst raw = map fst (weight_dict weights)"
    using p(1) by (auto simp: objective_components_def objective_raw_def Let_def rmap_def rbind_Inr_iff weight_dict_def)
  note v = breakdown_values [OF b(6)]
  have "0 \<le> py_sum (map snd weighted)"
    using v(2) unfolding b(2) by (intro py_sum_nonneg) force
  then show ?thesis using b(1,2,4) w v by (simp add: py_max_0_id)
qed

end
