(* ===== verification/Lifecycle.thy ===== *)
theory Lifecycle imports Main begin

text \<open>
  The interface of a lifecycle: a table of allowed targets whose every transition strictly lowers a
  rank. Histories are the sequences of transitions the table accepts; the locale shows once, for
  every component that has a lifecycle, that they are bounded, never revisit a state and stop in a
  state without targets.
\<close>

inductive history :: "('s \<Rightarrow> 's set) \<Rightarrow> 's \<Rightarrow> 's list \<Rightarrow> 's \<Rightarrow> bool" for allowed :: "'s \<Rightarrow> 's set" where
  start: "history allowed s [] s"
| step: "history allowed s ts m \<Longrightarrow> t \<in> allowed m \<Longrightarrow> history allowed s (ts @ [t]) t"

inductive_cases history_startE: "history allowed s [] t"

lemma history_snoc: "history allowed s (ts @ [u]) t \<longleftrightarrow> u = t \<and> (\<exists>m. history allowed s ts m \<and> t \<in> allowed m)"
proof
  show "history allowed s (ts @ [u]) t \<Longrightarrow> u = t \<and> (\<exists>m. history allowed s ts m \<and> t \<in> allowed m)"
    by (erule history.cases) auto
qed (auto intro: history.intros)

lemma history_Nil: "history allowed s [] t \<longleftrightarrow> s = t"
  by (auto elim: history_startE intro: history.start)

locale lifecycle =
  fixes allowed :: "'s \<Rightarrow> 's set"
    and rank :: "'s \<Rightarrow> nat"
  assumes descends: "t \<in> allowed s \<Longrightarrow> rank t < rank s"
begin

lemma history_rank: "history allowed s ts t \<Longrightarrow> length ts + rank t \<le> rank s"
  by (induction rule: history.induct) (auto dest: descends)

lemma history_bounded: "history allowed s ts t \<Longrightarrow> length ts \<le> rank s"
  using history_rank by fastforce

lemma history_visited: "history allowed s ts t \<Longrightarrow> u \<in> set (s # ts) \<Longrightarrow> u = t \<or> rank t < rank u"
  by (induction rule: history.induct) (auto dest: descends)

lemma history_no_return: "history allowed s ts t \<Longrightarrow> distinct (s # ts)"
proof (induction rule: history.induct)
  case (step s ts m t)
  have "t \<notin> set (s # ts)" using history_visited [OF step.hyps(1), of t] descends [OF step.hyps(2)] by auto
  with step.IH show ?case by auto
qed simp

lemma terminal_absorbing: "allowed s = {} \<Longrightarrow> history allowed s ts t \<Longrightarrow> ts = [] \<and> t = s"
proof -
  have "history allowed s ts t \<Longrightarrow> allowed s = {} \<longrightarrow> ts = [] \<and> t = s"
    by (induction rule: history.induct) auto
  then show "allowed s = {} \<Longrightarrow> history allowed s ts t \<Longrightarrow> ts = [] \<and> t = s" by blast
qed

end

end
