(* ===== verification/Procurement_Plans.thy ===== *)
theory Procurement_Plans imports Procurement_Example Lifecycle begin

text \<open>
  Plans, their lifecycle, the objective profiles and landed costs: what the validators of
  \<open>procurement/contracts.py\<close>, \<open>costs.py\<close> and \<open>profiles.py\<close> guarantee.
\<close>

section \<open>The lifecycle\<close>

text \<open>The transitions the validator of \<open>ProcurementLifecycleTransition\<close> accepts.\<close>

definition accepted_targets :: "plan_lifecycle \<Rightarrow> plan_lifecycle set" where
  "accepted_targets s = {t. first_error (lifecycle_transition_problems \<lparr>lt_current = s, lt_target = t\<rparr>) = None}"

lemma accepted_targets_eq: "accepted_targets = allowed_targets"
  by (auto simp: accepted_targets_def lifecycle_transition_problems_def fun_eq_iff split: if_splits)

fun plan_rank :: "plan_lifecycle \<Rightarrow> nat" where
  "plan_rank L_REQUESTED = 5"
| "plan_rank L_SOLVING = 4"
| "plan_rank L_CHECKING = 3"
| "plan_rank L_FEASIBLE = 2"
| "plan_rank L_APPROVED = 1"
| "plan_rank _ = 0"

interpretation plan: lifecycle accepted_targets plan_rank
proof
  show "t \<in> accepted_targets s \<Longrightarrow> plan_rank t < plan_rank s" for s t
    unfolding accepted_targets_eq by (cases s) auto
qed

text \<open>Which states a plan requested anew is in after which transitions.\<close>

fun plan_trail :: "plan_lifecycle \<Rightarrow> plan_lifecycle list set" where
  "plan_trail L_REQUESTED = {[]}"
| "plan_trail L_SOLVING = {[L_SOLVING]}"
| "plan_trail L_CHECKING = {[L_SOLVING, L_CHECKING]}"
| "plan_trail L_FEASIBLE = {[L_SOLVING, L_CHECKING, L_FEASIBLE]}"
| "plan_trail L_APPROVED = {[L_SOLVING, L_CHECKING, L_FEASIBLE, L_APPROVED]}"
| "plan_trail L_REJECTED = {[L_SOLVING, L_CHECKING, L_FEASIBLE, L_REJECTED]}"
| "plan_trail L_FAILED = {[L_FAILED], [L_SOLVING, L_FAILED], [L_SOLVING, L_CHECKING, L_FAILED]}"
| "plan_trail L_SUPERSEDED = {[L_SOLVING, L_CHECKING, L_FEASIBLE, L_SUPERSEDED],
     [L_SOLVING, L_CHECKING, L_FEASIBLE, L_APPROVED, L_SUPERSEDED]}"

lemma plan_trail_step: "ts \<in> plan_trail m \<Longrightarrow> t \<in> allowed_targets m \<Longrightarrow> ts @ [t] \<in> plan_trail t"
  by (cases m) auto

lemma history_plan_trail: "history accepted_targets s ts t \<Longrightarrow> s = L_REQUESTED \<Longrightarrow> ts \<in> plan_trail t"
  by (induction rule: history.induct) (auto simp: accepted_targets_eq intro: plan_trail_step)

text \<open>C19: A plan is approved or rejected only after its answer was solved and checked: the only accepted
  histories of a requested plan that end approved or rejected are SOLVING, CHECKING, FEASIBLE and
  then the decision.\<close>

theorem decision_only_after_check:
  assumes "history accepted_targets L_REQUESTED ts t" "t \<in> {L_APPROVED, L_REJECTED}"
  shows "ts = [L_SOLVING, L_CHECKING, L_FEASIBLE, t]"
  using history_plan_trail [OF assms(1)] assms(2) by auto

theorem decision_only_after_check_witness:
  "\<exists>ts. history accepted_targets L_REQUESTED ts L_APPROVED \<and> ts = [L_SOLVING, L_CHECKING, L_FEASIBLE, L_APPROVED]"
proof -
  have "history accepted_targets L_REQUESTED [L_SOLVING, L_CHECKING, L_FEASIBLE, L_APPROVED] L_APPROVED"
    using history_snoc [of accepted_targets L_REQUESTED "[L_SOLVING, L_CHECKING, L_FEASIBLE]" L_APPROVED L_APPROVED]
      history_snoc [of accepted_targets L_REQUESTED "[L_SOLVING, L_CHECKING]" L_FEASIBLE L_FEASIBLE]
      history_snoc [of accepted_targets L_REQUESTED "[L_SOLVING]" L_CHECKING L_CHECKING]
      history_snoc [of accepted_targets L_REQUESTED "[]" L_SOLVING L_SOLVING]
    by (auto simp: accepted_targets_eq history_Nil)
  then obtain ts where h: "history accepted_targets L_REQUESTED ts L_APPROVED" ..
  from decision_only_after_check [OF h] h show ?thesis by blast
qed

text \<open>C20: Every plan history is finite and visits no state twice: it has at most five transitions, and a
  rejected, failed or superseded plan never changes again.\<close>

theorem plan_history_terminates:
  assumes "history accepted_targets s ts t"
  shows "length ts \<le> 5 \<and> distinct (s # ts) \<and> (s \<in> {L_REJECTED, L_FAILED, L_SUPERSEDED} \<longrightarrow> ts = [])"
proof -
  have "plan_rank s \<le> 5" by (cases s) auto
  moreover have "ts = []" if "s \<in> {L_REJECTED, L_FAILED, L_SUPERSEDED}"
  proof -
    have "accepted_targets s = {}" using that unfolding accepted_targets_eq by auto
    from plan.terminal_absorbing [OF this assms] show ?thesis by simp
  qed
  ultimately show ?thesis
    using plan.history_bounded [OF assms] plan.history_no_return [OF assms] by auto
qed

theorem plan_history_terminates_witness:
  "history accepted_targets L_FEASIBLE [L_APPROVED] L_APPROVED \<and> distinct [L_FEASIBLE, L_APPROVED]"
proof -
  have h: "history accepted_targets L_FEASIBLE [L_APPROVED] L_APPROVED"
    using history_snoc [of accepted_targets L_FEASIBLE "[]" L_APPROVED L_APPROVED]
    by (simp add: accepted_targets_eq history_Nil)
  from plan_history_terminates [OF this] h show ?thesis by simp
qed


section \<open>Operational plans\<close>

lemma modeled_volume:
  assumes "first_error (allocation_problems m field) = None"
  shows "isfinite (me_value m)" "0 \<le> me_value m"
proof -
  have "first_error (non_negative_metric_problems m ''ktonne'' field) = None"
    using assms unfolding allocation_problems_def modeled_metric_problems_def no_error_simps by simp
  from metric_problems_sound [OF this order_refl] show "isfinite (me_value m)" "0 \<le> me_value m"
    by (auto simp: zero_pyfloat_def less_pyfloat_def)
qed

lemma result_actions_valid:
  assumes "solver_result_valid r" "a \<in> set (re_actions r)"
  shows "first_error (action_problems a) = None"
proof -
  have "first_error (solver_result_field_problems r) = None"
    using assms(1) unfolding solver_result_valid_def solver_result_problems_def Let_def no_error_simps by simp
  then have "\<not> (\<not> at_most MAX_ACTIONS (re_actions r) \<or> list_ex (\<lambda>a. first_error (action_problems a) \<noteq> None) (re_actions r))"
    by (rule first_error_NoneD [of _ _ "FieldError ''actions''"]) (simp add: solver_result_field_problems_def)
  with assms(2) show ?thesis unfolding list_ex_iff by blast
qed

lemma plan_parts:
  assumes "plan_valid option_sha256 input_sha256 plan_sha256 p"
  shows "optimisation_input_valid option_sha256 input_sha256 (fi_optimisation_input (pl_fingerprint_inputs p))"
    "solver_result_valid (pl_solver_result p)" "first_error (plan_binding_problems plan_sha256 p) = None"
    "\<forall>a \<in> set (re_actions (pl_solver_result p)).
       plan_action_problem (oi_options (fi_optimisation_input (pl_fingerprint_inputs p))) a = None"
proof -
  have p: "first_error (plan_problems option_sha256 input_sha256 plan_sha256 p) = None"
    using assms by (simp add: plan_valid_def)
  then have f: "first_error (fingerprint_inputs_problems option_sha256 input_sha256 (pl_fingerprint_inputs p)) = None"
    and r: "solver_result_valid (pl_solver_result p)" and b: "first_error (plan_binding_problems plan_sha256 p) = None"
    and a: "first_error (each (plan_action_problem (oi_options (fi_optimisation_input (pl_fingerprint_inputs p))))
      (re_actions (pl_solver_result p))) = None"
    unfolding plan_problems_def Let_def no_error_simps by blast+
  from f show "optimisation_input_valid option_sha256 input_sha256 (fi_optimisation_input (pl_fingerprint_inputs p))"
    unfolding fingerprint_inputs_problems_def no_error_simps by blast
  from r b a show "solver_result_valid (pl_solver_result p)" "first_error (plan_binding_problems plan_sha256 p) = None"
    "\<forall>a \<in> set (re_actions (pl_solver_result p)).
       plan_action_problem (oi_options (fi_optimisation_input (pl_fingerprint_inputs p))) a = None"
    unfolding each_None by blast+
qed

lemma plan_action_option:
  assumes "plan_action_problem options a = None"
  obtains o' where "o' \<in> set options" "op_option_id o' = ac_option_id a" "first_error (action_option_problems a o') = None"
proof -
  obtain o' where o: "map_of (dict_of (map (\<lambda>o'. (op_option_id o', o')) options)) (ac_option_id a) = Some o'"
    "first_error (action_option_problems a o') = None"
    using assms by (auto simp: plan_action_problem_def split: option.splits)
  then have "(ac_option_id a, o') \<in> set (map (\<lambda>o'. (op_option_id o', o')) options)"
    using dict_of_subset map_of_SomeD by (metis (no_types, lifting) subsetD)
  with o(2) that show ?thesis by auto
qed

text \<open>C4: An operational plan acts only on permitted options, within their capacity. In a plan that passes its
  validator the independent check passed without failure codes, and every action refers to an option
  of the plan's own valid input that is neither sanctioned nor incompatible, matches the option's
  supplier, route and refinery, stays in its delivery window, and moves a finite nonnegative volume of
  at most the option's capacity.\<close>

theorem plan_actions_permitted:
  assumes "plan_valid option_sha256 input_sha256 plan_sha256 p"
  shows "check_passed (re_independent_check (pl_solver_result p)) \<and>
    (\<forall>a \<in> set (re_actions (pl_solver_result p)).
       \<exists>o' \<in> set (oi_options (fi_optimisation_input (pl_fingerprint_inputs p))).
         op_option_id o' = ac_option_id a \<and> op_sanctions_permitted o' \<and> op_compatibility_permitted o' \<and>
         sa_supplier_id (ac_supplier a) = op_supplier_id o' \<and> ra_route_id (ac_route a) = op_route_id o' \<and>
         fa_refinery_id (ac_refinery a) = op_refinery_id o' \<and>
         op_delivery_window_start o' \<le> ac_delivery_window_start a \<and>
         ac_delivery_window_end a \<le> op_delivery_window_end o' \<and>
         0 \<le> me_value (sa_volume (ac_supplier a)) \<and> me_value (sa_volume (ac_supplier a)) \<le> option_cap o')"
proof (intro conjI ballI)
  note q = plan_parts [OF assms]
  show "check_passed (re_independent_check (pl_solver_result p))"
    using q(3) unfolding plan_binding_problems_def Let_def no_error_simps by simp
  fix a assume a: "a \<in> set (re_actions (pl_solver_result p))"
  from a q(4) obtain o' where o: "o' \<in> set (oi_options (fi_optimisation_input (pl_fingerprint_inputs p)))"
    "op_option_id o' = ac_option_id a" "first_error (action_option_problems a o') = None"
    by (auto elim: plan_action_option)
  have "first_error (supplier_allocation_problems (ac_supplier a)) = None"
    using result_actions_valid [OF q(2) a] unfolding action_problems_def Let_def no_error_simps by simp
  then have v: "isfinite (me_value (sa_volume (ac_supplier a)))" "0 \<le> me_value (sa_volume (ac_supplier a))"
    unfolding supplier_allocation_problems_def by (rule modeled_volume)+
  have "isfinite (option_cap o')" by (rule valid_option_cap [OF valid_options [OF q(1) o(1)]])
  then have cap: "\<not> option_cap o' < me_value (sa_volume (ac_supplier a)) \<longleftrightarrow> me_value (sa_volume (ac_supplier a)) \<le> option_cap o'"
    by (intro not_less_pyfloat finite_not_NaN v)
  show "\<exists>o' \<in> set (oi_options (fi_optimisation_input (pl_fingerprint_inputs p))).
         op_option_id o' = ac_option_id a \<and> op_sanctions_permitted o' \<and> op_compatibility_permitted o' \<and>
         sa_supplier_id (ac_supplier a) = op_supplier_id o' \<and> ra_route_id (ac_route a) = op_route_id o' \<and>
         fa_refinery_id (ac_refinery a) = op_refinery_id o' \<and>
         op_delivery_window_start o' \<le> ac_delivery_window_start a \<and>
         ac_delivery_window_end a \<le> op_delivery_window_end o' \<and>
         0 \<le> me_value (sa_volume (ac_supplier a)) \<and> me_value (sa_volume (ac_supplier a)) \<le> option_cap o'"
    using o v(2) cap unfolding action_option_problems_def no_error_simps by (intro bexI [of _ o']) auto
qed


theorem plan_actions_permitted_witness:
  "\<exists>o' \<in> set (oi_options example_input). op_option_id o' = ac_option_id example_action \<and>
     op_sanctions_permitted o' \<and> me_value (sa_volume (ac_supplier example_action)) \<le> option_cap o'"
  using plan_actions_permitted [OF example_plan_valid]
  by (auto simp: example_plan_def example_result_def)


section \<open>Profiles\<close>

text \<open>Each of the three objective profiles has valid weights: the constructor accepts all eight of them for
  every profile, in the order of the profiles, and one tonne of shortfall always weighs more than any
  other term of the same profile.\<close>

lemma profile_weights_valid:
  "\<exists>ws. all_objective_weights = Inr ws \<and>
    map ow_profile ws = [LOWEST_COST, BALANCED, HIGHEST_RESILIENCE] \<and>
    list_all (\<lambda>w. first_error (objective_weights_problems w) = None \<and>
      list_all (\<lambda>v. v \<le> ow_shortfall w) (weight_values w)) ws"
proof -
  have "case all_objective_weights of Inl e \<Rightarrow> False
    | Inr ws \<Rightarrow> map ow_profile ws = [LOWEST_COST, BALANCED, HIGHEST_RESILIENCE] \<and>
        list_all (\<lambda>w. first_error (objective_weights_problems w) = None \<and>
          list_all (\<lambda>v. v \<le> ow_shortfall w) (weight_values w)) ws"
    by code_simp
  then show ?thesis by (auto split: sum.splits)
qed

section \<open>Landed costs\<close>

lemma finite_nonneg: "isfinite x \<Longrightarrow> \<not> x < 0 \<longleftrightarrow> 0 \<le> x"
  by (auto simp: zero_pyfloat_def less_pyfloat_def)

text \<open>A cost value is normalised exactly when it is finite and nonnegative, quoted per tonne, and either
  already in the canonical currency (when it is returned unchanged and the canonical unit is not
  looked at) or convertible by a rate of exactly that currency pair that is in force; every other
  input raises.\<close>

lemma normalize_cost_decided:
  "normalize_cost_value value from_currency from_unit canonical_currency canonical_unit conversion now = Inr r \<longleftrightarrow>
     isfinite value \<and> 0 \<le> value \<and> from_unit = ''per_tonne'' \<and>
     (if from_currency = canonical_currency then r = value
      else \<exists>c. conversion = Some c \<and> conversion_matches from_currency canonical_currency c \<and>
        \<not> conversion_stale now c \<and> canonical_unit = ''USD_per_tonne'' \<and> r = value * cr_rate c)"
  using finite_nonneg [of "value"] by (auto simp: normalize_cost_value_def split: option.splits)

lemma cost_metric_value: "cost_metric configuration ids now v name = Inr m \<Longrightarrow> me_value m = v"
  by (auto simp: cost_metric_def mk_metric_def validated_Inr)

lemma breakdown_of_values:
  "breakdown_of ms t = Inr c \<Longrightarrow> map (\<lambda>(name, m). me_value m) (landed_cost_metrics c) = map me_value ms @ [me_value t]"
  by (induction ms t rule: breakdown_of.induct) (auto simp: landed_cost_metrics_def Let_def validated_Inr)

text \<open>A reconciled landed cost is the sum of its parts: the nine components of a returned breakdown are the
  given values, all finite and nonnegative, and the total is their sum.\<close>

lemma landed_cost_reconciles:
  assumes "reconcile_landed_cost components configuration evidence_ids assumption_ids now = Inr c"
  shows "map (\<lambda>(name, m). me_value m) (landed_cost_metrics c) =
      map (\<lambda>name. dict_get components name 0) cost_names
      @ [py_sum (map (\<lambda>name. dict_get components name 0) cost_names)] \<and>
    (\<forall>name \<in> set cost_names. dict_has components name \<and> isfinite (dict_get components name 0) \<and>
       0 \<le> dict_get components name 0)"
proof -
  let ?entries = "map (\<lambda>name. (name, dict_get components name 0)) cost_names"
  have "\<not> list_ex (\<lambda>name. \<not> dict_has components name) cost_names"
    and "\<not> list_ex (\<lambda>v. \<not> isfinite v \<or> v < 0) (map snd ?entries)"
    and "\<exists>ms t. rtraverse (\<lambda>(name, v). cost_metric configuration evidence_ids now v name) ?entries = Inr ms \<and>
      cost_metric configuration evidence_ids now (py_sum (map snd ?entries)) ''total'' = Inr t \<and> breakdown_of ms t = Inr c"
    using assms unfolding reconcile_landed_cost_def Let_def
    by (simp_all only: rbind_Inr_iff split: if_splits) blast+
  then obtain ms t where p: "\<forall>name \<in> set cost_names. dict_has components name"
    "\<forall>v \<in> set (map snd ?entries). isfinite v \<and> \<not> v < 0"
    "rtraverse (\<lambda>(name, v). cost_metric configuration evidence_ids now v name) ?entries = Inr ms"
    "cost_metric configuration evidence_ids now (py_sum (map snd ?entries)) ''total'' = Inr t" "breakdown_of ms t = Inr c"
    unfolding list_ex_iff by blast
  have "map me_value ms = map snd ?entries"
    using rtraverse_InrD [OF p(3)]
    by (intro nth_equalityI) (auto simp: list_all2_conv_all_nth split_beta dest!: cost_metric_value spec)
  then show ?thesis
    using breakdown_of_values [OF p(5)] cost_metric_value [OF p(4)] p(1,2)
    by (auto simp: comp_def finite_nonneg)
qed

end
