(* ===== verification/Solver_Calls.thy ===== *)
theory Solver_Calls imports Procurement_Contracts begin

text \<open>
  What the procurement and the reserve solver share: the configuration of HiGHS, the readings of the
  clock around a call, and the interface of Pyomo and HiGHS. They are not part of the repository, so
  a call of \<open>solver.solve\<close> is a parameter that either raises or ends with a termination
  condition, a status and the values of the variables and of the objective.
\<close>

section \<open>Configuration and clock\<close>

definition default_solver_configuration :: "string \<Rightarrow> pyfloat \<Rightarrow> solver_configuration res" where
  "default_solver_configuration version seconds =
    (let c = \<lparr>so_solver_version = version, so_time_limit = \<lparr>sq_value = seconds, sq_unit = ''second''\<rparr>,
              so_relative_mip_gap = \<lparr>sq_value = 0, sq_unit = ''fraction''\<rparr>, so_thread_count = 1, so_random_seed = 0\<rparr>
     in validated (solver_configuration_problems c) c)"

text \<open>The readings of the clock during a call: start, completion, seconds in between, check.\<close>

record clock =
  ck_started :: datetime
  ck_completed :: datetime
  ck_elapsed :: pyfloat
  ck_checked :: datetime

section \<open>The outcome of a call\<close>

datatype termination_condition =
    TC_OPTIMAL | TC_FEASIBLE | TC_INFEASIBLE | TC_INFEASIBLE_OR_UNBOUNDED | TC_MAX_TIME | TC_MAX_ITERATIONS
  | TC_RESOURCE_INTERRUPT | TC_OTHER

datatype pyomo_status = PS_OK | PS_WARNING | PS_OTHER

record pyomo_outcome =
  po_termination :: termination_condition
  po_status :: pyomo_status
  po_amounts :: "uuid \<Rightarrow> pyfloat"
  po_shortage :: "uuid \<Rightarrow> pyfloat"
  po_objective :: pyfloat

datatype solve_outcome = NO_FEASIBLE_SOLUTION | SOLVE_RAISES | SOLVED pyomo_outcome

text \<open>\<open>{UUID(key): max(0.0, value(...)) for key in model.SITES}\<close>, keys in sorted order.\<close>

definition read_values :: "(uuid \<Rightarrow> pyfloat) \<Rightarrow> uuid list \<Rightarrow> (uuid, pyfloat) dict" where
  "read_values v keys = map (\<lambda>u. (u, py_max 0 (v u))) (sorted_list_of_set (set keys))"

end
