(* ===== verification/Py_Text.thy ===== *)
theory Py_Text imports Prelude begin

text \<open>
  The texts and statistics of the standard library that the risk engine uses: decimal numerals,
  \<open>datetime.isoformat\<close> in UTC, at an offset and without time zone, the format \<open>.nf\<close>, and \<open>statistics.fmean\<close> and
  \<open>statistics.pstdev\<close> of Python 3.11.
\<close>

section \<open>Texts\<close>

function dec_digits :: "int \<Rightarrow> string" where
  "dec_digits n = (if n < 10 then [hex_digit (nat n)] else dec_digits (n div 10) @ [hex_digit (nat (n mod 10))])"
  by pat_completeness auto

termination
  by (relation "measure nat") auto

declare dec_digits.simps [simp del]

text \<open>The numeral padded with zeros to a width.\<close>

definition zero_padded :: "nat \<Rightarrow> int \<Rightarrow> string" where
  "zero_padded width n = (let s = dec_digits n in replicate (width - length s) CHR ''0'' @ s)"

text \<open>\<open>f"{x:.nf}"\<close>: the exact value rounded half to even at the nth decimal.\<close>

definition fixed_text :: "nat \<Rightarrow> pyfloat \<Rightarrow> string" where
  "fixed_text n x = (case x of
     Fin q \<Rightarrow>
       (let s = zero_padded (n + 1) (rhe (\<bar>q\<bar> * 10 ^ n))
        in (if q < 0 then ''-'' else '''') @ take (length s - n) s @ (if n = 0 then '''' else ''.'' @ drop (length s - n) s))
   | PInf \<Rightarrow> ''inf'' | MInf \<Rightarrow> ''-inf'' | NaN \<Rightarrow> ''nan'')"

text \<open>Days since 1970-01-01 as year, month and day of the proleptic Gregorian calendar.\<close>

definition civil_date :: "int \<Rightarrow> int \<times> int \<times> int" where
  "civil_date days =
    (let z = days + 719468; era = z div 146097; doe = z mod 146097;
         yoe = (doe - doe div 1460 + doe div 36524 - doe div 146096) div 365;
         doy = doe - (365 * yoe + yoe div 4 - yoe div 100);
         mp = (5 * doy + 2) div 153;
         day = doy - (153 * mp + 2) div 5 + 1;
         month = (if mp < 10 then mp + 3 else mp - 9)
     in (yoe + era * 400 + (if month \<le> 2 then 1 else 0), month, day))"

definition iso_reading :: "datetime \<Rightarrow> string" where
  "iso_reading t =
    (let (year, month, day) = civil_date (t div day_us); us = t mod day_us;
         seconds = us div 1000000; micros = us mod 1000000
     in zero_padded 4 year @ ''-'' @ zero_padded 2 month @ ''-'' @ zero_padded 2 day @ ''T''
        @ zero_padded 2 (seconds div 3600) @ '':'' @ zero_padded 2 (seconds div 60 mod 60) @ '':''
        @ zero_padded 2 (seconds mod 60) @ (if micros = 0 then '''' else ''.'' @ zero_padded 6 micros))"

definition isoformat :: "datetime \<Rightarrow> string" where
  "isoformat t = iso_reading t @ ''+00:00''"

text \<open>The text of a naive value has no offset; an offset is written in hours and minutes, and in seconds if
  it has any.\<close>

definition iso_offset :: "int \<Rightarrow> string" where
  "iso_offset seconds =
    (let s = \<bar>seconds\<bar> in
     (if seconds < 0 then ''-'' else ''+'') @ zero_padded 2 (s div 3600) @ '':'' @ zero_padded 2 (s div 60 mod 60)
       @ (if s mod 60 = 0 then '''' else '':'' @ zero_padded 2 (s mod 60)))"

definition iso_moment :: "moment \<Rightarrow> string" where
  "iso_moment m = iso_reading (local_reading m) @ (case mo_offset m of None \<Rightarrow> '''' | Some seconds \<Rightarrow> iso_offset seconds)"

section \<open>Statistics\<close>

fun exact_of :: "pyfloat \<Rightarrow> rat" where
  "exact_of (Fin q) = q"
| "exact_of _ = 0"

text \<open>\<open>fmean\<close> of finite values: \<open>math.fsum\<close>, the rounded exact sum, divided by the count. \<open>fsum\<close>
  raises when the sum of a prefix is too large for a float.\<close>

definition exact_sum :: "pyfloat list \<Rightarrow> rat" where
  "exact_sum xs = sum_list (map exact_of xs)"

definition fsum :: "pyfloat list \<Rightarrow> pyfloat res" where
  "fsum xs = (if list_ex (\<lambda>n. \<not> isfinite (of_exact (exact_sum (take n xs)))) [0..<Suc (length xs)]
     then Inl OverflowError else Inr (of_exact (exact_sum xs)))"

definition fmean :: "pyfloat list \<Rightarrow> pyfloat res" where
  "fmean xs = rmap (\<lambda>total. total / Fin (of_nat (length xs))) (fsum xs)"

text \<open>\<open>math.isqrt\<close>, and the square root of a fraction correctly rounded by way of a root of 109 bits
  rounded to odd.\<close>

function isqrt :: "int \<Rightarrow> int" where
  "isqrt n = (if n \<le> 0 then 0 else let r = 2 * isqrt (n div 4) in if (r + 1) * (r + 1) \<le> n then r + 1 else r)"
  by pat_completeness auto

termination
  by (relation "measure nat") auto

declare isqrt.simps [simp del]

function bit_length :: "int \<Rightarrow> int" where
  "bit_length n = (if n \<le> 0 then 0 else 1 + bit_length (n div 2))"
  by pat_completeness auto

termination
  by (relation "measure nat") auto

declare bit_length.simps [simp del]

definition isqrt_odd :: "int \<Rightarrow> int \<Rightarrow> int" where
  "isqrt_odd n m = (let a = isqrt (n div m) in if a * a * m \<noteq> n \<and> even a then a + 1 else a)"

definition sqrt_fraction :: "int \<Rightarrow> int \<Rightarrow> pyfloat" where
  "sqrt_fraction n m =
    (let q = (bit_length n - bit_length m - 109) div 2
     in if 0 \<le> q then of_exact (of_int (isqrt_odd n (m * 2 ^ nat (2 * q)) * 2 ^ nat q))
        else of_exact (of_int (isqrt_odd (n * 2 ^ nat (- 2 * q)) m) / of_int (2 ^ nat (- q))))"

text \<open>\<open>pstdev\<close>: the root of the exact population variance.\<close>

definition variance :: "pyfloat list \<Rightarrow> rat" where
  "variance xs =
    (let n = of_nat (length xs); s = exact_sum xs
     in (n * sum_list (map (\<lambda>x. exact_of x * exact_of x) xs) - s * s) / n / n)"

definition pstdev :: "pyfloat list \<Rightarrow> pyfloat" where
  "pstdev xs = (case quotient_of (variance xs) of (n, m) \<Rightarrow> sqrt_fraction n m)"

section \<open>Lemmas\<close>

lemma isqrt_bounds: "0 \<le> n \<Longrightarrow> 0 \<le> isqrt n \<and> isqrt n * isqrt n \<le> n \<and> n < (isqrt n + 1) * (isqrt n + 1)"
proof (induction n rule: isqrt.induct)
  case (1 n)
  show ?case
  proof (cases "n \<le> 0")
    case False
    define r where "r = isqrt (n div 4)"
    have "0 \<le> r" "r * r \<le> n div 4" "n div 4 < (r + 1) * (r + 1)" using 1(1) [OF False] False by (simp_all add: r_def)
    then have "0 \<le> r" "4 * (r * r) \<le> n" "n < 4 * ((r + 1) * (r + 1))" by linarith+
    then show ?thesis using False
      by (subst (1 2 3 4 5) isqrt.simps) (auto simp: Let_def r_def [symmetric] algebra_simps)
  qed (use 1(2) in \<open>simp add: isqrt.simps\<close>)
qed

lemma isqrt_pos: "0 < n \<Longrightarrow> 0 < isqrt n"
  using isqrt_bounds [of n] by (cases "isqrt n = 0") auto

end
