(* ===== verification/Procurement_Solver.thy ===== *)
theory Procurement_Solver imports Procurement_Checker Solver_Calls Py_Text begin

text \<open>
  The procurement solver, \<open>sanjiv/procurement/solver.py\<close>: the linear model built for HiGHS as a
  list of rows, with what it means for values of the variables to satisfy them, and the assembly of
  the solver result around the call, failure paths included. Pyomo and HiGHS are the parameter of
  \<open>Solver_Calls\<close>; \<open>uuid5\<close> and the clock are parameters too.
\<close>

definition MODEL_VERSION :: string where "MODEL_VERSION = ''procurement-pyomo-highs-v1''"
definition MAX_MODEL_OPTIONS :: nat where "MAX_MODEL_OPTIONS = 500"
definition MAX_MODEL_CONSTRAINTS :: nat where "MAX_MODEL_CONSTRAINTS = 10000"

section \<open>The model\<close>

text \<open>
  The variables are the quantity of each option, the shortage of each refinery and the two peak
  shares, all nonnegative reals. A row is one constraint of \<open>model.hard\<close>.
\<close>

datatype peak = SUPPLIER_PEAK | CORRIDOR_PEAK

datatype model_row =
    At_Most "uuid list" pyfloat
  | Fixed_Zero uuid
  | Balance "uuid list" uuid pyfloat
  | Peak_Share "uuid list" peak pyfloat
  | Budget "(uuid \<times> pyfloat) list" pyfloat

record assignment =
  mv_quantity :: "uuid \<Rightarrow> pyfloat"
  mv_shortage :: "uuid \<Rightarrow> pyfloat"
  mv_peak :: "peak \<Rightarrow> pyfloat"

fun row_holds :: "assignment \<Rightarrow> model_row \<Rightarrow> bool" where
  "row_holds v (At_Most keys cap) \<longleftrightarrow> py_sum (map (mv_quantity v) keys) \<le> cap"
| "row_holds v (Fixed_Zero key) \<longleftrightarrow> mv_quantity v key = 0"
| "row_holds v (Balance keys refinery_id required) \<longleftrightarrow>
     py_sum (map (mv_quantity v) keys) + mv_shortage v refinery_id = required"
| "row_holds v (Peak_Share keys peak scale) \<longleftrightarrow> py_sum (map (mv_quantity v) keys) \<le> mv_peak v peak * scale"
| "row_holds v (Budget costs limit) \<longleftrightarrow>
     py_sum (map (\<lambda>(key, cost). mv_quantity v key * cost * Fin 1000) costs) \<le> limit"

record procurement_model =
  pm_options :: "uuid list"
  pm_refineries :: "uuid list"
  pm_rows :: "model_row list"
  pm_objective :: "assignment \<Rightarrow> pyfloat"

definition model_holds :: "procurement_model \<Rightarrow> assignment \<Rightarrow> bool" where
  "model_holds m v \<longleftrightarrow>
     list_all (\<lambda>u. isfinite (mv_quantity v u) \<and> 0 \<le> mv_quantity v u) (pm_options m) \<and>
     list_all (\<lambda>u. isfinite (mv_shortage v u) \<and> 0 \<le> mv_shortage v u) (pm_refineries m) \<and>
     list_all (\<lambda>p. isfinite (mv_peak v p) \<and> 0 \<le> mv_peak v p) [SUPPLIER_PEAK, CORRIDOR_PEAK] \<and>
     list_all (row_holds v) (pm_rows m)"

subsection \<open>Rows\<close>

text \<open>The identifiers of the options that satisfy a test, in the order of the options.\<close>

definition option_keys :: "(procurement_option \<Rightarrow> bool) \<Rightarrow> procurement_option list \<Rightarrow> uuid list" where
  "option_keys P options = map op_option_id (filter P options)"

definition option_row :: "procurement_option \<Rightarrow> model_row" where
  "option_row o' =
    (if op_sanctions_permitted o' \<and> op_compatibility_permitted o'
     then At_Most [op_option_id o'] (option_cap o') else Fixed_Zero (op_option_id o'))"

definition demand_row :: "procurement_option list \<Rightarrow> uuid \<times> pyfloat \<Rightarrow> model_row" where
  "demand_row options d =
    (case d of (refinery_id, required) \<Rightarrow>
       Balance (option_keys (\<lambda>o'. op_refinery_id o' = refinery_id) options) refinery_id required)"

definition supplier_rows :: "optimisation_input \<Rightarrow> procurement_option list \<Rightarrow> pyfloat \<Rightarrow> uuid \<Rightarrow> model_row list res" where
  "supplier_rows i options needed supplier_id =
    (let keys = option_keys (\<lambda>o'. op_supplier_id o' = supplier_id) options in
     rmap (\<lambda>limit. [At_Most keys limit,
        At_Most keys (me_value (hc_supplier_concentration_limit (oi_hard_constraints i)) * needed),
        Peak_Share keys SUPPLIER_PEAK (py_max needed (Fin 1))])
       (supplier_limit options supplier_id))"

definition corridor_rows :: "optimisation_input \<Rightarrow> procurement_option list \<Rightarrow> pyfloat \<Rightarrow> uuid \<Rightarrow> model_row list" where
  "corridor_rows i options needed corridor_id =
    (let keys = option_keys (\<lambda>o'. op_route_id o' = corridor_id) options in
     [At_Most keys (me_value (hc_corridor_concentration_limit (oi_hard_constraints i)) * needed),
      Peak_Share keys CORRIDOR_PEAK (py_max needed (Fin 1))])"

definition segment_row :: "procurement_option list \<Rightarrow> uuid \<Rightarrow> model_row res" where
  "segment_row options segment =
    (let subset = filter (\<lambda>o'. segment \<in> set (op_route_segment_ids o')) options in
     rmap (\<lambda>caps. At_Most (map op_option_id subset) (py_min_list 0 caps))
       (rtraverse (\<lambda>o'. case map_of (op_route_segment_capacities o') segment of
          None \<Rightarrow> Inl KeyError | Some cap \<Rightarrow> Inr cap) subset))"

definition port_row :: "(procurement_option \<Rightarrow> uuid option) \<Rightarrow> procurement_option list \<Rightarrow> uuid \<Rightarrow> model_row res" where
  "port_row port options port_id =
     rmap (At_Most (option_keys (\<lambda>o'. port o' = Some port_id) options)) (port_limit port options port_id)"

definition refinery_row :: "procurement_option list \<Rightarrow> uuid \<Rightarrow> model_row list res" where
  "refinery_row options refinery_id =
    (let keys = option_keys (\<lambda>o'. op_refinery_id o' = refinery_id) options in
     if keys = [] then Inr []
     else rmap (\<lambda>limit. [At_Most keys limit]) (refinery_receiving_limit options refinery_id))"

definition budget_row :: "optimisation_input \<Rightarrow> procurement_option list \<Rightarrow> model_row res" where
  "budget_row i options =
     rmap (\<lambda>costs. Budget (zip (map op_option_id options) costs) (me_value (hc_budget_limit (oi_hard_constraints i))))
       (rtraverse cost_of options)"

subsection \<open>The objective\<close>

definition weighted_sum :: "(uuid \<Rightarrow> pyfloat) \<Rightarrow> (procurement_option \<Rightarrow> pyfloat) \<Rightarrow> pyfloat \<Rightarrow> procurement_option list \<Rightarrow> pyfloat" where
  "weighted_sum x rate scale options = py_sum (map (\<lambda>o'. x (op_option_id o') * rate o' / scale) options)"

definition landed_rate :: "(landed_cost \<Rightarrow> metric) \<Rightarrow> procurement_option \<Rightarrow> pyfloat" where
  "landed_rate component o' = (case op_landed_cost o' of None \<Rightarrow> 0 | Some c \<Rightarrow> me_value (component c))"

definition model_objective ::
  "objective_weights \<Rightarrow> procurement_option list \<Rightarrow> uuid list \<Rightarrow> assignment \<Rightarrow> pyfloat" where
  "model_objective w options refineries v =
    (let x = mv_quantity v; costed = filter (\<lambda>o'. op_landed_cost o' \<noteq> None) options in
     ow_landed_cost w * weighted_sum x (landed_rate lc_total) (Fin 1000) options
     + ow_shortfall w * py_sum (map (mv_shortage v) refineries)
     + ow_delay w * weighted_sum x (\<lambda>o'. metric_or_zero (op_transit_time o')) (Fin 1000) options
     + ow_route_risk w * weighted_sum x (\<lambda>o'. metric_or_zero (op_route_distance o')) (Fin 1000000) options
     + ow_supplier_concentration w * mv_peak v SUPPLIER_PEAK
     + ow_corridor_concentration w * mv_peak v CORRIDOR_PEAK
     + ow_compatibility_penalty w * weighted_sum x (landed_rate lc_compatibility_penalty) (Fin 1000) costed
     + ow_emissions w * weighted_sum x (landed_rate lc_emissions) (Fin 1000) costed)"

subsection \<open>\<open>_build_model\<close>\<close>

definition port_keys :: "(procurement_option \<Rightarrow> uuid option) \<Rightarrow> procurement_option list \<Rightarrow> uuid list" where
  "port_keys port options = sorted_ids (List.map_filter port options)"

definition build_model :: "optimisation_input \<Rightarrow> objective_weights \<Rightarrow> procurement_model res" where
  "build_model i w =
    (let options = map snd (option_dict i); demand = demand_dict i;
         needed = py_sum (map snd demand);
         keys = sorted_ids (map op_option_id options); refineries = sorted_ids (map fst demand) in
     rbind (rtraverse (supplier_rows i options needed) (sorted_ids (map op_supplier_id options))) (\<lambda>suppliers.
     rbind (rtraverse (segment_row options) (sorted_ids (concat (map op_route_segment_ids options)))) (\<lambda>segments.
     rbind (rtraverse (port_row op_load_port_id options) (port_keys op_load_port_id options)) (\<lambda>load_ports.
     rbind (rtraverse (port_row op_receiving_port_id options) (port_keys op_receiving_port_id options)) (\<lambda>receiving_ports.
     rbind (rtraverse (refinery_row options) (map fst demand)) (\<lambda>receiving.
     rbind (budget_row i options) (\<lambda>budget.
       Inr \<lparr>pm_options = keys, pm_refineries = refineries,
            pm_rows = map option_row options @ map (demand_row options) demand @ concat suppliers
              @ concat (map (corridor_rows i options needed) (sorted_ids (map op_route_id options)))
              @ segments @ load_ports @ receiving_ports @ concat receiving @ [budget],
            pm_objective = model_objective w options refineries\<rparr>)))))))"

section \<open>Outputs\<close>

definition plan_metric :: "optimisation_input \<Rightarrow> datetime \<Rightarrow> pyfloat \<Rightarrow> string \<Rightarrow> metric res" where
  "plan_metric i now value unit =
     mk_metric \<lparr>me_value = value, me_unit = unit, me_truth_class = MODELED, me_confidence = Fin 1,
       me_evidence_ids = map ef_evidence_id (pv_evidence (oi_provenance i)),
       me_source_refs = [\<lparr>sr_source_id = ''procurement-solver'', sr_record_id = MODEL_VERSION\<rparr>],
       me_effective_at = now, me_fetched_at = now, me_computed_at = now, me_freshness_status = F_CURRENT,
       me_transformation = MODEL_VERSION, me_model_version = MODEL_VERSION\<rparr>"

text \<open>\<open>1e-7\<close>: at most this much of an option counts as unused.\<close>

definition UNUSED :: pyfloat where "UNUSED = fl (1 / 10000000)"

fun profile_name :: "procurement_profile \<Rightarrow> string" where
  "profile_name LOWEST_COST = ''LOWEST_COST''"
| "profile_name BALANCED = ''BALANCED''"
| "profile_name HIGHEST_RESILIENCE = ''HIGHEST_RESILIENCE''"

definition action_id_text :: "optimisation_input \<Rightarrow> procurement_profile \<Rightarrow> procurement_option \<Rightarrow> string" where
  "action_id_text i profile o' = ''urn:sanjiv:procurement-action:'' @ oi_input_fingerprint i @ '':''
     @ profile_name profile @ '':'' @ uuid_str (op_option_id o')"

definition action_of ::
  "uuid5_fun \<Rightarrow> optimisation_input \<Rightarrow> procurement_profile \<Rightarrow> datetime \<Rightarrow> pyfloat \<Rightarrow> procurement_option \<Rightarrow> landed_cost
     \<Rightarrow> procurement_action res" where
  "action_of uuid5 i profile now quantity o' cost =
     rbind (plan_metric i now quantity ''ktonne'') (\<lambda>volume.
       let a = \<lparr>ac_action_id = uuid5 (action_id_text i profile o'), ac_option_id = op_option_id o',
         ac_supplier = \<lparr>sa_supplier_id = op_supplier_id o', sa_grade_id = op_grade_id o', sa_volume = volume\<rparr>,
         ac_route = \<lparr>ra_route_id = op_route_id o', ra_volume = volume\<rparr>,
         ac_refinery = \<lparr>fa_refinery_id = op_refinery_id o', fa_grade_id = op_grade_id o', fa_volume = volume\<rparr>,
         ac_delivery_window_start = op_delivery_window_start o', ac_delivery_window_end = op_delivery_window_end o',
         ac_landed_cost = cost, ac_evidence_ids = op_evidence_ids o', ac_assumption_ids = op_assumption_ids o',
         ac_option_fingerprint = op_option_fingerprint o', ac_load_port_id = op_load_port_id o',
         ac_receiving_port_id = op_receiving_port_id o', ac_route_segment_ids = op_route_segment_ids o'\<rparr>
       in validated (action_problems a) a)"

definition actions_of ::
  "uuid5_fun \<Rightarrow> optimisation_input \<Rightarrow> procurement_profile \<Rightarrow> (uuid, pyfloat) dict \<Rightarrow> datetime \<Rightarrow> procurement_action list res" where
  "actions_of uuid5 i profile quantities now =
     rmap concat (rtraverse (\<lambda>o'. case op_landed_cost o' of
       None \<Rightarrow> Inr []
     | Some cost \<Rightarrow>
         if quantity_of quantities o' \<le> UNUSED then Inr []
         else rmap (\<lambda>a. [a]) (action_of uuid5 i profile now (quantity_of quantities o') o' cost)) (oi_options i))"

definition rejected :: "uuid \<Rightarrow> rejection_reason \<Rightarrow> string \<Rightarrow> string \<Rightarrow> rejected_option res" where
  "rejected option_id reason constraint explanation =
    (let r = \<lparr>ro_option_id = option_id, ro_reason_codes = [reason], ro_violated_constraint_ids = [constraint],
              ro_explanation = explanation\<rparr>
     in validated (rejected_option_problems r) r)"

definition all_rejected :: "optimisation_input \<Rightarrow> rejection_reason \<Rightarrow> rejected_option list res" where
  "all_rejected i reason = rtraverse (\<lambda>o'. rejected (op_option_id o') reason
     (constraint_id ''option'' (op_option_id o') ''capacity'')
     ''The option cannot contribute to a feasible checked solution.'') (oi_options i)"

definition route_closed :: "procurement_option \<Rightarrow> bool" where
  "route_closed o' \<longleftrightarrow> me_value (op_route_capacity o') \<le> fl (1 / 1000000000)"

definition unused_rejections :: "optimisation_input \<Rightarrow> (uuid, pyfloat) dict \<Rightarrow> rejected_option list res" where
  "unused_rejections i quantities = rtraverse (\<lambda>o'. rejected (op_option_id o')
     (if route_closed o' then RR_ROUTE_CLOSED else RR_HIGHER_OBJECTIVE)
     (if route_closed o' then constraint_id ''option'' (op_option_id o') ''route-capacity'' else ''objective:profile-ranking'')
     ''Option was excluded by disrupted route capacity or the profile objective; no order, cargo, or tanker has been secured.'')
     (filter (\<lambda>o'. quantity_of quantities o' \<le> UNUSED) (oi_options i))"


section \<open>Results\<close>

definition solver_metadata_of :: "objective_weights \<Rightarrow> solver_configuration \<Rightarrow> clock \<Rightarrow> solver_metadata" where
  "solver_metadata_of weights configuration clock =
    \<lparr>md_solver_version = so_solver_version configuration, md_model_version = MODEL_VERSION,
     md_objective_weight_version = ow_version weights,
     md_hard_constraint_version = ''procurement-hard-constraints-v1'', md_configuration = configuration,
     md_started_at = Some (ck_started clock), md_completed_at = Some (ck_completed clock),
     md_runtime = Some \<lparr>sq_value = py_max 0 (ck_elapsed clock), sq_unit = ''second''\<rparr>, md_iterations = None\<rparr>"

definition result_id_of :: "uuid5_fun \<Rightarrow> optimisation_input \<Rightarrow> procurement_profile \<Rightarrow> uuid" where
  "result_id_of uuid5 i profile =
     uuid5 (''urn:sanjiv:procurement-result:'' @ oi_input_fingerprint i @ '':'' @ profile_name profile)"

text \<open>A result without plan; each caller sets what its branch has.\<close>

definition bare_result :: "uuid \<Rightarrow> objective_weights \<Rightarrow> solver_configuration \<Rightarrow> clock \<Rightarrow> solver_status \<Rightarrow> solver_result" where
  "bare_result result_id weights configuration clock status =
    \<lparr>re_result_id = result_id, re_profile = ow_profile weights, re_status = status,
     re_metadata = solver_metadata_of weights configuration clock, re_objective = None, re_actions = [],
     re_supplier_allocations = [], re_route_allocations = [], re_refinery_allocations = [],
     re_constraints = None, re_rejected_options = [], re_independent_check = None, re_failure = None,
     re_delivered_volume = None, re_shortage = None\<rparr>"

definition checked_solver_result :: "solver_result \<Rightarrow> solver_result res" where
  "checked_solver_result r = validated (solver_result_problems r) r"

definition plain_failure :: "string \<Rightarrow> string \<Rightarrow> failure_stage \<Rightarrow> procurement_failure" where
  "plain_failure code message stage =
     \<lparr>pf_code = code, pf_message = message, pf_stage = stage, pf_retryable = False, pf_details = []\<rparr>"

text \<open>\<open>_failed\<close>, which every caller uses with the status ERROR.\<close>

definition failed_solve ::
  "uuid5_fun \<Rightarrow> objective_weights \<Rightarrow> solver_configuration \<Rightarrow> clock \<Rightarrow> solver_status \<Rightarrow> string \<Rightarrow> string \<Rightarrow> solver_result res" where
  "failed_solve uuid5 weights configuration clock status code message =
     checked_solver_result ((bare_result
       (uuid5 (''urn:sanjiv:procurement-failure:'' @ profile_name (ow_profile weights) @ '':'' @ isoformat (ck_started clock)))
       weights configuration clock status)\<lparr>re_failure := Some (plain_failure code message FS_SOLVER)\<rparr>)"

text \<open>The branch of an infeasible model: the check of shipping nothing supplies the violations.\<close>

definition infeasible_solve ::
  "uuid5_fun \<Rightarrow> option_hash \<Rightarrow> optimisation_input \<Rightarrow> objective_weights \<Rightarrow> solver_configuration \<Rightarrow> clock \<Rightarrow> solver_result res" where
  "infeasible_solve uuid5 sha256 i weights configuration clock =
    (let quantities = dict_of (map (\<lambda>o'. (op_option_id o', 0)) (oi_options i));
         shortages = dict_of (map (\<lambda>d. (dm_refinery_id d, 0)) (oi_demands i)) in
     rbind (independent_check sha256 i weights quantities shortages 0 (ck_checked clock)) (\<lambda>(check, breakdown, report).
     rbind (all_rejected i RR_CAPACITY_EXHAUSTED) (\<lambda>refused.
       checked_solver_result ((bare_result (result_id_of uuid5 i (ow_profile weights)) weights configuration clock INFEASIBLE)
         \<lparr>re_constraints := Some report, re_rejected_options := refused\<rparr>))))"

definition rejected_solve ::
  "uuid5_fun \<Rightarrow> optimisation_input \<Rightarrow> objective_weights \<Rightarrow> solver_configuration \<Rightarrow> clock
     \<Rightarrow> independent_check_result \<Rightarrow> constraint_report \<Rightarrow> solver_result res" where
  "rejected_solve uuid5 i weights configuration clock check report =
     checked_solver_result ((bare_result (result_id_of uuid5 i (ow_profile weights)) weights configuration clock ERROR)
       \<lparr>re_constraints := Some report, re_independent_check := Some check,
        re_failure := Some (plain_failure ''INDEPENDENT_CHECK_FAILED''
          ''Independent verification rejected the solver output.'' FS_INDEPENDENT_CHECK)\<rparr>)"

definition planned_solve ::
  "uuid5_fun \<Rightarrow> optimisation_input \<Rightarrow> objective_weights \<Rightarrow> solver_configuration \<Rightarrow> clock \<Rightarrow> bool
     \<Rightarrow> (uuid, pyfloat) dict \<Rightarrow> (uuid, pyfloat) dict \<Rightarrow> procurement_action list
     \<Rightarrow> independent_check_result \<times> objective_breakdown \<times> constraint_report \<Rightarrow> solver_result res" where
  "planned_solve uuid5 i weights configuration clock timed_out quantities shortages actions checked =
    (case checked of (check, breakdown, report) \<Rightarrow>
     rbind (unused_rejections i quantities) (\<lambda>refused.
     rbind (plan_metric i (ic_checked_at check) (py_sum (map snd quantities)) ''ktonne'') (\<lambda>delivered.
     rbind (plan_metric i (ic_checked_at check) (py_sum (map snd shortages)) ''ktonne'') (\<lambda>shortage.
       checked_solver_result ((bare_result (result_id_of uuid5 i (ow_profile weights)) weights configuration clock
           (if timed_out then FEASIBLE else OPTIMAL))
         \<lparr>re_objective := Some breakdown, re_actions := actions, re_supplier_allocations := map ac_supplier actions,
          re_route_allocations := map ac_route actions, re_refinery_allocations := map ac_refinery actions,
          re_constraints := Some report, re_rejected_options := refused, re_independent_check := Some check,
          re_delivered_volume := Some delivered, re_shortage := Some shortage\<rparr>)))))"

definition solved_outcome ::
  "uuid5_fun \<Rightarrow> option_hash \<Rightarrow> optimisation_input \<Rightarrow> objective_weights \<Rightarrow> solver_configuration \<Rightarrow> clock \<Rightarrow> bool
     \<Rightarrow> procurement_model \<Rightarrow> pyomo_outcome \<Rightarrow> solver_result res" where
  "solved_outcome uuid5 sha256 i weights configuration clock timed_out model outcome =
    (let quantities = read_values (po_amounts outcome) (pm_options model);
         shortages = read_values (po_shortage outcome) (pm_refineries model);
         reported = po_objective outcome in
     case (if isfinite reported
           then independent_check sha256 i weights quantities shortages reported (ck_checked clock)
           else Inl (ValueError ''non-finite objective'')) of
       Inl e \<Rightarrow> failed_solve uuid5 weights configuration clock ERROR ''CHECKER_ERROR''
         ''Independent procurement verification could not reproduce the solution.''
     | Inr (check, breakdown, report) \<Rightarrow>
         if \<not> ic_passed check then rejected_solve uuid5 i weights configuration clock check report
         else rbind (actions_of uuid5 i (ow_profile weights) quantities (ic_checked_at check)) (\<lambda>actions.
           if actions = [] then failed_solve uuid5 weights configuration clock ERROR ''NO_ACTIONS''
             ''The completed scenario has no positive procurement requirement.''
           else planned_solve uuid5 i weights configuration clock timed_out quantities shortages actions
             (check, breakdown, report)))"

definition solve_procurement_profile ::
  "uuid5_fun \<Rightarrow> option_hash \<Rightarrow> (procurement_model \<Rightarrow> solver_configuration \<Rightarrow> solve_outcome) \<Rightarrow> clock
     \<Rightarrow> optimisation_input \<Rightarrow> objective_weights \<Rightarrow> solver_configuration \<Rightarrow> solver_result res" where
  "solve_procurement_profile uuid5 sha256 solver clock i weights configuration =
    (let failed = failed_solve uuid5 weights configuration clock ERROR;
         broken = failed ''SOLVER_ERROR'' ''HiGHS could not complete the bounded procurement model.'' in
     if MAX_MODEL_OPTIONS < length (oi_options i)
     then failed ''MODEL_SIZE_LIMIT'' ''Procurement model exceeds the bounded option limit.''
     else case build_model i weights of Inl e \<Rightarrow> broken | Inr model \<Rightarrow>
     if MAX_MODEL_CONSTRAINTS < length (pm_rows model)
     then failed ''MODEL_SIZE_LIMIT'' ''Procurement model exceeds the bounded constraint limit.''
     else case solver model configuration of
       NO_FEASIBLE_SOLUTION \<Rightarrow> broken
     | SOLVE_RAISES \<Rightarrow> broken
     | SOLVED outcome \<Rightarrow>
         if po_termination outcome \<in> {TC_INFEASIBLE, TC_INFEASIBLE_OR_UNBOUNDED}
         then infeasible_solve uuid5 sha256 i weights configuration clock
         else if po_termination outcome \<notin> {TC_OPTIMAL, TC_FEASIBLE, TC_MAX_TIME, TC_MAX_ITERATIONS}
             \<or> po_status outcome \<notin> {PS_OK, PS_WARNING}
         then failed ''SOLVER_TERMINATION'' ''HiGHS returned a non-usable procurement termination state.''
         else solved_outcome uuid5 sha256 i weights configuration clock
           (po_termination outcome \<in> {TC_MAX_TIME, TC_MAX_ITERATIONS, TC_RESOURCE_INTERRUPT}) model outcome)"

end
