(* ===== verification/Procurement_Solver_Check.thy ===== *)
theory Procurement_Solver_Check imports Procurement_Solver Procurement_Total begin

text \<open>
  Lemmas about the procurement solver: what its branches return, what a usable result was read
  from, the actions and rejections of a plan, the validation of a result built from a passed check,
  and the rows of the model against the hard constraints of the check.
\<close>

section \<open>Branches\<close>

lemma bare_result_fields [simp]:
  "re_status (bare_result u w c k s) = s" "re_profile (bare_result u w c k s) = ow_profile w"
  "re_metadata (bare_result u w c k s) = solver_metadata_of w c k" "re_failure (bare_result u w c k s) = None"
  by (simp_all add: bare_result_def)

lemma failed_solve_status: "failed_solve uuid5 w c k s code message = Inr r \<Longrightarrow> re_status r = s"
  by (auto simp: failed_solve_def checked_solver_result_def validated_Inr)

lemma infeasible_solve_status: "infeasible_solve uuid5 sha256 i w c k = Inr r \<Longrightarrow> re_status r = INFEASIBLE"
  by (auto simp: infeasible_solve_def Let_def rbind_Inr_iff checked_solver_result_def validated_Inr)

lemma rejected_solve_status: "rejected_solve uuid5 i w c k check report = Inr r \<Longrightarrow> re_status r = ERROR"
  by (auto simp: rejected_solve_def checked_solver_result_def validated_Inr)

lemma not_usable [simp]: "\<not> usable_status ERROR" "\<not> usable_status INFEASIBLE"
  by (simp_all add: usable_status_def)

lemma usable_solveE:
  assumes "solve_procurement_profile uuid5 sha256 solver clock i weights configuration = Inr r" "usable_status (re_status r)"
  obtains model outcome timed_out where
    "build_model i weights = Inr model" "solver model configuration = SOLVED outcome"
    "solved_outcome uuid5 sha256 i weights configuration clock timed_out model outcome = Inr r"
proof -
  let ?failed = "\<lambda>code message. failed_solve uuid5 weights configuration clock ERROR code message"
  have no: "?failed code message \<noteq> Inr r" for code message
    using assms(2) failed_solve_status [of uuid5 weights configuration clock ERROR code message r] by auto
  have inf: "infeasible_solve uuid5 sha256 i weights configuration clock \<noteq> Inr r"
    using assms(2) infeasible_solve_status [of uuid5 sha256 i weights configuration clock r] by auto
  from assms(1) no obtain model where m: "build_model i weights = Inr model"
    by (auto simp: solve_procurement_profile_def Let_def split: if_splits sum.splits)
  with assms(1) no inf obtain outcome where "solver model configuration = SOLVED outcome"
    "solved_outcome uuid5 sha256 i weights configuration clock
       (po_termination outcome \<in> {TC_MAX_TIME, TC_MAX_ITERATIONS, TC_RESOURCE_INTERRUPT}) model outcome = Inr r"
    by (auto simp: solve_procurement_profile_def Let_def split: if_splits solve_outcome.splits)
  with m that show ?thesis by blast
qed

lemma usable_outcomeE:
  assumes "solved_outcome uuid5 sha256 i weights configuration clock timed_out model outcome = Inr r"
    "usable_status (re_status r)"
  obtains check breakdown report actions where
    "independent_check sha256 i weights (read_values (po_amounts outcome) (pm_options model))
       (read_values (po_shortage outcome) (pm_refineries model)) (po_objective outcome) (ck_checked clock)
       = Inr (check, breakdown, report)"
    "ic_passed check"
    "actions_of uuid5 i (ow_profile weights) (read_values (po_amounts outcome) (pm_options model)) (ic_checked_at check)
       = Inr actions" "actions \<noteq> []"
    "planned_solve uuid5 i weights configuration clock timed_out (read_values (po_amounts outcome) (pm_options model))
       (read_values (po_shortage outcome) (pm_refineries model)) actions (check, breakdown, report) = Inr r"
proof -
  have no: "failed_solve uuid5 weights configuration clock ERROR code message \<noteq> Inr r" for code message
    using assms(2) failed_solve_status [of uuid5 weights configuration clock ERROR code message r] by auto
  have rej: "rejected_solve uuid5 i weights configuration clock check report \<noteq> Inr r" for check report
    using assms(2) rejected_solve_status [of uuid5 i weights configuration clock check report r] by auto
  show ?thesis
    using assms(1) no rej that unfolding solved_outcome_def Let_def
    by (auto simp: rbind_Inr_iff split: sum.splits if_splits prod.splits)
qed

section \<open>Actions and rejections\<close>

text \<open>The action of an option: its identifiers, window, cost and evidence, with the shipped quantity three times.\<close>

definition action_ships :: "procurement_option \<Rightarrow> pyfloat \<Rightarrow> procurement_action \<Rightarrow> bool" where
  "action_ships o' quantity a \<longleftrightarrow>
     ac_option_id a = op_option_id o' \<and> sa_supplier_id (ac_supplier a) = op_supplier_id o' \<and>
     sa_grade_id (ac_supplier a) = op_grade_id o' \<and> ra_route_id (ac_route a) = op_route_id o' \<and>
     fa_refinery_id (ac_refinery a) = op_refinery_id o' \<and> fa_grade_id (ac_refinery a) = op_grade_id o' \<and>
     me_value (sa_volume (ac_supplier a)) = quantity \<and> ra_volume (ac_route a) = sa_volume (ac_supplier a) \<and>
     fa_volume (ac_refinery a) = sa_volume (ac_supplier a) \<and>
     ac_delivery_window_start a = op_delivery_window_start o' \<and> ac_delivery_window_end a = op_delivery_window_end o' \<and>
     op_landed_cost o' = Some (ac_landed_cost a) \<and> ac_evidence_ids a = op_evidence_ids o' \<and>
     ac_assumption_ids a = op_assumption_ids o' \<and> ac_option_fingerprint a = op_option_fingerprint o'"

lemma plan_metric_value: "plan_metric i now value unit = Inr m \<Longrightarrow> me_value m = value"
  by (auto simp: plan_metric_def mk_metric_def validated_Inr)

lemma action_of_ships:
  assumes "action_of uuid5 i profile now quantity o' cost = Inr a" "op_landed_cost o' = Some cost"
  shows "action_ships o' quantity a" "first_error (action_problems a) = None"
  using assms plan_metric_value
  by (auto simp: action_of_def Let_def rbind_Inr_iff validated_Inr action_ships_def)

definition used :: "(uuid, pyfloat) dict \<Rightarrow> procurement_option \<Rightarrow> bool" where
  "used quantities o' \<longleftrightarrow> \<not> quantity_of quantities o' \<le> UNUSED"

lemma actions_of_ships:
  assumes "actions_of uuid5 i profile quantities now = Inr actions"
    "\<And>o'. o' \<in> set (oi_options i) \<Longrightarrow> op_landed_cost o' \<noteq> None"
  shows "list_all2 (\<lambda>o' a. action_ships o' (quantity_of quantities o') a) (filter (used quantities) (oi_options i)) actions"
    "\<forall>a \<in> set actions. first_error (action_problems a) = None"
proof -
  let ?f = "\<lambda>o'. case op_landed_cost o' of None \<Rightarrow> Inr []
     | Some cost \<Rightarrow> if quantity_of quantities o' \<le> UNUSED then Inr []
         else rmap (\<lambda>a. [a]) (action_of uuid5 i profile now (quantity_of quantities o') o' cost)"
  from assms(1) obtain parts where parts: "rtraverse ?f (oi_options i) = Inr parts" "actions = concat parts"
    by (auto simp: actions_of_def rmap_def rbind_Inr_iff)
  have "list_all2 (\<lambda>o' part. ?f o' = Inr part) os ps \<Longrightarrow> set os \<subseteq> set (oi_options i) \<Longrightarrow>
      list_all2 (\<lambda>o' a. action_ships o' (quantity_of quantities o') a) (filter (used quantities) os) (concat ps) \<and>
      (\<forall>a \<in> set (concat ps). first_error (action_problems a) = None)" for os ps
  proof (induction rule: list_all2_induct)
    case (Cons o' os part ps)
    then obtain cost where cost: "op_landed_cost o' = Some cost" using assms(2) [of o'] by auto
    show ?case
    proof (cases "used quantities o'")
      case True
      with Cons.hyps(1) cost obtain a where "part = [a]"
        "action_of uuid5 i profile now (quantity_of quantities o') o' cost = Inr a"
        by (auto simp: used_def rmap_def rbind_Inr_iff)
      with Cons True action_of_ships [OF this(2) cost] show ?thesis by simp
    next
      case False
      with Cons cost show ?thesis by (auto simp: used_def)
    qed
  qed simp
  from this [OF rtraverse_InrD [OF parts(1)]] parts(2) show
    "list_all2 (\<lambda>o' a. action_ships o' (quantity_of quantities o') a) (filter (used quantities) (oi_options i)) actions"
    "\<forall>a \<in> set actions. first_error (action_problems a) = None" by simp_all
qed

lemma rejected_fields:
  "rejected u reason c explanation = Inr x \<Longrightarrow> ro_option_id x = u \<and> first_error (rejected_option_problems x) = None"
  by (auto simp: rejected_def Let_def validated_Inr)

lemma unused_rejections_ids:
  assumes "unused_rejections i quantities = Inr refused"
  shows "map ro_option_id refused = map op_option_id (filter (\<lambda>o'. \<not> used quantities o') (oi_options i))"
    "\<forall>x \<in> set refused. first_error (rejected_option_problems x) = None"
proof -
  have "list_all2 (\<lambda>o' x. ro_option_id x = op_option_id o' \<and> first_error (rejected_option_problems x) = None)
      (filter (\<lambda>o'. \<not> used quantities o') (oi_options i)) refused"
    unfolding used_def not_not
    by (rule list_all2_mono [OF rtraverse_InrD [OF assms [unfolded unused_rejections_def]]]) (drule rejected_fields, blast)
  then show "map ro_option_id refused = map op_option_id (filter (\<lambda>o'. \<not> used quantities o') (oi_options i))"
    "\<forall>x \<in> set refused. first_error (rejected_option_problems x) = None"
    by (induction rule: list_all2_induct) auto
qed

section \<open>The parts of a result\<close>

lemma check_results_valid:
  assumes "independent_check sha256 i weights quantities shortages reported now = Inr (check, breakdown, report)"
  shows "first_error (check_result_problems check) = None" "first_error (objective_breakdown_problems breakdown) = None"
    "first_error (report_problems report) = None" "ic_checked_at check = now"
    "o' \<in> set (oi_options i) \<Longrightarrow> op_landed_cost o' \<noteq> None"
proof -
  from assms obtain ov dv cv raw weighted pv budget where p:
    "check_of sha256 i now quantities dv cv (ov @ dv @ cv @ pv) reported (py_sum (map snd weighted)) = Inr check"
    "report_of i quantities (ov @ dv @ cv @ pv) = Inr report" "budget_used i quantities = Inr budget"
    "breakdown_for i now weights raw weighted (py_sum (map snd weighted)) = Inr breakdown"
    by (rule independent_check_parts)
  show "first_error (check_result_problems check) = None" by (rule check_of_valid [OF p(1)])
  show "first_error (objective_breakdown_problems breakdown) = None" by (rule breakdown_for_parts(6) [OF p(4)])
  show "first_error (report_problems report) = None" using p(2) by (auto simp: report_of_def Let_def validated_Inr)
  show "ic_checked_at check = now"
    using p(1) unfolding check_of_def Let_def rbind_Inr_iff validated_Inr by (elim exE conjE) simp
  assume "o' \<in> set (oi_options i)"
  moreover from p(3) obtain bs where
    "rtraverse (\<lambda>o'. rmap (\<lambda>c. quantity_of quantities o' * Fin 1000 * c) (cost_of o')) (oi_options i) = Inr bs"
    by (auto simp: budget_used_def rmap_def rbind_Inr_iff)
  note rtraverse_InrD [OF this]
  ultimately show "op_landed_cost o' \<noteq> None"
    by (auto simp: list_all2_conv_all_nth in_set_conv_nth cost_of_def rmap_def rbind_Inr_iff split: option.splits)
qed

lemma planned_solve_fields:
  assumes "planned_solve uuid5 i weights configuration clock timed_out quantities shortages actions (check, breakdown, report) = Inr r"
  obtains refused delivered shortage where "unused_rejections i quantities = Inr refused"
    "me_value delivered = py_sum (map snd quantities)" "me_value shortage = py_sum (map snd shortages)"
    "r = (bare_result (result_id_of uuid5 i (ow_profile weights)) weights configuration clock
           (if timed_out then FEASIBLE else OPTIMAL))
         \<lparr>re_objective := Some breakdown, re_actions := actions, re_supplier_allocations := map ac_supplier actions,
          re_route_allocations := map ac_route actions, re_refinery_allocations := map ac_refinery actions,
          re_constraints := Some report, re_rejected_options := refused, re_independent_check := Some check,
          re_delivered_volume := Some delivered, re_shortage := Some shortage\<rparr>"
    "first_error (solver_result_problems r) = None"
proof -
  from assms obtain refused delivered shortage where p: "unused_rejections i quantities = Inr refused"
    "plan_metric i (ic_checked_at check) (py_sum (map snd quantities)) ''ktonne'' = Inr delivered"
    "plan_metric i (ic_checked_at check) (py_sum (map snd shortages)) ''ktonne'' = Inr shortage" and
    r: "checked_solver_result ((bare_result (result_id_of uuid5 i (ow_profile weights)) weights configuration clock
           (if timed_out then FEASIBLE else OPTIMAL))
         \<lparr>re_objective := Some breakdown, re_actions := actions, re_supplier_allocations := map ac_supplier actions,
          re_route_allocations := map ac_route actions, re_refinery_allocations := map ac_refinery actions,
          re_constraints := Some report, re_rejected_options := refused, re_independent_check := Some check,
          re_delivered_volume := Some delivered, re_shortage := Some shortage\<rparr>) = Inr r"
    unfolding planned_solve_def prod.case rbind_Inr_iff by blast
  show ?thesis
    by (rule that [OF p(1) plan_metric_value [OF p(2)] plan_metric_value [OF p(3)]])
      (use r in \<open>simp_all only: checked_solver_result_def validated_Inr\<close>)
qed


section \<open>A checked answer is planned\<close>

lemma plan_metric_returns:
  assumes "optimisation_input_valid option_sha256 input_sha256 i" "len_between 1 50 unit"
  obtains m where "plan_metric i now value unit = Inr m" "metric_valid m"
    "\<And>name. isfinite value \<Longrightarrow> 0 \<le> value \<Longrightarrow> first_error (modeled_metric_problems m unit name) = None"
proof -
  let ?m = "\<lparr>me_value = value, me_unit = unit, me_truth_class = MODELED, me_confidence = Fin 1,
       me_evidence_ids = map ef_evidence_id (pv_evidence (oi_provenance i)),
       me_source_refs = [\<lparr>sr_source_id = ''procurement-solver'', sr_record_id = MODEL_VERSION\<rparr>],
       me_effective_at = now, me_fetched_at = now, me_computed_at = now, me_freshness_status = F_CURRENT,
       me_transformation = MODEL_VERSION, me_model_version = MODEL_VERSION\<rparr>"
  note v = valid_input_parts(1,2) [OF assms(1)]
  have valid: "metric_valid ?m"
    unfolding metric_valid_def metric_problems_def no_error_simps
    using assms(2) v(1) by (simp add: source_ref_problems_def len_between_def MODEL_VERSION_def unit_interval_def
        zero_pyfloat_def one_pyfloat_def)
  have "first_error (modeled_metric_problems ?m unit name) = None" if "isfinite value" "0 \<le> value" for name
    unfolding modeled_metric_problems_def non_negative_metric_problems_def finite_metric_problems_def no_error_simps
    using that v(2) by (auto simp: require_unit_def at_most_def MAX_REFERENCES_def less_le_pyfloat)
  then show ?thesis using valid by (intro that [of ?m]) (simp_all add: plan_metric_def mk_metric_Inr)
qed

lemma option_checked:
  assumes "first_error (option_problems sha256 o') = None"
  shows "op_evidence_ids o' \<noteq> []" "at_most MAX_REFERENCES (op_evidence_ids o')" "at_most MAX_REFERENCES (op_assumption_ids o')"
    "opt_ok (\<lambda>c. first_error (landed_cost_problems c) = None) (op_landed_cost o')"
    "at_most 100 (op_route_segment_ids o')" "opt_ok is_sha256 (op_option_fingerprint o')"
    "op_delivery_window_start o' < op_delivery_window_end o'" "distinct (op_evidence_ids o')"
    "distinct (op_assumption_ids o')" "distinct (op_route_segment_ids o')"
  using assms unfolding option_problems_def option_field_problems_def no_error_simps require_unique_def by auto

lemma action_returns:
  assumes "optimisation_input_valid option_sha256 input_sha256 i" "first_error (option_problems sha256 o') = None"
    "op_landed_cost o' = Some cost" "isfinite quantity" "0 \<le> quantity"
  shows "\<exists>a. action_of uuid5 i profile now quantity o' cost = Inr a"
proof -
  obtain m where m: "plan_metric i now quantity ''ktonne'' = Inr m" "metric_valid m"
    "\<And>name. first_error (modeled_metric_problems m ''ktonne'' name) = None"
    using plan_metric_returns [OF assms(1), of "''ktonne''" now quantity] assms(4,5) by (auto simp: len_between_def)
  have "me_value m = quantity" by (rule plan_metric_value [OF m(1)])
  then have "py_max_list 0 [me_value m, me_value m, me_value m] - py_min_list 0 [me_value m, me_value m, me_value m] = 0"
    using minus_self_pyfloat [OF assms(4)] by (simp add: py_max_def py_min_def)
  moreover have "\<not> fl (1 / 1000000000) < (0 :: pyfloat)" by code_simp
  moreover note o = option_checked [OF assms(2)]
  ultimately show ?thesis
    unfolding action_of_def m(1) rbind_simps Let_def validated_Inr action_problems_def supplier_allocation_problems_def
      route_allocation_problems_def refinery_allocation_problems_def allocation_problems_def no_error_simps require_unique_def
    using m(2,3) o assms(3) by (simp add: not_le)
qed

lemma valid_option_count:
  assumes "optimisation_input_valid option_sha256 input_sha256 i"
  shows "length (oi_options i) \<le> MAX_OPTIONS"
proof -
  have "\<not> (\<not> len_between 1 MAX_OPTIONS (oi_options i)
        \<or> list_ex (\<lambda>o'. first_error (option_problems option_sha256 o') \<noteq> None) (oi_options i))"
    by (rule first_error_NoneD [OF assms [unfolded optimisation_input_valid_def], of _ "FieldError ''options''"])
      (simp add: optimisation_input_problems_def Let_def)
  then show ?thesis by (auto simp: len_between_def list_ex_iff)
qed

lemma actions_return:
  assumes "optimisation_input_valid option_sha256 input_sha256 i"
    "\<And>o'. o' \<in> set (oi_options i) \<Longrightarrow> op_landed_cost o' \<noteq> None"
    "\<And>o'. o' \<in> set (oi_options i) \<Longrightarrow> isfinite (quantity_of quantities o') \<and> 0 \<le> quantity_of quantities o'"
  shows "\<exists>actions. actions_of uuid5 i profile quantities now = Inr actions"
proof -
  have "\<exists>part. (case op_landed_cost o' of None \<Rightarrow> Inr []
     | Some cost \<Rightarrow> if quantity_of quantities o' \<le> UNUSED then Inr []
         else rmap (\<lambda>a. [a]) (action_of uuid5 i profile now (quantity_of quantities o') o' cost)) = Inr part"
    if o': "o' \<in> set (oi_options i)" for o'
  proof -
    obtain cost where c: "op_landed_cost o' = Some cost" using assms(2) [OF o'] by auto
    obtain a where "action_of uuid5 i profile now (quantity_of quantities o') o' cost = Inr a"
      using action_returns [OF assms(1) valid_options [OF assms(1) o'] c] assms(3) [OF o'] by blast
    with c show ?thesis by auto
  qed
  then have "\<exists>parts. rtraverse (\<lambda>o'. case op_landed_cost o' of None \<Rightarrow> Inr []
     | Some cost \<Rightarrow> if quantity_of quantities o' \<le> UNUSED then Inr []
         else rmap (\<lambda>a. [a]) (action_of uuid5 i profile now (quantity_of quantities o') o' cost)) (oi_options i) = Inr parts"
    by (meson rtraverse_total)
  then show ?thesis by (auto simp: actions_of_def)
qed

lemma unused_rejections_return: "\<exists>refused. unused_rejections i quantities = Inr refused"
proof -
  have "\<exists>x. rejected u reason c e = Inr x" if "len_between 1 200 c" "len_between 1 1000 e" for u reason c e
    using that unfolding rejected_def Let_def validated_Inr rejected_option_problems_def no_error_simps
    by (simp add: len_between_def require_unique_def)
  then have "\<exists>x. rejected u (if b then RR_ROUTE_CLOSED else RR_HIGHER_OBJECTIVE)
      (if b then constraint_id ''option'' u ''route-capacity'' else ''objective:profile-ranking'')
      ''Option was excluded by disrupted route capacity or the profile objective; no order, cargo, or tanker has been secured.'' = Inr x"
    for u b by (auto simp: len_between_def constraint_id_def)
  from rtraverse_total [OF this] show ?thesis unfolding unused_rejections_def by blast
qed

lemma metadata_accepted:
  assumes "first_error (objective_weights_problems weights) = None" "first_error (solver_configuration_problems configuration) = None"
    "ck_started clock \<le> ck_completed clock" "isfinite (ck_elapsed clock)"
  shows "first_error (metadata_problems (solver_metadata_of weights configuration clock)) = None"
  using assms unfolding metadata_problems_def objective_weights_problems_def solver_configuration_problems_def no_error_simps
  by (simp add: solver_metadata_of_def MODEL_VERSION_def len_between_def solver_quantity_ok_def require_unit_def)

lemma passed_report_feasible:
  assumes "independent_check sha256 i weights quantities shortages reported now = Inr (check, breakdown, report)" "ic_passed check"
  shows "cp_feasible report"
proof -
  from assms(1) obtain ov dv cv raw weighted pv where p:
    "check_of sha256 i now quantities dv cv (ov @ dv @ cv @ pv) reported (py_sum (map snd weighted)) = Inr check"
    "report_of i quantities (ov @ dv @ cv @ pv) = Inr report"
    "breakdown_for i now weights raw weighted (py_sum (map snd weighted)) = Inr breakdown"
    by (rule independent_check_parts)
  show ?thesis using check_of_passed [OF p(1)] assms(2) p(2) by (auto simp: report_of_def Let_def validated_Inr)
qed

lemma action_allocations:
  assumes "first_error (action_problems a) = None"
  shows "first_error (supplier_allocation_problems (ac_supplier a)) = None"
    "first_error (route_allocation_problems (ac_route a)) = None"
    "first_error (refinery_allocation_problems (ac_refinery a)) = None"
  using assms unfolding action_problems_def Let_def no_error_simps by auto

lemma volume_returns:
  assumes "optimisation_input_valid option_sha256 input_sha256 i" "isfinite volume" "0 \<le> volume"
  obtains m where "plan_metric i now volume ''ktonne'' = Inr m" "metric_valid m"
    "\<And>name. first_error (modeled_metric_problems m ''ktonne'' name) = None"
  using plan_metric_returns [OF assms(1), of "''ktonne''" now volume] assms(2,3) by (auto simp: len_between_def)

lemma usable_parts_accepted:
  assumes "usable_status (re_status r)" "first_error (metadata_problems (re_metadata r)) = None"
    "re_objective r = Some breakdown" "first_error (objective_breakdown_problems breakdown) = None"
    "re_actions r = actions" "\<forall>a \<in> set actions. first_error (action_problems a) = None" "actions \<noteq> []" "length actions \<le> MAX_ACTIONS"
    "re_supplier_allocations r = map ac_supplier actions" "re_route_allocations r = map ac_route actions"
    "re_refinery_allocations r = map ac_refinery actions"
    "re_constraints r = Some report" "first_error (report_problems report) = None" "cp_feasible report"
    "re_rejected_options r = refused" "\<forall>x \<in> set refused. first_error (rejected_option_problems x) = None" "length refused \<le> MAX_OPTIONS"
    "re_independent_check r = Some check" "first_error (check_result_problems check) = None" "ic_passed check"
    "re_failure r = None" "re_delivered_volume r = Some d" "re_shortage r = Some s" "metric_valid d" "metric_valid s"
    "\<And>name. first_error (modeled_metric_problems d ''ktonne'' name) = None"
    "\<And>name. first_error (modeled_metric_problems s ''ktonne'' name) = None"
    "md_started_at (re_metadata r) \<noteq> None" "md_completed_at (re_metadata r) \<noteq> None" "md_runtime (re_metadata r) \<noteq> None"
  shows "first_error (solver_result_problems r) = None"
  unfolding solver_result_problems_def solver_result_field_problems_def usable_result_problems_def Let_def no_error_simps
    optional_volume_problems_def
  using assms by (auto simp: at_most_def check_passed_def usable_status_def list_ex_iff action_allocations no_error_simps)

lemma planned_solve_returns:
  assumes "optimisation_input_valid option_sha256 input_sha256 i"
    "first_error (metadata_problems (solver_metadata_of weights configuration clock)) = None"
    "independent_check sha256 i weights quantities shortages reported now = Inr (check, breakdown, report)" "ic_passed check"
    "actions_of uuid5 i profile quantities (ic_checked_at check) = Inr actions" "actions \<noteq> []"
    "isfinite (py_sum (map snd quantities))" "0 \<le> py_sum (map snd quantities)"
    "isfinite (py_sum (map snd shortages))" "0 \<le> py_sum (map snd shortages)"
  shows "\<exists>r. planned_solve uuid5 i weights configuration clock timed_out quantities shortages actions (check, breakdown, report) = Inr r"
proof -
  note c = check_results_valid [OF assms(3)]
  note a = actions_of_ships [OF assms(5) c(5)]
  obtain refused where refused: "unused_rejections i quantities = Inr refused" using unused_rejections_return by blast
  note ids = unused_rejections_ids [OF refused]
  obtain d where d: "plan_metric i (ic_checked_at check) (py_sum (map snd quantities)) ''ktonne'' = Inr d" "metric_valid d"
    "\<And>name. first_error (modeled_metric_problems d ''ktonne'' name) = None" by (rule volume_returns [OF assms(1,7,8), where now = "ic_checked_at check"]) (rule that)
  obtain s where s: "plan_metric i (ic_checked_at check) (py_sum (map snd shortages)) ''ktonne'' = Inr s" "metric_valid s"
    "\<And>name. first_error (modeled_metric_problems s ''ktonne'' name) = None" by (rule volume_returns [OF assms(1,9,10), where now = "ic_checked_at check"]) (rule that)
  have options: "length (oi_options i) \<le> MAX_OPTIONS" by (rule valid_option_count [OF assms(1)])
  have acted: "length actions \<le> MAX_ACTIONS"
    using list_all2_lengthD [OF a(1)] length_filter_le [of "used quantities" "oi_options i"] options
    by (simp add: MAX_OPTIONS_def MAX_ACTIONS_def)
  have unused: "length refused \<le> MAX_OPTIONS"
    using arg_cong [OF ids(1), of length] le_trans [OF length_filter_le [of "\<lambda>o'. \<not> used quantities o'" "oi_options i"] options]
    by simp
  let ?r = "(bare_result (result_id_of uuid5 i (ow_profile weights)) weights configuration clock
           (if timed_out then FEASIBLE else OPTIMAL))
         \<lparr>re_objective := Some breakdown, re_actions := actions, re_supplier_allocations := map ac_supplier actions,
          re_route_allocations := map ac_route actions, re_refinery_allocations := map ac_refinery actions,
          re_constraints := Some report, re_rejected_options := refused, re_independent_check := Some check,
          re_delivered_volume := Some d, re_shortage := Some s\<rparr>"
  have "first_error (solver_result_problems ?r) = None"
    by (rule usable_parts_accepted [OF _ _ _ c(2) _ a(2) assms(6) acted _ _ _ _ c(3)
          passed_report_feasible [OF assms(3,4)] _ ids(2) unused _ c(1) assms(4) _ _ _ d(2) s(2) d(3) s(3)])
      (use assms(2) in \<open>simp_all add: usable_status_def solver_metadata_of_def\<close>)
  then show ?thesis using refused d(1) s(1) by (simp add: planned_solve_def checked_solver_result_def validated_ok)
qed

lemma read_values_nonneg [simp]:
  "0 \<le> quantity_of (read_values f keys) o'" "0 \<le> py_sum (map snd (read_values f keys))"
proof -
  have "map_of (map (\<lambda>u. (u, py_max 0 (f u))) us) v = Some x \<Longrightarrow> 0 \<le> x" for us v x
    by (induction us) (auto split: if_splits)
  then show "0 \<le> quantity_of (read_values f keys) o'"
    by (auto simp: quantity_of_def dict_get_def read_values_def split: option.split)
  show "0 \<le> py_sum (map snd (read_values f keys))" by (intro py_sum_nonneg) (auto simp: read_values_def)
qed

lemma checked_answer_returns:
  assumes "optimisation_input_valid sha256 input_sha256 i" "first_error (objective_weights_problems weights) = None"
    "first_error (solver_configuration_problems configuration) = None"
    "ck_started clock \<le> ck_completed clock" "isfinite (ck_elapsed clock)"
    "build_model i weights = Inr model" "length (pm_rows model) \<le> MAX_MODEL_CONSTRAINTS"
    "solver model configuration = SOLVED outcome"
    "po_termination outcome \<in> {TC_OPTIMAL, TC_FEASIBLE, TC_MAX_TIME, TC_MAX_ITERATIONS}"
    "po_status outcome \<in> {PS_OK, PS_WARNING}" "isfinite (po_objective outcome)"
    "quantities = read_values (po_amounts outcome) (pm_options model)"
    "shortages = read_values (po_shortage outcome) (pm_refineries model)"
    "independent_check sha256 i weights quantities shortages (po_objective outcome) (ck_checked clock) = Inr (check, breakdown, report)"
    "ic_passed check" "o' \<in> set (oi_options i)" "used quantities o'"
    "isfinite (py_sum (map snd quantities))" "isfinite (py_sum (map snd shortages))"
  shows "\<exists>r. solve_procurement_profile uuid5 sha256 solver clock i weights configuration = Inr r \<and> usable_status (re_status r)"
proof -
  have "hard_constraints_met i quantities shortages" using check_decides [OF assms(1,14)] assms(15) by blast
  then have finite: "isfinite (quantity_of quantities o')" if "o' \<in> set (oi_options i)" for o'
    using that by (auto simp: hard_constraints_met_def options_met_def Let_def)
  note costs = check_results_valid(5) [OF assms(14)]
  obtain actions where a: "actions_of uuid5 i (ow_profile weights) quantities (ic_checked_at check) = Inr actions"
    using actions_return [OF assms(1) costs] finite assms(12) by (metis read_values_nonneg(1))
  have "actions \<noteq> []"
    using list_all2_lengthD [OF actions_of_ships(1) [OF a costs]] assms(16,17) by (auto simp: filter_empty_conv)
  moreover have "length (oi_options i) \<le> MAX_MODEL_OPTIONS"
    using valid_option_count [OF assms(1)] by (simp add: MAX_OPTIONS_def MAX_MODEL_OPTIONS_def)
  moreover obtain r where r: "planned_solve uuid5 i weights configuration clock
      (po_termination outcome \<in> {TC_MAX_TIME, TC_MAX_ITERATIONS, TC_RESOURCE_INTERRUPT})
      quantities shortages actions (check, breakdown, report) = Inr r"
    using planned_solve_returns [OF assms(1) metadata_accepted [OF assms(2-5)] assms(14,15) a calculation(1) assms(18) _ assms(19)]
    by (metis assms(12,13) read_values_nonneg(2))
  moreover have "usable_status (re_status r)" by (rule planned_solve_fields [OF r]) (simp add: usable_status_def)
  ultimately show ?thesis
    using assms(6-11,15) a unfolding solve_procurement_profile_def Let_def
    by (auto simp: solved_outcome_def Let_def assms(14) [unfolded assms(12,13)] assms(12,13))
qed

end
