(* ===== verification/Route_Paths.thy ===== *)
theory Route_Paths imports Twin_Contracts "HOL-Library.Multiset" "HOL-Library.List_Lexorder" "HOL-Library.Char_ord" begin

text \<open>
  \<open>_route_path\<close> of \<open>procurement/inputs.py\<close>: a breadth-first search over the available routes of a
  twin snapshot for the simple paths from a supplier to a refinery that use a required route and
  start some leg at a load port; the least of them, compared by the texts of the route identifiers,
  is returned. The search is proved to find exactly these paths.
\<close>

section \<open>The search\<close>

definition route_dict :: "twin_route list \<Rightarrow> (uuid, twin_route) dict" where
  "route_dict routes = dict_of (map (\<lambda>r. (rt_id r, r)) routes)"

text \<open>\<open>outgoing\<close>: the available routes by origin, each list sorted by the canonical identifiers.\<close>

definition canonical_text :: "(uuid, twin_route) dict \<Rightarrow> uuid \<Rightarrow> string" where
  "canonical_text table u = (case map_of table u of None \<Rightarrow> '''' | Some r \<Rightarrow> rt_route_canonical_id r)"

definition add_outgoing :: "(uuid, uuid list) dict \<Rightarrow> twin_route \<Rightarrow> (uuid, uuid list) dict" where
  "add_outgoing d r =
    (if rt_available r then AList.update (rt_origin_id r) (dict_get d (rt_origin_id r) [] @ [rt_id r]) d else d)"

definition outgoing_routes :: "twin_route list \<Rightarrow> (uuid, uuid list) dict" where
  "outgoing_routes routes =
     map (\<lambda>(node, ids). (node, sort_key (canonical_text (route_dict routes)) ids)) (foldl add_outgoing [] routes)"

text \<open>An entry of the queue: the node, the path that leads to it and the visited nodes.\<close>

type_synonym search_entry = "uuid \<times> uuid list \<times> uuid list"

definition next_entries ::
  "(uuid, twin_route) dict \<Rightarrow> (uuid, uuid list) dict \<Rightarrow> search_entry \<Rightarrow> search_entry list" where
  "next_entries table outgoing entry =
    (case entry of (node, path, visited) \<Rightarrow>
       List.map_filter (\<lambda>u. case map_of table u of
          None \<Rightarrow> None
        | Some r \<Rightarrow> if rt_destination_id r \<in> set visited then None
                   else Some (rt_destination_id r, path @ [u], rt_destination_id r # visited))
         (dict_get outgoing node []))"

definition unvisited :: "(uuid, twin_route) dict \<Rightarrow> search_entry \<Rightarrow> nat" where
  "unvisited table entry = card (rt_destination_id ` snd ` set table - set (snd (snd entry)))"

lemma next_entry:
  assumes "e \<in> set (next_entries table outgoing (node, path, visited))"
  obtains u r where "u \<in> set (dict_get outgoing node [])" "map_of table u = Some r"
    "rt_destination_id r \<notin> set visited" "e = (rt_destination_id r, path @ [u], rt_destination_id r # visited)"
  using assms by (auto simp: next_entries_def map_filter_def split: option.splits if_splits)

lemma next_entries_unvisited:
  assumes "e \<in> set (next_entries table outgoing entry)"
  shows "unvisited table e < unvisited table entry"
proof -
  obtain node path visited where entry: "entry = (node, path, visited)" by (cases entry)
  from assms [unfolded entry] obtain u r where e: "map_of table u = Some r" "rt_destination_id r \<notin> set visited"
    "e = (rt_destination_id r, path @ [u], rt_destination_id r # visited)" by (rule next_entry)
  let ?all = "rt_destination_id ` snd ` set table"
  have "rt_destination_id r \<in> ?all" using map_of_SomeD [OF e(1)] by force
  with e(2) have "?all - set (rt_destination_id r # visited) \<subset> ?all - set visited" by auto
  then show ?thesis unfolding unvisited_def entry e(3) by (simp add: psubset_card_mono)
qed

function route_search ::
  "(uuid, twin_route) dict \<Rightarrow> (uuid, uuid list) dict \<Rightarrow> uuid \<Rightarrow> (uuid list \<Rightarrow> bool) \<Rightarrow> search_entry list \<Rightarrow> uuid list list" where
  "route_search table outgoing goal accept [] = []"
| "route_search table outgoing goal accept (entry # queue) =
    (if fst entry = goal
     then (if accept (fst (snd entry)) then [fst (snd entry)] else []) @ route_search table outgoing goal accept queue
     else route_search table outgoing goal accept (queue @ next_entries table outgoing entry))"
  by pat_completeness auto

termination
proof (relation "inv_image (mult less_than) (\<lambda>(table, _, _, _, queue). mset (map (unvisited table) queue))", goal_cases)
  case 1
  show ?case by (simp add: wf_mult)
next
  case (2 table outgoing goal accept entry queue)
  show ?case using one_step_implies_mult [of "{#unvisited table entry#}" "{#}" less_than "mset (map (unvisited table) queue)"] by simp
next
  case (3 table outgoing goal accept entry queue)
  show ?case
    using one_step_implies_mult [of "{#unvisited table entry#}"
        "mset (map (unvisited table) (next_entries table outgoing entry))" less_than "mset (map (unvisited table) queue)"]
      next_entries_unvisited by auto
qed

text \<open>A path is kept if it uses the required route and one of its legs starts at a load port.\<close>

definition path_accepted :: "(uuid, twin_route) dict \<Rightarrow> uuid \<Rightarrow> uuid list \<Rightarrow> uuid list \<Rightarrow> bool" where
  "path_accepted table required load_ports path \<longleftrightarrow>
     required \<in> set path \<and>
     list_ex (\<lambda>u. case map_of table u of None \<Rightarrow> False | Some r \<Rightarrow> rt_origin_id r \<in> set load_ports) path"

definition least_path :: "uuid list list \<Rightarrow> uuid list" where
  "least_path candidates =
    (case candidates of [] \<Rightarrow> [] | p # ps \<Rightarrow> foldl (\<lambda>best q. if q < best then q else best) p ps)"

definition route_path :: "twin_route list \<Rightarrow> uuid \<Rightarrow> uuid \<Rightarrow> uuid \<Rightarrow> uuid list \<Rightarrow> uuid list" where
  "route_path routes supplier refinery required load_ports =
    (let table = route_dict routes in
     least_path (route_search table (outgoing_routes routes) refinery (path_accepted table required load_ports)
       [(supplier, [], [supplier])]))"


section \<open>What the search finds\<close>

text \<open>How a path can still be completed from a node: each leg leads to a node not yet visited.\<close>

fun completes ::
  "(uuid, twin_route) dict \<Rightarrow> (uuid, uuid list) dict \<Rightarrow> uuid \<Rightarrow> uuid \<Rightarrow> uuid set \<Rightarrow> uuid list \<Rightarrow> bool" where
  "completes table outgoing goal node visited [] \<longleftrightarrow> node = goal"
| "completes table outgoing goal node visited (u # us) \<longleftrightarrow>
     node \<noteq> goal \<and> u \<in> set (dict_get outgoing node []) \<and>
     (\<exists>r. map_of table u = Some r \<and> rt_destination_id r \<notin> visited \<and>
        completes table outgoing goal (rt_destination_id r) (insert (rt_destination_id r) visited) us)"

definition completions ::
  "(uuid, twin_route) dict \<Rightarrow> (uuid, uuid list) dict \<Rightarrow> uuid \<Rightarrow> search_entry \<Rightarrow> uuid list set" where
  "completions table outgoing goal entry =
     {fst (snd entry) @ us | us. completes table outgoing goal (fst entry) (set (snd (snd entry))) us}"

lemma completions_goal:
  assumes "fst entry = goal"
  shows "completions table outgoing goal entry = {fst (snd entry)}"
proof -
  have "completes table outgoing goal goal visited us \<longleftrightarrow> us = []" for visited us by (cases us) auto
  then show ?thesis using assms by (simp add: completions_def)
qed

lemma completions_step:
  assumes "fst entry \<noteq> goal"
  shows "completions table outgoing goal entry =
    \<Union> (completions table outgoing goal ` set (next_entries table outgoing entry))"
proof -
  obtain node path visited where entry: "entry = (node, path, visited)" by (cases entry)
  have first: "completes table outgoing goal node (set visited) us \<longleftrightarrow>
      (\<exists>u us' r. us = u # us' \<and> u \<in> set (dict_get outgoing node []) \<and> map_of table u = Some r \<and>
        rt_destination_id r \<notin> set visited \<and>
        completes table outgoing goal (rt_destination_id r) (insert (rt_destination_id r) (set visited)) us')" for us
    using assms by (cases us) (auto simp: entry)
  have follow: "e \<in> set (next_entries table outgoing (node, path, visited)) \<longleftrightarrow>
      (\<exists>u r. u \<in> set (dict_get outgoing node []) \<and> map_of table u = Some r \<and> rt_destination_id r \<notin> set visited \<and>
        e = (rt_destination_id r, path @ [u], rt_destination_id r # visited))" for e
    by (auto simp: next_entries_def map_filter_def image_iff split: option.splits if_splits)
  show ?thesis
  proof (intro set_eqI iffI)
    fix p assume "p \<in> completions table outgoing goal entry"
    then obtain u us r where u: "p = path @ u # us" "u \<in> set (dict_get outgoing node [])" "map_of table u = Some r"
      "rt_destination_id r \<notin> set visited"
      "completes table outgoing goal (rt_destination_id r) (insert (rt_destination_id r) (set visited)) us"
      by (auto simp: completions_def entry first)
    let ?e = "(rt_destination_id r, path @ [u], rt_destination_id r # visited)"
    have "?e \<in> set (next_entries table outgoing entry)" unfolding entry follow using u(2-4) by blast
    moreover have "p \<in> completions table outgoing goal ?e" using u(1,5) by (auto simp: completions_def)
    ultimately show "p \<in> \<Union> (completions table outgoing goal ` set (next_entries table outgoing entry))" by blast
  next
    fix p assume "p \<in> \<Union> (completions table outgoing goal ` set (next_entries table outgoing entry))"
    then obtain e us where e: "e \<in> set (next_entries table outgoing (node, path, visited))"
      "completes table outgoing goal (fst e) (set (snd (snd e))) us" "p = fst (snd e) @ us"
      by (auto simp: completions_def entry)
    from e(1) obtain u r where r: "u \<in> set (dict_get outgoing node [])" "map_of table u = Some r"
      "rt_destination_id r \<notin> set visited" "e = (rt_destination_id r, path @ [u], rt_destination_id r # visited)"
      unfolding follow by blast
    with e(2) have "completes table outgoing goal node (set visited) (u # us)" unfolding first by auto
    with e(3) r(4) show "p \<in> completions table outgoing goal entry" by (auto simp: completions_def entry)
  qed
qed

lemma route_search_completions:
  "set (route_search table outgoing goal accept queue) =
     {p \<in> \<Union> (completions table outgoing goal ` set queue). accept p}"
proof (induction table outgoing goal accept queue rule: route_search.induct)
  case (2 table outgoing goal accept entry queue)
  then show ?case
    by (cases "fst entry = goal") (auto simp: completions_goal completions_step)
qed simp

section \<open>Paths of the snapshot\<close>

text \<open>A path of available routes from one node to another; \<open>route_stops\<close> are the nodes it leads to.\<close>

fun connects :: "twin_route list \<Rightarrow> uuid \<Rightarrow> uuid list \<Rightarrow> uuid \<Rightarrow> bool" where
  "connects routes node [] goal \<longleftrightarrow> node = goal"
| "connects routes node (u # us) goal \<longleftrightarrow>
     (\<exists>r \<in> set routes. rt_id r = u \<and> rt_available r \<and> rt_origin_id r = node \<and> connects routes (rt_destination_id r) us goal)"

definition route_of :: "twin_route list \<Rightarrow> uuid \<Rightarrow> twin_route" where
  "route_of routes u = the (map_of (route_dict routes) u)"

definition route_stops :: "twin_route list \<Rightarrow> uuid list \<Rightarrow> uuid list" where
  "route_stops routes us = map (\<lambda>u. rt_destination_id (route_of routes u)) us"

text \<open>A simple path from a supplier to a refinery over the required route and through a load port.\<close>

definition supply_path :: "twin_route list \<Rightarrow> uuid \<Rightarrow> uuid \<Rightarrow> uuid \<Rightarrow> uuid list \<Rightarrow> uuid list \<Rightarrow> bool" where
  "supply_path routes supplier refinery required load_ports us \<longleftrightarrow>
     connects routes supplier us refinery \<and> distinct (supplier # route_stops routes us) \<and> required \<in> set us \<and>
     (\<exists>u \<in> set us. rt_origin_id (route_of routes u) \<in> set load_ports)"

lemma route_table:
  assumes "distinct (map rt_id routes)"
  shows "map_of (route_dict routes) u = Some r \<longleftrightarrow> r \<in> set routes \<and> rt_id r = u"
proof -
  have d: "distinct (map fst (map (\<lambda>r. (rt_id r, r)) routes))" using assms by (simp add: comp_def)
  show ?thesis unfolding route_dict_def map_of_dict_of_distinct [OF d] map_of_eq_Some_iff [OF d] by auto
qed

lemma route_of_eq: "distinct (map rt_id routes) \<Longrightarrow> r \<in> set routes \<Longrightarrow> route_of routes (rt_id r) = r"
  using route_table [of routes "rt_id r" r] by (simp add: route_of_def)

lemma outgoing_fold:
  "set (dict_get (foldl add_outgoing d routes) node []) =
     set (dict_get d node []) \<union> rt_id ` {r \<in> set routes. rt_available r \<and> rt_origin_id r = node}"
  by (induction routes arbitrary: d) (auto simp: add_outgoing_def)

lemma dict_get_map_values:
  "dict_get (map (\<lambda>(k, v). (k, f v)) d) k w = (case map_of d k of None \<Rightarrow> w | Some v \<Rightarrow> f v)"
  by (simp add: dict_get_def map_of_map split: option.splits)

lemma outgoing_routes_set:
  "set (dict_get (outgoing_routes routes) node []) = rt_id ` {r \<in> set routes. rt_available r \<and> rt_origin_id r = node}"
proof -
  have "set (dict_get (outgoing_routes routes) node []) = set (dict_get (foldl add_outgoing [] routes) node [])"
    unfolding outgoing_routes_def dict_get_map_values by (auto simp: dict_get_def split: option.splits)
  then show ?thesis using outgoing_fold [of "[]" routes node] by simp
qed

lemma completes_connects:
  assumes "distinct (map rt_id routes)" "node \<in> visited"
  shows "completes (route_dict routes) (outgoing_routes routes) goal node visited us \<longleftrightarrow>
    connects routes node us goal \<and> distinct (route_stops routes us) \<and> set (route_stops routes us) \<inter> visited = {}"
  using assms(2)
proof (induction us arbitrary: node visited)
  case (Cons u us)
  note table = route_table [OF assms(1)] and of = route_of_eq [OF assms(1)]
  have reached: "connects routes n vs goal \<Longrightarrow> goal = n \<or> goal \<in> set (route_stops routes vs)" for n vs
    by (induction vs arbitrary: n) (auto simp: route_stops_def of)
  let ?d = "rt_destination_id (route_of routes u)"
  have cons: "route_stops routes (u # us) = ?d # route_stops routes us" by (simp add: route_stops_def)
  have "completes (route_dict routes) (outgoing_routes routes) goal node visited (u # us) \<longleftrightarrow>
      node \<noteq> goal \<and> (\<exists>r \<in> set routes. rt_id r = u \<and> rt_available r \<and> rt_origin_id r = node \<and> rt_destination_id r \<notin> visited \<and>
        completes (route_dict routes) (outgoing_routes routes) goal (rt_destination_id r) (insert (rt_destination_id r) visited) us)"
    using assms(1) by (auto simp: outgoing_routes_set table distinct_map inj_on_def)
  also have "\<dots> \<longleftrightarrow> node \<noteq> goal \<and> (\<exists>r \<in> set routes. rt_id r = u \<and> rt_available r \<and> rt_origin_id r = node \<and>
        rt_destination_id r \<notin> visited \<and> connects routes (rt_destination_id r) us goal \<and> distinct (route_stops routes us) \<and>
        set (route_stops routes us) \<inter> insert (rt_destination_id r) visited = {})"
    using Cons.IH by simp
  also have "\<dots> \<longleftrightarrow> (\<exists>r \<in> set routes. rt_id r = u \<and> rt_available r \<and> rt_origin_id r = node \<and>
        connects routes (rt_destination_id r) us goal \<and> rt_destination_id r \<notin> visited \<and> distinct (route_stops routes us) \<and>
        rt_destination_id r \<notin> set (route_stops routes us) \<and> set (route_stops routes us) \<inter> visited = {})"
  proof -
    have "node \<noteq> goal" if "connects routes n us goal" "n \<notin> visited" "set (route_stops routes us) \<inter> visited = {}" for n
      using reached [OF that(1)] that(2,3) Cons.prems by auto
    then show ?thesis by (auto simp only: Int_insert_right split: if_splits)
  qed
  also have "\<dots> \<longleftrightarrow> (\<exists>r \<in> set routes. rt_id r = u \<and> rt_available r \<and> rt_origin_id r = node \<and>
        connects routes (rt_destination_id r) us goal \<and> ?d \<notin> visited \<and> distinct (route_stops routes us) \<and>
        ?d \<notin> set (route_stops routes us) \<and> set (route_stops routes us) \<inter> visited = {})"
    using of by (intro bex_cong) auto
  also have "\<dots> \<longleftrightarrow> connects routes node (u # us) goal \<and> distinct (route_stops routes (u # us)) \<and>
      set (route_stops routes (u # us)) \<inter> visited = {}"
    unfolding connects.simps cons distinct.simps list.set Int_insert_left
    by (cases "?d \<in> visited") (simp_all only: if_True if_False simp_thms insert_not_empty, blast+)
  finally show ?case .
qed (auto simp: route_stops_def)


lemma search_finds:
  assumes "distinct (map rt_id routes)"
  shows "set (route_search (route_dict routes) (outgoing_routes routes) refinery
      (path_accepted (route_dict routes) required load_ports) [(supplier, [], [supplier])]) =
    {us. supply_path routes supplier refinery required load_ports us}"
proof -
  have "path_accepted (route_dict routes) required load_ports us \<longleftrightarrow>
      required \<in> set us \<and> (\<exists>u \<in> set us. rt_origin_id (route_of routes u) \<in> set load_ports)"
    if "connects routes supplier us refinery" for us
  proof -
    have "\<forall>u \<in> set us. \<exists>r. map_of (route_dict routes) u = Some r"
      using that by (induction us arbitrary: supplier) (auto simp: route_table [OF assms])
    then have "(case map_of (route_dict routes) u of None \<Rightarrow> False | Some r \<Rightarrow> rt_origin_id r \<in> set load_ports) \<longleftrightarrow>
        rt_origin_id (route_of routes u) \<in> set load_ports" if "u \<in> set us" for u
      using that by (auto simp: route_of_def)
    then show ?thesis unfolding path_accepted_def list_ex_iff by blast
  qed
  then show ?thesis
    unfolding route_search_completions
    by (auto simp: completions_def supply_path_def completes_connects [OF assms])
qed

lemma least_path_spec:
  "candidates \<noteq> [] \<Longrightarrow> least_path candidates \<in> set candidates \<and> (\<forall>p \<in> set candidates. least_path candidates \<le> p)"
proof (cases candidates)
  case (Cons p ps)
  have "foldl (\<lambda>best q. if q < best then q else best) p ps \<in> insert p (set ps) \<and>
    (\<forall>q \<in> insert p (set ps). foldl (\<lambda>best q. if q < best then q else best) p ps \<le> q)" for p :: "uuid list" and ps
  proof (induction ps arbitrary: p)
    case (Cons x xs)
    show ?case using Cons.IH [of "if x < p then x else p"] by (auto split: if_splits)
  qed simp
  then show ?thesis by (simp add: Cons least_path_def)
qed simp

text \<open>The path that is returned: the least of the supply paths, and none only if there is none.\<close>

lemma route_path_least:
  assumes "distinct (map rt_id routes)"
  shows "if \<exists>us. supply_path routes supplier refinery required load_ports us
    then supply_path routes supplier refinery required load_ports (route_path routes supplier refinery required load_ports) \<and>
      (\<forall>us. supply_path routes supplier refinery required load_ports us \<longrightarrow>
        route_path routes supplier refinery required load_ports \<le> us)
    else route_path routes supplier refinery required load_ports = []"
proof (cases "route_search (route_dict routes) (outgoing_routes routes) refinery
      (path_accepted (route_dict routes) required load_ports) [(supplier, [], [supplier])] = []")
  case True
  then show ?thesis using search_finds [OF assms, of refinery required load_ports supplier]
    by (auto simp: route_path_def Let_def least_path_def)
next
  case False
  from least_path_spec [OF this] False show ?thesis
    using search_finds [OF assms, of refinery required load_ports supplier]
    by (auto simp: route_path_def Let_def)
qed

end
