(* ===== verification/Procurement_Inputs.thy ===== *)
theory Procurement_Inputs imports Route_Paths Procurement_Costs Simulation_Contracts Py_Text begin

text \<open>
  The procurement input builder and the commercial fixture, \<open>sanjiv/procurement/inputs.py\<close> and
  \<open>fixture.py\<close>: every flow of the simulation result becomes an option of the optimisation input or
  is excluded with a reason, and the shortfalls of the refineries become its demands. The fixture
  file is given parsed; \<open>uuid5\<close>, the hashes and the text of an exception are parameters.
\<close>

section \<open>Inputs and results of the builder\<close>

record planning_horizon =
  hz_starts_at :: datetime
  hz_ends_at :: datetime
  hz_interval_hours :: int

record commercial_option =
  co_components :: "(string, pyfloat) dict"
  co_capacity_ktonne :: pyfloat
  co_available_ktonne :: pyfloat
  co_evidence_ids :: "uuid list"
  co_assumption_ids :: "uuid list"
  co_transport_status :: transport_status
  co_commercially_confirmed :: bool

definition commercial_option_problems :: "commercial_option \<Rightarrow> (bool \<times> py_error) list" where
  "commercial_option_problems c =
    [(\<not> 0 \<le> co_capacity_ktonne c, FieldError ''capacity_ktonne''),
     (\<not> 0 \<le> co_available_ktonne c, FieldError ''available_ktonne'')]"

record demand_requirement =
  dq_refinery_id :: uuid
  dq_interval_start :: datetime
  dq_interval_end :: datetime
  dq_baseline_throughput :: metric
  dq_disrupted_throughput :: metric
  dq_shortfall :: metric

record excluded_option =
  eo_supplier_id :: uuid
  eo_grade_id :: uuid
  eo_route_id :: uuid
  eo_refinery_id :: uuid
  eo_reason :: rejection_reason
  eo_detail :: string

record build_result =
  bd_input :: "optimisation_input option"
  bd_blocking_errors :: "string list"
  bd_warnings :: "string list"
  bd_excluded_options :: "excluded_option list"
  bd_visible_assumptions :: "uuid list"
  bd_evidence_coverage :: "(string, nat) dict"
  bd_input_fingerprint :: "string option"
  bd_demands :: "demand_requirement list"

definition blocked_build :: "string list \<Rightarrow> excluded_option list \<Rightarrow> build_result" where
  "blocked_build errors excluded =
     \<lparr>bd_input = None, bd_blocking_errors = errors, bd_warnings = [], bd_excluded_options = excluded,
      bd_visible_assumptions = [], bd_evidence_coverage = [], bd_input_fingerprint = None, bd_demands = []\<rparr>"

text \<open>What the builder is given for a key of supplier, grade, route and refinery.\<close>

type_synonym commercial_key = "uuid \<times> uuid \<times> uuid \<times> uuid"

section \<open>Bindings\<close>

definition binding_errors ::
  "simulation_run \<Rightarrow> simulation_result \<Rightarrow> confirmed_scenario \<Rightarrow> twin_snapshot \<Rightarrow> planning_horizon \<Rightarrow> string list" where
  "binding_errors run r confirmed snapshot horizon =
     concat (map (\<lambda>(problem, message). if problem then [message] else [])
      [(ru_status run \<noteq> SIM_COMPLETED \<or> ru_result run = None, ''simulation run must be the exact completed run''),
       (sr_run_id r \<noteq> ru_run_id run \<or> sp_simulation_fingerprint (sr_provenance r) \<noteq> ru_simulation_fingerprint run,
          ''simulation result is not bound to the exact run''),
       (cs_scenario_id confirmed \<noteq> ru_scenario_id run \<or> cs_scenario_fingerprint confirmed \<noteq> ru_scenario_fingerprint run,
          ''confirmed scenario is not bound to the exact run''),
       (cs_twin_snapshot confirmed \<noteq> ru_twin_snapshot run \<or> ts_fingerprint snapshot \<noteq> tr_fingerprint (ru_twin_snapshot run),
          ''twin snapshot is not the exact immutable snapshot''),
       (hz_ends_at horizon \<le> hz_starts_at horizon, ''planning horizon is invalid'')])"

text \<open>\<open>timedelta.total_seconds() / 86_400\<close>.\<close>

definition interval_days :: "planning_horizon \<Rightarrow> pyfloat" where
  "interval_days h = of_exact (of_int (hz_ends_at h - hz_starts_at h) / 1000000) / Fin 86400"

section \<open>The tables of a snapshot\<close>

record snapshot_tables =
  tb_nodes :: "(uuid, twin_node) dict"
  tb_routes :: "(uuid, twin_route) dict"
  tb_grades :: "(uuid, crude_grade) dict"
  tb_compatibility :: "(uuid \<times> uuid, refinery_compatibility) dict"
  tb_evidence :: "(uuid, evidence_record) dict"
  tb_assumptions :: "(uuid, assumption) dict"

definition tables_of :: "twin_snapshot \<Rightarrow> (uuid, assumption) dict \<Rightarrow> snapshot_tables" where
  "tables_of s commercial_assumptions =
    \<lparr>tb_nodes = dict_of (map (\<lambda>n. (tn_id n, n)) (ts_nodes s)), tb_routes = route_dict (ts_routes s),
     tb_grades = dict_of (map (\<lambda>g. (cg_id g, g)) (ts_grades s)),
     tb_compatibility = dict_of (map (\<lambda>c. ((rc_grade_id c, rc_refinery_id c), c)) (ts_compatibility s)),
     tb_evidence = dict_of (map (\<lambda>e. (ev_id e, e)) (ts_evidence_records s)),
     tb_assumptions = dict_of (map (\<lambda>a. (as_id a, a)) (ts_assumptions s) @ commercial_assumptions)\<rparr>"

definition kind_ids :: "asset_kind \<Rightarrow> twin_snapshot \<Rightarrow> uuid list" where
  "kind_ids kind s = map tn_id (filter (\<lambda>n. tn_kind n = kind) (ts_nodes s))"

section \<open>Which flows are eligible\<close>

definition exclusion :: "flow_result \<Rightarrow> uuid \<Rightarrow> rejection_reason \<Rightarrow> string \<Rightarrow> excluded_option res" where
  "exclusion f refinery_id reason detail =
     validated [(\<not> len_between 1 500 detail, FieldError ''detail'')]
       \<lparr>eo_supplier_id = fw_supplier_id f, eo_grade_id = fw_grade_id f, eo_route_id = fw_route_id f,
        eo_refinery_id = refinery_id, eo_reason = reason, eo_detail = detail\<rparr>"

record eligible_flow =
  el_flow :: flow_result
  el_route :: twin_route
  el_grade :: crude_grade
  el_compatibility :: refinery_compatibility
  el_commercial :: commercial_option

text \<open>\<open>Inl\<close> the refinery, reason and detail of an exclusion.\<close>

definition screen_commercial ::
  "snapshot_tables \<Rightarrow> commercial_option option \<Rightarrow> flow_result \<Rightarrow> twin_route \<Rightarrow> crude_grade \<Rightarrow> refinery_compatibility
     \<Rightarrow> (uuid \<times> rejection_reason \<times> string) + eligible_flow" where
  "screen_commercial tables commercial f route grade compatibility =
    (let unverified = (\<lambda>detail. Inl (rt_destination_id route, RR_COMMERCIAL_AVAILABILITY_UNVERIFIED, detail)) in
     case commercial of None \<Rightarrow> unverified ''commercial values require evidence or an approved assumption''
     | Some c \<Rightarrow>
         if co_evidence_ids c = [] \<and> co_assumption_ids c = [] then unverified ''commercial values have no provenance''
         else if \<not> set (co_evidence_ids c) \<subseteq> fst ` set (tb_evidence tables)
             \<or> \<not> set (co_assumption_ids c) \<subseteq> fst ` set (tb_assumptions tables)
         then unverified ''commercial provenance is absent from the immutable snapshot''
         else Inr \<lparr>el_flow = f, el_route = route, el_grade = grade, el_compatibility = compatibility, el_commercial = c\<rparr>)"

definition screen_flow ::
  "twin_snapshot \<Rightarrow> snapshot_tables \<Rightarrow> (commercial_key, commercial_option) dict \<Rightarrow> flow_result
     \<Rightarrow> (uuid \<times> rejection_reason \<times> string) + eligible_flow" where
  "screen_flow snapshot tables commercial f =
    (let absent = (\<lambda>refinery_id. Inl (refinery_id, RR_POLICY_EXCLUSION, ''asset absent from frozen snapshot'')) in
     case map_of (tb_routes tables) (fw_route_id f) of None \<Rightarrow> absent 0
     | Some route \<Rightarrow> (let refinery_id = rt_destination_id route in
       case map_of (tb_grades tables) (fw_grade_id f) of None \<Rightarrow> absent refinery_id
       | Some grade \<Rightarrow>
         if fw_supplier_id f \<notin> set (kind_ids SUPPLIER snapshot) then absent refinery_id
         else if refinery_id \<notin> set (kind_ids REFINERY snapshot)
         then Inl (refinery_id, RR_POLICY_EXCLUSION, ''route destination is not a refinery'')
         else case map_of (tb_compatibility tables) (cg_id grade, refinery_id) of
           None \<Rightarrow> Inl (refinery_id, RR_GRADE_INCOMPATIBLE, ''grade/refinery compatibility is not permitted'')
         | Some compatibility \<Rightarrow>
           if \<not> rc_allowed compatibility
           then Inl (refinery_id, RR_GRADE_INCOMPATIBLE, ''grade/refinery compatibility is not permitted'')
           else if \<not> rt_available route
           then Inl (refinery_id, RR_POLICY_EXCLUSION, ''route is unavailable in frozen snapshot'')
           else screen_commercial tables
             (map_of commercial (fw_supplier_id f, cg_id grade, rt_id route, refinery_id)) f route grade compatibility))"


section \<open>One option\<close>

text \<open>\<open>round(x)\<close> to an integer and \<open>timedelta(hours=n)\<close>.\<close>

definition round_to_int :: "pyfloat \<Rightarrow> int res" where
  "round_to_int x = (case x of
     Fin q \<Rightarrow> Inr (rhe q)
   | NaN \<Rightarrow> Inl (ValueError ''cannot convert float NaN to integer'')
   | _ \<Rightarrow> Inl OverflowError)"

definition timedelta_hours :: "int \<Rightarrow> int res" where
  "timedelta_hours n = (let us = n * 3600000000 in
     if us < - 999999999 * day_us \<or> 1000000000 * day_us \<le> us then Inl OverflowError else Inr us)"

definition lookup_key :: "('k, 'v) dict \<Rightarrow> 'k \<Rightarrow> 'v res" where
  "lookup_key d k = (case map_of d k of None \<Rightarrow> Inl KeyError | Some v \<Rightarrow> Inr v)"

definition option_metric ::
  "planning_horizon \<Rightarrow> cost_configuration \<Rightarrow> uuid list \<Rightarrow> pyfloat \<Rightarrow> string \<Rightarrow> string \<Rightarrow> metric res" where
  "option_metric horizon configuration evidence_ids value unit name =
    (let now = hz_starts_at horizon in
     mk_metric \<lparr>me_value = value, me_unit = unit, me_truth_class = DERIVED, me_confidence = Fin 1,
       me_evidence_ids = evidence_ids,
       me_source_refs = [\<lparr>sr_source_id = ''procurement-input-builder'', sr_record_id = name\<rparr>],
       me_effective_at = now, me_fetched_at = now, me_computed_at = now, me_freshness_status = F_CURRENT,
       me_transformation = ''procurement.input-builder.v1'', me_model_version = cc_version configuration\<rparr>)"

text \<open>The window of a path: from the start of the horizon for the transit time, cut at the end of the horizon.\<close>

definition path_transit :: "twin_route list \<Rightarrow> pyfloat" where
  "path_transit path_routes = py_sum (map (\<lambda>r. me_value (rt_transit_time r)) path_routes)"

definition delivery_end :: "planning_horizon \<Rightarrow> pyfloat \<Rightarrow> datetime res" where
  "delivery_end horizon transit_days =
     rbind (round_to_int (transit_days * Fin 24)) (\<lambda>hours.
     rbind (timedelta_hours (max 1 hours)) (\<lambda>d.
     rbind (datetime_add (hz_starts_at horizon) d) (\<lambda>arrival.
       let window_end = min (hz_ends_at horizon) arrival in
       if window_end \<le> hz_starts_at horizon then Inl (ValueError ''delivery interval is outside horizon'')
       else Inr window_end)))"

text \<open>What the disruption leaves of the routes that carry a grade of a supplier, over the horizon.\<close>

definition disrupted_capacity :: "simulation_result \<Rightarrow> pyfloat \<Rightarrow> uuid \<Rightarrow> uuid \<Rightarrow> (uuid, pyfloat) dict" where
  "disrupted_capacity r days supplier_id grade_id =
     dict_of (map (\<lambda>f. (fw_route_id f, me_value (fw_disrupted_capacity f) * days))
       (filter (\<lambda>f. fw_supplier_id f = supplier_id \<and> fw_grade_id f = grade_id) (sr_flows r)))"

definition segment_capacity :: "(uuid, pyfloat) dict \<Rightarrow> pyfloat \<Rightarrow> twin_route \<Rightarrow> pyfloat" where
  "segment_capacity disrupted days r = dict_get disrupted (rt_id r) (me_value (rt_capacity r) * days)"

definition load_port_of :: "crude_grade \<Rightarrow> twin_node list \<Rightarrow> uuid option" where
  "load_port_of grade path_nodes =
     map_option tn_id (find (\<lambda>n. tn_id n \<in> set (cg_load_port_ids grade)) path_nodes)"

definition receiving_port_of :: "twin_node list \<Rightarrow> uuid option" where
  "receiving_port_of path_nodes = map_option tn_id (find (\<lambda>n. tn_kind n = INDIAN_PORT) (rev path_nodes))"

definition sanctions_permitted :: "crude_grade \<Rightarrow> bool" where
  "sanctions_permitted grade \<longleftrightarrow> ascii_upper (cg_sanctions_state grade) \<notin> {''SANCTIONED'', ''PROHIBITED''}"

definition option_id_text :: "eligible_flow \<Rightarrow> datetime \<Rightarrow> string" where
  "option_id_text e start = ''urn:sanjiv:procurement-option:'' @ uuid_str (fw_supplier_id (el_flow e)) @ '':''
     @ uuid_str (cg_id (el_grade e)) @ '':'' @ uuid_str (rt_id (el_route e)) @ '':''
     @ uuid_str (rt_destination_id (el_route e)) @ '':'' @ isoformat start"

text \<open>\<open>commercial.evidence_ids or [next(iter(evidence))]\<close>.\<close>

definition option_evidence :: "snapshot_tables \<Rightarrow> commercial_option \<Rightarrow> uuid list res" where
  "option_evidence tables c =
    (if co_evidence_ids c \<noteq> [] then Inr (co_evidence_ids c)
     else case tb_evidence tables of [] \<Rightarrow> Inl StopIteration | e # _ \<Rightarrow> Inr [fst e])"

definition refinery_capacity_over :: "twin_node \<Rightarrow> pyfloat \<Rightarrow> commercial_option \<Rightarrow> pyfloat" where
  "refinery_capacity_over refinery days c =
    (case tn_capacity refinery of None \<Rightarrow> co_capacity_ktonne c | Some m \<Rightarrow> me_value m * days)"

definition transport_of :: "commercial_option \<Rightarrow> transport_availability res" where
  "transport_of c =
    (let t = \<lparr>tv_status = co_transport_status c, tv_candidate_reference = None,
              tv_commercially_confirmed = co_commercially_confirmed c, tv_evidence_ids = co_evidence_ids c,
              tv_assumption_ids = co_assumption_ids c\<rparr>
     in validated (transport_problems t) t)"

definition transport_unproved :: "commercial_option \<Rightarrow> bool" where
  "transport_unproved c \<longleftrightarrow> co_transport_status c = TS_EVIDENCE_BACKED_CONFIRMED \<and>
     co_commercially_confirmed c \<and> co_evidence_ids c = []"

text \<open>The option over a path, and its fingerprint; the path is not empty.\<close>

definition path_option ::
  "uuid5_fun \<Rightarrow> option_hash \<Rightarrow> simulation_result \<Rightarrow> snapshot_tables \<Rightarrow> planning_horizon \<Rightarrow> cost_configuration
     \<Rightarrow> eligible_flow \<Rightarrow> landed_cost \<Rightarrow> uuid list \<Rightarrow> procurement_option res" where
  "path_option uuid5 sha256 r tables horizon configuration e cost path =
    (let f = el_flow e; grade = el_grade e; route = el_route e; c = el_commercial e;
         days = interval_days horizon; refinery_id = rt_destination_id route; start = hz_starts_at horizon in
     rbind (rtraverse (lookup_key (tb_routes tables)) path) (\<lambda>path_routes.
     rbind (delivery_end horizon (path_transit path_routes)) (\<lambda>window_end.
     rbind (option_evidence tables c) (\<lambda>evidence.
     rbind (lookup_key (tb_nodes tables) refinery_id) (\<lambda>refinery.
     rbind (rtraverse (\<lambda>r. lookup_key (tb_nodes tables) (rt_origin_id r)) path_routes) (\<lambda>path_nodes.
       let m = option_metric horizon configuration evidence;
           disrupted = disrupted_capacity r days (fw_supplier_id f) (cg_id grade);
           capacities = map (segment_capacity disrupted days) path_routes in
     rbind (m (co_capacity_ktonne c) ''ktonne'' ''supplier-capacity'') (\<lambda>supplier_cap.
     rbind (m (co_available_ktonne c) ''ktonne'' ''commercial-availability'') (\<lambda>available.
     rbind (m (py_min_list 0 capacities) ''ktonne'' ''route-capacity'') (\<lambda>route_cap.
     rbind (m (refinery_capacity_over refinery days c) ''ktonne'' ''refinery-capacity'') (\<lambda>refinery_cap.
     rbind (rbind (lookup_key (co_components c) ''commodity_price'') (\<lambda>v. m v ''USD_per_tonne'' ''commodity-price'')) (\<lambda>price.
     rbind (rbind (lookup_key (co_components c) ''freight'') (\<lambda>v. m v ''USD_per_tonne'' ''freight'')) (\<lambda>freight.
     rbind (transport_of c) (\<lambda>transport.
     rbind (m (py_sum (map (\<lambda>r. me_value (rt_distance r)) path_routes)) (me_unit (rt_distance route)) ''route-distance'') (\<lambda>distance.
     rbind (m (path_transit path_routes) (me_unit (rt_transit_time route)) ''transit-time'') (\<lambda>transit.
       let payload = \<lparr>op_option_id = uuid5 (option_id_text e start), op_supplier_id = fw_supplier_id f,
             op_grade_id = cg_id grade, op_route_id = rt_id route, op_refinery_id = refinery_id,
             op_delivery_window_start = start, op_delivery_window_end = window_end,
             op_supplier_capacity = supplier_cap, op_commercially_available_volume = available,
             op_route_capacity = route_cap, op_refinery_receiving_capacity = refinery_cap,
             op_commodity_price = price, op_freight = freight, op_sanctions_permitted = sanctions_permitted grade,
             op_compatibility_permitted = rc_allowed (el_compatibility e), op_transport_availability = transport,
             op_evidence_ids = sorted_ids evidence, op_assumption_ids = sorted_ids (co_assumption_ids c),
             op_landed_cost = Some cost, op_route_distance = Some distance, op_transit_time = Some transit,
             op_chokepoint_ids = sorted_ids (concat (map rt_chokepoint_ids path_routes)),
             op_load_port_id = load_port_of grade path_nodes, op_receiving_port_id = receiving_port_of path_nodes,
             op_route_segment_ids = path,
             op_route_segment_capacities = dict_of (zip (map rt_id path_routes) capacities)\<rparr>;
           o' = option_payload.extend payload (procurement_option.fields None)
       in rmap (\<lambda>o'. o'\<lparr>op_option_fingerprint := Some (procurement_option_fingerprint sha256 o')\<rparr>)
            (validated (option_problems sha256 o') o'))))))))))))))))"

text \<open>The body of the \<open>try\<close>: \<open>Inl\<close> when no path exists.\<close>

definition option_for ::
  "uuid5_fun \<Rightarrow> option_hash \<Rightarrow> simulation_result \<Rightarrow> twin_snapshot \<Rightarrow> snapshot_tables \<Rightarrow> planning_horizon
     \<Rightarrow> cost_configuration \<Rightarrow> eligible_flow \<Rightarrow> (unit + procurement_option) res" where
  "option_for uuid5 sha256 r snapshot tables horizon configuration e =
    (let c = el_commercial e in
     rbind (reconcile_landed_cost (co_components c) configuration (co_evidence_ids c) (co_assumption_ids c)
       (hz_starts_at horizon)) (\<lambda>cost.
     if transport_unproved c then Inl (ValueError ''transport confirmation lacks evidence'')
     else
       let path = route_path (ts_routes snapshot) (fw_supplier_id (el_flow e)) (rt_destination_id (el_route e))
             (rt_id (el_route e)) (cg_load_port_ids (el_grade e)) in
       if path = [] then Inr (Inl ())
       else rmap Inr (path_option uuid5 sha256 r tables horizon configuration e cost path)))"


text \<open>One round of the loop. \<open>KeyError\<close> and \<open>ValueError\<close>, which pydantic's validation error is, exclude the
  flow; other exceptions leave the builder. The text of the exception is a parameter.\<close>

definition flow_outcome ::
  "uuid5_fun \<Rightarrow> option_hash \<Rightarrow> (py_error \<Rightarrow> string) \<Rightarrow> simulation_result \<Rightarrow> twin_snapshot \<Rightarrow> snapshot_tables
     \<Rightarrow> planning_horizon \<Rightarrow> cost_configuration \<Rightarrow> (commercial_key, commercial_option) dict \<Rightarrow> flow_result
     \<Rightarrow> (excluded_option + procurement_option) res" where
  "flow_outcome uuid5 sha256 exc_text r snapshot tables horizon configuration commercial f =
    (case screen_flow snapshot tables commercial f of
       Inl (refinery_id, reason, detail) \<Rightarrow> rmap Inl (exclusion f refinery_id reason detail)
     | Inr e \<Rightarrow> (let refinery_id = rt_destination_id (el_route e) in
         case option_for uuid5 sha256 r snapshot tables horizon configuration e of
           Inr (Inr o') \<Rightarrow> Inr (Inr o')
         | Inr (Inl _) \<Rightarrow> rmap Inl (exclusion f refinery_id RR_DISCONNECTED
             ''no deterministic supplier-to-refinery route path exists'')
         | Inl exc \<Rightarrow>
             if (case exc of ValueError _ \<Rightarrow> True | FieldError _ \<Rightarrow> True | KeyError \<Rightarrow> True | _ \<Rightarrow> False)
             then rmap Inl (exclusion f refinery_id RR_COMMERCIAL_AVAILABILITY_UNVERIFIED (exc_text exc))
             else Inl exc))"

definition sorted_flows :: "simulation_result \<Rightarrow> flow_result list" where
  "sorted_flows r = sort_key (\<lambda>f. [fw_supplier_id f, fw_grade_id f, fw_route_id f]) (sr_flows r)"

definition kept_options :: "(excluded_option + procurement_option) list \<Rightarrow> procurement_option list" where
  "kept_options outcomes = List.map_filter (\<lambda>x. case x of Inl _ \<Rightarrow> None | Inr o' \<Rightarrow> Some o') outcomes"

definition excluded_flows :: "(excluded_option + procurement_option) list \<Rightarrow> excluded_option list" where
  "excluded_flows outcomes = List.map_filter (\<lambda>x. case x of Inl e \<Rightarrow> Some e | Inr _ \<Rightarrow> None) outcomes"

section \<open>Provenance and demands\<close>

definition evidence_reference_of :: "evidence_record \<Rightarrow> evidence_fingerprint res" where
  "evidence_reference_of e =
    (let h = ascii_lower (ev_raw_payload_hash e) in
     validated [(\<not> is_sha256 h, FieldError ''raw_payload_hash'')] \<lparr>ef_evidence_id = ev_id e, ef_raw_payload_hash = h\<rparr>)"

definition assumption_reference_of :: "(assumption \<Rightarrow> string) \<Rightarrow> assumption \<Rightarrow> assumption_fingerprint res" where
  "assumption_reference_of hash a =
     validated [(\<not> is_sha256 (hash a), FieldError ''assumption_hash'')]
       \<lparr>af_assumption_id = as_id a, af_assumption_hash = hash a, af_status = as_status a\<rparr>"

definition used_evidence ::
  "reserve_policy_input \<Rightarrow> hard_constraints \<Rightarrow> simulation_result \<Rightarrow> procurement_option list \<Rightarrow> uuid list" where
  "used_evidence policy hard r options =
     rp_evidence_ids policy
     @ concat (map (\<lambda>o'. op_evidence_ids o' @ tv_evidence_ids (op_transport_availability o')) options)
     @ me_evidence_ids (hc_budget_limit hard) @ me_evidence_ids (hc_supplier_concentration_limit hard)
     @ me_evidence_ids (hc_corridor_concentration_limit hard)
     @ concat (map (\<lambda>t. me_evidence_ids (rr_shortfall t)) (sr_refinery_throughput r))"

definition used_assumptions :: "reserve_policy_input \<Rightarrow> procurement_option list \<Rightarrow> uuid list" where
  "used_assumptions policy options =
     rp_assumption_ids policy
     @ concat (map (\<lambda>o'. op_assumption_ids o' @ tv_assumption_ids (op_transport_availability o')) options)"

definition provenance_of ::
  "simulation_run \<Rightarrow> simulation_result \<Rightarrow> confirmed_scenario \<Rightarrow> twin_snapshot \<Rightarrow> evidence_fingerprint list
     \<Rightarrow> assumption_fingerprint list \<Rightarrow> procurement_provenance res" where
  "provenance_of run r confirmed s evidence assumptions =
    (let p = \<lparr>pv_simulation_run = \<lparr>rf_run_id = ru_run_id run, rf_scenario_id = ru_scenario_id run,
         rf_scenario_fingerprint = ru_scenario_fingerprint run, rf_simulation_fingerprint = ru_simulation_fingerprint run,
         rf_twin_snapshot_id = ts_snapshot_id s, rf_twin_snapshot_fingerprint = ts_fingerprint s,
         rf_model_version = ru_model_version run\<rparr>,
       pv_simulation_result = \<lparr>rs_result_id = sr_result_id r, rs_run_id = ru_run_id run,
         rs_scenario_id = ru_scenario_id run, rs_scenario_fingerprint = ru_scenario_fingerprint run,
         rs_simulation_fingerprint = ru_simulation_fingerprint run, rs_twin_snapshot_id = ts_snapshot_id s,
         rs_twin_snapshot_fingerprint = ts_fingerprint s\<rparr>,
       pv_confirmed_scenario = \<lparr>cn_scenario_id = cs_scenario_id confirmed,
         cn_scenario_fingerprint = cs_scenario_fingerprint confirmed, cn_confirmed_at = cs_confirmed_at confirmed\<rparr>,
       pv_twin_snapshot = \<lparr>tr_snapshot_id = ts_snapshot_id s, tr_fingerprint = ts_fingerprint s,
         tr_version = ts_version s, tr_effective_at = ts_effective_at s\<rparr>,
       pv_evidence = evidence, pv_assumptions = assumptions\<rparr>
     in validated (procurement_provenance_problems p) p)"

definition demand_metric :: "planning_horizon \<Rightarrow> metric \<Rightarrow> metric res" where
  "demand_metric horizon shortfall =
    (let start = hz_starts_at horizon in
     mk_metric \<lparr>me_value = me_value shortfall * interval_days horizon, me_unit = ''ktonne'', me_truth_class = DERIVED,
       me_confidence = me_confidence shortfall, me_evidence_ids = me_evidence_ids shortfall,
       me_source_refs = me_source_refs shortfall, me_effective_at = start,
       me_fetched_at = max start (me_fetched_at shortfall), me_computed_at = max start (me_computed_at shortfall),
       me_freshness_status = me_freshness_status shortfall,
       me_transformation = ''procurement.demand-from-simulation-shortfall.v1'',
       me_model_version = ''procurement-demand-v1''\<rparr>)"

definition demand_of ::
  "planning_horizon \<Rightarrow> refinery_throughput_result \<Rightarrow> (procurement_demand \<times> demand_requirement) res" where
  "demand_of horizon t =
     rbind (demand_metric horizon (rr_shortfall t)) (\<lambda>volume.
       let d = \<lparr>dm_refinery_id = rr_refinery_id t, dm_interval_start = hz_starts_at horizon,
             dm_interval_end = hz_ends_at horizon, dm_required_volume = volume\<rparr>
       in rmap (\<lambda>d. (d, \<lparr>dq_refinery_id = rr_refinery_id t, dq_interval_start = hz_starts_at horizon,
            dq_interval_end = hz_ends_at horizon, dq_baseline_throughput = rr_baseline_throughput t,
            dq_disrupted_throughput = rr_disrupted_throughput t, dq_shortfall = volume\<rparr>))
          (validated (demand_problems d) d))"

section \<open>The builder\<close>

text \<open>The hashes and \<open>uuid5\<close> the builder uses.\<close>

record build_hashes =
  bh_uuid5 :: uuid5_fun
  bh_option :: option_hash
  bh_input :: input_hash
  bh_assumption :: "assumption \<Rightarrow> string"
  bh_exc_text :: "py_error \<Rightarrow> string"

record build_request =
  bq_run :: simulation_run
  bq_result :: simulation_result
  bq_confirmed :: confirmed_scenario
  bq_snapshot :: twin_snapshot
  bq_horizon :: planning_horizon
  bq_reserve_policy :: reserve_policy_input
  bq_hard_constraints :: hard_constraints
  bq_cost_configuration :: cost_configuration
  bq_commercial_inputs :: "(commercial_key, commercial_option) dict"
  bq_commercial_assumptions :: "(uuid, assumption) dict"

definition assemble_input ::
  "build_hashes \<Rightarrow> build_request \<Rightarrow> evidence_fingerprint list \<Rightarrow> assumption_fingerprint list
     \<Rightarrow> procurement_option list \<Rightarrow> excluded_option list \<Rightarrow> build_result res" where
  "assemble_input h q refs arefs options excluded =
    (let evidence = set (used_evidence (bq_reserve_policy q) (bq_hard_constraints q) (bq_result q) options);
         assumptions = set (used_assumptions (bq_reserve_policy q) options);
         kept_refs = filter (\<lambda>x. ef_evidence_id x \<in> evidence) refs;
         kept_arefs = filter (\<lambda>x. af_assumption_id x \<in> assumptions) arefs in
     rbind (provenance_of (bq_run q) (bq_result q) (bq_confirmed q) (bq_snapshot q) kept_refs kept_arefs) (\<lambda>provenance.
     rbind (rtraverse (demand_of (bq_horizon q)) (sort_key rr_refinery_id (sr_refinery_throughput (bq_result q)))) (\<lambda>demands.
       let payload = \<lparr>oi_provenance = provenance, oi_hard_constraints = bq_hard_constraints q,
             oi_reserve_policy = bq_reserve_policy q, oi_options = sort_key op_option_id options,
             oi_demands = map fst demands\<rparr>;
           i = input_payload.extend payload (optimisation_input.fields (bh_input h payload))
       in rbind (validated (optimisation_input_problems (bh_option h) (bh_input h) i) i) (\<lambda>built.
         Inr \<lparr>bd_input = Some built, bd_blocking_errors = [], bd_warnings = [], bd_excluded_options = excluded,
              bd_visible_assumptions = sorted_ids (concat (map op_assumption_ids options)),
              bd_evidence_coverage = [(''evidence'', length kept_refs), (''assumptions'', length kept_arefs)],
              bd_input_fingerprint = Some (oi_input_fingerprint built), bd_demands = map snd demands\<rparr>))))"

definition build_procurement_input :: "build_hashes \<Rightarrow> build_request \<Rightarrow> build_result res" where
  "build_procurement_input h q =
    (let horizon = bq_horizon q; snapshot = bq_snapshot q; commercial_assumptions = bq_commercial_assumptions q;
         errors = binding_errors (bq_run q) (bq_result q) (bq_confirmed q) snapshot horizon;
         tables = tables_of snapshot commercial_assumptions in
     if errors \<noteq> [] then Inr (blocked_build errors [])
     else
     rbind (rtraverse (\<lambda>x. evidence_reference_of (snd x)) (tb_evidence tables)) (\<lambda>refs.
     rbind (rtraverse (\<lambda>x. assumption_reference_of (bh_assumption h) (snd x)) (tb_assumptions tables)) (\<lambda>arefs.
     if list_ex (\<lambda>(u, a). as_status a \<noteq> AS_APPROVED) commercial_assumptions
     then Inr (blocked_build [''all source assumptions must be approved''] [])
     else
     rbind (rany (\<lambda>(u, a). assumption_expired (hz_starts_at horizon) a) commercial_assumptions) (\<lambda>expired.
     if expired
     then Inr (blocked_build [''commercial assumptions must be unexpired for the planning horizon''] [])
     else
     rbind (rtraverse (flow_outcome (bh_uuid5 h) (bh_option h) (bh_exc_text h) (bq_result q) snapshot tables horizon
       (bq_cost_configuration q) (bq_commercial_inputs q)) (sorted_flows (bq_result q))) (\<lambda>outcomes.
       let options = kept_options outcomes; excluded = excluded_flows outcomes in
       if options = [] then Inr (blocked_build [''no eligible procurement options''] excluded)
       else assemble_input h q refs arefs options excluded)))))"

end
