(* ===== verification/Plan_Store.thy ===== *)
theory Plan_Store imports Prelude begin

text \<open>
  The repositories of plans, \<open>InMemoryReserveRepository\<close> and \<open>InMemoryProcurementRepository\<close> of
  \<open>reserve/repository.py\<close> and \<open>procurement/repository.py\<close>, and the interface the services
  rely on: responses are kept under the fingerprint of their request, the first one wins, and every
  plan of a response can be found by its identifier. The reuse of stored responses is proved once
  from the interface.
\<close>

record ('r, 'p) plan_store =
  st_responses :: "(string, 'r) dict"
  st_plans :: "(uuid, 'p) dict"

definition empty_store :: "('r, 'p) plan_store" where
  "empty_store = \<lparr>st_responses = [], st_plans = []\<rparr>"

text \<open>\<open>dict.setdefault\<close>.\<close>

definition set_default :: "('k, 'v) dict \<Rightarrow> 'k \<times> 'v \<Rightarrow> ('k, 'v) dict" where
  "set_default d kv = (case kv of (k, v) \<Rightarrow> if dict_has d k then d else AList.update k v d)"

definition response_by_fingerprint :: "('r, 'p) plan_store \<Rightarrow> string \<Rightarrow> 'r option" where
  "response_by_fingerprint st fingerprint = map_of (st_responses st) fingerprint"

definition stored_plan :: "('r, 'p) plan_store \<Rightarrow> uuid \<Rightarrow> 'p option" where
  "stored_plan st plan_id = map_of (st_plans st) plan_id"

definition save_response ::
  "('r \<Rightarrow> 'p list) \<Rightarrow> ('p \<Rightarrow> uuid) \<Rightarrow> ('r, 'p) plan_store \<Rightarrow> string \<Rightarrow> 'r \<Rightarrow> ('r, 'p) plan_store" where
  "save_response plans_of id_of st fingerprint response =
     \<lparr>st_responses = set_default (st_responses st) (fingerprint, response),
      st_plans = foldl set_default (st_plans st) (map (\<lambda>p. (id_of p, p)) (plans_of response))\<rparr>"

text \<open>
  A request against a repository: the stored response of its fingerprint, marked as reused, or a
  new one that is saved unless computing it fails.
\<close>

definition serve ::
  "('s \<Rightarrow> string \<Rightarrow> 'r option) \<Rightarrow> ('s \<Rightarrow> string \<Rightarrow> 'r \<Rightarrow> 's) \<Rightarrow> ('r \<Rightarrow> 'r) \<Rightarrow> 's \<Rightarrow> string \<Rightarrow> ('e + 'r) \<Rightarrow> 's \<times> ('e + 'r)" where
  "serve lookup_response save reused st fingerprint computed =
    (case lookup_response st fingerprint of
       Some r \<Rightarrow> (st, Inr (reused r))
     | None \<Rightarrow> (case computed of Inl e \<Rightarrow> (st, Inl e) | Inr r \<Rightarrow> (save st fingerprint r, Inr r)))"

locale plan_repository =
  fixes lookup_response :: "'s \<Rightarrow> string \<Rightarrow> 'r option"
    and lookup_plan :: "'s \<Rightarrow> uuid \<Rightarrow> 'p option"
    and save :: "'s \<Rightarrow> string \<Rightarrow> 'r \<Rightarrow> 's"
    and plans_of :: "'r \<Rightarrow> 'p list"
    and id_of :: "'p \<Rightarrow> uuid"
  assumes saved: "lookup_response st f = None \<Longrightarrow> lookup_response (save st f r) f = Some r"
    and kept: "lookup_response st f = Some r' \<Longrightarrow> lookup_response (save st g r) f = Some r'"
    and other: "g \<noteq> f \<Longrightarrow> lookup_response (save st g r) f = lookup_response st f"
    and plan_kept: "lookup_plan st u = Some p \<Longrightarrow> lookup_plan (save st g r) u = Some p"
    and plan_origin: "lookup_plan (save st g r) u = Some p \<Longrightarrow>
      lookup_plan st u = Some p \<or> (p \<in> set (plans_of r) \<and> id_of p = u)"
    and plan_saved: "p \<in> set (plans_of r) \<Longrightarrow> lookup_plan (save st g r) (id_of p) \<noteq> None"
begin

abbreviation "request reused \<equiv> serve lookup_response save reused"

lemma request_reused:
  assumes "request reused st f c = (st', Inr r)" "lookup_response st f = None"
  shows "request reused st' f c' = (st', Inr (reused r))"
  using assms saved [OF assms(2)] by (auto simp: serve_def split: sum.splits)

lemma request_keeps_response:
  "request reused st f c = (st', x) \<Longrightarrow> lookup_response st g = Some r \<Longrightarrow> lookup_response st' g = Some r"
  by (auto simp: serve_def kept split: option.splits sum.splits)

lemma answered_response:
  "request reused st f c = (st', Inr r) \<Longrightarrow> lookup_response st f = None \<Longrightarrow> lookup_response st' f = Some r"
  using saved by (auto simp: serve_def split: sum.splits)

lemma stored_reused: "lookup_response st f = Some r \<Longrightarrow> request reused st f c = (st, Inr (reused r))"
  by (simp add: serve_def)

lemma request_keeps_plans: "request reused st f c = (st', x) \<Longrightarrow> lookup_plan st u = Some p \<Longrightarrow> lookup_plan st' u = Some p"
  by (auto simp: serve_def plan_kept split: option.splits sum.splits)

lemma request_plans_found:
  assumes "request reused st f c = (st', Inr r)" "lookup_response st f = None" "p \<in> set (plans_of r)"
  shows "lookup_plan st' (id_of p) \<noteq> None"
  using assms plan_saved by (auto simp: serve_def split: sum.splits)

lemma failed_request: "request reused st f c = (st', Inl e) \<Longrightarrow> st' = st"
  by (auto simp: serve_def split: option.splits sum.splits)

text \<open>What holds of the plans of every computed response holds of every stored plan.\<close>

lemma request_invariant:
  assumes "request reused st f c = (st', x)" "\<And>u p. lookup_plan st u = Some p \<Longrightarrow> good u p"
    "\<And>r p. c = Inr r \<Longrightarrow> p \<in> set (plans_of r) \<Longrightarrow> good (id_of p) p" "lookup_plan st' u = Some p"
  shows "good u p"
proof (cases "lookup_plan st u = Some p")
  case False
  then obtain r where "c = Inr r" "st' = save st f r"
    using assms(1,4) by (auto simp: serve_def split: option.splits sum.splits)
  with False assms(4) plan_origin show ?thesis using assms(3) by blast
qed (use assms(2) in blast)

end

section \<open>The in-memory repository\<close>

lemma map_of_update: "map_of (AList.update k v d) k' = (if k' = k then Some v else map_of d k')"
  by (simp add: update_conv')

lemma map_of_set_default:
  "map_of (set_default d (k, v)) k' = (if k' = k \<and> map_of d k = None then Some v else map_of d k')"
  by (auto simp: set_default_def dict_has_map_of map_of_update)

lemma foldl_set_default_kept:
  "map_of d k = Some v \<Longrightarrow> map_of (foldl set_default d kvs) k = Some v"
proof (induction kvs arbitrary: d)
  case (Cons kv kvs)
  obtain k' v' where kv: "kv = (k', v')" by force
  have "map_of (set_default d kv) k = Some v" using Cons.prems by (auto simp: kv map_of_set_default)
  from Cons.IH [OF this] show ?case by simp
qed simp

lemma foldl_set_default_origin:
  "map_of (foldl set_default d kvs) k = Some v \<Longrightarrow> map_of d k = Some v \<or> (k, v) \<in> set kvs"
proof (induction kvs arbitrary: d)
  case (Cons kv kvs)
  obtain k' v' where kv: "kv = (k', v')" by force
  have "map_of (foldl set_default (set_default d kv) kvs) k = Some v" using Cons.prems by simp
  from Cons.IH [OF this] show ?case by (auto simp: kv map_of_set_default split: if_splits)
qed simp

lemma foldl_set_default_saved: "(k, v) \<in> set kvs \<Longrightarrow> map_of (foldl set_default d kvs) k \<noteq> None"
proof (induction kvs arbitrary: d)
  case (Cons kv kvs)
  obtain k' v' where kv: "kv = (k', v')" by force
  show ?case
  proof (cases "(k, v) \<in> set kvs")
    case True
    then show ?thesis using Cons.IH by simp
  next
    case False
    with Cons.prems kv have "map_of (set_default d kv) k \<noteq> None" by (auto simp: map_of_set_default)
    then obtain w where "map_of (set_default d kv) k = Some w" by blast
    from foldl_set_default_kept [OF this] show ?thesis by simp
  qed
qed simp

text \<open>The in-memory repository keeps the contract, whatever its responses and plans are.\<close>

lemma in_memory_repository:
  "plan_repository response_by_fingerprint stored_plan (save_response plans_of id_of) plans_of id_of"
  for plans_of :: "'r \<Rightarrow> 'p list" and id_of :: "'p \<Rightarrow> uuid"
proof
  fix st :: "('r, 'p) plan_store" and f g :: string and r r' :: 'r and u :: uuid and p :: 'p
  show "response_by_fingerprint st f = None \<Longrightarrow> response_by_fingerprint (save_response plans_of id_of st f r) f = Some r"
    "response_by_fingerprint st f = Some r' \<Longrightarrow> response_by_fingerprint (save_response plans_of id_of st g r) f = Some r'"
    "g \<noteq> f \<Longrightarrow> response_by_fingerprint (save_response plans_of id_of st g r) f = response_by_fingerprint st f"
    by (auto simp: response_by_fingerprint_def save_response_def map_of_set_default)
  show "stored_plan st u = Some p \<Longrightarrow> stored_plan (save_response plans_of id_of st g r) u = Some p"
    by (simp add: stored_plan_def save_response_def foldl_set_default_kept)
  show "stored_plan (save_response plans_of id_of st g r) u = Some p \<Longrightarrow>
      stored_plan st u = Some p \<or> (p \<in> set (plans_of r) \<and> id_of p = u)"
    using foldl_set_default_origin [of "st_plans st" "map (\<lambda>p. (id_of p, p)) (plans_of r)" u p]
    by (auto simp: stored_plan_def save_response_def)
  show "p \<in> set (plans_of r) \<Longrightarrow> stored_plan (save_response plans_of id_of st g r) (id_of p) \<noteq> None"
    using foldl_set_default_saved [of "id_of p" p "map (\<lambda>p. (id_of p, p)) (plans_of r)" "st_plans st"]
    by (simp add: stored_plan_def save_response_def)
qed

end
