(* ===== verification/Service_Calls.thy ===== *)
theory Service_Calls imports Simulation_Contracts Twin_Contracts begin

text \<open>
  What the procurement and the reserve service share: their errors, a sequence of calls that stops at
  the first one, and the guards on the run and the snapshot they plan for.
\<close>

section \<open>Errors\<close>

text \<open>\<open>ProcurementDomainError\<close> and \<open>ReserveDomainError\<close> with their code and status code, or an exception that propagates; messages are left out.\<close>

datatype service_error = DomainError string nat | Raised py_error

definition raised :: "'a res \<Rightarrow> service_error + 'a" where
  "raised r = (case r of Inl e \<Rightarrow> Inl (Raised e) | Inr x \<Rightarrow> Inr x)"

definition sbind :: "(service_error + 'a) \<Rightarrow> ('a \<Rightarrow> service_error + 'b) \<Rightarrow> service_error + 'b" where
  "sbind r f = (case r of Inl e \<Rightarrow> Inl e | Inr x \<Rightarrow> f x)"

fun straverse :: "('a \<Rightarrow> service_error + 'b) \<Rightarrow> 'a list \<Rightarrow> service_error + 'b list" where
  "straverse f [] = Inr []"
| "straverse f (x # xs) = sbind (f x) (\<lambda>y. sbind (straverse f xs) (\<lambda>ys. Inr (y # ys)))"

definition guard :: "bool \<Rightarrow> service_error \<Rightarrow> service_error + unit" where
  "guard ok e = (if ok then Inr () else Inl e)"

section \<open>Guards\<close>

definition run_ready :: "simulation_run \<Rightarrow> bool" where
  "run_ready run \<longleftrightarrow> ru_status run = SIM_COMPLETED \<and> ru_result run \<noteq> None"

definition snapshot_reproduced :: "twin_snapshot option \<Rightarrow> twin_snapshot_reference \<Rightarrow> bool" where
  "snapshot_reproduced snapshot ref \<longleftrightarrow>
    (case snapshot of None \<Rightarrow> False | Some s \<Rightarrow> ts_fingerprint s = tr_fingerprint ref)"

end
