(* ===== verification/Procurement_Service.thy ===== *)
theory Procurement_Service imports Procurement_Inputs Procurement_Solver Plan_Store Service_Calls begin

text \<open>
  The commercial fixture and the procurement service, \<open>sanjiv/procurement/fixture.py\<close> and
  \<open>service.py\<close>: a request for plans of a completed run is answered from the repository when its
  fingerprint is known, and otherwise by building the input, solving one profile after the other
  and assembling a plan of every usable result. The fixture file is given parsed; the scenario and
  twin services, the hashes and the clock are parameters.
\<close>

section \<open>The fixture\<close>

record fixture_option =
  xo_assumption_id :: uuid
  xo_key :: string
  xo_json :: json_value
  xo_values :: "(string, pyfloat) dict"
  xo_unit :: string
  xo_supplier :: string
  xo_grade :: string
  xo_route :: string
  xo_refinery :: string

record fixture_policy =
  xp_assumption_id :: uuid
  xp_key :: string
  xp_json :: json_value
  xp_value :: pyfloat
  xp_unit :: string

record commercial_fixture =
  cx_classification :: "string option"
  cx_version :: string
  cx_redistribution_rights :: string
  cx_effective_at :: datetime
  cx_expires_at :: datetime
  cx_rationale :: string
  cx_source_gap :: string
  cx_owner :: string
  cx_approved_by :: string
  cx_options :: "fixture_option list"
  cx_policies :: "fixture_policy list"

record fixture_bundle =
  fb_classification :: "string option"
  fb_version :: string
  fb_redistribution_rights :: string
  fb_assumptions :: "(uuid, assumption) dict"
  fb_commercial_inputs :: "(commercial_key, commercial_option) dict"
  fb_hard_constraints :: hard_constraints
  fb_reserve_policy :: reserve_policy_input

definition commercial_assumption ::
  "commercial_fixture \<Rightarrow> uuid \<Rightarrow> string \<Rightarrow> json_value \<Rightarrow> string \<Rightarrow> assumption res" where
  "commercial_assumption raw u key v unit =
    (let effective = cx_effective_at raw;
         a = \<lparr>as_id = u, as_key = ''procurement:'' @ key, as_value = v, as_unit = unit, as_truth_class = ASSUMPTION,
              as_rationale = cx_rationale raw, as_source_gap = cx_source_gap raw, as_owner = cx_owner raw,
              as_entered_at = effective, as_effective_at = utc effective, as_expires_at = Some (utc (cx_expires_at raw)),
              as_approved_at = Some effective, as_approved_by = Some (cx_approved_by raw), as_status = AS_APPROVED,
              as_scenario_id = None, as_supersedes_id = None\<rparr>
     in validated (assumption_problems a) a)"

definition finite_values :: "(string, pyfloat) dict \<Rightarrow> (string, pyfloat) dict res" where
  "finite_values d =
     validated [(list_ex (\<lambda>(k, v). \<not> isfinite v \<or> v < 0) d,
       ValueError ''commercial fixture values must be finite and nonnegative'')] d"

definition fixture_option_input ::
  "uuid5_fun \<Rightarrow> commercial_fixture \<Rightarrow> uuid \<Rightarrow> fixture_option \<Rightarrow> (assumption \<times> commercial_key \<times> commercial_option) res" where
  "fixture_option_input uuid5 raw evidence_id x =
     rbind (commercial_assumption raw (xo_assumption_id x) (xo_key x) (xo_json x) (xo_unit x)) (\<lambda>a.
     rbind (finite_values (xo_values x)) (\<lambda>values.
     rbind (lookup_key values ''capacity_ktonne'') (\<lambda>capacity.
     rbind (lookup_key values ''available_ktonne'') (\<lambda>available.
       let c = \<lparr>co_components = filter (\<lambda>(k, v). k \<notin> {''capacity_ktonne'', ''available_ktonne''}) values,
             co_capacity_ktonne = capacity, co_available_ktonne = available, co_evidence_ids = [evidence_id],
             co_assumption_ids = [as_id a], co_transport_status = TS_CANDIDATE, co_commercially_confirmed = False\<rparr>
       in rmap (\<lambda>c. (a, (canonical_uuid uuid5 (xo_supplier x), canonical_uuid uuid5 (xo_grade x),
             canonical_uuid uuid5 (xo_route x), canonical_uuid uuid5 (xo_refinery x)), c))
           (validated (commercial_option_problems c) c)))))"

definition fixture_policy_value :: "commercial_fixture \<Rightarrow> fixture_policy \<Rightarrow> (assumption \<times> string \<times> pyfloat) res" where
  "fixture_policy_value raw x =
    (if \<not> isfinite (xp_value x) then Inl (ValueError ''commercial policy values must be finite'')
     else rmap (\<lambda>a. (a, xp_key x, xp_value x))
       (commercial_assumption raw (xp_assumption_id x) (xp_key x) (xp_json x) (xp_unit x)))"

definition policy_metric ::
  "commercial_fixture \<Rightarrow> uuid \<Rightarrow> (string, pyfloat \<times> uuid) dict \<Rightarrow> string \<Rightarrow> string \<Rightarrow> metric res" where
  "policy_metric raw evidence_id policy_values key unit =
     rbind (lookup_key policy_values key) (\<lambda>(v, u).
       let effective = cx_effective_at raw in
       mk_metric \<lparr>me_value = v, me_unit = unit, me_truth_class = ASSUMPTION, me_confidence = fl (55 / 100),
         me_evidence_ids = [evidence_id],
         me_source_refs = [\<lparr>sr_source_id = ''commercial-fixture-v1'', sr_record_id = key\<rparr>],
         me_effective_at = effective, me_fetched_at = effective, me_computed_at = effective,
         me_freshness_status = F_CURRENT, me_transformation = ''procurement.fixture-policy.v1'',
         me_model_version = cx_version raw\<rparr>)"

definition fixture_hard_constraints ::
  "commercial_fixture \<Rightarrow> uuid \<Rightarrow> (string, pyfloat \<times> uuid) dict \<Rightarrow> hard_constraints res" where
  "fixture_hard_constraints raw evidence_id policy_values =
    (let m = policy_metric raw evidence_id policy_values in
     rbind (m ''budget'' ''USD'') (\<lambda>budget.
     rbind (m ''supplier_concentration'' ''fraction'') (\<lambda>supplier.
     rbind (m ''corridor_concentration'' ''fraction'') (\<lambda>corridor.
       let h = \<lparr>hc_version = ''procurement-hard-constraints-v1'', hc_budget_limit = budget,
                hc_supplier_concentration_limit = supplier, hc_corridor_concentration_limit = corridor\<rparr>
       in validated (hard_constraints_problems h) h))))"

definition fixture_reserve_policy :: "string \<Rightarrow> uuid list \<Rightarrow> reserve_policy_input res" where
  "fixture_reserve_policy fingerprint policy_ids =
    (let p = \<lparr>rp_policy_id = ''phase-4-fixed-no-reserve-decision'', rp_policy_version = ''fixed-reserve-policy-v1'',
              rp_policy_fingerprint = fingerprint, rp_evidence_ids = [], rp_assumption_ids = policy_ids\<rparr>
     in validated (reserve_policy_problems p) p)"

definition load_commercial_fixture ::
  "uuid5_fun \<Rightarrow> (assumption list \<Rightarrow> string) \<Rightarrow> commercial_fixture \<Rightarrow> twin_snapshot \<Rightarrow> datetime \<Rightarrow> fixture_bundle res" where
  "load_commercial_fixture uuid5 list_hash raw snapshot now =
    (if cx_classification raw \<noteq> Some ''SYNTHETIC_FIXTURE''
     then Inl (ValueError ''commercial fixture must be classified SYNTHETIC_FIXTURE'')
     else if cx_expires_at raw \<le> now then Inl (ValueError ''commercial fixture assumptions are expired'')
     else case sorted_ids (map ev_id (ts_evidence_records snapshot)) of
       [] \<Rightarrow> Inl (ValueError ''min() arg is an empty sequence'')
     | evidence_id # _ \<Rightarrow>
     rbind (rtraverse (fixture_option_input uuid5 raw evidence_id) (cx_options raw)) (\<lambda>options.
     rbind (rtraverse (fixture_policy_value raw) (cx_policies raw)) (\<lambda>policies.
       let assumptions = dict_of (map (\<lambda>a. (as_id a, a)) (map fst options @ map fst policies));
           policy_values = dict_of (map (\<lambda>(a, key, v). (key, (v, as_id a))) policies);
           policy_ids = sort_key (\<lambda>u. u) (map (\<lambda>(key, v, u). u) policy_values) in
     rbind (fixture_hard_constraints raw evidence_id policy_values) (\<lambda>hard.
     rbind (fixture_reserve_policy (list_hash (List.map_filter (map_of assumptions) policy_ids)) policy_ids) (\<lambda>policy.
       Inr \<lparr>fb_classification = cx_classification raw, fb_version = cx_version raw,
            fb_redistribution_rights = cx_redistribution_rights raw, fb_assumptions = assumptions,
            fb_commercial_inputs = dict_of (map snd options), fb_hard_constraints = hard, fb_reserve_policy = policy\<rparr>)))))"


section \<open>Requests and the world\<close>

record procurement_request =
  xq_profiles :: "procurement_profile list"
  xq_time_limit_seconds :: pyfloat

definition procurement_request_problems :: "procurement_request \<Rightarrow> (bool \<times> py_error) list" where
  "procurement_request_problems q =
    [(\<not> len_between 1 3 (xq_profiles q), FieldError ''profiles''),
     (\<not> (isfinite (xq_time_limit_seconds q) \<and> 0 < xq_time_limit_seconds q \<and> xq_time_limit_seconds q \<le> Fin 60),
        FieldError ''time_limit_seconds'')]"

type_synonym procurement_store = "(plan_response, procurement_plan) plan_store"

text \<open>The other services, the fixture file, HiGHS, the hashes and the clock.\<close>

record procurement_world =
  pw_get_run :: "uuid \<Rightarrow> service_error + simulation_run"
  pw_confirmed :: "uuid \<Rightarrow> service_error + confirmed_scenario"
  pw_get_snapshot :: "uuid \<Rightarrow> twin_snapshot option"
  pw_fixture :: commercial_fixture
  pw_solver :: "procurement_model \<Rightarrow> solver_configuration \<Rightarrow> solve_outcome"
  pw_highspy :: string
  pw_clock :: "procurement_profile \<Rightarrow> clock"
  pw_now :: "procurement_profile \<Rightarrow> datetime"
  pw_hashes :: build_hashes
  pw_list_hash :: "assumption list \<Rightarrow> string"
  pw_plan_hash :: plan_hash
  pw_request_hash :: "uuid \<times> string \<times> procurement_profile list \<times> objective_weights list \<times> solver_configuration \<Rightarrow> string"

section \<open>The input of a run\<close>

definition run_horizon :: "simulation_result \<Rightarrow> planning_horizon res" where
  "run_horizon r =
    (case sr_timeline r of [] \<Rightarrow> Inl IndexError
     | first # _ \<Rightarrow> Inr \<lparr>hz_starts_at = tp_starts_at first, hz_ends_at = tp_ends_at (last (sr_timeline r)),
                        hz_interval_hours = 24\<rparr>)"

definition service_cost_configuration :: cost_configuration where
  "service_cost_configuration =
     \<lparr>cc_version = ''landed-cost-v1'', cc_canonical_unit = ''USD_per_tonne'', cc_tolerance = fl (1 / 1000000000),
      cc_emissions_enabled = True, cc_emissions_disabled_rationale = None\<rparr>"

definition build_for_run ::
  "procurement_world \<Rightarrow> simulation_run \<Rightarrow> simulation_result \<Rightarrow> confirmed_scenario \<Rightarrow> twin_snapshot \<Rightarrow> build_result res" where
  "build_for_run world run r confirmed snapshot =
     rbind (run_horizon r) (\<lambda>horizon.
     rbind (load_commercial_fixture (bh_uuid5 (pw_hashes world)) (pw_list_hash world) (pw_fixture world) snapshot
       (hz_starts_at horizon)) (\<lambda>fixture.
       build_procurement_input (pw_hashes world)
         \<lparr>bq_run = run, bq_result = r, bq_confirmed = confirmed, bq_snapshot = snapshot, bq_horizon = horizon,
          bq_reserve_policy = fb_reserve_policy fixture, bq_hard_constraints = fb_hard_constraints fixture,
          bq_cost_configuration = service_cost_configuration, bq_commercial_inputs = fb_commercial_inputs fixture,
          bq_commercial_assumptions = fb_assumptions fixture\<rparr>))"

definition has_demand :: "optimisation_input \<Rightarrow> bool" where
  "has_demand i \<longleftrightarrow> \<not> py_sum (map (\<lambda>d. me_value (dm_required_volume d)) (oi_demands i)) \<le> fl (1 / 1000000000)"

fun procurement_profile_index :: "procurement_profile \<Rightarrow> nat" where
  "procurement_profile_index LOWEST_COST = 0"
| "procurement_profile_index BALANCED = 1"
| "procurement_profile_index HIGHEST_RESILIENCE = 2"

text \<open>What a request needs before the repository is asked: the input, the profiles, the solver
  configuration and the fingerprint of the request.\<close>

definition prepare_procurement ::
  "procurement_world \<Rightarrow> uuid \<Rightarrow> procurement_request
     \<Rightarrow> service_error + (optimisation_input \<times> procurement_profile list \<times> solver_configuration \<times> string)" where
  "prepare_procurement world run_id q =
     sbind (pw_get_run world run_id) (\<lambda>run.
     sbind (guard (run_ready run) (DomainError ''SIMULATION_NOT_COMPLETED'' 409)) (\<lambda>_.
     sbind (pw_confirmed world (ru_scenario_id run)) (\<lambda>confirmed.
       let snapshot = pw_get_snapshot world (tr_snapshot_id (ru_twin_snapshot run)) in
     sbind (guard (snapshot_reproduced snapshot (ru_twin_snapshot run)) (DomainError ''TWIN_FINGERPRINT_MISMATCH'' 409)) (\<lambda>_.
     sbind (raised (build_for_run world run (the (ru_result run)) confirmed (the snapshot))) (\<lambda>built.
     case bd_input built of None \<Rightarrow> Inl (DomainError ''PROCUREMENT_INPUT_BLOCKED'' 409)
     | Some i \<Rightarrow>
     sbind (guard (has_demand i) (DomainError ''NO_PROCUREMENT_DEMAND'' 409)) (\<lambda>_.
       let profiles = unique_first (xq_profiles q) in
     sbind (guard (profiles = sort_key procurement_profile_index profiles) (DomainError ''PROFILE_ORDER_INVALID'' 422)) (\<lambda>_.
     sbind (raised (default_solver_configuration (pw_highspy world) (xq_time_limit_seconds q))) (\<lambda>configuration.
     sbind (raised (rtraverse objective_weights_of profiles)) (\<lambda>weights.
       Inr (i, profiles, configuration,
         pw_request_hash world (run_id, oi_input_fingerprint i, profiles, weights, configuration)))))))))))"

section \<open>One profile\<close>

definition fingerprint_inputs_of ::
  "procurement_profile \<Rightarrow> objective_weights \<Rightarrow> solver_configuration \<Rightarrow> optimisation_input \<Rightarrow> plan_fingerprint_inputs" where
  "fingerprint_inputs_of profile weights configuration i =
    (let p = oi_provenance i in
     \<lparr>fi_model_version = MODEL_VERSION, fi_profile = profile, fi_objective_weights = weights,
      fi_solver_configuration = configuration, fi_optimisation_input = i,
      fi_optimisation_input_fingerprint = oi_input_fingerprint i, fi_simulation_run = pv_simulation_run p,
      fi_simulation_result = pv_simulation_result p, fi_confirmed_scenario = pv_confirmed_scenario p,
      fi_twin_snapshot = pv_twin_snapshot p, fi_hard_constraint_version = hc_version (oi_hard_constraints i),
      fi_reserve_policy_fingerprint = rp_policy_fingerprint (oi_reserve_policy i), fi_evidence = pv_evidence p,
      fi_assumptions = pv_assumptions p\<rparr>)"

definition assemble_procurement_plan ::
  "procurement_world \<Rightarrow> uuid \<Rightarrow> string \<Rightarrow> procurement_profile \<Rightarrow> objective_weights \<Rightarrow> solver_configuration
     \<Rightarrow> optimisation_input \<Rightarrow> solver_result \<Rightarrow> procurement_plan res" where
  "assemble_procurement_plan world run_id actor_id profile weights configuration i r =
    (let h = pw_hashes world; uuid5 = bh_uuid5 h; inputs = fingerprint_inputs_of profile weights configuration i in
     rbind (validated (fingerprint_inputs_problems (bh_option h) (bh_input h) inputs) inputs) (\<lambda>f.
       let fingerprint = procurement_plan_fingerprint (pw_plan_hash world) f r;
           plan_id = uuid5 (''urn:sanjiv:procurement-plan:'' @ fingerprint);
           p = \<lparr>pl_plan_id = plan_id, pl_run_id = run_id, pl_profile = profile, pl_lifecycle = L_FEASIBLE,
                pl_fingerprint_inputs = f, pl_plan_fingerprint = fingerprint, pl_solver_result = r,
                pl_created_at = pw_now world profile,
                pl_audit_event_ids =
                  [uuid5 (''urn:sanjiv:procurement-audit:'' @ uuid_str plan_id @ '':'' @ actor_id)]\<rparr>
       in validated (plan_problems (bh_option h) (bh_input h) (pw_plan_hash world) p) p))"

definition solve_profile ::
  "procurement_world \<Rightarrow> uuid \<Rightarrow> string \<Rightarrow> optimisation_input \<Rightarrow> solver_configuration \<Rightarrow> procurement_profile
     \<Rightarrow> (solver_result \<times> procurement_plan list) res" where
  "solve_profile world run_id actor_id i configuration profile =
     rbind (objective_weights_of profile) (\<lambda>weights.
     rbind (solve_procurement_profile (bh_uuid5 (pw_hashes world)) (bh_option (pw_hashes world)) (pw_solver world)
       (pw_clock world profile) i weights configuration) (\<lambda>result.
       if \<not> usable_status (re_status result) then Inr (result, [])
       else rmap (\<lambda>plan. (result, [plan]))
         (assemble_procurement_plan world run_id actor_id profile weights configuration i result)))"

section \<open>The operations\<close>

definition procurement_response_of ::
  "procurement_world \<Rightarrow> uuid \<Rightarrow> string \<Rightarrow> (solver_result \<times> procurement_plan list) list \<Rightarrow> plan_response res" where
  "procurement_response_of world run_id fingerprint outcomes =
    (let h = pw_hashes world;
         r = \<lparr>rz_request_id = bh_uuid5 h (''urn:sanjiv:procurement-request:'' @ fingerprint), rz_run_id = run_id,
              rz_results = map fst outcomes, rz_plans = concat (map snd outcomes),
              rz_failures = List.map_filter re_failure (map fst outcomes), rz_reused = False\<rparr>
     in validated (plan_response_problems (bh_option h) (bh_input h) (pw_plan_hash world) r) r)"

definition create_procurement_plans ::
  "procurement_world \<Rightarrow> procurement_store \<Rightarrow> uuid \<Rightarrow> procurement_request \<Rightarrow> string
     \<Rightarrow> procurement_store \<times> (service_error + plan_response)" where
  "create_procurement_plans world st run_id q actor_id =
    (case prepare_procurement world run_id q of
       Inl e \<Rightarrow> (st, Inl e)
     | Inr (i, profiles, configuration, fingerprint) \<Rightarrow>
         serve response_by_fingerprint (save_response rz_plans pl_plan_id) (\<lambda>r. r\<lparr>rz_reused := True\<rparr>) st fingerprint
           (raised (rbind (rtraverse (solve_profile world run_id actor_id i configuration) profiles)
             (procurement_response_of world run_id fingerprint))))"

definition get_procurement_plan :: "procurement_store \<Rightarrow> uuid \<Rightarrow> service_error + procurement_plan" where
  "get_procurement_plan st plan_id =
    (case stored_plan st plan_id of None \<Rightarrow> Inl (DomainError ''PROCUREMENT_PLAN_NOT_FOUND'' 404) | Some p \<Rightarrow> Inr p)"

end
