(* ===== verification/Procurement_Solver_Props.thy ===== *)
theory Procurement_Solver_Props imports Procurement_Solver_Check Procurement_Props Procurement_Service begin

text \<open>
  The properties of the procurement solver and of the plans made from its results: what a usable
  result was read from, that a checked answer is always planned, and when a usable result becomes a
  plan.
\<close>

section \<open>A concrete solution\<close>

definition example_solution :: pyomo_outcome where
  "example_solution = \<lparr>po_termination = TC_OPTIMAL, po_status = PS_OK, po_amounts = (\<lambda>u. Fin 50),
     po_shortage = (\<lambda>u. Fin 10), po_objective = Fin 35\<rparr>"

definition solution_clock :: clock where
  "solution_clock = \<lparr>ck_started = 0, ck_completed = 1, ck_elapsed = 1, ck_checked = 0\<rparr>"

definition solution_uuid5 :: uuid5_fun where "solution_uuid5 t = 7"

abbreviation example_solve :: "solver_result res" where
  "example_solve \<equiv> solve_procurement_profile solution_uuid5 example_option_hash (\<lambda>m c. SOLVED example_solution) solution_clock
     example_input example_weights example_configuration'"

lemma example_model_built:
  "case build_model example_input example_weights of Inl e \<Rightarrow> False
   | Inr m \<Rightarrow> pm_options m = [11] \<and> pm_refineries m = [15] \<and> length (pm_rows m) \<le> 10000"
  by code_simp


lemma example_model:
  obtains model where "build_model example_input example_weights = Inr model" "pm_options model = [11]"
    "pm_refineries model = [15]" "length (pm_rows model) \<le> MAX_MODEL_CONSTRAINTS"
  using example_model_built by (auto simp: MAX_MODEL_CONSTRAINTS_def split: sum.splits)

lemma example_solution_read:
  "read_values (po_amounts example_solution) [11] = example_answer"
  "read_values (po_shortage example_solution) [15] = example_shortage"
  by (simp_all add: read_values_def example_solution_def py_max_def less_pyfloat_def zero_pyfloat_def)

lemma example_solution_fields:
  "po_termination example_solution = TC_OPTIMAL" "po_status example_solution = PS_OK" "po_objective example_solution = Fin 35"
  "ck_started solution_clock = 0" "ck_completed solution_clock = 1" "ck_elapsed solution_clock = 1" "ck_checked solution_clock = 0"
  by (simp_all add: example_solution_def solution_clock_def)

lemma example_option_used: "used example_answer example_option" "example_option \<in> set (oi_options example_input)"
  by (simp_all add: used_def quantity_of_def example_options dict_get_def example_option_def example_option_payload_def
      option_payload.defs procurement_option.defs) code_simp

lemma example_configuration_ok: "first_error (solver_configuration_problems example_configuration') = None" by code_simp

lemma example_sums: "isfinite (py_sum (map snd example_answer))" "isfinite (py_sum (map snd example_shortage))"
  by code_simp+

lemma procurement_example_solved: "\<exists>r. example_solve = Inr r \<and> usable_status (re_status r)"
proof -
  obtain model where m: "build_model example_input example_weights = Inr model" "pm_options model = [11]"
    "pm_refineries model = [15]" "length (pm_rows model) \<le> MAX_MODEL_CONSTRAINTS" by (rule example_model)
  obtain check breakdown report where c:
    "independent_check example_option_hash example_input example_weights example_answer example_shortage (Fin 35) 0
       = Inr (check, breakdown, report)" "ic_passed check" by (rule example_checked)
  note q = example_solution_read [folded m(2,3), symmetric]
  show ?thesis
    by (rule checked_answer_returns [OF example_input_valid example_weights_ok example_configuration_ok _ _ m(1,4) refl
          _ _ _ q _ c(2) example_option_used(2,1) example_sums])
      (use c(1) in \<open>simp_all add: example_solution_fields\<close>)
qed

section \<open>Usable results\<close>

text \<open>C8: A usable procurement result is a checked plan of the values read from HiGHS. On a valid input, a
  result that is optimal or feasible was read from an outcome of the model built for the input:
  the quantities and shortages meet every hard constraint, its actions are, in the order of the
  options, one per option that ships more than 1e-7 ktonne, each with the option's supplier, route,
  refinery, window and cost and the shipped quantity, its rejected options are exactly the others,
  delivered volume and shortage are the sums, the check passed and there is no failure.\<close>

theorem usable_procurement_result:
  assumes "optimisation_input_valid sha256 input_sha256 i"
    "solve_procurement_profile uuid5 sha256 solver clock i weights configuration = Inr r" "usable_status (re_status r)"
  shows "\<exists>model outcome quantities shortages.
    build_model i weights = Inr model \<and> solver model configuration = SOLVED outcome \<and>
    quantities = read_values (po_amounts outcome) (pm_options model) \<and>
    shortages = read_values (po_shortage outcome) (pm_refineries model) \<and>
    hard_constraints_met i quantities shortages \<and>
    list_all2 (\<lambda>o' a. action_ships o' (quantity_of quantities o') a) (filter (used quantities) (oi_options i)) (re_actions r) \<and>
    map ro_option_id (re_rejected_options r) = map op_option_id (filter (\<lambda>o'. \<not> used quantities o') (oi_options i)) \<and>
    map_option me_value (re_delivered_volume r) = Some (py_sum (map snd quantities)) \<and>
    map_option me_value (re_shortage r) = Some (py_sum (map snd shortages)) \<and>
    re_actions r \<noteq> [] \<and> check_passed (re_independent_check r) \<and> re_failure r = None"
proof -
  from assms(2,3) obtain model outcome timed_out where m: "build_model i weights = Inr model"
    "solver model configuration = SOLVED outcome"
    "solved_outcome uuid5 sha256 i weights configuration clock timed_out model outcome = Inr r" by (rule usable_solveE)
  let ?q = "read_values (po_amounts outcome) (pm_options model)"
  let ?s = "read_values (po_shortage outcome) (pm_refineries model)"
  from m(3) assms(3) obtain check breakdown report actions where c:
    "independent_check sha256 i weights ?q ?s (po_objective outcome) (ck_checked clock) = Inr (check, breakdown, report)"
    "ic_passed check" "actions_of uuid5 i (ow_profile weights) ?q (ic_checked_at check) = Inr actions" "actions \<noteq> []"
    "planned_solve uuid5 i weights configuration clock timed_out ?q ?s actions (check, breakdown, report) = Inr r"
    by (rule usable_outcomeE)
  from c(5) obtain refused d s where p: "unused_rejections i ?q = Inr refused"
    "me_value d = py_sum (map snd ?q)" "me_value s = py_sum (map snd ?s)"
    "re_actions r = actions" "re_rejected_options r = refused" "re_delivered_volume r = Some d" "re_shortage r = Some s"
    "re_independent_check r = Some check" "re_failure r = None"
    by (rule planned_solve_fields) simp
  have "hard_constraints_met i ?q ?s" using check_decides [OF assms(1) c(1)] c(2) by blast
  moreover note actions_of_ships(1) [OF c(3) check_results_valid(5) [OF c(1)]] unused_rejections_ids(1) [OF p(1)]
  ultimately show ?thesis using m(1,2) c(2,4) p by (intro exI [of _ model] exI [of _ outcome]) (simp add: check_passed_def)
qed

theorem usable_procurement_result_witness:
  "\<exists>r. example_solve = Inr r \<and> usable_status (re_status r) \<and> re_actions r \<noteq> [] \<and> check_passed (re_independent_check r)"
proof -
  obtain r where r: "example_solve = Inr r" "usable_status (re_status r)" using procurement_example_solved by blast
  from usable_procurement_result [OF example_input_valid r] r show ?thesis by blast
qed

section \<open>Checked answers\<close>

text \<open>C12: A checked answer is always planned. On a valid input whose model keeps the bound on constraints, when
  HiGHS ends with a usable termination and status, the check of the values read from it passes, at
  least one option ships more than 1e-7 and the sums are finite, the solver returns a usable result:
  no validation of actions, rejections, metadata or result can turn it into an exception.\<close>

theorem checked_answer_planned:
  assumes "optimisation_input_valid sha256 input_sha256 i" "first_error (objective_weights_problems weights) = None"
    "first_error (solver_configuration_problems configuration) = None"
    "ck_started clock \<le> ck_completed clock" "isfinite (ck_elapsed clock)"
    "build_model i weights = Inr model" "length (pm_rows model) \<le> MAX_MODEL_CONSTRAINTS"
    "solver model configuration = SOLVED outcome"
    "po_termination outcome \<in> {TC_OPTIMAL, TC_FEASIBLE, TC_MAX_TIME, TC_MAX_ITERATIONS}"
    "po_status outcome \<in> {PS_OK, PS_WARNING}" "isfinite (po_objective outcome)"
    "quantities = read_values (po_amounts outcome) (pm_options model)"
    "shortages = read_values (po_shortage outcome) (pm_refineries model)"
    "independent_check sha256 i weights quantities shortages (po_objective outcome) (ck_checked clock) = Inr (check, breakdown, report)"
    "ic_passed check" "o' \<in> set (oi_options i)" "used quantities o'"
    "isfinite (py_sum (map snd quantities))" "isfinite (py_sum (map snd shortages))"
  shows "\<exists>r. solve_procurement_profile uuid5 sha256 solver clock i weights configuration = Inr r \<and> usable_status (re_status r)"
  by (rule checked_answer_returns [where solver = solver, OF assms])

theorem checked_answer_planned_witness: "\<exists>r. example_solve = Inr r \<and> usable_status (re_status r)"
proof -
  obtain model where m: "build_model example_input example_weights = Inr model" "pm_options model = [11]"
    "pm_refineries model = [15]" "length (pm_rows model) \<le> MAX_MODEL_CONSTRAINTS" by (rule example_model)
  obtain check breakdown report where c:
    "independent_check example_option_hash example_input example_weights example_answer example_shortage (Fin 35) 0
       = Inr (check, breakdown, report)" "ic_passed check" by (rule example_checked)
  note q = example_solution_read [folded m(2,3), symmetric]
  show ?thesis
    by (rule checked_answer_planned [OF example_input_valid example_weights_ok example_configuration_ok _ _ m(1,4) refl
          _ _ _ q _ c(2) example_option_used(2,1) example_sums])
      (use c(1) in \<open>simp_all add: example_solution_fields\<close>)
qed

section \<open>Plans\<close>

lemma valid_input_binding:
  assumes "optimisation_input_valid option_sha256 input_sha256 i"
  shows "first_error (procurement_provenance_problems (oi_provenance i)) = None" "is_sha256 (oi_input_fingerprint i)"
    "is_sha256 (rp_policy_fingerprint (oi_reserve_policy i))" "len_between 1 100 (hc_version (oi_hard_constraints i))"
    "referenced_evidence i = ef_evidence_id ` set (pv_evidence (oi_provenance i))"
    "referenced_assumptions i = af_assumption_id ` set (pv_assumptions (oi_provenance i))"
proof -
  note no = first_error_NoneD [OF assms [unfolded optimisation_input_valid_def]]
  show "first_error (procurement_provenance_problems (oi_provenance i)) = None"
    using no [of "first_error (procurement_provenance_problems (oi_provenance i)) \<noteq> None" "FieldError ''provenance''"]
    by (simp add: optimisation_input_problems_def Let_def)
  show "is_sha256 (oi_input_fingerprint i)"
    using no [of "\<not> is_sha256 (oi_input_fingerprint i)" "FieldError ''input_fingerprint''"]
    by (simp add: optimisation_input_problems_def Let_def)
  have "first_error (reserve_policy_problems (oi_reserve_policy i)) = None"
    using no [of "first_error (reserve_policy_problems (oi_reserve_policy i)) \<noteq> None" "FieldError ''reserve_policy''"]
    by (simp add: optimisation_input_problems_def Let_def)
  then show "is_sha256 (rp_policy_fingerprint (oi_reserve_policy i))"
    unfolding reserve_policy_problems_def no_error_simps by blast
  show "len_between 1 100 (hc_version (oi_hard_constraints i))" by (rule valid_input_parts(3) [OF assms])
  show "referenced_evidence i = ef_evidence_id ` set (pv_evidence (oi_provenance i))"
    using no [of "referenced_evidence i \<noteq> ef_evidence_id ` set (pv_evidence (oi_provenance i))"
      "ValueError ''procurement input evidence fingerprints must exactly match referenced evidence''"]
    by (simp add: optimisation_input_problems_def Let_def)
  show "referenced_assumptions i = af_assumption_id ` set (pv_assumptions (oi_provenance i))"
    using no [of "referenced_assumptions i \<noteq> af_assumption_id ` set (pv_assumptions (oi_provenance i))"
      "ValueError ''procurement input assumption fingerprints must exactly match referenced assumptions''"]
    by (simp add: optimisation_input_problems_def Let_def)
qed

lemma fingerprint_provenance_of [simp]:
  "fingerprint_provenance (fingerprint_inputs_of profile weights configuration i) = oi_provenance i"
  by (simp add: fingerprint_provenance_def fingerprint_inputs_of_def Let_def)

lemma fingerprint_inputs_accepted:
  assumes "optimisation_input_valid option_sha256 input_sha256 i" "first_error (objective_weights_problems weights) = None"
    "first_error (solver_configuration_problems configuration) = None"
  shows "first_error (fingerprint_inputs_problems option_sha256 input_sha256
      (fingerprint_inputs_of (ow_profile weights) weights configuration i)) = None"
  using assms valid_input_binding [OF assms(1)]
  unfolding fingerprint_inputs_problems_def no_error_simps fingerprint_provenance_of
  by (simp add: fingerprint_inputs_of_def Let_def MODEL_VERSION_def len_between_def)

text \<open>Whether the plan validator accepts the action of an option depends on three facts about the option.\<close>

definition plannable :: "procurement_option \<Rightarrow> pyfloat \<Rightarrow> bool" where
  "plannable o' quantity \<longleftrightarrow> op_sanctions_permitted o' \<and> op_compatibility_permitted o' \<and> \<not> option_cap o' < quantity"

lemma action_planned:
  assumes "optimisation_input_valid option_sha256 input_sha256 i" "o' \<in> set (oi_options i)" "action_ships o' quantity a"
  shows "plan_action_problem (oi_options i) a = None \<longleftrightarrow> plannable o' quantity"
    "reference_problem (set (map ef_evidence_id (pv_evidence (oi_provenance i))))
       (set (map af_assumption_id (pv_assumptions (oi_provenance i)))) a = None"
proof -
  have d: "distinct (map fst (map (\<lambda>o'. (op_option_id o', o')) (oi_options i)))"
    using valid_input_distinct [OF assms(1)] by (simp add: input_distinct_def comp_def)
  have "map_of (dict_of (map (\<lambda>o'. (op_option_id o', o')) (oi_options i))) (op_option_id o') = Some o'"
    unfolding map_of_dict_of_distinct [OF d] using d assms(2) by (intro map_of_is_SomeI) auto
  with assms(3) show "plan_action_problem (oi_options i) a = None \<longleftrightarrow> plannable o' quantity"
    by (auto simp: plan_action_problem_def action_option_problems_def no_error_simps action_ships_def plannable_def)
  have "set (op_evidence_ids o') \<subseteq> referenced_evidence i" "set (op_assumption_ids o') \<subseteq> referenced_assumptions i"
    using assms(2) by (auto simp: referenced_evidence_def referenced_assumptions_def)
  with assms(3) valid_input_binding(5,6) [OF assms(1)] show "reference_problem (set (map ef_evidence_id (pv_evidence (oi_provenance i))))
       (set (map af_assumption_id (pv_assumptions (oi_provenance i)))) a = None"
    by (auto simp: reference_problem_def action_ships_def)
qed

lemma solved_bindings:
  assumes "planned_solve uuid5 i weights configuration clock timed_out quantities shortages actions (check, breakdown, report) = Inr r"
  shows "re_profile r = ow_profile weights" "re_metadata r = solver_metadata_of weights configuration clock"
    "re_actions r = actions" "solver_result_valid r" "re_independent_check r = Some check"
proof -
  from assms obtain refused d s where r: "r = (bare_result (result_id_of uuid5 i (ow_profile weights)) weights configuration clock
           (if timed_out then FEASIBLE else OPTIMAL))
         \<lparr>re_objective := Some breakdown, re_actions := actions, re_supplier_allocations := map ac_supplier actions,
          re_route_allocations := map ac_route actions, re_refinery_allocations := map ac_refinery actions,
          re_constraints := Some report, re_rejected_options := refused, re_independent_check := Some check,
          re_delivered_volume := Some d, re_shortage := Some s\<rparr>" "first_error (solver_result_problems r) = None"
    by (rule planned_solve_fields)
  show "solver_result_valid r" using r(2) by (simp add: solver_result_valid_def)
  show "re_profile r = ow_profile weights" "re_metadata r = solver_metadata_of weights configuration clock"
    "re_actions r = actions" "re_independent_check r = Some check" by (simp_all add: r(1))
qed

lemma list_all2_each:
  assumes "list_all2 P xs ys" "\<And>x y. x \<in> set xs \<Longrightarrow> P x y \<Longrightarrow> R y \<longleftrightarrow> Q x"
  shows "(\<forall>y \<in> set ys. R y) \<longleftrightarrow> (\<forall>x \<in> set xs. Q x)"
  using assms by (induction rule: list_all2_induct) auto

text \<open>The plan validator accepts the plan of a usable result exactly when every option it uses is plannable.\<close>

lemma result_planned_iff:
  assumes "optimisation_input_valid (bh_option (pw_hashes world)) (bh_input (pw_hashes world)) i"
    "first_error (objective_weights_problems weights) = None" "first_error (solver_configuration_problems configuration) = None"
    "hc_version (oi_hard_constraints i) = ''procurement-hard-constraints-v1''" "ic_passed check"
    "planned_solve uuid5 i weights configuration clock timed_out quantities shortages actions (check, breakdown, report) = Inr r"
    "list_all2 (\<lambda>o' a. action_ships o' (quantity_of quantities o') a) (filter (used quantities) (oi_options i)) actions"
    "is_sha256 (pw_plan_hash world (fingerprint_inputs_of (ow_profile weights) weights configuration i, r))"
  shows "(\<exists>p. assemble_procurement_plan world (rf_run_id (pv_simulation_run (oi_provenance i))) actor (ow_profile weights)
        weights configuration i r = Inr p) \<longleftrightarrow>
      (\<forall>o' \<in> set (oi_options i). used quantities o' \<longrightarrow> plannable o' (quantity_of quantities o'))"
proof -
  note b = solved_bindings [OF assms(6)]
  note f = fingerprint_inputs_accepted [OF assms(1-3)]
  have "usable_status (re_status r)" by (rule planned_solve_fields [OF assms(6)]) (simp add: usable_status_def)
  moreover have "(\<forall>a \<in> set actions. plan_action_problem (oi_options i) a = None) \<longleftrightarrow>
      (\<forall>o' \<in> set (filter (used quantities) (oi_options i)). plannable o' (quantity_of quantities o'))"
    by (rule list_all2_each [OF assms(7)]) (use action_planned(1) [OF assms(1)] in auto)
  moreover have "(\<forall>a \<in> set actions. reference_problem (set (map ef_evidence_id (pv_evidence (oi_provenance i))))
       (set (map af_assumption_id (pv_assumptions (oi_provenance i)))) a = None) \<longleftrightarrow>
      (\<forall>o' \<in> set (filter (used quantities) (oi_options i)). True)"
    by (rule list_all2_each [OF assms(7)]) (use action_planned(2) [OF assms(1)] in auto)
  ultimately show ?thesis
    using f assms(4,5,8) b
    unfolding assemble_procurement_plan_def Let_def validated_ok [OF f] rbind_simps validated_Inr plan_problems_def
      plan_binding_problems_def no_error_simps each_None
    by (auto simp: fingerprint_inputs_of_def Let_def procurement_plan_fingerprint_def check_passed_def solver_metadata_of_def
        require_unique_def len_between_def)
qed

text \<open>C9: A usable result becomes a plan exactly when its actions are plannable. On a valid input, the service
  assembles a plan from a usable result of the solver if and only if every action ships at most the
  capacity of its option and the option is neither sanctioned nor incompatible. The independent
  check tolerates 1e-6 ktonne of either, and an option counts as used from 1e-7 on, so a checked
  result in between makes the validator of the plan raise.\<close>

theorem result_planned_iff_actions_plannable:
  assumes "optimisation_input_valid (bh_option (pw_hashes world)) (bh_input (pw_hashes world)) i"
    "first_error (objective_weights_problems weights) = None" "first_error (solver_configuration_problems configuration) = None"
    "hc_version (oi_hard_constraints i) = ''procurement-hard-constraints-v1''"
    "solve_procurement_profile uuid5 (bh_option (pw_hashes world)) solver clock i weights configuration = Inr r"
    "usable_status (re_status r)"
    "is_sha256 (pw_plan_hash world (fingerprint_inputs_of (ow_profile weights) weights configuration i, r))"
  shows "(\<exists>p. assemble_procurement_plan world (rf_run_id (pv_simulation_run (oi_provenance i))) actor (ow_profile weights)
        weights configuration i r = Inr p) \<longleftrightarrow>
      (\<forall>a \<in> set (re_actions r). \<forall>o' \<in> set (oi_options i). op_option_id o' = ac_option_id a \<longrightarrow>
         op_sanctions_permitted o' \<and> op_compatibility_permitted o' \<and> \<not> option_cap o' < me_value (sa_volume (ac_supplier a)))"
proof -
  from assms(5,6) obtain model outcome timed_out where
    "solved_outcome uuid5 (bh_option (pw_hashes world)) i weights configuration clock timed_out model outcome = Inr r"
    by (rule usable_solveE)
  then obtain quantities shortages check breakdown report actions where c:
    "independent_check (bh_option (pw_hashes world)) i weights quantities shortages (po_objective outcome) (ck_checked clock)
       = Inr (check, breakdown, report)"
    "ic_passed check" "actions_of uuid5 i (ow_profile weights) quantities (ic_checked_at check) = Inr actions"
    "planned_solve uuid5 i weights configuration clock timed_out quantities shortages actions (check, breakdown, report) = Inr r"
    using assms(6) by (rule usable_outcomeE) blast
  note ships = actions_of_ships(1) [OF c(3) check_results_valid(5) [OF c(1)]]
  have unique: "o'' = o'" if "o' \<in> set (oi_options i)" "o'' \<in> set (oi_options i)" "op_option_id o'' = op_option_id o'" for o' o''
    using valid_input_distinct [OF assms(1)] that by (auto simp: input_distinct_def distinct_map inj_on_def)
  have "(\<forall>a \<in> set actions. \<forall>o' \<in> set (oi_options i). op_option_id o' = ac_option_id a \<longrightarrow>
         plannable o' (me_value (sa_volume (ac_supplier a)))) \<longleftrightarrow>
      (\<forall>o' \<in> set (filter (used quantities) (oi_options i)). plannable o' (quantity_of quantities o'))"
    by (rule list_all2_each [OF ships]) (use unique in \<open>auto simp: action_ships_def\<close>)
  with result_planned_iff [OF assms(1-4) c(2,4) ships assms(7)] solved_bindings(3) [OF c(4)] show ?thesis
    by (simp add: plannable_def) blast
qed

definition solution_world :: procurement_world where
  "solution_world =
     \<lparr>pw_get_run = (\<lambda>u. Inl (DomainError ''SIMULATION_RUN_NOT_FOUND'' 404)),
      pw_confirmed = (\<lambda>u. Inl (DomainError ''SCENARIO_NOT_FOUND'' 404)), pw_get_snapshot = (\<lambda>u. None),
      pw_fixture = \<lparr>cx_classification = Some ''SYNTHETIC_FIXTURE'', cx_version = ''1'', cx_redistribution_rights = ''r'',
        cx_effective_at = 0, cx_expires_at = 1000, cx_rationale = ''r'', cx_source_gap = ''g'', cx_owner = ''o'',
        cx_approved_by = ''a'', cx_options = [], cx_policies = []\<rparr>,
      pw_solver = (\<lambda>m c. SOLVED example_solution), pw_highspy = ''1.0'', pw_clock = (\<lambda>p. solution_clock),
      pw_now = (\<lambda>p. 2),
      pw_hashes = \<lparr>bh_uuid5 = solution_uuid5, bh_option = example_option_hash, bh_input = example_input_hash,
        bh_assumption = (\<lambda>a. sixty_four), bh_exc_text = (\<lambda>e. [])\<rparr>,
      pw_list_hash = (\<lambda>a. sixty_four), pw_plan_hash = example_plan_hash, pw_request_hash = (\<lambda>q. sixty_four)\<rparr>"

lemma solution_world_fields:
  "bh_option (pw_hashes solution_world) = example_option_hash" "bh_input (pw_hashes solution_world) = example_input_hash"
  "pw_plan_hash solution_world x = sixty_four"
  by (simp_all add: solution_world_def example_plan_hash_def)

lemma example_bindings:
  "hc_version (oi_hard_constraints example_input) = ''procurement-hard-constraints-v1''" "is_sha256 sixty_four"
  "op_sanctions_permitted example_option \<and> op_compatibility_permitted example_option \<and> \<not> option_cap example_option < Fin 50"
  "quantity_of example_answer example_option = Fin 50"
  by code_simp+

theorem result_planned_iff_actions_plannable_witness:
  "\<exists>r p. example_solve = Inr r \<and> usable_status (re_status r) \<and>
    assemble_procurement_plan solution_world (rf_run_id (pv_simulation_run (oi_provenance example_input))) ''actor''
      (ow_profile example_weights) example_weights example_configuration' example_input r = Inr p"
proof -
  obtain r where r: "example_solve = Inr r" "usable_status (re_status r)" using procurement_example_solved by blast
  from r obtain model outcome timed_out where m: "build_model example_input example_weights = Inr model"
    "SOLVED example_solution = SOLVED outcome"
    "solved_outcome solution_uuid5 example_option_hash example_input example_weights example_configuration' solution_clock
       timed_out model outcome = Inr r" by (rule usable_solveE)
  then have "po_amounts outcome = po_amounts example_solution" "pm_options model = [11]"
    using example_model_built by auto
  with m(3) r(2) obtain check breakdown report actions where c:
    "independent_check example_option_hash example_input example_weights example_answer
       (read_values (po_shortage outcome) (pm_refineries model)) (po_objective outcome) (ck_checked solution_clock)
       = Inr (check, breakdown, report)"
    "actions_of solution_uuid5 example_input (ow_profile example_weights) example_answer (ic_checked_at check) = Inr actions"
    "re_actions r = actions"
    using example_solution_read(1) by (metis usable_outcomeE solved_bindings(3))
  have "\<forall>a \<in> set (re_actions r). me_value (sa_volume (ac_supplier a)) = Fin 50"
    unfolding c(3) using actions_of_ships(1) [OF c(2) check_results_valid(5) [OF c(1)]] example_bindings(4) example_options
    by (auto simp: list_all2_Cons1 action_ships_def split: if_splits)
  then show ?thesis
    using result_planned_iff_actions_plannable [of solution_world, unfolded solution_world_fields, OF example_input_valid
        example_weights_ok example_configuration_ok example_bindings(1) r example_bindings(2), of "''actor''"]
      r example_bindings(3) example_options by auto
qed

end
