(* ===== verification/Procurement_Input_Example.thy ===== *)
theory Procurement_Input_Example imports Procurement_Inputs Procurement_Example begin

text \<open>
  A concrete request for a procurement input: one supplier with two routes to the load port and one
  route from there to the refinery, a second flow over a route the snapshot does not contain, and a
  shortfall of 2 ktonne a day over 30 days.
\<close>

definition builder_node :: "uuid \<Rightarrow> asset_kind \<Rightarrow> twin_node" where
  "builder_node i kind =
     \<lparr>tn_id = i, tn_canonical_id = ''n'', tn_kind = kind, tn_name = ''node'', tn_country_code = ''IN'',
      tn_latitude = 0, tn_longitude = 0, tn_capacity = Some (procurement_metric (Fin 5) ''ktonne_per_day''),
      tn_baseline_supply = None, tn_baseline_demand = None, tn_evidence_ids = [1], tn_assumption_ids = [],
      tn_attributes = []\<rparr>"

definition builder_route :: "uuid \<Rightarrow> uuid \<Rightarrow> uuid \<Rightarrow> twin_route" where
  "builder_route i origin destination =
     \<lparr>rt_id = i, rt_route_canonical_id = ''r'', rt_origin_id = origin, rt_destination_id = destination,
      rt_commodity = CRUDE_OIL, rt_capacity = procurement_metric (Fin 3) ''ktonne_per_day'',
      rt_transit_time = procurement_metric (Fin 2) ''day'', rt_distance = procurement_metric (Fin 100) ''km'',
      rt_chokepoint_ids = [], rt_evidence_ids = [1], rt_assumption_ids = [], rt_available = True\<rparr>"

definition builder_routes :: "twin_route list" where
  "builder_routes = [builder_route 18 12 16, builder_route 17 12 16, builder_route 14 16 15]"

definition builder_grade :: crude_grade where
  "builder_grade = \<lparr>cg_id = 13, cg_canonical_id = ''g'', cg_name = ''grade'', cg_origin_country_code = ''SA'',
     cg_load_port_ids = [16], cg_api_gravity = procurement_metric (Fin 30) ''api'', cg_sulfur_pct = procurement_metric 1 ''pct'',
     cg_sanctions_state = ''clear'', cg_evidence_ids = [1], cg_assumption_ids = []\<rparr>"

definition builder_compatibility :: refinery_compatibility where
  "builder_compatibility = \<lparr>rc_grade_id = 13, rc_refinery_id = 15, rc_score = procurement_metric 1 ''fraction'',
     rc_classification = PREFERRED, rc_allowed = True, rc_component_scores = [], rc_evidence_ids = [1],
     rc_assumption_ids = [], rc_explanation = ''''\<rparr>"

definition builder_snapshot :: twin_snapshot where
  "builder_snapshot = \<lparr>ts_version = ''1'', ts_effective_at = 0, ts_created_at = 0,
     ts_nodes = [builder_node 12 SUPPLIER, builder_node 16 LOAD_PORT, builder_node 15 REFINERY],
     ts_routes = builder_routes, ts_grades = [builder_grade], ts_compatibility = [builder_compatibility],
     ts_baseline_flows = [],
     ts_evidence_records = [\<lparr>ev_id = 1, ev_source_id = ''s'', ev_source_record_id = ''r'', ev_source_url = None,
       ev_dataset = ''d'', ev_dataset_version = ''1'', ev_effective_at = 0, ev_fetched_at = 0, ev_mode = DM_FIXTURE,
       ev_truth_class = DERIVED, ev_raw_payload_hash = sixty_four, ev_raw_object_ref = None,
       ev_transformation = ''none'', ev_confidence = 1, ev_license = ''open'', ev_parent_evidence_ids = []\<rparr>],
     ts_assumptions = [], ts_mass_balance = undefined, ts_snapshot_id = 23, ts_fingerprint = sixty_four\<rparr>"

definition builder_flow :: "uuid \<Rightarrow> flow_result" where
  "builder_flow route = \<lparr>fw_route_id = route, fw_route_canonical_id = ''r'', fw_supplier_id = 12, fw_grade_id = 13,
     fw_baseline_flow = procurement_metric (Fin 3) ''ktonne_per_day'',
     fw_disrupted_flow = procurement_metric 1 ''ktonne_per_day'',
     fw_disrupted_capacity = procurement_metric 1 ''ktonne_per_day'', fw_affected = True\<rparr>"

definition builder_result :: simulation_result where
  "builder_result = \<lparr>sr_result_id = 24, sr_run_id = 21,
     sr_provenance = \<lparr>sp_scenario_id = 22, sp_twin_snapshot = pv_twin_snapshot example_provenance,
       sp_scenario_fingerprint = sixty_four, sp_simulation_fingerprint = sixty_four, sp_model_version = ''m'',
       sp_evidence_ids = [1], sp_assumption_ids = [], sp_truth_class = MODELED, sp_confidence = 1,
       sp_freshness_status = F_CURRENT, sp_effective_at = 0, sp_fetched_at = 0, sp_computed_at = 0,
       sp_transformation = ''t''\<rparr>,
     sr_baseline = undefined, sr_disrupted = undefined, sr_timeline = [], sr_flows = [builder_flow 99, builder_flow 14],
     sr_refinery_throughput = [\<lparr>rr_refinery_id = 15, rr_refinery_canonical_id = ''n'',
       rr_baseline_throughput = procurement_metric (Fin 3) ''ktonne_per_day'',
       rr_disrupted_receipts = procurement_metric 1 ''ktonne_per_day'',
       rr_disrupted_throughput = procurement_metric 1 ''ktonne_per_day'',
       rr_shortfall = procurement_metric (Fin 2) ''ktonne_per_day''\<rparr>],
     sr_inventory_trajectories = [], sr_inventory_status = undefined, sr_affected_asset_ids = [],
     sr_affected_route_ids = [], sr_uncertainty = undefined, sr_invariants = undefined, sr_runtime_ms = 0\<rparr>"

definition builder_run :: simulation_run where
  "builder_run = \<lparr>ru_run_id = 21, ru_scenario_id = 22, ru_scenario_fingerprint = sixty_four,
     ru_twin_snapshot = pv_twin_snapshot example_provenance, ru_simulation_fingerprint = sixty_four,
     ru_model_version = ''m'', ru_configuration = undefined, ru_status = SIM_COMPLETED, ru_created_at = 0,
     ru_started_at = None, ru_completed_at = None, ru_runtime_ms = None, ru_reused_result = False,
     ru_result = Some builder_result, ru_failure = None, ru_cancellation_requested_at = None\<rparr>"

definition builder_confirmed :: confirmed_scenario where
  "builder_confirmed = \<lparr>cs_scenario_id = 22, cs_scenario_fingerprint = sixty_four,
     cs_twin_snapshot = pv_twin_snapshot example_provenance, cs_candidate = undefined, cs_validation = undefined,
     cs_confirmed_by = ''a'', cs_confirmed_at = 0, cs_audit_event = undefined\<rparr>"

definition builder_commercial :: commercial_option where
  "builder_commercial = \<lparr>co_components = map (\<lambda>name. (name, if name = ''commodity_price'' then Fin 400 else 0)) cost_names,
     co_capacity_ktonne = Fin 80, co_available_ktonne = Fin 50, co_evidence_ids = [1], co_assumption_ids = [],
     co_transport_status = TS_CANDIDATE, co_commercially_confirmed = False\<rparr>"

definition builder_request :: build_request where
  "builder_request =
     \<lparr>bq_run = builder_run, bq_result = builder_result, bq_confirmed = builder_confirmed, bq_snapshot = builder_snapshot,
      bq_horizon = \<lparr>hz_starts_at = 0, hz_ends_at = 30 * day_us, hz_interval_hours = 24\<rparr>,
      bq_reserve_policy = oi_reserve_policy example_input, bq_hard_constraints = oi_hard_constraints example_input,
      bq_cost_configuration = \<lparr>cc_version = ''v'', cc_canonical_unit = ''USD_per_tonne'', cc_tolerance = fl (1 / 1000000000),
        cc_emissions_enabled = True, cc_emissions_disabled_rationale = None\<rparr>,
      bq_commercial_inputs = [((12, 13, 14, 15), builder_commercial)], bq_commercial_assumptions = []\<rparr>"

definition builder_hashes :: build_hashes where
  "builder_hashes = \<lparr>bh_uuid5 = (\<lambda>t. 7), bh_option = example_option_hash, bh_input = example_input_hash,
     bh_assumption = (\<lambda>a. sixty_four), bh_exc_text = (\<lambda>e. ''error'')\<rparr>"

text \<open>The builder keeps the flow over route 14, on the path of the lesser identifiers, and excludes the other.\<close>

lemma builder_builds:
  "case build_procurement_input builder_hashes builder_request of Inl e \<Rightarrow> False
   | Inr built \<Rightarrow> (case bd_input built of None \<Rightarrow> False
       | Some i \<Rightarrow> map op_route_segment_ids (oi_options i) = [[17, 14]] \<and>
           map eo_route_id (bd_excluded_options built) = [99])"
  by code_simp

end
