(* ===== verification/Procurement_Input_Props.thy ===== *)
theory Procurement_Input_Props imports Procurement_Input_Example begin

text \<open>
  The properties of the input builder: the route path of an option is the least supply path, and
  every flow of the simulation becomes an option or an exclusion of a returned input.
\<close>

section \<open>Options\<close>

text \<open>The option of a flow: its key, the least supply path of the grade, and its window in the horizon.\<close>

definition option_accounts :: "build_request \<Rightarrow> flow_result \<Rightarrow> procurement_option \<Rightarrow> bool" where
  "option_accounts q f o' \<longleftrightarrow>
     op_supplier_id o' = fw_supplier_id f \<and> op_grade_id o' = fw_grade_id f \<and> op_route_id o' = fw_route_id f \<and>
     op_compatibility_permitted o' \<and> op_landed_cost o' \<noteq> None \<and>
     op_delivery_window_start o' = hz_starts_at (bq_horizon q) \<and> op_delivery_window_end o' \<le> hz_ends_at (bq_horizon q) \<and>
     (\<exists>grade \<in> set (ts_grades (bq_snapshot q)). cg_id grade = op_grade_id o' \<and>
        (let path = supply_path (ts_routes (bq_snapshot q)) (op_supplier_id o') (op_refinery_id o') (op_route_id o')
               (cg_load_port_ids grade)
         in path (op_route_segment_ids o') \<and> (\<forall>us. path us \<longrightarrow> op_route_segment_ids o' \<le> us)))"

definition exclusion_accounts :: "flow_result \<Rightarrow> excluded_option \<Rightarrow> bool" where
  "exclusion_accounts f x \<longleftrightarrow>
     eo_supplier_id x = fw_supplier_id f \<and> eo_grade_id x = fw_grade_id f \<and> eo_route_id x = fw_route_id f"

lemma delivery_end_within: "delivery_end horizon transit = Inr t \<Longrightarrow> t \<le> hz_ends_at horizon"
  by (auto simp: delivery_end_def rbind_Inr_iff Let_def split: if_splits)

lemma path_option_fields:
  assumes "path_option uuid5 sha256 r tables horizon configuration e cost path = Inr o'"
  shows "op_supplier_id o' = fw_supplier_id (el_flow e) \<and> op_grade_id o' = cg_id (el_grade e) \<and>
    op_route_id o' = rt_id (el_route e) \<and> op_refinery_id o' = rt_destination_id (el_route e) \<and>
    op_compatibility_permitted o' = rc_allowed (el_compatibility e) \<and> op_landed_cost o' = Some cost \<and>
    op_delivery_window_start o' = hz_starts_at horizon \<and> op_delivery_window_end o' \<le> hz_ends_at horizon \<and>
    op_route_segment_ids o' = path"
proof -
  obtain payload where o': "o' = (option_payload.extend payload (procurement_option.fields None))
      \<lparr>op_option_fingerprint := Some (procurement_option_fingerprint sha256 (option_payload.extend payload (procurement_option.fields None)))\<rparr>"
    and payload: "op_supplier_id payload = fw_supplier_id (el_flow e)" "op_grade_id payload = cg_id (el_grade e)"
      "op_route_id payload = rt_id (el_route e)" "op_refinery_id payload = rt_destination_id (el_route e)"
      "op_compatibility_permitted payload = rc_allowed (el_compatibility e)" "op_landed_cost payload = Some cost"
      "op_delivery_window_start payload = hz_starts_at horizon" "op_delivery_window_end payload \<le> hz_ends_at horizon"
      "op_route_segment_ids payload = path"
    using assms unfolding path_option_def Let_def rbind_Inr_iff rmap_def validated_Inr
    by (elim exE conjE) (erule meta_allE, drule meta_mp, (simp only: sum.inject, drule sym, assumption), simp add: delivery_end_within)
  show ?thesis unfolding o' using payload by (simp add: option_payload.defs procurement_option.defs)
qed

lemma dict_of_entry: "map_of (dict_of (map (\<lambda>x. (f x, x)) xs)) k = Some x \<Longrightarrow> x \<in> set xs \<and> f x = k"
  by (drule map_of_SomeD, drule subsetD [OF dict_of_subset]) auto

text \<open>A flow that is eligible: its key, and where route, grade and compatibility come from.\<close>

lemma screened:
  assumes "screen_flow s (tables_of s a) commercial f = Inr e"
  shows "el_flow e = f \<and> el_route e \<in> set (ts_routes s) \<and> rt_id (el_route e) = fw_route_id f \<and>
    el_grade e \<in> set (ts_grades s) \<and> cg_id (el_grade e) = fw_grade_id f \<and> rc_allowed (el_compatibility e) \<and>
    fw_supplier_id f \<in> set (kind_ids SUPPLIER s) \<and> rt_destination_id (el_route e) \<in> set (kind_ids REFINERY s)"
proof -
  obtain route grade compatibility c where r: "map_of (route_dict (ts_routes s)) (fw_route_id f) = Some route"
    "map_of (dict_of (map (\<lambda>g. (cg_id g, g)) (ts_grades s))) (fw_grade_id f) = Some grade" and
    e: "e = \<lparr>el_flow = f, el_route = route, el_grade = grade, el_compatibility = compatibility, el_commercial = c\<rparr>"
    "rc_allowed compatibility" "fw_supplier_id f \<in> set (kind_ids SUPPLIER s)" "rt_destination_id route \<in> set (kind_ids REFINERY s)"
    using assms by (auto simp: screen_flow_def screen_commercial_def Let_def tables_of_def split: option.splits if_splits)
  show ?thesis using dict_of_entry [OF r(1) [unfolded route_dict_def]] dict_of_entry [OF r(2)] e by simp
qed

lemma option_for_accounts:
  assumes "distinct (map rt_id (ts_routes (bq_snapshot q)))"
    "screen_flow (bq_snapshot q) (tables_of (bq_snapshot q) a) commercial f = Inr e"
    "option_for uuid5 sha256 r (bq_snapshot q) (tables_of (bq_snapshot q) a) (bq_horizon q) configuration e = Inr (Inr o')"
  shows "option_accounts q f o'"
proof -
  note s = screened [OF assms(2)]
  let ?path = "route_path (ts_routes (bq_snapshot q)) (fw_supplier_id (el_flow e)) (rt_destination_id (el_route e))
       (rt_id (el_route e)) (cg_load_port_ids (el_grade e))"
  obtain cost where "?path \<noteq> []" and o: "path_option uuid5 sha256 r (tables_of (bq_snapshot q) a) (bq_horizon q) configuration e cost ?path = Inr o'"
    using assms(3) by (auto simp: option_for_def Let_def rbind_Inr_iff rmap_def split: if_splits)
  then have "supply_path (ts_routes (bq_snapshot q)) (fw_supplier_id (el_flow e)) (rt_destination_id (el_route e))
       (rt_id (el_route e)) (cg_load_port_ids (el_grade e)) ?path \<and>
     (\<forall>us. supply_path (ts_routes (bq_snapshot q)) (fw_supplier_id (el_flow e)) (rt_destination_id (el_route e))
       (rt_id (el_route e)) (cg_load_port_ids (el_grade e)) us \<longrightarrow> ?path \<le> us)"
    using route_path_least [OF assms(1), of "fw_supplier_id (el_flow e)" "rt_destination_id (el_route e)"
        "rt_id (el_route e)" "cg_load_port_ids (el_grade e)"] by argo
  with path_option_fields [OF o] s show ?thesis by (auto simp: option_accounts_def Let_def)
qed

lemma exclusion_returns: "exclusion f u reason detail = Inr x \<Longrightarrow> exclusion_accounts f x"
  by (auto simp: exclusion_def validated_Inr exclusion_accounts_def)

lemma flow_outcome_accounts:
  assumes "distinct (map rt_id (ts_routes (bq_snapshot q)))"
    "flow_outcome uuid5 sha256 exc_text r (bq_snapshot q) (tables_of (bq_snapshot q) a) (bq_horizon q) configuration commercial f
       = Inr outcome"
  shows "case outcome of Inl x \<Rightarrow> exclusion_accounts f x | Inr o' \<Rightarrow> option_accounts q f o'"
proof (cases outcome)
  case (Inr o')
  with assms(2) obtain e where "screen_flow (bq_snapshot q) (tables_of (bq_snapshot q) a) commercial f = Inr e"
    "option_for uuid5 sha256 r (bq_snapshot q) (tables_of (bq_snapshot q) a) (bq_horizon q) configuration e = Inr (Inr o')"
    by (auto simp: flow_outcome_def Let_def rmap_def rbind_Inr_iff split: sum.splits if_splits)
  from option_for_accounts [OF assms(1) this] Inr show ?thesis by simp
next
  case (Inl x)
  with assms(2) show ?thesis
    by (auto simp: flow_outcome_def Let_def rmap_def rbind_Inr_iff split: sum.splits if_splits dest!: exclusion_returns)
qed

section \<open>The built input\<close>

text \<open>The demand of a refinery: its shortfall per day over the days of the horizon.\<close>

definition demand_accounts :: "planning_horizon \<Rightarrow> refinery_throughput_result \<Rightarrow> procurement_demand \<Rightarrow> bool" where
  "demand_accounts horizon t d \<longleftrightarrow>
     dm_refinery_id d = rr_refinery_id t \<and> dm_interval_start d = hz_starts_at horizon \<and>
     dm_interval_end d = hz_ends_at horizon \<and>
     me_value (dm_required_volume d) = me_value (rr_shortfall t) * interval_days horizon"

lemma demand_of_accounts: "demand_of horizon t = Inr x \<Longrightarrow> demand_accounts horizon t (fst x)"
  by (auto simp: demand_of_def demand_metric_def demand_accounts_def Let_def rbind_Inr_iff rmap_def validated_Inr mk_metric_Inr)

lemma assembled_input:
  assumes "assemble_input h q refs arefs options excluded = Inr built" "bd_input built = Some i"
  shows "optimisation_input_valid (bh_option h) (bh_input h) i \<and> oi_options i = sort_key op_option_id options \<and>
    bd_excluded_options built = excluded \<and>
    list_all2 (demand_accounts (bq_horizon q)) (sort_key rr_refinery_id (sr_refinery_throughput (bq_result q))) (oi_demands i)"
proof -
  define payload where "payload provenance demands =
      \<lparr>oi_provenance = provenance, oi_hard_constraints = bq_hard_constraints q, oi_reserve_policy = bq_reserve_policy q,
       oi_options = sort_key op_option_id options, oi_demands = map fst demands\<rparr>"
    for provenance and demands :: "(procurement_demand \<times> demand_requirement) list"
  define input_of where "input_of provenance demands =
      input_payload.extend (payload provenance demands) (optimisation_input.fields (bh_input h (payload provenance demands)))"
    for provenance demands
  from assms(1) obtain provenance demands where
    d: "rtraverse (demand_of (bq_horizon q)) (sort_key rr_refinery_id (sr_refinery_throughput (bq_result q))) = Inr demands"
    and v: "first_error (optimisation_input_problems (bh_option h) (bh_input h) (input_of provenance demands)) = None"
    and b: "bd_input built = Some (input_of provenance demands)" "bd_excluded_options built = excluded"
    unfolding assemble_input_def Let_def payload_def [symmetric] input_of_def [symmetric]
    by (auto simp: rbind_Inr_iff validated_Inr)
  have "list_all2 (\<lambda>t x. demand_accounts (bq_horizon q) t (fst x)) (sort_key rr_refinery_id (sr_refinery_throughput (bq_result q))) demands"
    by (rule list_all2_mono [OF rtraverse_InrD [OF d]]) (rule demand_of_accounts)
  then show ?thesis
    using assms(2) v b by (auto simp: optimisation_input_valid_def input_of_def payload_def input_payload.defs
        optimisation_input.defs list_all2_conv_all_nth)
qed

text \<open>C10: The built input accounts for every flow and every shortfall. When the builder returns an input for a
  snapshot with distinct route identifiers, the run, result, scenario and snapshot are bound to each
  other, the input is valid, and going through the flows of the result in order each one became
  either an option or an exclusion with its key: the options are those of the input, sorted, and
  the exclusions those of the result. Every option follows the least supply path over its route,
  through a load port of its grade, inside the horizon; and the demands are the refineries'
  shortfalls per day times the days of the horizon.\<close>

theorem built_input_accounts:
  assumes "distinct (map rt_id (ts_routes (bq_snapshot q)))" "build_procurement_input h q = Inr built" "bd_input built = Some i"
  shows "binding_errors (bq_run q) (bq_result q) (bq_confirmed q) (bq_snapshot q) (bq_horizon q) = [] \<and>
    optimisation_input_valid (bh_option h) (bh_input h) i \<and>
    (\<exists>outcomes. list_all2 (\<lambda>f outcome. case outcome of Inl x \<Rightarrow> exclusion_accounts f x | Inr o' \<Rightarrow> option_accounts q f o')
        (sorted_flows (bq_result q)) outcomes \<and>
      oi_options i = sort_key op_option_id (kept_options outcomes) \<and> bd_excluded_options built = excluded_flows outcomes) \<and>
    list_all2 (demand_accounts (bq_horizon q)) (sort_key rr_refinery_id (sr_refinery_throughput (bq_result q))) (oi_demands i)"
proof -
  from assms(2,3) obtain refs arefs outcomes where
    e: "binding_errors (bq_run q) (bq_result q) (bq_confirmed q) (bq_snapshot q) (bq_horizon q) = []" and
    o: "rtraverse (flow_outcome (bh_uuid5 h) (bh_option h) (bh_exc_text h) (bq_result q) (bq_snapshot q)
       (tables_of (bq_snapshot q) (bq_commercial_assumptions q)) (bq_horizon q)
       (bq_cost_configuration q) (bq_commercial_inputs q)) (sorted_flows (bq_result q)) = Inr outcomes" and
    a: "assemble_input h q refs arefs (kept_options outcomes) (excluded_flows outcomes) = Inr built"
    by (auto simp: build_procurement_input_def Let_def rbind_Inr_iff blocked_build_def split: if_splits)
  have "list_all2 (\<lambda>f outcome. case outcome of Inl x \<Rightarrow> exclusion_accounts f x | Inr o' \<Rightarrow> option_accounts q f o')
        (sorted_flows (bq_result q)) outcomes"
    by (rule list_all2_mono [OF rtraverse_InrD [OF o]]) (rule flow_outcome_accounts [OF assms(1)])
  with e assembled_input [OF a assms(3)] show ?thesis by blast
qed

lemma builder_routes_distinct: "distinct (map rt_id (ts_routes (bq_snapshot builder_request)))" by code_simp

theorem built_input_accounts_witness:
  "\<exists>built i. build_procurement_input builder_hashes builder_request = Inr built \<and> bd_input built = Some i \<and>
    optimisation_input_valid example_option_hash example_input_hash i \<and> map op_route_segment_ids (oi_options i) = [[17, 14]]"
proof -
  obtain built i where b: "build_procurement_input builder_hashes builder_request = Inr built" "bd_input built = Some i"
    "map op_route_segment_ids (oi_options i) = [[17, 14]]"
    using builder_builds by (auto split: sum.splits option.splits)
  from built_input_accounts [OF builder_routes_distinct b(1,2)] b show ?thesis by (auto simp: builder_hashes_def)
qed

section \<open>The path of an option\<close>

text \<open>C11: The route search is exact. For routes with distinct identifiers, the search returns the least, in the
  order of the identifiers, of the simple paths of available routes from the supplier to the refinery
  that contain the required route and start a leg at a load port, and returns the empty path only if
  there is none. The queue that grows while it is read is always emptied.\<close>

theorem route_path_is_least_supply_path:
  assumes "distinct (map rt_id routes)"
  shows "if \<exists>us. supply_path routes supplier refinery required load_ports us
    then supply_path routes supplier refinery required load_ports (route_path routes supplier refinery required load_ports) \<and>
      (\<forall>us. supply_path routes supplier refinery required load_ports us \<longrightarrow>
        route_path routes supplier refinery required load_ports \<le> us)
    else route_path routes supplier refinery required load_ports = []"
  by (rule route_path_least [OF assms])

lemma builder_routes_facts:
  "distinct (map rt_id builder_routes)" "route_path builder_routes 12 15 14 [16] = [17, 14]"
  by code_simp+

theorem route_path_is_least_supply_path_witness:
  "supply_path builder_routes 12 15 14 [16] [17, 14] \<and> \<not> (\<exists>us. supply_path builder_routes 12 15 14 [16] us \<and> us < [17, 14])"
  using route_path_is_least_supply_path [OF builder_routes_facts(1), of 12 15 14 "[16]"] builder_routes_facts(2)
  by (auto split: if_splits simp: not_less [symmetric])

end
