(* ===== verification/Reserve_Contracts.thy ===== *)
theory Reserve_Contracts imports Procurement_Contracts begin

text \<open>
  The reserve contracts, \<open>sanjiv/reserve/contracts.py\<close>: strategic reserve sites, the policy
  weights, the optimisation input, the actions and results of a reserve plan, and its lifecycle.
  Fields whose type admits a single literal are left out; the canonical hash is a parameter.
\<close>

datatype reserve_profile = CONSERVATIVE | RES_BALANCED | AGGRESSIVE_CONTINUITY | NO_RESERVE_USE

datatype inventory_truth = VERIFIED_USER_INPUT | UNEXPIRED_ASSUMPTION | INVENTORY_UNKNOWN

datatype reserve_lifecycle = RL_REQUESTED | RL_SOLVING | RL_CHECKING | RL_FEASIBLE | RL_FAILED

datatype reserve_rejection =
    RJ_UNKNOWN_INVENTORY | RJ_EXPIRED_ASSUMPTION | RJ_DISCONNECTED | RJ_TRANSIT_TOO_LATE
  | RJ_CAPACITY_EXHAUSTED | RJ_POLICY_FLOOR | RJ_NO_RESERVE_USE | RJ_HIGHER_OBJECTIVE | RJ_INVALID_PROVENANCE

datatype reserve_stage = RS_INPUT | RS_SOLVER | RS_CHECKER | RS_CONTRACT

definition non_negative_field :: "pyfloat \<Rightarrow> bool" where
  "non_negative_field v \<longleftrightarrow> isfinite v \<and> 0 \<le> v"

section \<open>Inputs\<close>

record reserve_weights =
  rw_profile :: reserve_profile
  rw_version :: string
  rw_shortage :: pyfloat
  rw_reserve_depletion :: pyfloat
  rw_logistics_cost :: pyfloat
  rw_future_vulnerability :: pyfloat
  rw_minimum_floor_fraction :: pyfloat

definition reserve_weights_problems :: "reserve_weights \<Rightarrow> (bool \<times> py_error) list" where
  "reserve_weights_problems w =
    [(\<not> non_negative_field (rw_shortage w), FieldError ''shortage''),
     (\<not> non_negative_field (rw_reserve_depletion w), FieldError ''reserve_depletion''),
     (\<not> non_negative_field (rw_logistics_cost w), FieldError ''logistics_cost''),
     (\<not> non_negative_field (rw_future_vulnerability w), FieldError ''future_vulnerability''),
     (\<not> (non_negative_field (rw_minimum_floor_fraction w) \<and> rw_minimum_floor_fraction w \<le> 1),
        FieldError ''minimum_floor_fraction'')]"

record reserve_site =
  rv_site_id :: uuid
  rv_site_name :: string
  rv_refinery_id :: uuid
  rv_route_id :: uuid
  rv_capacity :: metric
  rv_opening_inventory :: "metric option"
  rv_opening_inventory_status :: inventory_truth
  rv_minimum_policy_floor :: metric
  rv_draw_rate_limit :: metric
  rv_route_capacity :: metric
  rv_transit_time :: metric
  rv_refinery_receipt_capacity :: metric
  rv_procurement_committed_receipts :: metric
  rv_logistics_cost :: metric
  rv_replenishment :: "metric option"
  rv_evidence_ids :: "uuid list"
  rv_assumption_ids :: "uuid list"

text \<open>The metrics of a site with their units, in the order in which the validator visits them.\<close>

definition site_metrics :: "reserve_site \<Rightarrow> (string \<times> metric \<times> string) list" where
  "site_metrics s =
    [(''capacity'', rv_capacity s, ''ktonne''),
     (''minimum_policy_floor'', rv_minimum_policy_floor s, ''ktonne''),
     (''draw_rate_limit'', rv_draw_rate_limit s, ''ktonne_per_day''),
     (''route_capacity'', rv_route_capacity s, ''ktonne_per_day''),
     (''transit_time'', rv_transit_time s, ''day''),
     (''refinery_receipt_capacity'', rv_refinery_receipt_capacity s, ''ktonne''),
     (''procurement_committed_receipts'', rv_procurement_committed_receipts s, ''ktonne''),
     (''logistics_cost'', rv_logistics_cost s, ''USD_per_tonne'')] @
    (case rv_opening_inventory s of None \<Rightarrow> [] | Some m \<Rightarrow> [(''opening_inventory'', m, ''ktonne'')]) @
    (case rv_replenishment s of None \<Rightarrow> [] | Some m \<Rightarrow> [(''replenishment'', m, ''ktonne'')])"

definition site_metric_problem :: "string \<times> metric \<times> string \<Rightarrow> bool \<times> py_error" where
  "site_metric_problem e = (case e of (name, m, unit) \<Rightarrow>
     (me_unit m \<noteq> unit \<or> \<not> isfinite (me_value m) \<or> me_value m < 0,
      ValueError (name @ '' must be finite, nonnegative and use '' @ unit)))"

definition reserve_site_problems :: "reserve_site \<Rightarrow> (bool \<times> py_error) list" where
  "reserve_site_problems s =
    map (\<lambda>(name, m, unit). (\<not> metric_valid m, FieldError name)) (site_metrics s) @
    [(\<not> len_between 1 200 (rv_site_name s), FieldError ''site_name''),
     (rv_evidence_ids s = [], FieldError ''evidence_ids'')] @
    map site_metric_problem (site_metrics s) @
    [(rv_opening_inventory_status s = INVENTORY_UNKNOWN \<and> rv_opening_inventory s \<noteq> None,
        ValueError ''UNKNOWN opening inventory cannot carry a value''),
     (rv_opening_inventory_status s \<noteq> INVENTORY_UNKNOWN \<and> rv_opening_inventory s = None,
        ValueError ''known opening inventory requires a value''),
     (case rv_opening_inventory s of None \<Rightarrow> False
      | Some m \<Rightarrow> me_value (rv_capacity s) + fl (1 / 1000000000) < me_value m,
        ValueError ''opening inventory exceeds observed storage capacity''),
     (me_value (rv_capacity s) + fl (1 / 1000000000) < me_value (rv_minimum_policy_floor s),
        ValueError ''minimum floor exceeds storage capacity''),
     (case rv_replenishment s of None \<Rightarrow> False | Some m \<Rightarrow> me_truth_class m \<notin> {OBSERVED, ASSUMPTION},
        ValueError ''replenishment requires verified input or an explicit assumption'')]"

record reserve_demand =
  rq_refinery_id :: uuid
  rq_required_volume :: metric

record reserve_provenance =
  rpv_simulation_run :: run_reference
  rpv_simulation_result :: result_reference
  rpv_confirmed_scenario :: confirmed_reference
  rpv_twin_snapshot :: twin_snapshot_reference
  rpv_procurement_plan_id :: uuid
  rpv_procurement_plan_fingerprint :: string
  rpv_procurement_input_fingerprint :: string
  rpv_procurement_checker_version :: string
  rpv_evidence :: "evidence_fingerprint list"
  rpv_assumptions :: "assumption_fingerprint list"

definition reserve_provenance_problems :: "reserve_provenance \<Rightarrow> (bool \<times> py_error) list" where
  "reserve_provenance_problems p =
    (let run = rpv_simulation_run p; result = rpv_simulation_result p; scenario = rpv_confirmed_scenario p;
         twin = rpv_twin_snapshot p in
    [(\<not> list_all is_sha256 [rf_scenario_fingerprint run, rf_simulation_fingerprint run, rf_twin_snapshot_fingerprint run]
        \<or> \<not> len_between 1 100 (rf_model_version run), FieldError ''simulation_run''),
     (\<not> list_all is_sha256 [rs_scenario_fingerprint result, rs_simulation_fingerprint result, rs_twin_snapshot_fingerprint result],
        FieldError ''simulation_result''),
     (\<not> is_sha256 (cn_scenario_fingerprint scenario), FieldError ''confirmed_scenario''),
     (first_error (twin_reference_problems twin) \<noteq> None, FieldError ''twin_snapshot''),
     (\<not> is_sha256 (rpv_procurement_plan_fingerprint p), FieldError ''procurement_plan_fingerprint''),
     (\<not> is_sha256 (rpv_procurement_input_fingerprint p), FieldError ''procurement_input_fingerprint''),
     (rpv_evidence p = [] \<or> \<not> list_all (\<lambda>e. is_sha256 (ef_raw_payload_hash e)) (rpv_evidence p), FieldError ''evidence''),
     (\<not> list_all (\<lambda>a. is_sha256 (af_assumption_hash a)) (rpv_assumptions p), FieldError ''assumptions''),
     (rs_run_id result \<noteq> rf_run_id run \<or> rs_scenario_id result \<noteq> rf_scenario_id run
        \<or> rs_scenario_fingerprint result \<noteq> rf_scenario_fingerprint run
        \<or> rs_simulation_fingerprint result \<noteq> rf_simulation_fingerprint run,
        ValueError ''reserve provenance must bind one exact simulation''),
     (cn_scenario_id scenario \<noteq> rf_scenario_id run \<or> cn_scenario_fingerprint scenario \<noteq> rf_scenario_fingerprint run,
        ValueError ''reserve provenance must bind the confirmed scenario''),
     (\<not> ((rs_twin_snapshot_id result, rs_twin_snapshot_fingerprint result)
            = (rf_twin_snapshot_id run, rf_twin_snapshot_fingerprint run)
         \<and> (tr_snapshot_id twin, tr_fingerprint twin) = (rf_twin_snapshot_id run, rf_twin_snapshot_fingerprint run)),
        ValueError ''reserve provenance must bind one immutable twin''),
     (list_ex (\<lambda>a. af_status a \<noteq> AS_APPROVED) (rpv_assumptions p),
        ValueError ''reserve provenance requires approved assumptions''),
     (\<not> distinct (map ef_evidence_id (rpv_evidence p)), ValueError ''duplicate reserve evidence reference''),
     (\<not> distinct (map af_assumption_id (rpv_assumptions p)), ValueError ''duplicate reserve assumption reference'')])"

record reserve_payload =
  ri_provenance :: reserve_provenance
  ri_policy :: reserve_weights
  ri_starts_at :: datetime
  ri_ends_at :: datetime
  ri_sites :: "reserve_site list"
  ri_demands :: "reserve_demand list"
  ri_tolerance :: pyfloat

record reserve_input = reserve_payload +
  ri_input_fingerprint :: string

type_synonym reserve_hash = "reserve_payload \<Rightarrow> string"

definition reserve_input_fingerprint :: "reserve_hash \<Rightarrow> reserve_input \<Rightarrow> string" where
  "reserve_input_fingerprint sha256 i = sha256 (reserve_payload.truncate i)"

definition reserve_input_problems :: "reserve_hash \<Rightarrow> reserve_input \<Rightarrow> (bool \<times> py_error) list" where
  "reserve_input_problems sha256 i =
    [(first_error (reserve_provenance_problems (ri_provenance i)) \<noteq> None, FieldError ''provenance''),
     (first_error (reserve_weights_problems (ri_policy i)) \<noteq> None, FieldError ''policy''),
     (\<not> len_between 1 20 (ri_sites i)
        \<or> list_ex (\<lambda>s. first_error (reserve_site_problems s) \<noteq> None) (ri_sites i), FieldError ''sites''),
     (\<not> len_between 1 100 (ri_demands i)
        \<or> list_ex (\<lambda>d. \<not> metric_valid (rq_required_volume d)) (ri_demands i), FieldError ''demands''),
     (\<not> (isfinite (ri_tolerance i) \<and> 0 < ri_tolerance i), FieldError ''tolerance''),
     (\<not> is_sha256 (ri_input_fingerprint i), FieldError ''input_fingerprint''),
     (ri_ends_at i \<le> ri_starts_at i, ValueError ''reserve horizon is invalid''),
     (\<not> distinct (map rv_site_id (ri_sites i)), ValueError ''duplicate reserve site''),
     (list_ex (\<lambda>s. rv_opening_inventory_status s = INVENTORY_UNKNOWN) (ri_sites i),
        ValueError ''UNKNOWN opening inventory blocks that reserve site''),
     (ri_input_fingerprint i \<noteq> reserve_input_fingerprint sha256 i,
        ValueError ''reserve input fingerprint mismatch'')]"

definition reserve_input_valid :: "reserve_hash \<Rightarrow> reserve_input \<Rightarrow> bool" where
  "reserve_input_valid sha256 i \<longleftrightarrow> first_error (reserve_input_problems sha256 i) = None"

section \<open>Results\<close>

record reserve_action =
  rx_action_id :: uuid
  rx_site_id :: uuid
  rx_refinery_id :: uuid
  rx_route_id :: uuid
  rx_dispatch :: metric
  rx_in_transit :: metric
  rx_receipt :: metric
  rx_remaining_inventory :: metric
  rx_remaining_cover :: metric
  rx_dispatch_at :: datetime
  rx_receipt_at :: datetime
  rx_evidence_ids :: "uuid list"
  rx_assumption_ids :: "uuid list"

definition reserve_action_problems :: "reserve_action \<Rightarrow> (bool \<times> py_error) list" where
  "reserve_action_problems a =
    [(list_ex (\<lambda>m. \<not> metric_valid m) [rx_dispatch a, rx_in_transit a, rx_receipt a, rx_remaining_inventory a, rx_remaining_cover a],
        FieldError ''metric''),
     (rx_evidence_ids a = [], FieldError ''evidence_ids'')]"

record reserve_point =
  ry_site_id :: uuid
  ry_at :: datetime
  ry_inventory :: metric
  ry_cover :: metric

record reserve_objective =
  rb_raw_metrics :: "(string, pyfloat) dict"
  rb_weights :: "(string, pyfloat) dict"
  rb_weighted_contributions :: "(string, pyfloat) dict"
  rb_total :: metric

definition reserve_objective_problems :: "reserve_objective \<Rightarrow> (bool \<times> py_error) list" where
  "reserve_objective_problems b =
    [(\<not> metric_valid (rb_total b), FieldError ''total''),
     (list_ex (\<lambda>v. \<not> isfinite v \<or> v < 0)
        (map snd (rb_raw_metrics b) @ map snd (rb_weights b) @ map snd (rb_weighted_contributions b)),
        ValueError ''reserve objective values must be finite and nonnegative''),
     (fl (1 / 1000000) < \<bar>py_sum (map snd (rb_weighted_contributions b)) - me_value (rb_total b)\<bar>,
        ValueError ''reserve objective contributions do not reconcile'')]"

record reserve_report =
  rr_feasible :: bool
  rr_checked :: "string list"
  rr_violations :: "string list"

record reserve_check =
  rk_checked_at :: datetime
  rk_passed :: bool
  rk_opening_inventory_passed :: bool
  rk_floor_passed :: bool
  rk_conservation_passed :: bool
  rk_draw_rate_passed :: bool
  rk_dispatch_receipt_passed :: bool
  rk_transit_passed :: bool
  rk_capacity_passed :: bool
  rk_procurement_coordination_passed :: bool
  rk_shortage_passed :: bool
  rk_objective_passed :: bool
  rk_fingerprint_passed :: bool
  rk_failure_codes :: "string list"

definition reserve_check_flags :: "reserve_check \<Rightarrow> bool list" where
  "reserve_check_flags c =
    [rk_opening_inventory_passed c, rk_floor_passed c, rk_conservation_passed c, rk_draw_rate_passed c,
     rk_dispatch_receipt_passed c, rk_transit_passed c, rk_capacity_passed c,
     rk_procurement_coordination_passed c, rk_shortage_passed c, rk_objective_passed c, rk_fingerprint_passed c]"

definition reserve_check_problems :: "reserve_check \<Rightarrow> (bool \<times> py_error) list" where
  "reserve_check_problems c =
    [(rk_passed c \<noteq> (list_all (\<lambda>b. b) (reserve_check_flags c) \<and> rk_failure_codes c = []),
        ValueError ''reserve checker status mismatch'')]"

record reserve_failure =
  rg_code :: string
  rg_message :: string
  rg_stage :: reserve_stage
  rg_retryable :: bool

text \<open>The pattern \<open>[A-Z][A-Z0-9_]*\<close>, without a length limit.\<close>

definition is_reserve_code :: "string \<Rightarrow> bool" where
  "is_reserve_code s \<longleftrightarrow> s \<noteq> [] \<and> hd s \<in> set ''ABCDEFGHIJKLMNOPQRSTUVWXYZ'' \<and>
     list_all (\<lambda>c. c \<in> set ''ABCDEFGHIJKLMNOPQRSTUVWXYZ0123456789_'') s"

definition reserve_failure_problems :: "reserve_failure \<Rightarrow> (bool \<times> py_error) list" where
  "reserve_failure_problems f =
    [(\<not> is_reserve_code (rg_code f), FieldError ''code''),
     (\<not> len_between 1 1000 (rg_message f), FieldError ''message'')]"

record reserve_rejected =
  rh_site_id :: uuid
  rh_reason :: reserve_rejection
  rh_constraint_id :: string
  rh_explanation :: string

definition reserve_rejected_problems :: "reserve_rejected \<Rightarrow> (bool \<times> py_error) list" where
  "reserve_rejected_problems r =
    [(\<not> len_between 1 200 (rh_constraint_id r), FieldError ''constraint_id''),
     (\<not> len_between 1 1000 (rh_explanation r), FieldError ''explanation'')]"

section \<open>The lifecycle\<close>

fun reserve_targets :: "reserve_lifecycle \<Rightarrow> reserve_lifecycle set" where
  "reserve_targets RL_REQUESTED = {RL_SOLVING, RL_FAILED}"
| "reserve_targets RL_SOLVING = {RL_CHECKING, RL_FAILED}"
| "reserve_targets RL_CHECKING = {RL_FEASIBLE, RL_FAILED}"
| "reserve_targets RL_FEASIBLE = {}"
| "reserve_targets RL_FAILED = {}"

fun reserve_lifecycle_name :: "reserve_lifecycle \<Rightarrow> string" where
  "reserve_lifecycle_name RL_REQUESTED = ''REQUESTED''"
| "reserve_lifecycle_name RL_SOLVING = ''SOLVING''"
| "reserve_lifecycle_name RL_CHECKING = ''CHECKING''"
| "reserve_lifecycle_name RL_FEASIBLE = ''FEASIBLE''"
| "reserve_lifecycle_name RL_FAILED = ''FAILED''"

record reserve_transition =
  ru_current :: reserve_lifecycle
  ru_target :: reserve_lifecycle
  ru_occurred_at :: datetime
  ru_actor_id :: string

definition reserve_transition_problems :: "reserve_transition \<Rightarrow> (bool \<times> py_error) list" where
  "reserve_transition_problems t =
    [(\<not> len_between 1 200 (ru_actor_id t), FieldError ''actor_id''),
     (ru_target t \<notin> reserve_targets (ru_current t),
        ValueError (''invalid reserve lifecycle transition: '' @ reserve_lifecycle_name (ru_current t)
          @ ''->'' @ reserve_lifecycle_name (ru_target t)))]"

section \<open>Plans\<close>

record reserve_result =
  rl_result_id :: uuid
  rl_profile :: reserve_profile
  rl_status :: solver_status
  rl_metadata :: solver_metadata
  rl_actions :: "reserve_action list"
  rl_timeline :: "reserve_point list"
  rl_objective :: "reserve_objective option"
  rl_constraints :: "reserve_report option"
  rl_checker :: "reserve_check option"
  rl_residual_shortage :: "metric option"
  rl_rejected_options :: "reserve_rejected list"
  rl_failure :: "reserve_failure option"

definition reserve_checker_passed :: "reserve_result \<Rightarrow> bool" where
  "reserve_checker_passed r = (case rl_checker r of None \<Rightarrow> False | Some c \<Rightarrow> rk_passed c)"

definition reserve_result_problems :: "reserve_result \<Rightarrow> (bool \<times> py_error) list" where
  "reserve_result_problems r =
    [(first_error (metadata_problems (rl_metadata r)) \<noteq> None, FieldError ''metadata''),
     (list_ex (\<lambda>a. first_error (reserve_action_problems a) \<noteq> None) (rl_actions r), FieldError ''actions''),
     (list_ex (\<lambda>p. \<not> metric_valid (ry_inventory p) \<or> \<not> metric_valid (ry_cover p)) (rl_timeline r), FieldError ''timeline''),
     (\<not> opt_ok (\<lambda>b. first_error (reserve_objective_problems b) = None) (rl_objective r), FieldError ''objective''),
     (\<not> opt_ok (\<lambda>c. rr_checked c \<noteq> []) (rl_constraints r), FieldError ''constraints''),
     (\<not> opt_ok (\<lambda>c. first_error (reserve_check_problems c) = None) (rl_checker r), FieldError ''checker''),
     (\<not> opt_ok metric_valid (rl_residual_shortage r), FieldError ''residual_shortage''),
     (list_ex (\<lambda>o'. first_error (reserve_rejected_problems o') \<noteq> None) (rl_rejected_options r), FieldError ''rejected_options''),
     (\<not> opt_ok (\<lambda>f. first_error (reserve_failure_problems f) = None) (rl_failure r), FieldError ''failure''),
     (usable_status (rl_status r)
        \<and> (rl_objective r = None \<or> rl_constraints r = None \<or> \<not> reserve_checker_passed r),
        ValueError ''usable reserve result requires an independently checked plan''),
     (rl_status r \<in> {INFEASIBLE, ERROR} \<and> rl_actions r \<noteq> [],
        ValueError ''infeasible or error result cannot contain reserve actions'')]"

record reserve_plan =
  ro_plan_id :: uuid
  ro_run_id :: uuid
  ro_procurement_plan_id :: uuid
  ro_profile :: reserve_profile
  ro_lifecycle :: reserve_lifecycle
  ro_input :: reserve_input
  ro_input_fingerprint :: string
  ro_plan_fingerprint :: string
  ro_result :: reserve_result
  ro_created_at :: datetime
  ro_audit_event_ids :: "uuid list"

type_synonym reserve_plan_hash = "reserve_input \<times> reserve_result \<Rightarrow> string"

definition reserve_plan_fingerprint :: "reserve_plan_hash \<Rightarrow> reserve_input \<Rightarrow> reserve_result \<Rightarrow> string" where
  "reserve_plan_fingerprint sha256 i r = sha256 (i, r)"

definition RESERVE_SOLVER_MODEL :: string where
  "RESERVE_SOLVER_MODEL = ''reserve-pyomo-highs-v1''"

definition reserve_action_problem :: "reserve_input \<Rightarrow> reserve_action \<Rightarrow> py_error option" where
  "reserve_action_problem i a =
    (let volumes = [me_value (rx_dispatch a), me_value (rx_in_transit a), me_value (rx_receipt a)] in
     first_error
      [(\<not> set (rx_evidence_ids a) \<subseteq> set (map ef_evidence_id (rpv_evidence (ri_provenance i))),
          ValueError ''reserve action references evidence outside the input''),
       (\<not> set (rx_assumption_ids a) \<subseteq> set (map af_assumption_id (rpv_assumptions (ri_provenance i))),
          ValueError ''reserve action references assumptions outside the input''),
       (ri_tolerance i < py_max_list 0 volumes - py_min_list 0 volumes,
          ValueError ''reserve dispatch, transit and receipt must reconcile'')])"

definition reserve_plan_problems ::
  "reserve_hash \<Rightarrow> reserve_plan_hash \<Rightarrow> reserve_plan \<Rightarrow> (bool \<times> py_error) list" where
  "reserve_plan_problems input_sha256 plan_sha256 p =
    (let i = ro_input p; r = ro_result p in
    [(\<not> reserve_input_valid input_sha256 i, FieldError ''input''),
     (\<not> is_sha256 (ro_input_fingerprint p), FieldError ''input_fingerprint''),
     (\<not> is_sha256 (ro_plan_fingerprint p), FieldError ''plan_fingerprint''),
     (first_error (reserve_result_problems r) \<noteq> None, FieldError ''result''),
     (ro_audit_event_ids p = [], FieldError ''audit_event_ids''),
     (ro_input_fingerprint p \<noteq> ri_input_fingerprint i, ValueError ''reserve plan input fingerprint mismatch''),
     (ro_procurement_plan_id p \<noteq> rpv_procurement_plan_id (ri_provenance i),
        ValueError ''reserve plan procurement binding mismatch''),
     (ro_run_id p \<noteq> rf_run_id (rpv_simulation_run (ri_provenance i)),
        ValueError ''reserve plan run binding mismatch''),
     (ro_profile p \<noteq> rw_profile (ri_policy i) \<or> rl_profile r \<noteq> ro_profile p,
        ValueError ''reserve plan policy profile mismatch''),
     (ro_lifecycle p \<noteq> RL_FEASIBLE, ValueError ''only feasible reserve plans are terminal usable plans''),
     (\<not> usable_status (rl_status r), ValueError ''reserve plan requires a usable solver result''),
     (\<not> reserve_checker_passed r, ValueError ''reserve plan requires a passed independent checker''),
     (md_model_version (rl_metadata r) \<noteq> RESERVE_SOLVER_MODEL,
        ValueError ''reserve plan model version mismatch'')] @
    each (reserve_action_problem i) (rl_actions r) @
    [(ro_plan_fingerprint p \<noteq> reserve_plan_fingerprint plan_sha256 i r,
        ValueError ''reserve plan fingerprint mismatch'')])"

definition reserve_plan_valid :: "reserve_hash \<Rightarrow> reserve_plan_hash \<Rightarrow> reserve_plan \<Rightarrow> bool" where
  "reserve_plan_valid input_sha256 plan_sha256 p \<longleftrightarrow>
     first_error (reserve_plan_problems input_sha256 plan_sha256 p) = None"

end
