(* ===== verification/Reserve_Checker.thy ===== *)
theory Reserve_Checker imports Reserve_Contracts begin

text \<open>
  The independent check of a reserve dispatch, \<open>sanjiv/reserve/checker.py\<close>, and the policy
  profiles of \<open>sanjiv/reserve/profiles.py\<close>. The loop over the sites reads each site's stock,
  skips a site it cannot read, tests the others and accumulates receipts and objective terms.
\<close>

definition RESERVE_CHECKER_VERSION :: string where
  "RESERVE_CHECKER_VERSION = ''reserve-checker-v1''"

definition reserve_metric :: "reserve_input \<Rightarrow> datetime \<Rightarrow> pyfloat \<Rightarrow> string \<Rightarrow> metric res" where
  "reserve_metric i now value unit =
     mk_metric \<lparr>me_value = py_max 0 value, me_unit = unit, me_truth_class = MODELED, me_confidence = Fin 1,
       me_evidence_ids = map ef_evidence_id (rpv_evidence (ri_provenance i)),
       me_source_refs = [\<lparr>sr_source_id = ''reserve-checker'', sr_record_id = RESERVE_CHECKER_VERSION\<rparr>],
       me_effective_at = now, me_fetched_at = now, me_computed_at = now, me_freshness_status = F_CURRENT,
       me_transformation = RESERVE_CHECKER_VERSION, me_model_version = RESERVE_CHECKER_VERSION\<rparr>"

section \<open>One site\<close>

text \<open>\<open>timedelta.total_seconds() / 86400\<close>.\<close>

definition elapsed_days :: "datetime \<Rightarrow> datetime \<Rightarrow> pyfloat" where
  "elapsed_days start end' = of_exact (of_int (end' - start) / 1000000) / Fin 86400"

definition reserve_days :: "reserve_input \<Rightarrow> pyfloat" where
  "reserve_days i = elapsed_days (ri_starts_at i) (ri_ends_at i)"

definition dispatched :: "(uuid, pyfloat) dict \<Rightarrow> reserve_site \<Rightarrow> pyfloat" where
  "dispatched dispatch s = dict_get dispatch (rv_site_id s) 0"

definition opening_stock :: "reserve_site \<Rightarrow> pyfloat" where
  "opening_stock s = (case rv_opening_inventory s of None \<Rightarrow> NaN | Some m \<Rightarrow> me_value m)"

definition replenishment_of :: "reserve_site \<Rightarrow> pyfloat" where
  "replenishment_of s = (case rv_replenishment s of None \<Rightarrow> 0 | Some m \<Rightarrow> me_value m)"

definition remaining_stock :: "(uuid, pyfloat) dict \<Rightarrow> reserve_site \<Rightarrow> pyfloat" where
  "remaining_stock dispatch s = opening_stock s + replenishment_of s - dispatched dispatch s"

definition site_readable :: "reserve_input \<Rightarrow> (uuid, pyfloat) dict \<Rightarrow> reserve_site \<Rightarrow> bool" where
  "site_readable i dispatch s \<longleftrightarrow>
     list_all isfinite [dispatched dispatch s, opening_stock s, replenishment_of s, remaining_stock dispatch s] \<and>
     \<not> dispatched dispatch s < - ri_tolerance i"

definition floor_or_storage_broken :: "reserve_input \<Rightarrow> (uuid, pyfloat) dict \<Rightarrow> reserve_site \<Rightarrow> bool" where
  "floor_or_storage_broken i dispatch s \<longleftrightarrow>
     remaining_stock dispatch s < me_value (rv_minimum_policy_floor s) - ri_tolerance i \<or>
     me_value (rv_capacity s) + ri_tolerance i < remaining_stock dispatch s"

definition conservation_broken :: "reserve_input \<Rightarrow> (uuid, pyfloat) dict \<Rightarrow> reserve_site \<Rightarrow> bool" where
  "conservation_broken i dispatch s \<longleftrightarrow>
     ri_tolerance i < \<bar>opening_stock s + replenishment_of s - dispatched dispatch s - remaining_stock dispatch s\<bar>"

definition draw_rate_broken :: "reserve_input \<Rightarrow> (uuid, pyfloat) dict \<Rightarrow> reserve_site \<Rightarrow> bool" where
  "draw_rate_broken i dispatch s \<longleftrightarrow>
     me_value (rv_draw_rate_limit s) * reserve_days i + ri_tolerance i < dispatched dispatch s"

definition route_or_transit_broken :: "reserve_input \<Rightarrow> (uuid, pyfloat) dict \<Rightarrow> reserve_site \<Rightarrow> bool" where
  "route_or_transit_broken i dispatch s \<longleftrightarrow>
     me_value (rv_route_capacity s) * reserve_days i + ri_tolerance i < dispatched dispatch s \<or>
     reserve_days i + ri_tolerance i < me_value (rv_transit_time s)"

definition shared_capacity_broken :: "reserve_input \<Rightarrow> (uuid, pyfloat) dict \<Rightarrow> reserve_site \<Rightarrow> bool" where
  "shared_capacity_broken i dispatch s \<longleftrightarrow>
     me_value (rv_refinery_receipt_capacity s) + ri_tolerance i
       < dispatched dispatch s + me_value (rv_procurement_committed_receipts s)"

definition reserve_use_forbidden :: "reserve_input \<Rightarrow> (uuid, pyfloat) dict \<Rightarrow> reserve_site \<Rightarrow> bool" where
  "reserve_use_forbidden i dispatch s \<longleftrightarrow>
     rw_profile (ri_policy i) = NO_RESERVE_USE \<and> ri_tolerance i < dispatched dispatch s"

text \<open>The failure codes a site adds, in the order of the tests; an unreadable site is skipped.\<close>

definition codes_if :: "(bool \<times> string) list \<Rightarrow> string list" where
  "codes_if tests = map snd (filter fst tests)"

definition site_failures :: "reserve_input \<Rightarrow> (uuid, pyfloat) dict \<Rightarrow> reserve_site \<Rightarrow> string list" where
  "site_failures i dispatch s =
    (if \<not> site_readable i dispatch s then [''INVALID_OPENING_OR_DISPATCH'']
     else codes_if
       [(floor_or_storage_broken i dispatch s, ''POLICY_FLOOR_OR_STORAGE''),
        (conservation_broken i dispatch s, ''STOCK_CONSERVATION''),
        (draw_rate_broken i dispatch s, ''DRAW_RATE''),
        (route_or_transit_broken i dispatch s, ''ROUTE_OR_TRANSIT''),
        (shared_capacity_broken i dispatch s, ''PROCUREMENT_SHARED_CAPACITY''),
        (reserve_use_forbidden i dispatch s, ''NO_RESERVE_USE'')])"

section \<open>Receipts and shortages\<close>

definition readable_sites :: "reserve_input \<Rightarrow> (uuid, pyfloat) dict \<Rightarrow> reserve_site list" where
  "readable_sites i dispatch = filter (site_readable i dispatch) (ri_sites i)"

definition reserve_receipts :: "reserve_input \<Rightarrow> (uuid, pyfloat) dict \<Rightarrow> (uuid, pyfloat) dict" where
  "reserve_receipts i dispatch = dd_total rv_refinery_id (dispatched dispatch) (readable_sites i dispatch)"

definition reserve_demand_dict :: "reserve_input \<Rightarrow> (uuid, pyfloat) dict" where
  "reserve_demand_dict i = dict_of (map (\<lambda>d. (rq_refinery_id d, me_value (rq_required_volume d))) (ri_demands i))"

definition shortage_broken ::
  "reserve_input \<Rightarrow> (uuid, pyfloat) dict \<Rightarrow> (uuid, pyfloat) dict \<Rightarrow> uuid \<times> pyfloat \<Rightarrow> bool" where
  "shortage_broken i dispatch shortages d =
    (case d of (refinery_id, required) \<Rightarrow>
       let shortage = dict_get shortages refinery_id 0 in
       \<not> isfinite shortage \<or> shortage < - ri_tolerance i \<or>
       ri_tolerance i < \<bar>dict_get (reserve_receipts i dispatch) refinery_id 0 + shortage - required\<bar>)"

section \<open>The objective\<close>

definition reserve_raw ::
  "reserve_input \<Rightarrow> (uuid, pyfloat) dict \<Rightarrow> (uuid, pyfloat) dict \<Rightarrow> (string, pyfloat) dict" where
  "reserve_raw i dispatch shortages =
    (let sites = readable_sites i dispatch; q = dispatched dispatch in
     [(''shortage'', py_sum (map snd shortages)),
      (''reserve_depletion'', py_sum (map q sites)),
      (''logistics_cost'', py_sum (map (\<lambda>s. q s * me_value (rv_logistics_cost s) / Fin 1000) sites)),
      (''future_vulnerability'', py_sum (map (\<lambda>s. q s / py_max (me_value (rv_capacity s)) (Fin 1)) sites))])"

definition reserve_weight_dict :: "reserve_weights \<Rightarrow> (string, pyfloat) dict" where
  "reserve_weight_dict w =
    [(''shortage'', rw_shortage w), (''reserve_depletion'', rw_reserve_depletion w),
     (''logistics_cost'', rw_logistics_cost w), (''future_vulnerability'', rw_future_vulnerability w)]"

definition reserve_weighted :: "reserve_weights \<Rightarrow> (string, pyfloat) dict \<Rightarrow> (string, pyfloat) dict" where
  "reserve_weighted w raw = map (\<lambda>(key, value). (key, value * dict_get (reserve_weight_dict w) key 0)) raw"

definition reserve_total ::
  "reserve_input \<Rightarrow> (uuid, pyfloat) dict \<Rightarrow> (uuid, pyfloat) dict \<Rightarrow> pyfloat" where
  "reserve_total i dispatch shortages =
     py_sum (map snd (reserve_weighted (ri_policy i) (reserve_raw i dispatch shortages)))"

definition reserve_objective_agrees :: "reserve_input \<Rightarrow> pyfloat \<Rightarrow> pyfloat \<Rightarrow> bool" where
  "reserve_objective_agrees i reported reconstructed \<longleftrightarrow>
     isfinite reported \<and> \<bar>reported - reconstructed\<bar> \<le> ri_tolerance i"

section \<open>The check\<close>

text \<open>\<open>sorted\<close> of a set of failure codes: the codes in alphabetical order that are in the set.\<close>

definition RESERVE_CODES :: "string list" where
  "RESERVE_CODES =
    [''DRAW_RATE'', ''FINGERPRINT_MISMATCH'', ''INVALID_OPENING_OR_DISPATCH'', ''NO_RESERVE_USE'',
     ''OBJECTIVE_RECONSTRUCTION'', ''POLICY_FLOOR_OR_STORAGE'', ''PROCUREMENT_SHARED_CAPACITY'',
     ''RECEIPT_SHORTAGE_RECONCILIATION'', ''ROUTE_OR_TRANSIT'', ''STOCK_CONSERVATION'']"

definition sorted_codes :: "string list \<Rightarrow> string list" where
  "sorted_codes codes = filter (\<lambda>c. c \<in> set codes) RESERVE_CODES"

definition reserve_failures ::
  "reserve_hash \<Rightarrow> reserve_input \<Rightarrow> (uuid, pyfloat) dict \<Rightarrow> (uuid, pyfloat) dict \<Rightarrow> pyfloat \<Rightarrow> string list" where
  "reserve_failures sha256 i dispatch shortages reported =
     concat (map (site_failures i dispatch) (ri_sites i)) @
     codes_if
       [(list_ex (shortage_broken i dispatch shortages) (reserve_demand_dict i), ''RECEIPT_SHORTAGE_RECONCILIATION''),
        (\<not> reserve_objective_agrees i reported (reserve_total i dispatch shortages), ''OBJECTIVE_RECONSTRUCTION''),
        (ri_input_fingerprint i \<noteq> reserve_input_fingerprint sha256 i, ''FINGERPRINT_MISMATCH'')]"

definition reserve_check_of ::
  "reserve_hash \<Rightarrow> reserve_input \<Rightarrow> (uuid, pyfloat) dict \<Rightarrow> (uuid, pyfloat) dict \<Rightarrow> pyfloat \<Rightarrow> datetime \<Rightarrow> reserve_check" where
  "reserve_check_of sha256 i dispatch shortages reported now =
    (let failures = reserve_failures sha256 i dispatch shortages reported;
         site_ok = (\<lambda>code. \<not> list_ex (\<lambda>s. code \<in> set (site_failures i dispatch s)) (ri_sites i));
         opening_ok = site_ok ''INVALID_OPENING_OR_DISPATCH'';
         floor_ok = site_ok ''POLICY_FLOOR_OR_STORAGE'';
         conservation_ok = site_ok ''STOCK_CONSERVATION'';
         draw_ok = site_ok ''DRAW_RATE'';
         transit_ok = site_ok ''ROUTE_OR_TRANSIT'';
         coordination_ok = site_ok ''PROCUREMENT_SHARED_CAPACITY'';
         capacity_ok = site_ok ''NO_RESERVE_USE'';
         shortage_ok = (\<not> list_ex (shortage_broken i dispatch shortages) (reserve_demand_dict i));
         objective_ok = reserve_objective_agrees i reported (reserve_total i dispatch shortages);
         fingerprint_ok = (ri_input_fingerprint i = reserve_input_fingerprint sha256 i);
         dispatch_receipt_ok = (conservation_ok \<and> transit_ok)
     in \<lparr>rk_checked_at = now,
         rk_passed = (list_all (\<lambda>b. b) [opening_ok, floor_ok, conservation_ok, draw_ok, dispatch_receipt_ok,
           transit_ok, capacity_ok, coordination_ok, shortage_ok, objective_ok, fingerprint_ok] \<and> failures = []),
         rk_opening_inventory_passed = opening_ok, rk_floor_passed = floor_ok,
         rk_conservation_passed = conservation_ok, rk_draw_rate_passed = draw_ok,
         rk_dispatch_receipt_passed = dispatch_receipt_ok, rk_transit_passed = transit_ok,
         rk_capacity_passed = capacity_ok, rk_procurement_coordination_passed = coordination_ok,
         rk_shortage_passed = shortage_ok, rk_objective_passed = objective_ok,
         rk_fingerprint_passed = fingerprint_ok, rk_failure_codes = sorted_codes failures\<rparr>)"

definition RESERVE_CHECKED :: "string list" where
  "RESERVE_CHECKED =
    [''opening_inventory'', ''storage_capacity'', ''minimum_policy_floor'', ''stock_conservation'', ''draw_rate'',
     ''route_capacity'', ''transit_delay'', ''refinery_receipt'', ''procurement_shared_capacity'',
     ''receipt_reconciliation'', ''no_hidden_losses'', ''no_hidden_replenishment'', ''no_reserve_use'', ''fingerprint'']"

definition independent_reserve_check ::
  "reserve_hash \<Rightarrow> reserve_input \<Rightarrow> (uuid, pyfloat) dict \<Rightarrow> (uuid, pyfloat) dict \<Rightarrow> pyfloat \<Rightarrow> datetime
     \<Rightarrow> (reserve_check \<times> reserve_objective \<times> reserve_report) res" where
  "independent_reserve_check sha256 i dispatch shortages reported now =
    (let raw = reserve_raw i dispatch shortages;
         weighted = reserve_weighted (ri_policy i) raw;
         reconstructed = py_sum (map snd weighted);
         c = reserve_check_of sha256 i dispatch shortages reported now
     in
     rbind (validated (reserve_check_problems c) c) (\<lambda>check.
     rbind (reserve_metric i now reconstructed ''objective_point'') (\<lambda>total.
       let b = \<lparr>rb_raw_metrics = raw, rb_weights = reserve_weight_dict (ri_policy i),
                rb_weighted_contributions = weighted, rb_total = total\<rparr>
       in rbind (validated (reserve_objective_problems b) b) (\<lambda>objective.
         Inr (check, objective,
           \<lparr>rr_feasible = rk_passed check, rr_checked = RESERVE_CHECKED, rr_violations = rk_failure_codes check\<rparr>)))))"

section \<open>Policy profiles\<close>

fun reserve_profile_name :: "reserve_profile \<Rightarrow> string" where
  "reserve_profile_name CONSERVATIVE = ''CONSERVATIVE''"
| "reserve_profile_name RES_BALANCED = ''BALANCED''"
| "reserve_profile_name AGGRESSIVE_CONTINUITY = ''AGGRESSIVE_CONTINUITY''"
| "reserve_profile_name NO_RESERVE_USE = ''NO_RESERVE_USE''"

fun reserve_policy_values :: "reserve_profile \<Rightarrow> pyfloat \<times> pyfloat \<times> pyfloat \<times> pyfloat \<times> pyfloat" where
  "reserve_policy_values CONSERVATIVE = (Fin 1000, Fin 12, Fin 1, Fin 18, fl (70 / 100))"
| "reserve_policy_values RES_BALANCED = (Fin 1000, Fin 6, Fin 1, Fin 8, fl (55 / 100))"
| "reserve_policy_values AGGRESSIVE_CONTINUITY = (Fin 1000, Fin 1, Fin 1, Fin 2, fl (35 / 100))"
| "reserve_policy_values NO_RESERVE_USE = (Fin 1000, 0, 0, 0, Fin 1)"

definition reserve_policy :: "reserve_profile \<Rightarrow> reserve_weights res" where
  "reserve_policy profile =
    (case reserve_policy_values profile of (shortage, depletion, logistics, vulnerability, minimum) \<Rightarrow>
       let w = \<lparr>rw_profile = profile,
                rw_version = ''reserve-policy-calibration-v1:'' @ reserve_profile_name profile,
                rw_shortage = shortage, rw_reserve_depletion = depletion, rw_logistics_cost = logistics,
                rw_future_vulnerability = vulnerability, rw_minimum_floor_fraction = minimum\<rparr>
       in validated (reserve_weights_problems w) w)"

end
