(* ===== verification/Reserve_Solver.thy ===== *)
theory Reserve_Solver imports Reserve_Checker Solver_Calls begin

text \<open>
  The reserve solver, \<open>sanjiv/reserve/solver.py\<close>: the linear model handed to HiGHS, stated as
  the constraints an assignment has to satisfy, and the assembly of the solver result around it.
  Pyomo and HiGHS are the parameter of \<open>Solver_Calls\<close>; \<open>uuid5\<close> is a parameter too.
\<close>

section \<open>The model\<close>

definition model_opening :: "reserve_site \<Rightarrow> pyfloat" where
  "model_opening s = (case rv_opening_inventory s of None \<Rightarrow> 0 | Some m \<Rightarrow> me_value m)"

definition release_cap :: "reserve_input \<Rightarrow> reserve_site \<Rightarrow> pyfloat" where
  "release_cap i s = py_min_list 0
    [py_max 0 (model_opening s + replenishment_of s - me_value (rv_minimum_policy_floor s)),
     me_value (rv_draw_rate_limit s) * reserve_days i,
     me_value (rv_route_capacity s) * reserve_days i,
     py_max 0 (me_value (rv_refinery_receipt_capacity s) - me_value (rv_procurement_committed_receipts s))]"

definition dispatch_fixed :: "reserve_input \<Rightarrow> reserve_site \<Rightarrow> bool" where
  "dispatch_fixed i s \<longleftrightarrow> reserve_days i < me_value (rv_transit_time s) \<or> rw_profile (ri_policy i) = NO_RESERVE_USE"

text \<open>The domain of the variable of a site and the constraints added for it.\<close>

definition model_site :: "reserve_input \<Rightarrow> (uuid, pyfloat) dict \<Rightarrow> reserve_site \<Rightarrow> bool" where
  "model_site i dispatch s \<longleftrightarrow>
    (let q = dispatched dispatch s; stock = model_opening s + replenishment_of s - q in
     isfinite q \<and> 0 \<le> q \<and> q \<le> release_cap i s \<and> me_value (rv_minimum_policy_floor s) \<le> stock \<and>
     stock \<le> me_value (rv_capacity s) \<and> (if dispatch_fixed i s then q = 0 else True))"

definition model_demand ::
  "reserve_input \<Rightarrow> (uuid, pyfloat) dict \<Rightarrow> (uuid, pyfloat) dict \<Rightarrow> uuid \<times> pyfloat \<Rightarrow> bool" where
  "model_demand i dispatch shortages d \<longleftrightarrow>
    (case d of (refinery_id, required) \<Rightarrow>
       let shortage = dict_get shortages refinery_id 0 in
       isfinite shortage \<and> 0 \<le> shortage \<and>
       py_sum (map (dispatched dispatch) (filter (\<lambda>s. rv_refinery_id s = refinery_id) (ri_sites i))) + shortage = required)"

definition model_feasible :: "reserve_input \<Rightarrow> (uuid, pyfloat) dict \<Rightarrow> (uuid, pyfloat) dict \<Rightarrow> bool" where
  "model_feasible i dispatch shortages \<longleftrightarrow>
     list_all (model_site i dispatch) (ri_sites i) \<and> list_all (model_demand i dispatch shortages) (reserve_demand_dict i)"

text \<open>The number of active constraints of the built model.\<close>

definition constraint_count :: "reserve_input \<Rightarrow> nat" where
  "constraint_count i =
     sum_list (map (\<lambda>s. if dispatch_fixed i s then 4 else 3) (ri_sites i)) + length (reserve_demand_dict i)"

definition MAX_SITES :: nat where "MAX_SITES = 100"
definition MAX_CONSTRAINTS :: nat where "MAX_CONSTRAINTS = 5000"

section \<open>Outputs\<close>

definition solver_metric :: "reserve_input \<Rightarrow> datetime \<Rightarrow> pyfloat \<Rightarrow> string \<Rightarrow> metric res" where
  "solver_metric i now value unit =
     mk_metric \<lparr>me_value = py_max 0 value, me_unit = unit, me_truth_class = MODELED, me_confidence = Fin 1,
       me_evidence_ids = map ef_evidence_id (rpv_evidence (ri_provenance i)),
       me_source_refs = [\<lparr>sr_source_id = ''reserve-solver'', sr_record_id = RESERVE_SOLVER_MODEL\<rparr>],
       me_effective_at = now, me_fetched_at = now, me_computed_at = now, me_freshness_status = F_CURRENT,
       me_transformation = RESERVE_SOLVER_MODEL, me_model_version = RESERVE_SOLVER_MODEL\<rparr>"

definition site_demand :: "reserve_input \<Rightarrow> reserve_site \<Rightarrow> pyfloat" where
  "site_demand i s =
    (case filter (\<lambda>d. rq_refinery_id d = rv_refinery_id s) (ri_demands i) of
       [] \<Rightarrow> 0 | d # _ \<Rightarrow> me_value (rq_required_volume d))"

definition stock_cover :: "reserve_input \<Rightarrow> reserve_site \<Rightarrow> pyfloat \<Rightarrow> pyfloat" where
  "stock_cover i s stock =
     stock / py_max (site_demand i s / py_max (reserve_days i) (Fin 1)) (fl (1 / 1000000000))"

definition reserve_action_of ::
  "uuid5_fun \<Rightarrow> reserve_input \<Rightarrow> datetime \<Rightarrow> reserve_site \<Rightarrow> pyfloat \<Rightarrow> pyfloat \<Rightarrow> datetime \<Rightarrow> reserve_action res" where
  "reserve_action_of uuid5 i now s quantity remaining receipt_at =
     rbind (solver_metric i now quantity ''ktonne'') (\<lambda>volume.
     rbind (solver_metric i now remaining ''ktonne'') (\<lambda>left.
     rbind (solver_metric i now (stock_cover i s remaining) ''day'') (\<lambda>cover.
       let a = \<lparr>rx_action_id = uuid5 (''urn:sanjiv:reserve-action:'' @ ri_input_fingerprint i @ '':'' @ uuid_str (rv_site_id s)),
         rx_site_id = rv_site_id s, rx_refinery_id = rv_refinery_id s, rx_route_id = rv_route_id s,
         rx_dispatch = volume, rx_in_transit = volume, rx_receipt = volume,
         rx_remaining_inventory = left, rx_remaining_cover = cover,
         rx_dispatch_at = ri_starts_at i, rx_receipt_at = receipt_at,
         rx_evidence_ids = rv_evidence_ids s, rx_assumption_ids = rv_assumption_ids s\<rparr>
       in validated (reserve_action_problems a) a)))"

definition site_timeline ::
  "reserve_input \<Rightarrow> datetime \<Rightarrow> reserve_site \<Rightarrow> pyfloat \<Rightarrow> reserve_point list res" where
  "site_timeline i now s remaining =
    (let point = (\<lambda>time stock.
       rbind (solver_metric i now stock ''ktonne'') (\<lambda>inventory.
       rmap (\<lambda>cover. \<lparr>ry_site_id = rv_site_id s, ry_at = time, ry_inventory = inventory, ry_cover = cover\<rparr>)
         (solver_metric i now (stock_cover i s stock) ''day'')))
     in rbind (point (ri_starts_at i) (model_opening s)) (\<lambda>opening_point.
        rmap (\<lambda>closing_point. [opening_point, closing_point]) (point (ri_ends_at i) remaining)))"

definition site_outputs ::
  "uuid5_fun \<Rightarrow> reserve_input \<Rightarrow> (uuid, pyfloat) dict \<Rightarrow> datetime \<Rightarrow> reserve_site
     \<Rightarrow> (reserve_action list \<times> reserve_point list) res" where
  "site_outputs uuid5 i dispatch now s =
    (let quantity = dispatched dispatch s; remaining = model_opening s + replenishment_of s - quantity in
     rbind (timedelta_days (me_value (rv_transit_time s))) (\<lambda>transit.
     rbind (datetime_add (ri_starts_at i) transit) (\<lambda>receipt_at.
     rbind (if ri_tolerance i < quantity
            then rmap (\<lambda>a. [a]) (reserve_action_of uuid5 i now s quantity remaining receipt_at)
            else Inr []) (\<lambda>actions.
     rmap (\<lambda>points. (actions, points)) (site_timeline i now s remaining)))))"

definition reserve_outputs ::
  "uuid5_fun \<Rightarrow> reserve_input \<Rightarrow> (uuid, pyfloat) dict \<Rightarrow> datetime \<Rightarrow> (reserve_action list \<times> reserve_point list) res" where
  "reserve_outputs uuid5 i dispatch now =
     rmap (\<lambda>parts. (concat (map fst parts), concat (map snd parts)))
       (rtraverse (site_outputs uuid5 i dispatch now) (ri_sites i))"

section \<open>Results\<close>

definition reserve_metadata :: "reserve_input \<Rightarrow> solver_configuration \<Rightarrow> clock \<Rightarrow> solver_metadata" where
  "reserve_metadata i configuration clock =
    \<lparr>md_solver_version = so_solver_version configuration, md_model_version = RESERVE_SOLVER_MODEL,
     md_objective_weight_version = rw_version (ri_policy i),
     md_hard_constraint_version = ''reserve-hard-constraints-v1'', md_configuration = configuration,
     md_started_at = Some (ck_started clock), md_completed_at = Some (ck_completed clock),
     md_runtime = Some \<lparr>sq_value = py_max 0 (ck_elapsed clock), sq_unit = ''second''\<rparr>, md_iterations = None\<rparr>"

definition reserve_result_id :: "uuid5_fun \<Rightarrow> reserve_input \<Rightarrow> uuid" where
  "reserve_result_id uuid5 i = uuid5 (''urn:sanjiv:reserve-result:'' @ ri_input_fingerprint i)"

text \<open>A result without plan, as every failing branch builds it.\<close>

definition failed_result ::
  "uuid5_fun \<Rightarrow> reserve_input \<Rightarrow> solver_configuration \<Rightarrow> clock \<Rightarrow> solver_status \<Rightarrow> reserve_failure
     \<Rightarrow> reserve_report option \<Rightarrow> reserve_check option \<Rightarrow> reserve_result res" where
  "failed_result uuid5 i configuration clock status failure report check =
    (let r = \<lparr>rl_result_id = reserve_result_id uuid5 i, rl_profile = rw_profile (ri_policy i), rl_status = status,
       rl_metadata = reserve_metadata i configuration clock, rl_actions = [], rl_timeline = [],
       rl_objective = None, rl_constraints = report, rl_checker = check, rl_residual_shortage = None,
       rl_rejected_options = [], rl_failure = Some failure\<rparr>
     in validated (reserve_result_problems r) r)"

definition solver_failure :: "string \<Rightarrow> string \<Rightarrow> reserve_failure" where
  "solver_failure code message = \<lparr>rg_code = code, rg_message = message, rg_stage = RS_SOLVER, rg_retryable = False\<rparr>"

definition infeasible_failure :: reserve_failure where
  "infeasible_failure = solver_failure ''INFEASIBLE'' ''No reserve plan satisfies all physical and policy constraints.''"

definition check_failure :: reserve_failure where
  "check_failure = \<lparr>rg_code = ''INDEPENDENT_CHECK_FAILED'',
     rg_message = ''Independent verification rejected the reserve output.'',
     rg_stage = RS_CHECKER, rg_retryable = False\<rparr>"

definition no_use_rejections :: "reserve_input \<Rightarrow> reserve_rejected list" where
  "no_use_rejections i =
    (if rw_profile (ri_policy i) = NO_RESERVE_USE
     then map (\<lambda>s. \<lparr>rh_site_id = rv_site_id s, rh_reason = RJ_NO_RESERVE_USE,
                     rh_constraint_id = ''site:'' @ uuid_str (rv_site_id s) @ '':no-reserve-use'',
                     rh_explanation = ''The selected policy fixes reserve dispatch at zero.''\<rparr>) (ri_sites i)
     else [])"

section \<open>The solver call\<close>

definition usable_result ::
  "uuid5_fun \<Rightarrow> reserve_input \<Rightarrow> solver_configuration \<Rightarrow> clock \<Rightarrow> bool \<Rightarrow> (uuid, pyfloat) dict
     \<Rightarrow> (uuid, pyfloat) dict \<Rightarrow> reserve_check \<times> reserve_objective \<times> reserve_report \<Rightarrow> reserve_result res" where
  "usable_result uuid5 i configuration clock timed_out dispatch shortages checked =
    (case checked of (check, objective, report) \<Rightarrow>
     rbind (reserve_outputs uuid5 i dispatch (rk_checked_at check)) (\<lambda>(actions, timeline).
     rbind (solver_metric i (rk_checked_at check) (py_sum (map snd shortages)) ''ktonne'') (\<lambda>residual.
       let r = \<lparr>rl_result_id = reserve_result_id uuid5 i, rl_profile = rw_profile (ri_policy i),
         rl_status = (if timed_out then FEASIBLE else OPTIMAL), rl_metadata = reserve_metadata i configuration clock,
         rl_actions = actions, rl_timeline = timeline, rl_objective = Some objective, rl_constraints = Some report,
         rl_checker = Some check, rl_residual_shortage = Some residual,
         rl_rejected_options = no_use_rejections i, rl_failure = None\<rparr>
       in validated (reserve_result_problems r) r)))"

definition checked_result ::
  "uuid5_fun \<Rightarrow> reserve_hash \<Rightarrow> reserve_input \<Rightarrow> solver_configuration \<Rightarrow> clock \<Rightarrow> bool \<Rightarrow> pyomo_outcome \<Rightarrow> reserve_result res" where
  "checked_result uuid5 sha256 i configuration clock timed_out outcome =
    (let dispatch = read_values (po_amounts outcome) (map rv_site_id (ri_sites i));
         shortages = read_values (po_shortage outcome) (map fst (reserve_demand_dict i));
         reported = po_objective outcome;
         checked = (if isfinite reported
                    then independent_reserve_check sha256 i dispatch shortages reported (ck_checked clock)
                    else Inl (ValueError ''non-finite objective''))
     in case checked of
       Inl e \<Rightarrow> failed_result uuid5 i configuration clock ERROR
         (solver_failure ''CHECKER_ERROR'' ''Independent reserve verification could not reproduce the solution.'') None None
     | Inr (check, objective, report) \<Rightarrow>
         if \<not> rk_passed check
         then failed_result uuid5 i configuration clock ERROR check_failure (Some report) (Some check)
         else usable_result uuid5 i configuration clock timed_out dispatch shortages (check, objective, report))"

definition solve_reserve_plan ::
  "uuid5_fun \<Rightarrow> reserve_hash \<Rightarrow> (reserve_input \<Rightarrow> solver_configuration \<Rightarrow> solve_outcome) \<Rightarrow> clock
     \<Rightarrow> reserve_input \<Rightarrow> solver_configuration \<Rightarrow> reserve_result res" where
  "solve_reserve_plan uuid5 sha256 solver clock i configuration =
    (let failed = (\<lambda>status failure. failed_result uuid5 i configuration clock status failure None None) in
     if MAX_SITES < length (ri_sites i) then failed ERROR
       (solver_failure ''MODEL_SIZE_LIMIT'' ''Reserve model exceeds the bounded site limit.'')
     else if MAX_CONSTRAINTS < constraint_count i then failed ERROR
       (solver_failure ''MODEL_SIZE_LIMIT'' ''Reserve model exceeds the bounded constraint limit.'')
     else case solver i configuration of
       NO_FEASIBLE_SOLUTION \<Rightarrow> failed INFEASIBLE infeasible_failure
     | SOLVE_RAISES \<Rightarrow> failed ERROR
         (solver_failure ''SOLVER_ERROR'' ''HiGHS could not complete the bounded reserve model.'')
     | SOLVED outcome \<Rightarrow>
         if po_termination outcome \<in> {TC_INFEASIBLE, TC_INFEASIBLE_OR_UNBOUNDED} then failed INFEASIBLE infeasible_failure
         else if po_termination outcome \<notin> {TC_OPTIMAL, TC_FEASIBLE, TC_MAX_TIME, TC_MAX_ITERATIONS}
             \<or> po_status outcome \<notin> {PS_OK, PS_WARNING} then failed ERROR
           (solver_failure ''SOLVER_TERMINATION'' ''HiGHS returned a non-usable reserve termination state.'')
         else checked_result uuid5 sha256 i configuration clock
           (po_termination outcome \<in> {TC_MAX_TIME, TC_MAX_ITERATIONS, TC_RESOURCE_INTERRUPT}) outcome)"

end
