(* ===== verification/Reserve_Check.thy ===== *)
theory Reserve_Check imports Reserve_Solver Validation_Facts begin

text \<open>
  What the independent reserve check decides: the constraints stated over the stocks and the
  shipped sums, and the refinement of the checker's loop and failure codes to them.
\<close>

section \<open>The constraints\<close>

definition reserve_site_met :: "reserve_input \<Rightarrow> (uuid, pyfloat) dict \<Rightarrow> reserve_site \<Rightarrow> bool" where
  "reserve_site_met i dispatch s \<longleftrightarrow>
    (let q = dispatched dispatch s; left = remaining_stock dispatch s; tol = ri_tolerance i; days = reserve_days i in
     isfinite q \<and> isfinite left \<and> - tol \<le> q \<and>
     me_value (rv_minimum_policy_floor s) - tol \<le> left \<and> left \<le> me_value (rv_capacity s) + tol \<and>
     q \<le> me_value (rv_draw_rate_limit s) * days + tol \<and> q \<le> me_value (rv_route_capacity s) * days + tol \<and>
     me_value (rv_transit_time s) \<le> days + tol \<and>
     q + me_value (rv_procurement_committed_receipts s) \<le> me_value (rv_refinery_receipt_capacity s) + tol \<and>
     (rw_profile (ri_policy i) = NO_RESERVE_USE \<longrightarrow> q \<le> tol))"

definition refinery_receipt :: "reserve_input \<Rightarrow> (uuid, pyfloat) dict \<Rightarrow> uuid \<Rightarrow> pyfloat" where
  "refinery_receipt i dispatch u = py_sum (map (dispatched dispatch) (filter (\<lambda>s. rv_refinery_id s = u) (ri_sites i)))"

definition reserve_demand_met ::
  "reserve_input \<Rightarrow> (uuid, pyfloat) dict \<Rightarrow> (uuid, pyfloat) dict \<Rightarrow> uuid \<times> pyfloat \<Rightarrow> bool" where
  "reserve_demand_met i dispatch shortages d \<longleftrightarrow>
    (case d of (u, required) \<Rightarrow> let shortage = dict_get shortages u 0; tol = ri_tolerance i in
       isfinite shortage \<and> - tol \<le> shortage \<and> \<bar>refinery_receipt i dispatch u + shortage - required\<bar> \<le> tol)"

definition reserve_constraints_met :: "reserve_input \<Rightarrow> (uuid, pyfloat) dict \<Rightarrow> (uuid, pyfloat) dict \<Rightarrow> bool" where
  "reserve_constraints_met i dispatch shortages \<longleftrightarrow>
     (\<forall>s \<in> set (ri_sites i). reserve_site_met i dispatch s) \<and>
     (\<forall>d \<in> set (reserve_demand_dict i). reserve_demand_met i dispatch shortages d)"

section \<open>Valid inputs\<close>

lemma valid_reserve_input:
  assumes "reserve_input_valid sha256 i"
  shows "isfinite (ri_tolerance i)" "0 < ri_tolerance i" "ri_input_fingerprint i = reserve_input_fingerprint sha256 i"
    "distinct (map rv_site_id (ri_sites i))" "s \<in> set (ri_sites i) \<Longrightarrow> first_error (reserve_site_problems s) = None"
    "s \<in> set (ri_sites i) \<Longrightarrow> rv_opening_inventory_status s \<noteq> INVENTORY_UNKNOWN"
    "length (ri_sites i) \<le> 20" "length (ri_demands i) \<le> 100"
    "d \<in> set (ri_demands i) \<Longrightarrow> metric_valid (rq_required_volume d)"
    "first_error (reserve_weights_problems (ri_policy i)) = None"
  using assms unfolding reserve_input_valid_def reserve_input_problems_def no_error_simps list_ex_iff len_between_def
  by blast+

lemma valid_site_metrics:
  assumes "first_error (reserve_site_problems s) = None" "(n, m, u) \<in> set (site_metrics s)"
  shows "isfinite (me_value m)" "0 \<le> me_value m"
proof -
  have "site_metric_problem (n, m, u) \<in> set (reserve_site_problems s)"
    using assms(2) unfolding reserve_site_problems_def set_append set_map by blast
  then have "\<not> (me_unit m \<noteq> u \<or> \<not> isfinite (me_value m) \<or> me_value m < 0)"
    by (intro first_error_NoneD [OF assms(1)]) (simp add: site_metric_problem_def)
  then show "isfinite (me_value m)" "0 \<le> me_value m" by (auto simp: zero_pyfloat_def less_pyfloat_def)
qed

lemma site_values:
  assumes "first_error (reserve_site_problems s) = None"
  shows "isfinite (me_value (rv_capacity s))" "isfinite (me_value (rv_minimum_policy_floor s))"
    "isfinite (me_value (rv_draw_rate_limit s))" "isfinite (me_value (rv_route_capacity s))"
    "isfinite (me_value (rv_transit_time s))" "isfinite (me_value (rv_refinery_receipt_capacity s))"
    "isfinite (me_value (rv_procurement_committed_receipts s))" "isfinite (me_value (rv_logistics_cost s))"
    "isfinite (replenishment_of s)"
proof -
  have *: "list_all (\<lambda>(n, m, u). isfinite (me_value m)) (site_metrics s)"
    using valid_site_metrics(1) [OF assms] by (auto simp: list_all_iff)
  show "isfinite (me_value (rv_capacity s))" "isfinite (me_value (rv_minimum_policy_floor s))"
    "isfinite (me_value (rv_draw_rate_limit s))" "isfinite (me_value (rv_route_capacity s))"
    "isfinite (me_value (rv_transit_time s))" "isfinite (me_value (rv_refinery_receipt_capacity s))"
    "isfinite (me_value (rv_procurement_committed_receipts s))" "isfinite (me_value (rv_logistics_cost s))"
    using * by (simp_all add: site_metrics_def)
  show "isfinite (replenishment_of s)"
    using * by (cases "rv_replenishment s") (simp_all add: site_metrics_def replenishment_of_def)
qed

lemma site_opening:
  assumes "first_error (reserve_site_problems s) = None" "rv_opening_inventory_status s \<noteq> INVENTORY_UNKNOWN"
  shows "isfinite (opening_stock s)" "model_opening s = opening_stock s"
proof -
  have "\<not> (rv_opening_inventory_status s \<noteq> INVENTORY_UNKNOWN \<and> rv_opening_inventory s = None)"
    by (rule first_error_NoneD [OF assms(1), of _ "ValueError ''known opening inventory requires a value''"])
      (simp add: reserve_site_problems_def)
  with assms(2) obtain m where m: "rv_opening_inventory s = Some m" by auto
  then have "isfinite (me_value m)"
    by (intro valid_site_metrics(1) [OF assms(1), of "''opening_inventory''" m "''ktonne''"]) (simp add: site_metrics_def)
  with m show "isfinite (opening_stock s)" "model_opening s = opening_stock s"
    by (simp_all add: opening_stock_def model_opening_def)
qed

section \<open>The loop over the sites\<close>

lemma codes_if_Nil: "codes_if tests = [] \<longleftrightarrow> list_all (\<lambda>t. \<not> fst t) tests"
  by (auto simp: codes_if_def filter_empty_conv list_all_iff)

lemma conservation_never_broken:
  assumes "isfinite (remaining_stock dispatch s)" "0 < ri_tolerance i"
  shows "\<not> conservation_broken i dispatch s"
proof -
  have "opening_stock s + replenishment_of s - dispatched dispatch s - remaining_stock dispatch s = 0"
    using minus_self_pyfloat [OF assms(1)] by (simp add: remaining_stock_def)
  then have "conservation_broken i dispatch s \<longleftrightarrow> ri_tolerance i < \<bar>0\<bar>" by (simp add: conservation_broken_def)
  also have "\<dots> \<longleftrightarrow> False" using assms(2) by (cases "ri_tolerance i") (simp_all flip: zero_Fin)
  finally show ?thesis by simp
qed

lemma site_decided:
  assumes "reserve_input_valid sha256 i" "s \<in> set (ri_sites i)" "isfinite (reserve_days i)"
  shows "site_failures i dispatch s = [] \<longleftrightarrow> reserve_site_met i dispatch s"
proof -
  note v = valid_reserve_input [OF assms(1)]
  note m = site_values [OF v(5) [OF assms(2)]]
  note p = site_opening [OF v(5) [OF assms(2)] v(6) [OF assms(2)]]
  let ?q = "dispatched dispatch s" and ?left = "remaining_stock dispatch s" and ?tol = "ri_tolerance i"
  have r: "site_readable i dispatch s \<longleftrightarrow> isfinite ?q \<and> isfinite ?left \<and> \<not> ?q < - ?tol"
    using m p by (simp add: site_readable_def conj_ac)
  have neg: "- ?tol \<noteq> NaN" using v(1) by auto
  show ?thesis
  proof (cases "isfinite ?q \<and> isfinite ?left")
    case True
    then have q: "?q \<noteq> NaN" and l: "?left \<noteq> NaN" by auto
    have "\<not> conservation_broken i dispatch s" using True v(2) by (intro conservation_never_broken) auto
    with True r show ?thesis using q l m(2,3,4,6,7,8) neg
      by (simp add: site_failures_def codes_if_Nil reserve_site_met_def Let_def floor_or_storage_broken_def
          draw_rate_broken_def route_or_transit_broken_def shared_capacity_broken_def reserve_use_forbidden_def
          not_less_pyfloat minus_finite_not_NaN times_finite_not_NaN add_finite_not_NaN finite_not_NaN
          m v(1) assms(3))
  next
    case False
    with r show ?thesis by (auto simp: site_failures_def reserve_site_met_def Let_def)
  qed
qed

lemma site_failures_unreadable: "\<not> site_readable i dispatch s \<Longrightarrow> site_failures i dispatch s \<noteq> []"
  by (simp add: site_failures_def)

lemma readable_all:
  assumes "\<And>s. s \<in> set (ri_sites i) \<Longrightarrow> site_failures i dispatch s = []"
  shows "readable_sites i dispatch = ri_sites i"
  using assms site_failures_unreadable by (auto simp: readable_sites_def filter_id_conv)

lemma receipts_refinery:
  "readable_sites i dispatch = ri_sites i \<Longrightarrow> dict_get (reserve_receipts i dispatch) u 0 = refinery_receipt i dispatch u"
  by (simp add: reserve_receipts_def dict_get_dd_total refinery_receipt_def)

section \<open>The outcome of the check\<close>

lemma demand_decided:
  assumes "readable_sites i dispatch = ri_sites i" "isfinite (ri_tolerance i)"
    "isfinite (snd d)" "refinery_receipt i dispatch (fst d) \<noteq> NaN"
  shows "\<not> shortage_broken i dispatch shortages d \<longleftrightarrow> reserve_demand_met i dispatch shortages d"
proof -
  obtain u required where d: "d = (u, required)" by force
  let ?shortage = "dict_get shortages u 0"
  show ?thesis
  proof (cases "isfinite ?shortage")
    case True
    have "?shortage \<noteq> NaN" "- ri_tolerance i \<noteq> NaN" "ri_tolerance i \<noteq> NaN" using True assms(2) by auto
    moreover have "\<bar>refinery_receipt i dispatch u + ?shortage - required\<bar> \<noteq> NaN"
      using True assms(3,4) d by (simp add: abs_not_NaN minus_finite_not_NaN add_finite_not_NaN)
    ultimately show ?thesis using True
      by (simp add: d shortage_broken_def reserve_demand_met_def Let_def receipts_refinery [OF assms(1)] not_less_pyfloat)
  qed (simp add: d shortage_broken_def reserve_demand_met_def Let_def)
qed

lemma codes_if_subset: "set (codes_if tests) \<subseteq> snd ` set tests"
  by (auto simp: codes_if_def)

lemma codes_known:
  assumes "list_all (\<lambda>t. snd t \<in> set RESERVE_CODES) tests"
  shows "set (codes_if tests) \<subseteq> set RESERVE_CODES"
  using assms codes_if_subset [of tests] by (auto simp: list_all_iff)

lemma site_failures_known: "set (site_failures i dispatch s) \<subseteq> set RESERVE_CODES"
proof (cases "site_readable i dispatch s")
  case True
  then show ?thesis unfolding site_failures_def
    by (simp only: not_True_eq_False if_False, intro codes_known) (simp add: RESERVE_CODES_def)
next
  case False
  then show ?thesis unfolding site_failures_def by (simp add: RESERVE_CODES_def)
qed

lemma failures_known: "set (reserve_failures sha256 i dispatch shortages reported) \<subseteq> set RESERVE_CODES"
proof -
  have "set (concat (map (site_failures i dispatch) (ri_sites i))) \<subseteq> set RESERVE_CODES"
    unfolding set_concat set_map using site_failures_known by blast
  then show ?thesis unfolding reserve_failures_def set_append
    by (intro Un_least codes_known) (simp_all add: RESERVE_CODES_def)
qed

lemma sorted_codes_Nil: "set codes \<subseteq> set RESERVE_CODES \<Longrightarrow> sorted_codes codes = [] \<longleftrightarrow> codes = []"
  by (cases codes) (auto simp: sorted_codes_def filter_empty_conv)

lemma reserve_failures_Nil:
  "reserve_failures sha256 i dispatch shortages reported = [] \<longleftrightarrow>
     (\<forall>s \<in> set (ri_sites i). site_failures i dispatch s = []) \<and>
     (\<forall>d \<in> set (reserve_demand_dict i). \<not> shortage_broken i dispatch shortages d) \<and>
     reserve_objective_agrees i reported (reserve_total i dispatch shortages) \<and>
     ri_input_fingerprint i = reserve_input_fingerprint sha256 i"
  by (auto simp: reserve_failures_def codes_if_Nil list_ex_iff)

text \<open>The status of the check follows its failures, and its flags follow both.\<close>

lemma reserve_check_fields:
  "rk_checked_at (reserve_check_of sha256 i dispatch shortages reported now) = now"
  "rk_failure_codes (reserve_check_of sha256 i dispatch shortages reported now) =
     sorted_codes (reserve_failures sha256 i dispatch shortages reported)"
  "rk_passed (reserve_check_of sha256 i dispatch shortages reported now) \<longleftrightarrow>
     list_all (\<lambda>b. b) (reserve_check_flags (reserve_check_of sha256 i dispatch shortages reported now)) \<and>
     reserve_failures sha256 i dispatch shortages reported = []"
  unfolding reserve_check_of_def Let_def reserve_check_flags_def reserve_check.simps by (rule refl)+

lemma reserve_flags_hold:
  assumes "reserve_failures sha256 i dispatch shortages reported = []"
  shows "list_all (\<lambda>b. b) (reserve_check_flags (reserve_check_of sha256 i dispatch shortages reported now))"
proof -
  note f = assms [unfolded reserve_failures_Nil]
  have site: "\<not> list_ex (\<lambda>s. code \<in> set (site_failures i dispatch s)) (ri_sites i)" for code
    using f by (auto simp: list_ex_iff)
  have "\<not> list_ex (shortage_broken i dispatch shortages) (reserve_demand_dict i)"
    using f by (auto simp: list_ex_iff)
  with f site show ?thesis
    unfolding reserve_check_of_def Let_def reserve_check_flags_def reserve_check.simps list.pred_inject
    by (intro conjI site) (simp_all only: simp_thms list.pred_inject)
qed

lemma reserve_check_passed:
  "rk_passed (reserve_check_of sha256 i dispatch shortages reported now) \<longleftrightarrow>
     reserve_failures sha256 i dispatch shortages reported = []"
  using reserve_flags_hold reserve_check_fields(3) by blast

lemma reserve_check_accepted:
  "first_error (reserve_check_problems (reserve_check_of sha256 i dispatch shortages reported now)) = None"
  using reserve_check_fields [of sha256 i dispatch shortages reported now] sorted_codes_Nil [OF failures_known]
  by (simp add: reserve_check_problems_def)

lemma reserve_check_parts:
  assumes "independent_reserve_check sha256 i dispatch shortages reported now = Inr (check, objective, report)"
  shows "check = reserve_check_of sha256 i dispatch shortages reported now"
    "rr_feasible report = rk_passed check" "rr_violations report = rk_failure_codes check"
    "rb_raw_metrics objective = reserve_raw i dispatch shortages"
    "rb_weighted_contributions objective = reserve_weighted (ri_policy i) (reserve_raw i dispatch shortages)"
    "me_value (rb_total objective) = py_max 0 (reserve_total i dispatch shortages)"
    "first_error (reserve_objective_problems objective) = None" "rr_checked report \<noteq> []"
proof -
  from assms obtain total where t:
    "reserve_metric i now (reserve_total i dispatch shortages) ''objective_point'' = Inr total"
    "check = reserve_check_of sha256 i dispatch shortages reported now"
    "objective = \<lparr>rb_raw_metrics = reserve_raw i dispatch shortages, rb_weights = reserve_weight_dict (ri_policy i),
       rb_weighted_contributions = reserve_weighted (ri_policy i) (reserve_raw i dispatch shortages), rb_total = total\<rparr>"
    "first_error (reserve_objective_problems objective) = None"
    "report = \<lparr>rr_feasible = rk_passed check, rr_checked = RESERVE_CHECKED, rr_violations = rk_failure_codes check\<rparr>"
    unfolding independent_reserve_check_def Let_def rbind_Inr_iff validated_Inr reserve_total_def
    by (elim exE conjE) (simp only: sum.inject prod.inject, blast)
  show "check = reserve_check_of sha256 i dispatch shortages reported now"
    "first_error (reserve_objective_problems objective) = None" by (rule t)+
  show "rr_feasible report = rk_passed check" "rr_violations report = rk_failure_codes check" "rr_checked report \<noteq> []"
    by (simp_all add: t(5) RESERVE_CHECKED_def)
  show "rb_raw_metrics objective = reserve_raw i dispatch shortages"
    "rb_weighted_contributions objective = reserve_weighted (ri_policy i) (reserve_raw i dispatch shortages)"
    by (simp_all add: t(3))
  show "me_value (rb_total objective) = py_max 0 (reserve_total i dispatch shortages)"
    using t(1) by (auto simp: t(3) reserve_metric_def mk_metric_Inr)
qed

lemma objective_finite:
  assumes "first_error (reserve_objective_problems b) = None"
    "x \<in> snd ` set (rb_raw_metrics b) \<union> snd ` set (rb_weighted_contributions b)"
  shows "isfinite x" "0 \<le> x"
proof -
  have "\<not> list_ex (\<lambda>v. \<not> isfinite v \<or> v < 0)
      (map snd (rb_raw_metrics b) @ map snd (rb_weights b) @ map snd (rb_weighted_contributions b))"
    by (rule first_error_NoneD [OF assms(1), of _ "ValueError ''reserve objective values must be finite and nonnegative''"])
      (simp add: reserve_objective_problems_def)
  with assms(2) have "isfinite x \<and> \<not> x < 0" unfolding list_ex_iff by auto
  then show "isfinite x" "0 \<le> x" by (auto simp: zero_pyfloat_def less_pyfloat_def)
qed

section \<open>The result of a solver call\<close>

lemma failed_result_status: "failed_result uuid5 i configuration clock status failure report check = Inr r \<Longrightarrow> rl_status r = status"
  by (auto simp: failed_result_def Let_def validated_Inr)

lemma usable_result_fields:
  assumes "usable_result uuid5 i configuration clock timed_out dispatch shortages (check, objective, report) = Inr r"
  shows "rl_checker r = Some check" "rl_objective r = Some objective" "rl_constraints r = Some report"
    "rl_failure r = None" "rl_rejected_options r = no_use_rejections i" "rl_profile r = rw_profile (ri_policy i)"
    "reserve_outputs uuid5 i dispatch (rk_checked_at check) = Inr (rl_actions r, rl_timeline r)"
    "first_error (reserve_result_problems r) = None"
    "rl_status r = (if timed_out then FEASIBLE else OPTIMAL)"
    "rl_metadata r = reserve_metadata i configuration clock"
    "\<exists>residual. rl_residual_shortage r = Some residual \<and> me_value residual = py_max 0 (py_sum (map snd shortages))"
proof -
  from assms obtain actions timeline residual where u:
    "reserve_outputs uuid5 i dispatch (rk_checked_at check) = Inr (actions, timeline)"
    "solver_metric i (rk_checked_at check) (py_sum (map snd shortages)) ''ktonne'' = Inr residual"
    "r = \<lparr>rl_result_id = reserve_result_id uuid5 i, rl_profile = rw_profile (ri_policy i),
         rl_status = (if timed_out then FEASIBLE else OPTIMAL), rl_metadata = reserve_metadata i configuration clock,
         rl_actions = actions, rl_timeline = timeline, rl_objective = Some objective, rl_constraints = Some report,
         rl_checker = Some check, rl_residual_shortage = Some residual,
         rl_rejected_options = no_use_rejections i, rl_failure = None\<rparr>"
    "first_error (reserve_result_problems r) = None"
    unfolding usable_result_def Let_def rbind_Inr_iff validated_Inr prod.case split_paired_Ex by blast
  then show "rl_checker r = Some check" "rl_objective r = Some objective" "rl_constraints r = Some report"
    "rl_failure r = None" "rl_rejected_options r = no_use_rejections i" "rl_profile r = rw_profile (ri_policy i)"
    "reserve_outputs uuid5 i dispatch (rk_checked_at check) = Inr (rl_actions r, rl_timeline r)"
    "first_error (reserve_result_problems r) = None"
    "rl_status r = (if timed_out then FEASIBLE else OPTIMAL)"
    "rl_metadata r = reserve_metadata i configuration clock" by simp_all
  show "\<exists>residual. rl_residual_shortage r = Some residual \<and> me_value residual = py_max 0 (py_sum (map snd shortages))"
    using u(2,3) by (auto simp: solver_metric_def mk_metric_Inr)
qed

lemma solve_usableE:
  assumes "solve_reserve_plan uuid5 sha256 solver clock i configuration = Inr r" "usable_status (rl_status r)"
  obtains outcome dispatch shortages check objective report timed_out where
    "solver i configuration = SOLVED outcome"
    "dispatch = read_values (po_amounts outcome) (map rv_site_id (ri_sites i))"
    "shortages = read_values (po_shortage outcome) (map fst (reserve_demand_dict i))"
    "isfinite (po_objective outcome)"
    "independent_reserve_check sha256 i dispatch shortages (po_objective outcome) (ck_checked clock)
       = Inr (check, objective, report)"
    "rk_passed check"
    "usable_result uuid5 i configuration clock timed_out dispatch shortages (check, objective, report) = Inr r"
proof -
  have failed: "failed_result uuid5 i configuration clock status failure rep chk \<noteq> Inr r"
    if "status \<in> {ERROR, INFEASIBLE}" for status failure rep chk
    using failed_result_status [of uuid5 i configuration clock status failure rep chk r] that assms(2)
    by (auto simp: usable_status_def)
  note nf = failed [of ERROR, simplified] failed [of INFEASIBLE, simplified]
  obtain outcome timed_out where o: "solver i configuration = SOLVED outcome"
    "checked_result uuid5 sha256 i configuration clock timed_out outcome = Inr r"
    using assms(1) unfolding solve_reserve_plan_def Let_def
    by (auto simp: nf split: if_splits solve_outcome.splits)
  define dispatch where "dispatch = read_values (po_amounts outcome) (map rv_site_id (ri_sites i))"
  define shortages where "shortages = read_values (po_shortage outcome) (map fst (reserve_demand_dict i))"
  note cr = o(2) [unfolded checked_result_def Let_def, folded dispatch_def shortages_def]
  show thesis
  proof (cases "if isfinite (po_objective outcome)
      then independent_reserve_check sha256 i dispatch shortages (po_objective outcome) (ck_checked clock)
      else Inl (ValueError ''non-finite objective'')")
    case (Inl e)
    from cr [unfolded Inl] show ?thesis by (simp add: nf)
  next
    case (Inr c)
    obtain check objective report where c: "c = (check, objective, report)" by (cases c)
    from Inr have f: "isfinite (po_objective outcome)"
      "independent_reserve_check sha256 i dispatch shortages (po_objective outcome) (ck_checked clock)
         = Inr (check, objective, report)" by (auto simp: c split: if_splits)
    from cr [unfolded Inr c] have "rk_passed check"
      "usable_result uuid5 i configuration clock timed_out dispatch shortages (check, objective, report) = Inr r"
      by (auto simp: nf split: if_splits)
    then show ?thesis by (rule that [OF o(1) dispatch_def shortages_def f])
  qed
qed

lemma usable_checkedE:
  assumes "solve_reserve_plan uuid5 sha256 solver clock i configuration = Inr r" "usable_status (rl_status r)"
  obtains dispatch shortages reported check objective report timed_out where
    "independent_reserve_check sha256 i dispatch shortages reported (ck_checked clock) = Inr (check, objective, report)"
    "rk_passed check"
    "usable_result uuid5 i configuration clock timed_out dispatch shortages (check, objective, report) = Inr r"
  by (rule solve_usableE [OF assms]) (rule that)

section \<open>The actions of a plan\<close>

definition action_for :: "reserve_input \<Rightarrow> (uuid, pyfloat) dict \<Rightarrow> reserve_site \<Rightarrow> reserve_action \<Rightarrow> bool" where
  "action_for i dispatch s a \<longleftrightarrow>
     rx_site_id a = rv_site_id s \<and> rx_refinery_id a = rv_refinery_id s \<and> rx_route_id a = rv_route_id s \<and>
     me_value (rx_dispatch a) = dispatched dispatch s \<and> rx_in_transit a = rx_dispatch a \<and> rx_receipt a = rx_dispatch a \<and>
     me_value (rx_remaining_inventory a) = py_max 0 (remaining_stock dispatch s) \<and> rx_dispatch_at a = ri_starts_at i \<and>
     rx_evidence_ids a = rv_evidence_ids s \<and> rx_assumption_ids a = rv_assumption_ids s"

lemma solver_metric_value: "solver_metric i now value unit = Inr m \<Longrightarrow> me_value m = py_max 0 value"
  by (auto simp: solver_metric_def mk_metric_Inr)

lemma reserve_action_of_fields:
  assumes "reserve_action_of uuid5 i now s quantity remaining receipt_at = Inr a"
  shows "rx_site_id a = rv_site_id s" "rx_refinery_id a = rv_refinery_id s" "rx_route_id a = rv_route_id s"
    "me_value (rx_dispatch a) = py_max 0 quantity" "rx_in_transit a = rx_dispatch a" "rx_receipt a = rx_dispatch a"
    "me_value (rx_remaining_inventory a) = py_max 0 remaining" "rx_dispatch_at a = ri_starts_at i"
    "rx_evidence_ids a = rv_evidence_ids s" "rx_assumption_ids a = rv_assumption_ids s"
proof -
  from assms obtain volume left cover where
    m: "solver_metric i now quantity ''ktonne'' = Inr volume" "solver_metric i now remaining ''ktonne'' = Inr left" and
    a: "a = \<lparr>rx_action_id = uuid5 (''urn:sanjiv:reserve-action:'' @ ri_input_fingerprint i @ '':'' @ uuid_str (rv_site_id s)),
         rx_site_id = rv_site_id s, rx_refinery_id = rv_refinery_id s, rx_route_id = rv_route_id s,
         rx_dispatch = volume, rx_in_transit = volume, rx_receipt = volume,
         rx_remaining_inventory = left, rx_remaining_cover = cover,
         rx_dispatch_at = ri_starts_at i, rx_receipt_at = receipt_at,
         rx_evidence_ids = rv_evidence_ids s, rx_assumption_ids = rv_assumption_ids s\<rparr>"
    unfolding reserve_action_of_def Let_def rbind_Inr_iff validated_Inr by blast
  then show "rx_site_id a = rv_site_id s" "rx_refinery_id a = rv_refinery_id s" "rx_route_id a = rv_route_id s"
    "me_value (rx_dispatch a) = py_max 0 quantity" "rx_in_transit a = rx_dispatch a" "rx_receipt a = rx_dispatch a"
    "me_value (rx_remaining_inventory a) = py_max 0 remaining" "rx_dispatch_at a = ri_starts_at i"
    "rx_evidence_ids a = rv_evidence_ids s" "rx_assumption_ids a = rv_assumption_ids s"
    by (simp_all add: solver_metric_value)
qed

lemma site_outputs_actions:
  assumes "site_outputs uuid5 i dispatch now s = Inr (actions, points)" "model_opening s = opening_stock s"
    "0 < ri_tolerance i"
  shows "if ri_tolerance i < dispatched dispatch s then \<exists>a. actions = [a] \<and> action_for i dispatch s a else actions = []"
    "length points = 2"
proof -
  let ?left = "model_opening s + replenishment_of s - dispatched dispatch s"
  from assms(1) obtain receipt_at where t:
    "(if ri_tolerance i < dispatched dispatch s
      then rmap (\<lambda>a. [a]) (reserve_action_of uuid5 i now s (dispatched dispatch s) ?left receipt_at)
      else Inr []) = Inr actions" "site_timeline i now s ?left = Inr points"
    unfolding site_outputs_def Let_def rbind_Inr_iff rmap_def by blast
  have "py_max 0 (dispatched dispatch s) = dispatched dispatch s" if "ri_tolerance i < dispatched dispatch s"
    using that assms(3) by (cases "ri_tolerance i"; cases "dispatched dispatch s")
      (auto simp: py_max_def zero_pyfloat_def)
  with t(1) assms(2) show "if ri_tolerance i < dispatched dispatch s then \<exists>a. actions = [a] \<and> action_for i dispatch s a else actions = []"
    by (auto simp: rmap_def rbind_Inr_iff action_for_def remaining_stock_def reserve_action_of_fields)
  show "length points = 2"
    using t(2) by (auto simp: site_timeline_def Let_def rmap_def rbind_Inr_iff)
qed

lemma reserve_outputs_actions:
  assumes "reserve_outputs uuid5 i dispatch now = Inr (actions, points)"
    "\<And>s. s \<in> set (ri_sites i) \<Longrightarrow> model_opening s = opening_stock s" "0 < ri_tolerance i"
  shows "list_all2 (action_for i dispatch) (filter (\<lambda>s. ri_tolerance i < dispatched dispatch s) (ri_sites i)) actions"
    "length points = 2 * length (ri_sites i)"
proof -
  from assms(1) obtain parts where parts: "rtraverse (site_outputs uuid5 i dispatch now) (ri_sites i) = Inr parts"
    "actions = concat (map fst parts)" "points = concat (map snd parts)"
    by (auto simp: reserve_outputs_def rmap_def rbind_Inr_iff)
  have "list_all2 (\<lambda>s part. site_outputs uuid5 i dispatch now s = Inr part) ss ps \<Longrightarrow> set ss \<subseteq> set (ri_sites i) \<Longrightarrow>
      list_all2 (action_for i dispatch) (filter (\<lambda>s. ri_tolerance i < dispatched dispatch s) ss) (concat (map fst ps)) \<and>
      length (concat (map snd ps)) = 2 * length ss" for ss ps
  proof (induction rule: list_all2_induct)
    case (Cons s ss part ps)
    obtain as points where part: "part = (as, points)" by (cases part)
    from site_outputs_actions [OF Cons.hyps(1) [unfolded part] assms(2) assms(3)] Cons.prems Cons.IH
    show ?case by (auto simp: part split: if_splits)
  qed simp
  from this [OF rtraverse_InrD [OF parts(1)]] parts(2,3) show
    "list_all2 (action_for i dispatch) (filter (\<lambda>s. ri_tolerance i < dispatched dispatch s) (ri_sites i)) actions"
    "length points = 2 * length (ri_sites i)" by simp_all
qed

section \<open>A checked answer is returned\<close>

lemma length_dict_of: "length (dict_of kvs) \<le> length kvs"
proof -
  have u: "length (AList.update k v d) \<le> Suc (length d)" for k v and d :: "('x \<times> 'y) list"
    by (induction d) auto
  have "length (foldl (\<lambda>d (k, v). AList.update k v d) d kvs) \<le> length d + length kvs" for d :: "('x \<times> 'y) list" and kvs
  proof (induction kvs arbitrary: d)
    case (Cons kv kvs)
    obtain k v where kv: "kv = (k, v)" by force
    from Cons [of "AList.update k v d"] u [of k v d] show ?case by (simp add: kv)
  qed simp
  from this [of "[]"] show ?thesis by (simp add: dict_of_def)
qed

lemma model_within_limits:
  assumes "reserve_input_valid sha256 i"
  shows "length (ri_sites i) \<le> MAX_SITES" "constraint_count i \<le> MAX_CONSTRAINTS"
proof -
  note v = valid_reserve_input(7,8) [OF assms]
  show "length (ri_sites i) \<le> MAX_SITES" using v by (simp add: MAX_SITES_def)
  have "sum_list (map (\<lambda>s. if dispatch_fixed i s then 4 else 3 :: nat) ss) \<le> 4 * length ss" for ss
    by (induction ss) auto
  from this [of "ri_sites i"] v length_dict_of [of "map (\<lambda>d. (rq_refinery_id d, me_value (rq_required_volume d))) (ri_demands i)"]
  show "constraint_count i \<le> MAX_CONSTRAINTS"
    by (simp add: constraint_count_def MAX_CONSTRAINTS_def reserve_demand_dict_def)
qed

lemma valid_evidence:
  assumes "reserve_input_valid sha256 i"
  shows "rpv_evidence (ri_provenance i) \<noteq> []"
proof -
  have "first_error (reserve_provenance_problems (ri_provenance i)) = None"
    using assms unfolding reserve_input_valid_def reserve_input_problems_def no_error_simps by blast
  then show ?thesis unfolding reserve_provenance_problems_def Let_def no_error_simps by blast
qed

lemma solver_metric_returns:
  assumes "reserve_input_valid sha256 i" "len_between 1 50 unit"
  shows "\<exists>m. solver_metric i now value unit = Inr m \<and> metric_valid m"
  using assms valid_evidence [OF assms(1)]
  by (simp add: solver_metric_def mk_metric_def validated_ok metric_valid_def metric_problems_def
      source_ref_problems_def len_between_def unit_interval_def RESERVE_SOLVER_MODEL_def one_pyfloat_def)

lemma solver_metric_valid: "solver_metric i now value unit = Inr m \<Longrightarrow> metric_valid m"
  by (auto simp: solver_metric_def mk_metric_Inr)

lemma site_outputs_valid:
  assumes "site_outputs uuid5 i dispatch now s = Inr (actions, points)"
  shows "\<forall>a \<in> set actions. first_error (reserve_action_problems a) = None"
    "\<forall>p \<in> set points. metric_valid (ry_inventory p) \<and> metric_valid (ry_cover p)"
proof -
  let ?left = "model_opening s + replenishment_of s - dispatched dispatch s"
  from assms obtain receipt_at where t:
    "(if ri_tolerance i < dispatched dispatch s
      then rmap (\<lambda>a. [a]) (reserve_action_of uuid5 i now s (dispatched dispatch s) ?left receipt_at)
      else Inr []) = Inr actions" "site_timeline i now s ?left = Inr points"
    unfolding site_outputs_def Let_def rbind_Inr_iff rmap_def by blast
  have "first_error (reserve_action_problems a) = None"
    if "reserve_action_of uuid5 i now s q left receipt = Inr a" for a q left receipt
    using that unfolding reserve_action_of_def Let_def rbind_Inr_iff validated_Inr by blast
  with t(1) show "\<forall>a \<in> set actions. first_error (reserve_action_problems a) = None"
    by (auto simp: rmap_def rbind_Inr_iff split: if_splits)
  show "\<forall>p \<in> set points. metric_valid (ry_inventory p) \<and> metric_valid (ry_cover p)"
    using t(2) by (auto simp: site_timeline_def Let_def rmap_def rbind_Inr_iff) (erule solver_metric_valid)+
qed

lemma reserve_outputs_valid:
  assumes "reserve_outputs uuid5 i dispatch now = Inr (actions, points)"
  shows "\<forall>a \<in> set actions. first_error (reserve_action_problems a) = None"
    "\<forall>p \<in> set points. metric_valid (ry_inventory p) \<and> metric_valid (ry_cover p)"
proof -
  from assms obtain parts where parts: "rtraverse (site_outputs uuid5 i dispatch now) (ri_sites i) = Inr parts"
    "actions = concat (map fst parts)" "points = concat (map snd parts)"
    by (auto simp: reserve_outputs_def rmap_def rbind_Inr_iff)
  have "(\<forall>a \<in> set (fst part). first_error (reserve_action_problems a) = None) \<and>
      (\<forall>p \<in> set (snd part). metric_valid (ry_inventory p) \<and> metric_valid (ry_cover p))" if part: "part \<in> set parts" for part
  proof -
    obtain s where "site_outputs uuid5 i dispatch now s = Inr (fst part, snd part)"
      using rtraverse_InrD [OF parts(1)] part by (auto simp: in_set_conv_nth list_all2_conv_all_nth)
    from site_outputs_valid [OF this] show ?thesis by blast
  qed
  then show "\<forall>a \<in> set actions. first_error (reserve_action_problems a) = None"
    "\<forall>p \<in> set points. metric_valid (ry_inventory p) \<and> metric_valid (ry_cover p)"
    unfolding parts(2,3) set_concat set_map by blast+
qed

lemma uuid_str_short: "length (uuid_str u) \<le> 100"
  by (simp add: uuid_str_def Let_def)

lemma no_use_rejections_valid: "r \<in> set (no_use_rejections i) \<Longrightarrow> first_error (reserve_rejected_problems r) = None"
proof -
  have "len_between 1 200 (''site:'' @ uuid_str u @ '':no-reserve-use'')" for u
    using uuid_str_short [of u] by (simp add: len_between_def)
  then show "r \<in> set (no_use_rejections i) \<Longrightarrow> first_error (reserve_rejected_problems r) = None"
    by (auto simp: no_use_rejections_def reserve_rejected_problems_def len_between_def split: if_splits)
qed

section \<open>When the check returns\<close>

lemma reserve_metric_returns:
  assumes "reserve_input_valid sha256 i" "len_between 1 50 unit"
  shows "\<exists>m. reserve_metric i now value unit = Inr m \<and> metric_valid m"
  using assms valid_evidence [OF assms(1)]
  by (simp add: reserve_metric_def mk_metric_def validated_ok metric_valid_def metric_problems_def
      source_ref_problems_def len_between_def unit_interval_def RESERVE_CHECKER_VERSION_def one_pyfloat_def)

lemma weights_values_ok:
  assumes "reserve_input_valid sha256 i"
  shows "values_ok (map snd (reserve_weight_dict (ri_policy i)))"
  using valid_reserve_input(10) [OF assms]
  unfolding reserve_weights_problems_def no_error_simps non_negative_field_def
  by (simp add: reserve_weight_dict_def values_ok_def)

lemma reserve_check_returns:
  assumes "reserve_input_valid sha256 i" "values_ok (map snd (reserve_raw i dispatch shortages))"
    "values_ok (map snd (reserve_weighted (ri_policy i) (reserve_raw i dispatch shortages)))"
    "isfinite (reserve_total i dispatch shortages)"
  shows "\<exists>objective report. independent_reserve_check sha256 i dispatch shortages reported now =
    Inr (reserve_check_of sha256 i dispatch shortages reported now, objective, report)"
proof -
  let ?raw = "reserve_raw i dispatch shortages" and ?total = "reserve_total i dispatch shortages"
  obtain m where m: "reserve_metric i now ?total ''objective_point'' = Inr m" "metric_valid m"
    using reserve_metric_returns [OF assms(1), of "''objective_point''"] by (auto simp: len_between_def)
  let ?b = "\<lparr>rb_raw_metrics = ?raw, rb_weights = reserve_weight_dict (ri_policy i),
    rb_weighted_contributions = reserve_weighted (ri_policy i) ?raw, rb_total = m\<rparr>"
  have "0 \<le> ?total"
    using assms(3) unfolding reserve_total_def by (intro py_sum_nonneg) (auto simp: values_ok_def list_all_iff)
  then have "me_value m = ?total" using m(1) by (auto simp: reserve_metric_def mk_metric_Inr py_max_0_id)
  then have "py_sum (map snd (reserve_weighted (ri_policy i) ?raw)) - me_value m = 0"
    using minus_self_pyfloat [OF assms(4)] by (simp add: reserve_total_def)
  moreover have "\<not> fl (1 / 1000000) < \<bar>0 :: pyfloat\<bar>" by code_simp
  moreover have "\<not> list_ex (\<lambda>v. \<not> isfinite v \<or> v < 0) (map snd ?raw @ map snd (reserve_weight_dict (ri_policy i))
      @ map snd (reserve_weighted (ri_policy i) ?raw))"
    using assms(2,3) weights_values_ok [OF assms(1)] unfolding list_ex_iff values_ok_def list_all_iff
    by (auto simp: less_le_pyfloat)
  ultimately have "first_error (reserve_objective_problems ?b) = None"
    using m(2) unfolding reserve_objective_problems_def no_error_simps by simp
  then show ?thesis
    using m(1) unfolding independent_reserve_check_def Let_def validated_ok [OF reserve_check_accepted] reserve_total_def
    by (simp add: validated_ok)
qed

section \<open>Answers that are returned\<close>

lemma usable_result_returns:
  assumes "reserve_input_valid sha256 i" "first_error (metadata_problems (reserve_metadata i configuration clock)) = None"
    "independent_reserve_check sha256 i dispatch shortages reported (ck_checked clock) = Inr (check, objective, report)"
    "rk_passed check" "reserve_outputs uuid5 i dispatch (rk_checked_at check) = Inr (actions, timeline)"
  shows "\<exists>r. usable_result uuid5 i configuration clock timed_out dispatch shortages (check, objective, report) = Inr r"
proof -
  note p = reserve_check_parts [OF assms(3)]
  obtain residual where m: "solver_metric i (rk_checked_at check) (py_sum (map snd shortages)) ''ktonne'' = Inr residual"
    "metric_valid residual"
    using solver_metric_returns [OF assms(1), of "''ktonne''"] by (auto simp: len_between_def)
  let ?r = "\<lparr>rl_result_id = reserve_result_id uuid5 i, rl_profile = rw_profile (ri_policy i),
         rl_status = (if timed_out then FEASIBLE else OPTIMAL), rl_metadata = reserve_metadata i configuration clock,
         rl_actions = actions, rl_timeline = timeline, rl_objective = Some objective, rl_constraints = Some report,
         rl_checker = Some check, rl_residual_shortage = Some residual,
         rl_rejected_options = no_use_rejections i, rl_failure = None\<rparr>"
  have "first_error (reserve_check_problems check) = None" unfolding p(1) by (rule reserve_check_accepted)
  moreover have "\<not> list_ex (\<lambda>a. first_error (reserve_action_problems a) \<noteq> None) actions"
    "\<not> list_ex (\<lambda>p. \<not> metric_valid (ry_inventory p) \<or> \<not> metric_valid (ry_cover p)) timeline"
    "\<not> list_ex (\<lambda>o'. first_error (reserve_rejected_problems o') \<noteq> None) (no_use_rejections i)"
    using reserve_outputs_valid [OF assms(5)] no_use_rejections_valid by (auto simp: list_ex_iff)
  ultimately have "first_error (reserve_result_problems ?r) = None"
    using assms(2,4) p(7,8) m(2)
    unfolding reserve_result_problems_def no_error_simps reserve_result.simps opt_ok_simps
    by (auto simp: reserve_checker_passed_def usable_status_def)
  then show ?thesis
    using assms(5) m(1) by (simp add: usable_result_def Let_def validated_ok)
qed

lemma checked_answer_solved:
  assumes "reserve_input_valid sha256 i" "first_error (metadata_problems (reserve_metadata i configuration clock)) = None"
    "solver i configuration = SOLVED outcome" "po_termination outcome \<in> {TC_OPTIMAL, TC_FEASIBLE, TC_MAX_TIME, TC_MAX_ITERATIONS}"
    "po_status outcome \<in> {PS_OK, PS_WARNING}" "isfinite (po_objective outcome)"
    "dispatch = read_values (po_amounts outcome) (map rv_site_id (ri_sites i))"
    "shortages = read_values (po_shortage outcome) (map fst (reserve_demand_dict i))"
    "independent_reserve_check sha256 i dispatch shortages (po_objective outcome) (ck_checked clock)
       = Inr (check, objective, report)"
    "rk_passed check" "reserve_outputs uuid5 i dispatch (ck_checked clock) = Inr (actions, timeline)"
  shows "\<exists>r. solve_reserve_plan uuid5 sha256 solver clock i configuration = Inr r \<and>
    rl_status r = (if po_termination outcome \<in> {TC_MAX_TIME, TC_MAX_ITERATIONS} then FEASIBLE else OPTIMAL)"
proof -
  let ?timed_out = "po_termination outcome \<in> {TC_MAX_TIME, TC_MAX_ITERATIONS, TC_RESOURCE_INTERRUPT}"
  have at: "rk_checked_at check = ck_checked clock"
    unfolding reserve_check_parts(1) [OF assms(9)] by (rule reserve_check_fields)
  obtain r where r: "usable_result uuid5 i configuration clock ?timed_out dispatch shortages (check, objective, report) = Inr r"
    using usable_result_returns [OF assms(1,2,9,10) assms(11) [folded at]] by blast
  have "checked_result uuid5 sha256 i configuration clock ?timed_out outcome = Inr r"
    unfolding checked_result_def Let_def assms(7,8) [symmetric] using assms(6,9,10) r by simp
  then have "solve_reserve_plan uuid5 sha256 solver clock i configuration = Inr r"
    using model_within_limits [OF assms(1)] assms(3-5) by (auto simp: solve_reserve_plan_def)
  with usable_result_fields(9) [OF r] assms(4) show ?thesis by auto
qed

lemma failed_check_returned:
  assumes "first_error (metadata_problems (reserve_metadata i configuration clock)) = None"
    "solver i configuration = SOLVED outcome" "po_termination outcome \<in> {TC_OPTIMAL, TC_FEASIBLE, TC_MAX_TIME, TC_MAX_ITERATIONS}"
    "po_status outcome \<in> {PS_OK, PS_WARNING}" "isfinite (po_objective outcome)" "reserve_input_valid sha256 i"
    "independent_reserve_check sha256 i (read_values (po_amounts outcome) (map rv_site_id (ri_sites i)))
       (read_values (po_shortage outcome) (map fst (reserve_demand_dict i))) (po_objective outcome) (ck_checked clock)
       = Inr (check, objective, report)" "\<not> rk_passed check"
  shows "\<exists>r. solve_reserve_plan uuid5 sha256 solver clock i configuration = Inr r \<and> rl_status r = ERROR \<and>
    rl_checker r = Some check \<and> rl_failure r = Some check_failure"
proof -
  note p = reserve_check_parts [OF assms(7)]
  let ?r = "\<lparr>rl_result_id = reserve_result_id uuid5 i, rl_profile = rw_profile (ri_policy i), rl_status = ERROR,
       rl_metadata = reserve_metadata i configuration clock, rl_actions = [], rl_timeline = [],
       rl_objective = None, rl_constraints = Some report, rl_checker = Some check, rl_residual_shortage = None,
       rl_rejected_options = [], rl_failure = Some check_failure\<rparr>"
  have "first_error (reserve_check_problems check) = None" unfolding p(1) by (rule reserve_check_accepted)
  moreover have "first_error (reserve_failure_problems check_failure) = None" by code_simp
  ultimately have "first_error (reserve_result_problems ?r) = None"
    using assms(1) p(8) unfolding reserve_result_problems_def no_error_simps reserve_result.simps opt_ok_simps
    by (auto simp: usable_status_def)
  then have r: "failed_result uuid5 i configuration clock ERROR check_failure (Some report) (Some check) = Inr ?r"
    by (simp add: failed_result_def Let_def validated_ok)
  have "checked_result uuid5 sha256 i configuration clock timed_out outcome = Inr ?r" for timed_out
    unfolding checked_result_def Let_def using assms(5,7,8) r by simp
  then have "solve_reserve_plan uuid5 sha256 solver clock i configuration = Inr ?r"
    using model_within_limits [OF assms(6)] assms(2-4) by (auto simp: solve_reserve_plan_def)
  then show ?thesis by (intro exI [of _ ?r]) simp
qed

end
