(* ===== verification/Reserve_Example.thy ===== *)
theory Reserve_Example imports Reserve_Check begin

text \<open>
  Concrete reserve problems over ten days for one refinery that needs 50 ktonne: a reserve site
  that can release 40, the same with a second site, with a site too far away, and under the policy
  that uses no reserve. The witnesses of the reserve properties evaluate them.
\<close>

definition hash64 :: string where
  "hash64 = replicate 64 CHR ''b''"

definition stock_metric :: "pyfloat \<Rightarrow> string \<Rightarrow> metric" where
  "stock_metric v unit =
     \<lparr>me_value = v, me_unit = unit, me_truth_class = OBSERVED, me_confidence = Fin 1, me_evidence_ids = [1],
      me_source_refs = [\<lparr>sr_source_id = ''s'', sr_record_id = ''r''\<rparr>], me_effective_at = 0, me_fetched_at = 0,
      me_computed_at = 0, me_freshness_status = F_CURRENT, me_transformation = ''t'', me_model_version = ''v''\<rparr>"

definition example_site :: "uuid \<Rightarrow> pyfloat \<Rightarrow> reserve_site" where
  "example_site u transit =
     \<lparr>rv_site_id = u, rv_site_name = ''cavern'', rv_refinery_id = 51, rv_route_id = 52,
      rv_capacity = stock_metric (Fin 100) ''ktonne'', rv_opening_inventory = Some (stock_metric (Fin 60) ''ktonne''),
      rv_opening_inventory_status = VERIFIED_USER_INPUT,
      rv_minimum_policy_floor = stock_metric (Fin 20) ''ktonne'',
      rv_draw_rate_limit = stock_metric (Fin 10) ''ktonne_per_day'',
      rv_route_capacity = stock_metric (Fin 10) ''ktonne_per_day'', rv_transit_time = stock_metric transit ''day'',
      rv_refinery_receipt_capacity = stock_metric (Fin 50) ''ktonne'',
      rv_procurement_committed_receipts = stock_metric (Fin 10) ''ktonne'',
      rv_logistics_cost = stock_metric (Fin 5) ''USD_per_tonne'', rv_replenishment = None,
      rv_evidence_ids = [1], rv_assumption_ids = []\<rparr>"

definition reserve_example_provenance :: reserve_provenance where
  "reserve_example_provenance =
     \<lparr>rpv_simulation_run = \<lparr>rf_run_id = 21, rf_scenario_id = 22, rf_scenario_fingerprint = hash64,
        rf_simulation_fingerprint = hash64, rf_twin_snapshot_id = 23, rf_twin_snapshot_fingerprint = hash64,
        rf_model_version = ''m''\<rparr>,
      rpv_simulation_result = \<lparr>rs_result_id = 24, rs_run_id = 21, rs_scenario_id = 22,
        rs_scenario_fingerprint = hash64, rs_simulation_fingerprint = hash64, rs_twin_snapshot_id = 23,
        rs_twin_snapshot_fingerprint = hash64\<rparr>,
      rpv_confirmed_scenario = \<lparr>cn_scenario_id = 22, cn_scenario_fingerprint = hash64, cn_confirmed_at = 0\<rparr>,
      rpv_twin_snapshot = \<lparr>tr_snapshot_id = 23, tr_fingerprint = hash64, tr_version = ''1'', tr_effective_at = 0\<rparr>,
      rpv_procurement_plan_id = 25, rpv_procurement_plan_fingerprint = hash64,
      rpv_procurement_input_fingerprint = hash64, rpv_procurement_checker_version = ''c'',
      rpv_evidence = [\<lparr>ef_evidence_id = 1, ef_raw_payload_hash = hash64\<rparr>], rpv_assumptions = []\<rparr>"

definition example_policy :: "reserve_profile \<Rightarrow> reserve_weights" where
  "example_policy profile = (case reserve_policy profile of Inr w \<Rightarrow> w)"

definition reserve_example :: "reserve_profile \<Rightarrow> reserve_site list \<Rightarrow> pyfloat \<Rightarrow> reserve_input" where
  "reserve_example profile sites required = reserve_payload.extend
     \<lparr>ri_provenance = reserve_example_provenance, ri_policy = example_policy profile, ri_starts_at = 0,
      ri_ends_at = 864000000000, ri_sites = sites,
      ri_demands = [\<lparr>rq_refinery_id = 51, rq_required_volume = stock_metric required ''ktonne''\<rparr>],
      ri_tolerance = Fin (1 / 1024)\<rparr>
     (reserve_input.fields hash64)"

definition reserve_example_hash :: reserve_hash where "reserve_example_hash p = hash64"

abbreviation one_site :: reserve_input where
  "one_site \<equiv> reserve_example RES_BALANCED [example_site 61 (Fin 3)] (Fin 50)"

abbreviation two_sites :: reserve_input where
  "two_sites \<equiv> reserve_example RES_BALANCED [example_site 61 (Fin 3), example_site 62 (Fin 3)] (Fin 80)"

abbreviation late_site :: reserve_input where
  "late_site \<equiv> reserve_example RES_BALANCED [example_site 61 (Fin 30)] (Fin 50)"

abbreviation unused_site :: reserve_input where
  "unused_site \<equiv> reserve_example NO_RESERVE_USE [example_site 61 (Fin 3)] (Fin 50)"

lemma examples_valid:
  "reserve_input_valid reserve_example_hash one_site" "reserve_input_valid reserve_example_hash two_sites"
  "reserve_input_valid reserve_example_hash late_site" "reserve_input_valid reserve_example_hash unused_site"
  by code_simp+

lemma examples_days:
  "isfinite (reserve_days one_site)" "isfinite (reserve_days two_sites)" "isfinite (reserve_days late_site)"
  "isfinite (reserve_days unused_site)"
  by code_simp+

section \<open>Solver calls\<close>

text \<open>A solver that ships the same volume from each site and leaves the same shortage everywhere.\<close>

definition example_clock :: clock where
  "example_clock = \<lparr>ck_started = 0, ck_completed = 1, ck_elapsed = 0, ck_checked = 1\<rparr>"

definition reserve_configuration :: solver_configuration where
  "reserve_configuration =
     \<lparr>so_solver_version = ''s'', so_time_limit = \<lparr>sq_value = Fin 10, sq_unit = ''second''\<rparr>,
      so_relative_mip_gap = \<lparr>sq_value = 0, sq_unit = ''fraction''\<rparr>, so_thread_count = 1, so_random_seed = 0\<rparr>"

definition example_uuid5 :: uuid5_fun where "example_uuid5 s = 7"

definition example_outcome :: "reserve_input \<Rightarrow> pyfloat \<Rightarrow> pyfloat \<Rightarrow> pyomo_outcome" where
  "example_outcome i q shortage =
    \<lparr>po_termination = TC_OPTIMAL, po_status = PS_OK, po_amounts = (\<lambda>u. q), po_shortage = (\<lambda>u. shortage),
     po_objective = reserve_total i (map (\<lambda>s. (rv_site_id s, q)) (ri_sites i)) [(51, shortage)]\<rparr>"

abbreviation solved :: "reserve_input \<Rightarrow> pyfloat \<Rightarrow> pyfloat \<Rightarrow> reserve_result res" where
  "solved i q shortage \<equiv> solve_reserve_plan example_uuid5 reserve_example_hash
     (\<lambda>i' configuration. SOLVED (example_outcome i q shortage)) example_clock i reserve_configuration"

definition example_dispatch :: "reserve_input \<Rightarrow> pyfloat \<Rightarrow> (uuid, pyfloat) dict" where
  "example_dispatch i q = read_values (\<lambda>u. q) (map rv_site_id (ri_sites i))"

definition example_shortages :: "reserve_input \<Rightarrow> pyfloat \<Rightarrow> (uuid, pyfloat) dict" where
  "example_shortages i q = read_values (\<lambda>u. q) (map fst (reserve_demand_dict i))"

definition returns :: "'a res \<Rightarrow> bool" where
  "returns r \<longleftrightarrow> (case r of Inl e \<Rightarrow> False | Inr x \<Rightarrow> True)"

lemma returnsD: "returns r \<Longrightarrow> \<exists>x. r = Inr x"
  by (simp add: returns_def split: sum.splits)

lemma examples_read:
  "example_dispatch one_site (Fin 40) = [(61, Fin 40)]" "example_shortages one_site (Fin 10) = [(51, Fin 10)]"
  "example_dispatch two_sites (Fin 40) = [(61, Fin 40), (62, Fin 40)]" "example_shortages two_sites 0 = [(51, Fin 0)]"
  by code_simp+

text \<open>The objective terms of the four answers can be reported.\<close>

definition reportable :: "reserve_input \<Rightarrow> (uuid, pyfloat) dict \<Rightarrow> (uuid, pyfloat) dict \<Rightarrow> bool" where
  "reportable i dispatch shortages \<longleftrightarrow> values_ok (map snd (reserve_raw i dispatch shortages)) \<and>
     values_ok (map snd (reserve_weighted (ri_policy i) (reserve_raw i dispatch shortages))) \<and>
     isfinite (reserve_total i dispatch shortages)"

lemma examples_reportable:
  "reportable one_site (example_dispatch one_site (Fin 40)) (example_shortages one_site (Fin 10))"
  "reportable two_sites (example_dispatch two_sites (Fin 40)) (example_shortages two_sites 0)"
  "reportable late_site (example_dispatch late_site 0) (example_shortages late_site (Fin 50))"
  "reportable unused_site (example_dispatch unused_site 0) (example_shortages unused_site (Fin 50))"
  by code_simp+

lemma examples_failures:
  "reserve_failures reserve_example_hash one_site (example_dispatch one_site (Fin 40)) (example_shortages one_site (Fin 10))
     (po_objective (example_outcome one_site (Fin 40) (Fin 10))) = []"
  "reserve_failures reserve_example_hash two_sites (example_dispatch two_sites (Fin 40)) (example_shortages two_sites 0)
     (po_objective (example_outcome two_sites (Fin 40) 0)) = []"
  "reserve_failures reserve_example_hash unused_site (example_dispatch unused_site 0) (example_shortages unused_site (Fin 50))
     (po_objective (example_outcome unused_site 0 (Fin 50))) = []"
  by code_simp+

lemma examples_outputs:
  "returns (reserve_outputs example_uuid5 one_site (example_dispatch one_site (Fin 40)) 1)"
  "returns (reserve_outputs example_uuid5 two_sites (example_dispatch two_sites (Fin 40)) 1)"
  "returns (reserve_outputs example_uuid5 unused_site (example_dispatch unused_site 0) 1)"
  by code_simp+

lemma examples_metadata:
  "first_error (metadata_problems (reserve_metadata one_site reserve_configuration example_clock)) = None"
  "first_error (metadata_problems (reserve_metadata two_sites reserve_configuration example_clock)) = None"
  "first_error (metadata_problems (reserve_metadata late_site reserve_configuration example_clock)) = None"
  "first_error (metadata_problems (reserve_metadata unused_site reserve_configuration example_clock)) = None"
  by code_simp+

section \<open>The four answers\<close>

lemma example_check_returns:
  assumes "reserve_input_valid reserve_example_hash i" "reportable i dispatch shortages"
  obtains objective report where
    "independent_reserve_check reserve_example_hash i dispatch shortages reported now =
       Inr (reserve_check_of reserve_example_hash i dispatch shortages reported now, objective, report)"
  using reserve_check_returns [OF assms(1)] assms(2) unfolding reportable_def by blast

lemma example_solved:
  assumes "reserve_input_valid reserve_example_hash i"
    "first_error (metadata_problems (reserve_metadata i reserve_configuration example_clock)) = None"
    "reportable i (example_dispatch i q) (example_shortages i shortage)"
    "reserve_failures reserve_example_hash i (example_dispatch i q) (example_shortages i shortage)
       (po_objective (example_outcome i q shortage)) = []"
    "returns (reserve_outputs example_uuid5 i (example_dispatch i q) 1)"
    "isfinite (po_objective (example_outcome i q shortage))"
  obtains r where "solved i q shortage = Inr r" "rl_status r = OPTIMAL"
proof -
  let ?o = "example_outcome i q shortage"
  have o: "po_termination ?o = TC_OPTIMAL" "po_status ?o = PS_OK" "ck_checked example_clock = 1"
    "po_amounts ?o = (\<lambda>u. q)" "po_shortage ?o = (\<lambda>u. shortage)"
    by (simp_all add: example_outcome_def example_clock_def)
  obtain objective report where c: "independent_reserve_check reserve_example_hash i (example_dispatch i q)
      (example_shortages i shortage) (po_objective ?o) (ck_checked example_clock) =
      Inr (reserve_check_of reserve_example_hash i (example_dispatch i q) (example_shortages i shortage)
        (po_objective ?o) (ck_checked example_clock), objective, report)"
    by (rule example_check_returns [OF assms(1,3)])
  obtain actions timeline where out: "reserve_outputs example_uuid5 i (example_dispatch i q) (ck_checked example_clock)
      = Inr (actions, timeline)"
    using returnsD [OF assms(5)] o(3) by auto
  have "\<exists>r. solved i q shortage = Inr r \<and>
    rl_status r = (if po_termination ?o \<in> {TC_MAX_TIME, TC_MAX_ITERATIONS} then FEASIBLE else OPTIMAL)"
    by (rule checked_answer_solved [where dispatch = "example_dispatch i q" and shortages = "example_shortages i shortage"
          and outcome = "example_outcome i q shortage" and configuration = reserve_configuration
          and solver = "\<lambda>i' configuration. SOLVED (example_outcome i q shortage)",
          OF assms(1,2) refl _ _ assms(6) _ _ c _ out])
      (simp_all add: o example_dispatch_def example_shortages_def reserve_check_passed assms(4) [unfolded example_dispatch_def example_shortages_def])
  with that show thesis by (auto simp: o)
qed

lemma examples_objective:
  "isfinite (po_objective (example_outcome one_site (Fin 40) (Fin 10)))"
  "isfinite (po_objective (example_outcome late_site 0 (Fin 50)))"
  "isfinite (po_objective (example_outcome unused_site 0 (Fin 50)))"
  by code_simp+

lemma one_solved: obtains r where "solved one_site (Fin 40) (Fin 10) = Inr r" "rl_status r = OPTIMAL"
  by (rule example_solved [OF examples_valid(1) examples_metadata(1) examples_reportable(1) examples_failures(1)
        examples_outputs(1) examples_objective(1)])

lemma unused_solved: obtains r where "solved unused_site 0 (Fin 50) = Inr r" "rl_status r = OPTIMAL"
  by (rule example_solved [OF examples_valid(4) examples_metadata(4) examples_reportable(4) examples_failures(3)
        examples_outputs(3) examples_objective(3)])

lemma late_facts:
  "example_site 61 (Fin 30) \<in> set (ri_sites late_site)"
  "reserve_days late_site + ri_tolerance late_site < me_value (rv_transit_time (example_site 61 (Fin 30)))"
  "model_feasible late_site [(61, 0)] [(51, Fin 50)]"
  by (simp add: reserve_example_def reserve_payload.defs reserve_input.defs) code_simp+

lemma unused_facts: "rw_profile (ri_policy unused_site) = NO_RESERVE_USE" "map rv_site_id (ri_sites unused_site) = [61]"
  by code_simp+

lemma late_solved: "\<exists>r. solved late_site 0 (Fin 50) = Inr r"
proof -
  let ?o = "example_outcome late_site 0 (Fin 50)"
  let ?check = "reserve_check_of reserve_example_hash late_site (example_dispatch late_site 0)
    (example_shortages late_site (Fin 50)) (po_objective ?o) (ck_checked example_clock)"
  obtain objective report where c: "independent_reserve_check reserve_example_hash late_site
      (read_values (po_amounts ?o) (map rv_site_id (ri_sites late_site)))
      (read_values (po_shortage ?o) (map fst (reserve_demand_dict late_site))) (po_objective ?o) (ck_checked example_clock)
      = Inr (?check, objective, report)"
    using example_check_returns [OF examples_valid(3) examples_reportable(3)]
    by (simp add: example_outcome_def example_dispatch_def example_shortages_def) blast
  have "route_or_transit_broken late_site d (example_site 61 (Fin 30))" for d
    using late_facts(2) by (simp add: route_or_transit_broken_def)
  then have "site_failures late_site d (example_site 61 (Fin 30)) \<noteq> []" for d
    by (simp add: site_failures_def codes_if_Nil)
  then have "\<not> rk_passed ?check"
    using late_facts(1) unfolding reserve_check_passed reserve_failures_Nil by blast
  from failed_check_returned [where configuration = reserve_configuration and outcome = ?o
      and solver = "\<lambda>i' configuration. SOLVED ?o",
      OF examples_metadata(3) refl _ _ examples_objective(2) examples_valid(3) c this]
  show ?thesis by (auto simp: example_outcome_def)
qed

lemma one_model:
  "list_all (\<lambda>s. list_all (\<lambda>(n, m, u). is_float (me_value m)) (site_metrics s)) (ri_sites one_site)"
  "model_feasible one_site (example_dispatch one_site (Fin 40)) (example_shortages one_site (Fin 10))"
  "list_all (\<lambda>s. me_value (rv_transit_time s) \<le> reserve_days one_site + ri_tolerance one_site \<and>
     dispatched (example_dispatch one_site (Fin 40)) s + me_value (rv_procurement_committed_receipts s)
       \<le> me_value (rv_refinery_receipt_capacity s) + ri_tolerance one_site) (ri_sites one_site)"
  by code_simp+

lemma two_facts:
  "example_site 61 (Fin 3) \<in> set (ri_sites two_sites)"
  "me_value (rv_refinery_receipt_capacity (example_site 61 (Fin 3))) + ri_tolerance two_sites
     < refinery_receipt two_sites (example_dispatch two_sites (Fin 40)) (rv_refinery_id (example_site 61 (Fin 3)))"
  by (simp add: reserve_example_def reserve_payload.defs reserve_input.defs) code_simp

end
