(* ===== verification/Reserve_Props.thy ===== *)
theory Reserve_Props imports Reserve_Example Lifecycle begin

text \<open>
  The properties of reserve planning: what the independent check decides, what a usable result
  guarantees, how the linear model and the check agree and where they do not, the policies and the
  lifecycle.
\<close>

lemma example_demands: "list_all (\<lambda>d. isfinite (me_value (rq_required_volume d))) (ri_demands (reserve_example p ss (Fin q)))"
  by (simp add: reserve_example_def reserve_payload.defs reserve_input.defs stock_metric_def)

lemma demand_values:
  assumes "list_all (\<lambda>d. isfinite (me_value (rq_required_volume d))) (ri_demands i)" "d \<in> set (reserve_demand_dict i)"
  shows "isfinite (snd d)"
proof -
  have "d \<in> set (map (\<lambda>d. (rq_refinery_id d, me_value (rq_required_volume d))) (ri_demands i))"
    using assms(2) dict_of_subset unfolding reserve_demand_dict_def by blast
  with assms(1) show ?thesis by (auto simp: list_all_iff)
qed

lemma receipt_not_NaN:
  "(\<And>s. s \<in> set (ri_sites i) \<Longrightarrow> isfinite (dispatched dispatch s)) \<Longrightarrow> refinery_receipt i dispatch u \<noteq> NaN"
  unfolding refinery_receipt_def by (rule sum_finite_not_NaN) auto

section \<open>The independent check\<close>

lemma constraints_decided:
  assumes "reserve_input_valid sha256 i" "isfinite (reserve_days i)"
    "list_all (\<lambda>d. isfinite (me_value (rq_required_volume d))) (ri_demands i)"
  shows "reserve_failures sha256 i dispatch shortages reported = [] \<longleftrightarrow>
    reserve_constraints_met i dispatch shortages \<and>
    reserve_objective_agrees i reported (reserve_total i dispatch shortages)"
proof (cases "\<forall>s \<in> set (ri_sites i). site_failures i dispatch s = []")
  case True
  then have r: "readable_sites i dispatch = ri_sites i" by (intro readable_all) blast
  have "\<forall>s \<in> set (ri_sites i). reserve_site_met i dispatch s"
    using True site_decided [OF assms(1) _ assms(2)] by blast
  then have "refinery_receipt i dispatch u \<noteq> NaN" for u
    by (intro receipt_not_NaN) (auto simp: reserve_site_met_def Let_def)
  then have "\<forall>d \<in> set (reserve_demand_dict i). \<not> shortage_broken i dispatch shortages d \<longleftrightarrow>
      reserve_demand_met i dispatch shortages d"
    using demand_decided [OF r valid_reserve_input(1) [OF assms(1)]] demand_values [OF assms(3)] by blast
  with True \<open>\<forall>s \<in> set (ri_sites i). reserve_site_met i dispatch s\<close> show ?thesis
    using valid_reserve_input(3) [OF assms(1)] unfolding reserve_failures_Nil reserve_constraints_met_def by blast
next
  case False
  then show ?thesis
    using site_decided [OF assms(1) _ assms(2)] unfolding reserve_failures_Nil reserve_constraints_met_def by blast
qed

text \<open>C29: The reserve check decides the constraints. On a valid input with finite demands, a check that
  returns passes exactly when every site keeps its floor, storage, draw rate, route, transit time
  and shared receiving capacity within the tolerance and uses no reserve under the policy that
  forbids it, receipts and shortages add up to every demand, and the reported objective agrees;
  the constraint report says the same.\<close>

theorem reserve_check_decides:
  assumes "reserve_input_valid sha256 i" "isfinite (reserve_days i)"
    "list_all (\<lambda>d. isfinite (me_value (rq_required_volume d))) (ri_demands i)"
    "independent_reserve_check sha256 i dispatch shortages reported now = Inr (check, objective, report)"
  shows "(rk_passed check \<longleftrightarrow> reserve_constraints_met i dispatch shortages \<and> isfinite reported \<and>
      \<bar>reported - py_sum (map snd (rb_weighted_contributions objective))\<bar> \<le> ri_tolerance i) \<and>
    (rr_feasible report \<longleftrightarrow> rk_passed check) \<and> (rk_failure_codes check = [] \<longleftrightarrow> rk_passed check)"
proof -
  note p = reserve_check_parts [OF assms(4)]
  have "rk_failure_codes check = [] \<longleftrightarrow> rk_passed check"
    unfolding p(1) reserve_check_passed reserve_check_fields(2) by (rule sorted_codes_Nil [OF failures_known])
  then show ?thesis
    unfolding p(1,2,5) reserve_check_passed constraints_decided [OF assms(1-3)]
    by (simp add: reserve_objective_agrees_def reserve_total_def)
qed

theorem reserve_check_decides_witness:
  "reserve_constraints_met one_site [(61, Fin 40)] [(51, Fin 10)]"
proof -
  let ?reported = "po_objective (example_outcome one_site (Fin 40) (Fin 10))"
  obtain objective report where c: "independent_reserve_check reserve_example_hash one_site
      (example_dispatch one_site (Fin 40)) (example_shortages one_site (Fin 10)) ?reported 1 =
      Inr (reserve_check_of reserve_example_hash one_site (example_dispatch one_site (Fin 40))
        (example_shortages one_site (Fin 10)) ?reported 1, objective, report)"
    by (rule example_check_returns [OF examples_valid(1) examples_reportable(1)])
  from reserve_check_decides [OF examples_valid(1) examples_days(1) example_demands c] examples_failures(1)
  show ?thesis unfolding examples_read by (simp add: reserve_check_passed)
qed

section \<open>Results of the solver\<close>

lemma valid_openings:
  assumes "reserve_input_valid sha256 i" "s \<in> set (ri_sites i)"
  shows "model_opening s = opening_stock s"
  using site_opening(2) valid_reserve_input(5,6) [OF assms(1)] assms(2) by blast

text \<open>C30: A usable reserve result is a checked plan. On a valid input with finite demands, a result that is
  optimal or feasible was read from an outcome of the solver on the model of the input: the dispatch
  and shortages read from that outcome meet every constraint and its objective agrees with them; the
  actions are, in order, one per site that ships more than the tolerance, each with dispatch, transit
  and receipt equal to the site's shipped volume; the residual shortage is the sum of the shortages; the
  check passed and there is no failure.\<close>

theorem usable_reserve_result:
  assumes "reserve_input_valid sha256 i" "isfinite (reserve_days i)"
    "list_all (\<lambda>d. isfinite (me_value (rq_required_volume d))) (ri_demands i)"
    "solve_reserve_plan uuid5 sha256 solver clock i configuration = Inr r" "usable_status (rl_status r)"
  shows "\<exists>outcome dispatch shortages. solver i configuration = SOLVED outcome \<and>
    dispatch = read_values (po_amounts outcome) (map rv_site_id (ri_sites i)) \<and>
    shortages = read_values (po_shortage outcome) (map fst (reserve_demand_dict i)) \<and>
    reserve_constraints_met i dispatch shortages \<and>
    reserve_objective_agrees i (po_objective outcome) (reserve_total i dispatch shortages) \<and>
    list_all2 (action_for i dispatch) (filter (\<lambda>s. ri_tolerance i < dispatched dispatch s) (ri_sites i)) (rl_actions r) \<and>
    map_option me_value (rl_residual_shortage r) = Some (py_max 0 (py_sum (map snd shortages))) \<and>
    reserve_checker_passed r \<and> rl_failure r = None"
proof -
  from assms(4,5) obtain outcome dispatch shortages check objective report timed_out where o: "solver i configuration = SOLVED outcome"
    "dispatch = read_values (po_amounts outcome) (map rv_site_id (ri_sites i))"
    "shortages = read_values (po_shortage outcome) (map fst (reserve_demand_dict i))" and
    u: "independent_reserve_check sha256 i dispatch shortages (po_objective outcome) (ck_checked clock) = Inr (check, objective, report)"
    "rk_passed check"
    "usable_result uuid5 i configuration clock timed_out dispatch shortages (check, objective, report) = Inr r"
    by (rule solve_usableE) blast
  note f = usable_result_fields [OF u(3)]
  have "reserve_failures sha256 i dispatch shortages (po_objective outcome) = []"
    using u(2) unfolding reserve_check_parts(1) [OF u(1)] reserve_check_passed .
  then have "reserve_constraints_met i dispatch shortages \<and>
      reserve_objective_agrees i (po_objective outcome) (reserve_total i dispatch shortages)"
    unfolding constraints_decided [OF assms(1-3)] .
  moreover have "list_all2 (action_for i dispatch) (filter (\<lambda>s. ri_tolerance i < dispatched dispatch s) (ri_sites i)) (rl_actions r)"
    by (rule reserve_outputs_actions(1) [OF f(7) valid_openings [OF assms(1)] valid_reserve_input(2) [OF assms(1)]])
  ultimately show ?thesis using f(1,4,11) u(2) o by (auto simp: reserve_checker_passed_def)
qed

theorem usable_reserve_result_witness:
  "\<exists>r. solved one_site (Fin 40) (Fin 10) = Inr r \<and> reserve_checker_passed r \<and> rl_failure r = None \<and>
     map_option me_value (rl_residual_shortage r) = Some (py_max 0 (py_sum (map snd (example_shortages one_site (Fin 10)))))"
proof -
  obtain r where r: "solved one_site (Fin 40) (Fin 10) = Inr r" "rl_status r = OPTIMAL"
    by (rule one_solved)
  then have "usable_status (rl_status r)" by (simp add: usable_status_def)
  from usable_reserve_result [OF examples_valid(1) examples_days(1) example_demands r(1) this] r(1) show ?thesis
    by (auto simp: example_outcome_def example_shortages_def)
qed

text \<open>C31: A site that cannot be reached within the horizon blocks the whole plan. If one site's transit time
  exceeds the days of the horizon by more than the tolerance, no result of the solver is usable,
  although the model fixes the dispatch of that site to zero.\<close>

theorem late_site_blocks_plan:
  assumes "s \<in> set (ri_sites i)" "reserve_days i + ri_tolerance i < me_value (rv_transit_time s)"
    "solve_reserve_plan uuid5 sha256 solver clock i configuration = Inr r"
  shows "\<not> usable_status (rl_status r)"
proof
  assume "usable_status (rl_status r)"
  with assms(3) obtain dispatch shortages reported check objective report where u:
    "independent_reserve_check sha256 i dispatch shortages reported (ck_checked clock) = Inr (check, objective, report)"
    "rk_passed check"
    by (rule usable_checkedE) blast
  have "site_failures i dispatch s = []"
    using u(2) assms(1) unfolding reserve_check_parts(1) [OF u(1)] reserve_check_passed reserve_failures_Nil by blast
  moreover have "route_or_transit_broken i dispatch s" using assms(2) by (simp add: route_or_transit_broken_def)
  ultimately show False by (simp add: site_failures_def codes_if_Nil split: if_splits)
qed

theorem late_site_blocks_plan_witness:
  "model_feasible late_site [(61, 0)] [(51, Fin 50)] \<and>
   (\<exists>r. solved late_site 0 (Fin 50) = Inr r \<and> \<not> usable_status (rl_status r))"
proof -
  obtain r where r: "solved late_site 0 (Fin 50) = Inr r" using late_solved by blast
  have "\<not> usable_status (rl_status r)"
    by (rule late_site_blocks_plan [OF late_facts(1,2) r])
  with r late_facts(3) show ?thesis by blast
qed

text \<open>Under the policy that uses no reserve, a usable result ships nothing: it has no action and rejects
  every site for that reason.\<close>

lemma no_reserve_use_ships_nothing:
  assumes "reserve_input_valid sha256 i" "isfinite (reserve_days i)"
    "list_all (\<lambda>d. isfinite (me_value (rq_required_volume d))) (ri_demands i)"
    "solve_reserve_plan uuid5 sha256 solver clock i configuration = Inr r" "usable_status (rl_status r)"
    "rw_profile (ri_policy i) = NO_RESERVE_USE"
  shows "rl_actions r = [] \<and> map rh_site_id (rl_rejected_options r) = map rv_site_id (ri_sites i) \<and>
    rl_profile r = NO_RESERVE_USE"
proof -
  from assms(4,5) obtain dispatch shortages reported check objective report timed_out where u:
    "independent_reserve_check sha256 i dispatch shortages reported (ck_checked clock) = Inr (check, objective, report)"
    "rk_passed check"
    "usable_result uuid5 i configuration clock timed_out dispatch shortages (check, objective, report) = Inr r"
    by (rule usable_checkedE) blast
  note f = usable_result_fields [OF u(3)]
  have met: "reserve_site_met i dispatch s" if "s \<in> set (ri_sites i)" for s
    using constraints_decided [OF assms(1-3)] u(2) that
    unfolding reserve_check_parts(1) [OF u(1)] reserve_check_passed reserve_constraints_met_def by blast
  have "\<not> ri_tolerance i < dispatched dispatch s" if "s \<in> set (ri_sites i)" for s
    using met [OF that] assms(6) by (auto simp: reserve_site_met_def Let_def less_le_pyfloat)
  then have "filter (\<lambda>s. ri_tolerance i < dispatched dispatch s) (ri_sites i) = []" by (simp add: filter_empty_conv)
  with reserve_outputs_actions(1) [OF f(7) valid_openings [OF assms(1)] valid_reserve_input(2) [OF assms(1)]]
  show ?thesis using f(5,6) assms(6) by (simp add: no_use_rejections_def comp_def)
qed

section \<open>The model and the check\<close>

text \<open>Inputs hold Python floats; the rational of a finite value is one.\<close>

definition site_floats :: "reserve_site \<Rightarrow> bool" where
  "site_floats s \<longleftrightarrow> list_all (\<lambda>(n, m, u). is_float (me_value m)) (site_metrics s)"

lemma le_add_tolerance: "is_float x \<Longrightarrow> x \<noteq> NaN \<Longrightarrow> 0 \<le> x \<Longrightarrow> 0 \<le> t \<Longrightarrow> x \<le> x + t" for x t :: pyfloat
  using add_mono_pyfloat [of x x 0 t] by (simp add: le_refl_pyfloat)

lemma minus_zero_float: "is_float x \<Longrightarrow> x - 0 = x" for x :: pyfloat
  by (cases x) (simp_all add: minus_pyfloat_def zero_pyfloat_def of_exact_is_float)

lemma minus_tolerance_le: "is_float x \<Longrightarrow> isfinite x \<Longrightarrow> 0 \<le> t \<Longrightarrow> x - t \<le> x" for x t :: pyfloat
  using minus_mono_pyfloat [of 0 t x] by (simp add: minus_zero_float)

lemma release_cap_le:
  assumes "reserve_input_valid sha256 i" "s \<in> set (ri_sites i)" "isfinite (reserve_days i)"
  shows "release_cap i s \<le> me_value (rv_draw_rate_limit s) * reserve_days i"
    "release_cap i s \<le> me_value (rv_route_capacity s) * reserve_days i"
proof -
  note v = valid_reserve_input [OF assms(1)]
  note m = site_values [OF v(5) [OF assms(2)]]
  have "model_opening s + replenishment_of s \<noteq> NaN"
    using site_opening [OF v(5) [OF assms(2)] v(6) [OF assms(2)]] m(9) by (simp add: add_finite_not_NaN finite_not_NaN)
  moreover have "py_max 0 x \<noteq> NaN" for x by (auto simp: py_max_def)
  ultimately have nan: "NaN \<notin> set [py_max 0 (model_opening s + replenishment_of s - me_value (rv_minimum_policy_floor s)),
     me_value (rv_draw_rate_limit s) * reserve_days i, me_value (rv_route_capacity s) * reserve_days i,
     py_max 0 (me_value (rv_refinery_receipt_capacity s) - me_value (rv_procurement_committed_receipts s))]"
    using times_finite_not_NaN [OF m(3) assms(3)] times_finite_not_NaN [OF m(4) assms(3)] by (auto simp: eq_commute [of NaN])
  show "release_cap i s \<le> me_value (rv_draw_rate_limit s) * reserve_days i"
    "release_cap i s \<le> me_value (rv_route_capacity s) * reserve_days i"
    unfolding release_cap_def by (rule py_min_list_le [OF nan]; simp)+
qed

lemma neg_tolerance: "0 \<le> t \<Longrightarrow> isfinite t \<Longrightarrow> - t \<le> 0" for t :: pyfloat
  by (cases t) (auto simp: zero_pyfloat_def)

text \<open>What the model relaxes: how far a site is, and what shares the receiving capacity.\<close>

definition within_reach :: "reserve_input \<Rightarrow> (uuid, pyfloat) dict \<Rightarrow> reserve_site \<Rightarrow> bool" where
  "within_reach i dispatch s \<longleftrightarrow> me_value (rv_transit_time s) \<le> reserve_days i + ri_tolerance i \<and>
     dispatched dispatch s + me_value (rv_procurement_committed_receipts s)
       \<le> me_value (rv_refinery_receipt_capacity s) + ri_tolerance i"

lemma model_site_met:
  assumes "reserve_input_valid sha256 i" "isfinite (reserve_days i)" "s \<in> set (ri_sites i)" "site_floats s"
    "model_site i dispatch s" "within_reach i dispatch s"
  shows "reserve_site_met i dispatch s"
proof -
  note v = valid_reserve_input [OF assms(1)]
  note m = site_values [OF v(5) [OF assms(3)]]
  let ?q = "dispatched dispatch s" and ?left = "remaining_stock dispatch s" and ?tol = "ri_tolerance i"
  have tol: "0 \<le> ?tol" using v(2) by (rule less_imp_le_pyfloat)
  have ms: "isfinite ?q" "0 \<le> ?q" "?q \<le> release_cap i s" "me_value (rv_minimum_policy_floor s) \<le> ?left"
    "?left \<le> me_value (rv_capacity s)" "if dispatch_fixed i s then ?q = 0 else True"
    using assms(5) unfolding model_site_def Let_def remaining_stock_def site_opening(2) [OF v(5) [OF assms(3)] v(6) [OF assms(3)]]
    by simp_all
  have fl: "is_float (me_value (rv_capacity s))" "is_float (me_value (rv_minimum_policy_floor s))"
    using assms(4) by (simp_all add: site_floats_def site_metrics_def)
  have cap: "0 \<le> me_value (rv_capacity s)"
    by (rule valid_site_metrics(2) [OF v(5) [OF assms(3)], of "''capacity''" _ "''ktonne''"]) (simp add: site_metrics_def)
  have relax: "?q \<le> x + ?tol" if "release_cap i s \<le> x" "is_float x" for x
  proof -
    have x: "?q \<le> x" using ms(3) that(1) by (rule le_trans_pyfloat)
    have "x \<le> x + ?tol"
      using le_add_tolerance [OF that(2) _ le_trans_pyfloat [OF ms(2) x] tol] le_not_NaN [OF x] by blast
    with x show ?thesis by (rule le_trans_pyfloat)
  qed
  have "isfinite ?left" using ms(4,5) m(1,2) by (cases ?left) auto
  moreover have "me_value (rv_minimum_policy_floor s) - ?tol \<le> ?left"
    using minus_tolerance_le [OF fl(2) m(2) tol] ms(4) by (rule le_trans_pyfloat)
  moreover have "?left \<le> me_value (rv_capacity s) + ?tol"
    using ms(5) le_add_tolerance [OF fl(1) finite_not_NaN [OF m(1)] cap tol] by (rule le_trans_pyfloat)
  moreover have "rw_profile (ri_policy i) = NO_RESERVE_USE \<longrightarrow> ?q \<le> ?tol"
    using ms(6) tol by (simp add: dispatch_fixed_def)
  moreover have "- ?tol \<le> ?q" using neg_tolerance [OF tol v(1)] ms(2) by (rule le_trans_pyfloat)
  ultimately show ?thesis
    using ms(1) relax [OF release_cap_le(1) [OF assms(1,3,2)]] relax [OF release_cap_le(2) [OF assms(1,3,2)]] assms(6)
    by (simp add: reserve_site_met_def Let_def within_reach_def)
qed

lemma model_demand_met:
  assumes "isfinite (snd d)" "0 \<le> ri_tolerance i" "isfinite (ri_tolerance i)" "model_demand i dispatch shortages d"
  shows "reserve_demand_met i dispatch shortages d"
proof -
  obtain u required where d: "d = (u, required)" by force
  have md: "isfinite (dict_get shortages u 0)" "0 \<le> dict_get shortages u 0"
    "refinery_receipt i dispatch u + dict_get shortages u 0 = required"
    using assms(4) unfolding model_demand_def refinery_receipt_def d Let_def by auto
  have "required - required = 0" using assms(1) by (simp add: d minus_self_pyfloat)
  then have "\<bar>refinery_receipt i dispatch u + dict_get shortages u 0 - required\<bar> \<le> ri_tolerance i"
    unfolding md(3) using assms(2) by (simp only: abs_zero_pyfloat)
  with md(1,2) neg_tolerance [OF assms(2,3)] show ?thesis
    by (auto simp: d reserve_demand_met_def Let_def intro: le_trans_pyfloat)
qed

text \<open>C32: The linear model implements the constraints of the check. On a valid input, a dispatch that satisfies
  the model meets every constraint of the independent check, provided every site is within reach
  and its volume fits beside the committed receipts: these are the two constraints the model
  relaxes.\<close>

theorem model_implements_check:
  assumes "reserve_input_valid sha256 i" "isfinite (reserve_days i)" "list_all site_floats (ri_sites i)"
    "list_all (\<lambda>d. isfinite (me_value (rq_required_volume d))) (ri_demands i)" "model_feasible i dispatch shortages"
    "list_all (within_reach i dispatch) (ri_sites i)"
  shows "reserve_constraints_met i dispatch shortages"
proof -
  note v = valid_reserve_input [OF assms(1)]
  have "reserve_site_met i dispatch s" if "s \<in> set (ri_sites i)" for s
    using model_site_met [OF assms(1,2) that] assms(3,5,6) that by (simp add: model_feasible_def list_all_iff)
  moreover have "reserve_demand_met i dispatch shortages d" if "d \<in> set (reserve_demand_dict i)" for d
    using model_demand_met [OF demand_values [OF assms(4) that] less_imp_le_pyfloat [OF v(2)] v(1)] assms(5) that
    by (simp add: model_feasible_def list_all_iff)
  ultimately show ?thesis by (simp add: reserve_constraints_met_def)
qed

theorem model_implements_check_witness:
  "reserve_constraints_met one_site (example_dispatch one_site (Fin 40)) (example_shortages one_site (Fin 10))"
  by (rule model_implements_check [OF examples_valid(1) examples_days(1) one_model(1) [folded site_floats_def]
        example_demands one_model(2) one_model(3) [folded within_reach_def]])

text \<open>The check tests shared limits per site, not per refinery or route: there is a valid input whose two
  sites feed the same refinery over the same route, and a dispatch that meets every constraint
  although together they exceed the refinery's receiving capacity.\<close>

lemma shared_limits_not_aggregated:
  "\<exists>i dispatch shortages s. reserve_input_valid reserve_example_hash i \<and> s \<in> set (ri_sites i) \<and>
     reserve_constraints_met i dispatch shortages \<and>
     me_value (rv_refinery_receipt_capacity s) + ri_tolerance i < refinery_receipt i dispatch (rv_refinery_id s)"
proof -
  let ?d = "example_dispatch two_sites (Fin 40)" and ?sh = "example_shortages two_sites 0"
  have "reserve_constraints_met two_sites ?d ?sh"
    using examples_failures(2) constraints_decided [OF examples_valid(2) examples_days(2) example_demands] by blast
  with examples_valid(2) two_facts show ?thesis by blast
qed

section \<open>The lifecycle\<close>

definition accepted_reserve_targets :: "reserve_lifecycle \<Rightarrow> reserve_lifecycle set" where
  "accepted_reserve_targets s = {t. first_error (reserve_transition_problems
     \<lparr>ru_current = s, ru_target = t, ru_occurred_at = 0, ru_actor_id = ''actor''\<rparr>) = None}"

lemma accepted_reserve_targets_eq: "accepted_reserve_targets = reserve_targets"
  by (auto simp: accepted_reserve_targets_def reserve_transition_problems_def fun_eq_iff len_between_def split: if_splits)

fun reserve_rank :: "reserve_lifecycle \<Rightarrow> nat" where
  "reserve_rank RL_REQUESTED = 3"
| "reserve_rank RL_SOLVING = 2"
| "reserve_rank RL_CHECKING = 1"
| "reserve_rank _ = 0"

interpretation reserve: lifecycle accepted_reserve_targets reserve_rank
proof
  show "t \<in> accepted_reserve_targets s \<Longrightarrow> reserve_rank t < reserve_rank s" for s t
    unfolding accepted_reserve_targets_eq by (cases s) auto
qed

fun reserve_trail :: "reserve_lifecycle \<Rightarrow> reserve_lifecycle list set" where
  "reserve_trail RL_REQUESTED = {[]}"
| "reserve_trail RL_SOLVING = {[RL_SOLVING]}"
| "reserve_trail RL_CHECKING = {[RL_SOLVING, RL_CHECKING]}"
| "reserve_trail RL_FEASIBLE = {[RL_SOLVING, RL_CHECKING, RL_FEASIBLE]}"
| "reserve_trail RL_FAILED = {[RL_FAILED], [RL_SOLVING, RL_FAILED], [RL_SOLVING, RL_CHECKING, RL_FAILED]}"

lemma reserve_trail_step: "ts \<in> reserve_trail m \<Longrightarrow> t \<in> reserve_targets m \<Longrightarrow> ts @ [t] \<in> reserve_trail t"
  by (cases m) auto

lemma history_reserve_trail: "history accepted_reserve_targets s ts t \<Longrightarrow> s = RL_REQUESTED \<Longrightarrow> ts \<in> reserve_trail t"
  by (induction rule: history.induct) (auto simp: accepted_reserve_targets_eq intro: reserve_trail_step)

text \<open>A reserve plan is feasible only after solving and checking, and every history of it is over after at
  most three transitions without a repeated state.\<close>

lemma reserve_feasible_only_after_check:
  assumes "history accepted_reserve_targets RL_REQUESTED ts t"
  shows "(t = RL_FEASIBLE \<longleftrightarrow> ts = [RL_SOLVING, RL_CHECKING, RL_FEASIBLE]) \<and> length ts \<le> 3 \<and> distinct (RL_REQUESTED # ts)"
proof -
  have "t = RL_FEASIBLE \<longleftrightarrow> ts = [RL_SOLVING, RL_CHECKING, RL_FEASIBLE]"
    using history_reserve_trail [OF assms] by (cases t) auto
  with reserve.history_bounded [OF assms] reserve.history_no_return [OF assms] show ?thesis by simp
qed

end
