(* ===== verification/Reserve_Inputs.thy ===== *)
theory Reserve_Inputs imports Reserve_Contracts begin

text \<open>
  The reserve input builder, \<open>sanjiv/reserve/inputs.py\<close>: it joins a checked procurement plan, the
  twin snapshot, a policy and the fixture of reserve assumptions to an optimisation input. The
  fixture file is given parsed; \<open>uuid5\<close> and the hash of an assumption are parameters.
\<close>

section \<open>The fixture\<close>

text \<open>
  \<open>fs_values\<close> are the entries whose key ends in \<open>_ktonne\<close>, \<open>_fraction\<close>, \<open>_day\<close> or
  \<open>_tonne\<close>, as floats; \<open>fs_bundle\<close> is the whole entry without its identifiers.
\<close>

record fixture_site =
  fs_assumption_id :: uuid
  fs_site :: string
  fs_refinery :: string
  fs_route :: string
  fs_values :: "(string, pyfloat) dict"
  fs_bundle :: json_value

record reserve_fixture =
  fx_classification :: "string option"
  fx_effective_at :: datetime
  fx_expires_at :: datetime
  fx_rationale :: string
  fx_source_gap :: string
  fx_owner :: string
  fx_approved_by :: string
  fx_sites :: "fixture_site list"

definition fixture_assumption :: "reserve_fixture \<Rightarrow> fixture_site \<Rightarrow> assumption res" where
  "fixture_assumption raw item =
    (let effective = fx_effective_at raw;
         a = \<lparr>as_id = fs_assumption_id item, as_key = ''reserve:'' @ fs_site item @ '':operational-inputs'',
              as_value = fs_bundle item, as_unit = ''reserve_operational_bundle'', as_truth_class = ASSUMPTION,
              as_rationale = fx_rationale raw, as_source_gap = fx_source_gap raw, as_owner = fx_owner raw,
              as_entered_at = effective, as_effective_at = utc effective, as_expires_at = Some (utc (fx_expires_at raw)),
              as_approved_at = Some effective, as_approved_by = Some (fx_approved_by raw),
              as_status = AS_APPROVED, as_scenario_id = None, as_supersedes_id = None\<rparr>
     in validated (assumption_problems a) a)"

text \<open>What both readers of the fixture refuse.\<close>

definition fixture_problems :: "reserve_fixture \<Rightarrow> datetime \<Rightarrow> (bool \<times> py_error) list" where
  "fixture_problems raw now =
    [(fx_classification raw \<noteq> Some ''SYNTHETIC_FIXTURE'',
        ValueError ''reserve fixture must be classified SYNTHETIC_FIXTURE''),
     (fx_expires_at raw \<le> now, ValueError ''reserve opening-inventory assumptions are expired'')]"

definition load_reserve_fixture_assumptions :: "reserve_fixture \<Rightarrow> datetime \<Rightarrow> assumption list res" where
  "load_reserve_fixture_assumptions raw now =
     rbind (validated (fixture_problems raw now) ()) (\<lambda>_. rtraverse (fixture_assumption raw) (fx_sites raw))"

section \<open>Metrics and units\<close>

definition input_metric ::
  "pyfloat \<Rightarrow> string \<Rightarrow> truth_class \<Rightarrow> datetime \<Rightarrow> datetime \<Rightarrow> uuid list \<Rightarrow> string \<Rightarrow> metric res" where
  "input_metric value unit truth effective computed evidence_ids transformation =
    (let fetched = max effective (min computed computed) in
     mk_metric \<lparr>me_value = value, me_unit = unit, me_truth_class = truth,
       me_confidence = (if truth = ASSUMPTION then fl (55 / 100) else fl (9 / 10)), me_evidence_ids = evidence_ids,
       me_source_refs = [\<lparr>sr_source_id = ''reserve-input-builder'', sr_record_id = transformation\<rparr>],
       me_effective_at = effective, me_fetched_at = fetched, me_computed_at = max fetched computed,
       me_freshness_status = F_CURRENT, me_transformation = transformation,
       me_model_version = ''reserve-input-builder-v1''\<rparr>)"

definition capacity_ktonne :: "metric \<Rightarrow> pyfloat res" where
  "capacity_ktonne m =
    (if me_unit m = ''million_metric_tonne'' then Inr (me_value m * Fin 1000)
     else if me_unit m = ''ktonne'' then Inr (me_value m)
     else Inl (ValueError (''unsupported reserve capacity unit: '' @ me_unit m)))"

definition daily_capacity :: "metric \<Rightarrow> pyfloat res" where
  "daily_capacity m =
    (if me_unit m \<noteq> ''ktonne_per_day'' then Inl (ValueError (''unsupported daily capacity unit: '' @ me_unit m))
     else Inr (me_value m))"

definition item_value :: "fixture_site \<Rightarrow> string \<Rightarrow> pyfloat res" where
  "item_value item key = (case map_of (fs_values item) key of None \<Rightarrow> Inl KeyError | Some v \<Rightarrow> Inr v)"

section \<open>One site\<close>

text \<open>The horizon of the plan's demands, and what its actions already deliver.\<close>

definition plan_demands :: "procurement_plan \<Rightarrow> procurement_demand list" where
  "plan_demands p = oi_demands (fi_optimisation_input (pl_fingerprint_inputs p))"

definition plan_horizon :: "procurement_plan \<Rightarrow> (datetime \<times> datetime) res" where
  "plan_horizon p =
    (if plan_demands p = [] then Inl (ValueError ''min() arg is an empty sequence'')
     else Inr (Min (set (map dm_interval_start (plan_demands p))), Max (set (map dm_interval_end (plan_demands p)))))"

definition committed_receipts :: "procurement_plan \<Rightarrow> (uuid, pyfloat) dict" where
  "committed_receipts p =
     dd_total (fa_refinery_id \<circ> ac_refinery) (me_value \<circ> fa_volume \<circ> ac_refinery) (re_actions (pl_solver_result p))"

record site_assets =
  sx_node :: twin_node
  sx_capacity :: metric
  sx_route :: twin_route
  sx_refinery :: twin_node
  sx_refinery_capacity :: metric

definition site_assets_of :: "uuid5_fun \<Rightarrow> twin_snapshot \<Rightarrow> fixture_site \<Rightarrow> site_assets res" where
  "site_assets_of uuid5 snapshot item =
    (let nodes = dict_of (map (\<lambda>n. (tn_id n, n)) (ts_nodes snapshot));
         routes = dict_of (map (\<lambda>r. (rt_id r, r)) (ts_routes snapshot));
         site_id = canonical_uuid uuid5 (fs_site item);
         refinery_id = canonical_uuid uuid5 (fs_refinery item);
         absent = ValueError (''reserve site is absent from the exact twin: '' @ fs_site item);
         disconnected = ValueError (''reserve route is disconnected: '' @ fs_route item);
         invalid = ValueError (''reserve receiving refinery is invalid: '' @ fs_refinery item)
     in case map_of nodes site_id of
       None \<Rightarrow> Inl absent
     | Some node \<Rightarrow> (case tn_capacity node of
         None \<Rightarrow> Inl absent
       | Some capacity \<Rightarrow>
         if tn_kind node \<noteq> RESERVE_SITE then Inl absent
         else case map_of routes (canonical_uuid uuid5 (fs_route item)) of
           None \<Rightarrow> Inl disconnected
         | Some route \<Rightarrow>
           if rt_origin_id route \<noteq> site_id \<or> rt_destination_id route \<noteq> refinery_id \<or> \<not> rt_available route
           then Inl disconnected
           else case map_of nodes refinery_id of
             None \<Rightarrow> Inl invalid
           | Some refinery \<Rightarrow> (case tn_capacity refinery of
               None \<Rightarrow> Inl invalid
             | Some c \<Rightarrow> Inr \<lparr>sx_node = node, sx_capacity = capacity, sx_route = route, sx_refinery = refinery,
                             sx_refinery_capacity = c\<rparr>)))"

definition effective_floor :: "reserve_weights \<Rightarrow> pyfloat \<Rightarrow> pyfloat \<Rightarrow> pyfloat" where
  "effective_floor policy opening capacity = py_min opening (capacity * rw_minimum_floor_fraction policy)"

definition build_site ::
  "reserve_fixture \<Rightarrow> procurement_plan \<Rightarrow> reserve_weights \<Rightarrow> datetime \<Rightarrow> datetime \<Rightarrow> pyfloat
     \<Rightarrow> fixture_site \<Rightarrow> site_assets \<Rightarrow> assumption \<Rightarrow> reserve_site res" where
  "build_site raw p policy starts checked_at horizon_days item x a =
    (let effective = fx_effective_at raw; node = sx_node x; route = sx_route x; refinery = sx_refinery x;
         evidence_ids = sorted_ids (tn_evidence_ids node @ rt_evidence_ids route @ tn_evidence_ids refinery);
         actions = re_actions (pl_solver_result p);
         assumed = (\<lambda>value unit transformation.
           input_metric value unit ASSUMPTION effective checked_at evidence_ids transformation);
         taken = (\<lambda>value unit m ids transformation.
           input_metric value unit (me_truth_class m) (me_effective_at m) checked_at ids transformation)
     in
     rbind (capacity_ktonne (sx_capacity x)) (\<lambda>observed.
     rbind (item_value item ''opening_inventory_ktonne'') (\<lambda>stock.
     rbind (daily_capacity (sx_refinery_capacity x)) (\<lambda>daily.
     rbind (input_metric observed ''ktonne'' OBSERVED effective checked_at (tn_evidence_ids node)
       ''reserve.capacity-normalisation.v1'') (\<lambda>capacity.
     rbind (assumed stock ''ktonne'' ''reserve.fixture-opening-inventory.v1'') (\<lambda>opening_metric.
     rbind (assumed (effective_floor policy stock observed) ''ktonne'' (rw_version policy)) (\<lambda>floor_metric.
     rbind (item_value item ''draw_rate_ktonne_per_day'') (\<lambda>draw.
     rbind (assumed draw ''ktonne_per_day'' ''reserve.fixture-draw-rate.v1'') (\<lambda>draw_metric.
     rbind (daily_capacity (rt_capacity route)) (\<lambda>route_daily.
     rbind (taken route_daily ''ktonne_per_day'' (rt_capacity route) (rt_evidence_ids route)
       ''reserve.route-capacity-normalisation.v1'') (\<lambda>route_metric.
     rbind (taken (me_value (rt_transit_time route)) ''day'' (rt_transit_time route) (rt_evidence_ids route)
       ''reserve.transit-normalisation.v1'') (\<lambda>transit_metric.
     rbind (taken (daily * horizon_days) ''ktonne'' (sx_refinery_capacity x) (tn_evidence_ids refinery)
       ''reserve.receipt-capacity-horizon.v1'') (\<lambda>receipt_metric.
     rbind (input_metric (dict_get (committed_receipts p) (tn_id refinery) 0) ''ktonne'' DERIVED starts checked_at
       (case actions of [] \<Rightarrow> evidence_ids | action # _ \<Rightarrow> ac_evidence_ids action)
       ''reserve.procurement-coordination.v1'') (\<lambda>committed_metric.
     rbind (item_value item ''logistics_cost_usd_per_tonne'') (\<lambda>cost.
     rbind (assumed cost ''USD_per_tonne'' ''reserve.fixture-logistics-cost.v1'') (\<lambda>cost_metric.
       let s = \<lparr>rv_site_id = tn_id node, rv_site_name = tn_name node, rv_refinery_id = tn_id refinery,
         rv_route_id = rt_id route, rv_capacity = capacity, rv_opening_inventory = Some opening_metric,
         rv_opening_inventory_status = UNEXPIRED_ASSUMPTION, rv_minimum_policy_floor = floor_metric,
         rv_draw_rate_limit = draw_metric, rv_route_capacity = route_metric, rv_transit_time = transit_metric,
         rv_refinery_receipt_capacity = receipt_metric, rv_procurement_committed_receipts = committed_metric,
         rv_logistics_cost = cost_metric, rv_replenishment = None, rv_evidence_ids = evidence_ids,
         rv_assumption_ids = [as_id a]\<rparr>
       in validated (reserve_site_problems s) s))))))))))))))))"

text \<open>One round of the loop over the fixture's sites: the assumption and the site.\<close>

definition fixture_round ::
  "uuid5_fun \<Rightarrow> reserve_fixture \<Rightarrow> procurement_plan \<Rightarrow> twin_snapshot \<Rightarrow> reserve_weights \<Rightarrow> datetime \<Rightarrow> datetime
     \<Rightarrow> pyfloat \<Rightarrow> fixture_site \<Rightarrow> (assumption \<times> reserve_site) res" where
  "fixture_round uuid5 raw p snapshot policy starts checked_at horizon_days item =
     rbind (site_assets_of uuid5 snapshot item) (\<lambda>x.
     if list_ex (\<lambda>v. \<not> isfinite v \<or> v < 0) (map snd (fs_values item))
     then Inl (ValueError ''reserve fixture values must be finite and nonnegative'')
     else rbind (fixture_assumption raw item) (\<lambda>a.
          rmap (\<lambda>s. (a, s)) (build_site raw p policy starts checked_at horizon_days item x a)))"

section \<open>Demands and references\<close>

definition residual_demand ::
  "(uuid, pyfloat) dict \<Rightarrow> datetime \<Rightarrow> datetime \<Rightarrow> procurement_demand \<Rightarrow> reserve_demand res" where
  "residual_demand receipts starts checked_at d =
    (let residual = py_max 0 (me_value (dm_required_volume d) - dict_get receipts (dm_refinery_id d) 0) in
     rmap (\<lambda>m. \<lparr>rq_refinery_id = dm_refinery_id d, rq_required_volume = m\<rparr>)
       (input_metric residual ''ktonne'' DERIVED starts checked_at (me_evidence_ids (dm_required_volume d))
          ''reserve.residual-demand-after-procurement.v1''))"

text \<open>The values of a dictionary in the order of its keys' texts.\<close>

definition values_by_key :: "(uuid, 'v) dict \<Rightarrow> 'v list" where
  "values_by_key d = List.map_filter (map_of d) (sorted_ids (map fst d))"

definition evidence_references ::
  "procurement_plan \<Rightarrow> twin_snapshot \<Rightarrow> reserve_site list \<Rightarrow> evidence_fingerprint list res" where
  "evidence_references p snapshot sites =
    (let records = dict_of (map (\<lambda>e. (ev_id e, e)) (ts_evidence_records snapshot));
         known = dict_of (map (\<lambda>e. (ef_evidence_id e, e)) (fi_evidence (pl_fingerprint_inputs p)))
     in rbind (rtraverse (\<lambda>eid. case map_of records eid of
            None \<Rightarrow> Inl KeyError
          | Some e \<Rightarrow> validated
              [(\<not> is_sha256 (ascii_lower (ev_raw_payload_hash e)), FieldError ''raw_payload_hash'')]
              (eid, \<lparr>ef_evidence_id = eid, ef_raw_payload_hash = ascii_lower (ev_raw_payload_hash e)\<rparr>))
          (sorted_ids (concat (map rv_evidence_ids sites)))) (\<lambda>added.
        Inr (values_by_key (foldl (\<lambda>d (k, v). if dict_has d k then d else AList.update k v d) known added))))"

definition assumption_references ::
  "(assumption \<Rightarrow> string) \<Rightarrow> procurement_plan \<Rightarrow> assumption list \<Rightarrow> assumption_fingerprint list" where
  "assumption_references assumption_hash p assumptions =
    (let known = dict_of (map (\<lambda>a. (af_assumption_id a, a)) (fi_assumptions (pl_fingerprint_inputs p)));
         own = map (\<lambda>a. (as_id a, \<lparr>af_assumption_id = as_id a, af_assumption_hash = assumption_hash a,
                                     af_status = as_status a\<rparr>))
                (sort_key as_id assumptions)
     in values_by_key (foldl (\<lambda>d (k, v). AList.update k v d) known own))"

section \<open>The builder\<close>

definition plan_check_passed :: "procurement_plan \<Rightarrow> bool" where
  "plan_check_passed p =
    (case re_independent_check (pl_solver_result p) of None \<Rightarrow> False | Some c \<Rightarrow> ic_passed c)"

definition reserve_provenance_of ::
  "procurement_plan \<Rightarrow> evidence_fingerprint list \<Rightarrow> assumption_fingerprint list \<Rightarrow> reserve_provenance" where
  "reserve_provenance_of p evidence assumptions =
    (let f = pl_fingerprint_inputs p; pv = oi_provenance (fi_optimisation_input f) in
     \<lparr>rpv_simulation_run = pv_simulation_run pv, rpv_simulation_result = pv_simulation_result pv,
      rpv_confirmed_scenario = pv_confirmed_scenario pv, rpv_twin_snapshot = pv_twin_snapshot pv,
      rpv_procurement_plan_id = pl_plan_id p, rpv_procurement_plan_fingerprint = pl_plan_fingerprint p,
      rpv_procurement_input_fingerprint = fi_optimisation_input_fingerprint f,
      rpv_procurement_checker_version =
        (case re_independent_check (pl_solver_result p) of None \<Rightarrow> '''' | Some c \<Rightarrow> ic_checker_version c),
      rpv_evidence = evidence, rpv_assumptions = assumptions\<rparr>)"

definition build_reserve_input ::
  "uuid5_fun \<Rightarrow> (assumption \<Rightarrow> string) \<Rightarrow> reserve_hash \<Rightarrow> reserve_fixture \<Rightarrow> procurement_plan \<Rightarrow> twin_snapshot
     \<Rightarrow> reserve_weights \<Rightarrow> datetime option \<Rightarrow> reserve_input res" where
  "build_reserve_input uuid5 assumption_hash sha256 raw p snapshot policy now =
    (if \<not> plan_check_passed p then Inl (ValueError ''reserve planning requires a checked procurement plan'')
     else if fx_classification raw \<noteq> Some ''SYNTHETIC_FIXTURE''
     then Inl (ValueError ''reserve fixture must be classified SYNTHETIC_FIXTURE'')
     else rbind (plan_horizon p) (\<lambda>(starts, ends).
       let checked_at = (case now of None \<Rightarrow> starts | Some t \<Rightarrow> t);
           days = of_exact (of_int (ends - starts) / 1000000) / Fin 86400
       in
       if fx_expires_at raw \<le> checked_at
       then Inl (ValueError ''reserve opening-inventory assumptions are expired'')
       else
       rbind (rtraverse (fixture_round uuid5 raw p snapshot policy starts checked_at days) (fx_sites raw)) (\<lambda>rounds.
       rbind (rtraverse (residual_demand (committed_receipts p) starts checked_at) (plan_demands p)) (\<lambda>demands.
       rbind (evidence_references p snapshot (map snd rounds)) (\<lambda>evidence.
       let pv = reserve_provenance_of p evidence (assumption_references assumption_hash p (map fst rounds)) in
       rbind (validated (reserve_provenance_problems pv) pv) (\<lambda>provenance.
         let payload = \<lparr>ri_provenance = provenance, ri_policy = policy, ri_starts_at = starts, ri_ends_at = ends,
               ri_sites = sort_key rv_site_id (map snd rounds),
               ri_demands = sort_key rq_refinery_id demands, ri_tolerance = fl (1 / 1000000)\<rparr>;
             i = reserve_payload.extend payload (reserve_input.fields (sha256 payload))
         in validated (reserve_input_problems sha256 i) i))))))"

end
