(* ===== verification/Reserve_Service.thy ===== *)
theory Reserve_Service imports Reserve_Inputs Reserve_Solver Plan_Store Service_Calls begin

text \<open>
  The reserve service, \<open>sanjiv/reserve/service.py\<close>: a request for reserve plans of a completed
  run and a checked procurement plan, answered from the repository when its fingerprint is known
  and otherwise by building, solving and assembling one plan per requested policy profile. The
  scenario, procurement and twin services, the hashes and the clock are parameters.
\<close>

section \<open>Requests and responses\<close>

record reserve_execution_request =
  xr_procurement_plan_id :: uuid
  xr_profiles :: "reserve_profile list"
  xr_time_limit_seconds :: pyfloat

definition reserve_request_problems :: "reserve_execution_request \<Rightarrow> (bool \<times> py_error) list" where
  "reserve_request_problems q =
    [(\<not> len_between 1 4 (xr_profiles q), FieldError ''profiles''),
     (\<not> (isfinite (xr_time_limit_seconds q) \<and> 0 < xr_time_limit_seconds q \<and> xr_time_limit_seconds q \<le> Fin 60),
        FieldError ''time_limit_seconds'')]"

record reserve_response =
  ra_request_id :: uuid
  ra_run_id :: uuid
  ra_procurement_plan_id :: uuid
  ra_results :: "reserve_result list"
  ra_plans :: "reserve_plan list"
  ra_failures :: "reserve_failure list"
  ra_reused :: bool

type_synonym reserve_store = "(reserve_response, reserve_plan) plan_store"

text \<open>The other services, the fixture file, HiGHS, the hashes and the clock.\<close>

record reserve_world =
  we_get_run :: "uuid \<Rightarrow> service_error + simulation_run"
  we_get_procurement :: "uuid \<Rightarrow> service_error + procurement_plan"
  we_get_snapshot :: "uuid \<Rightarrow> twin_snapshot option"
  we_fixture :: reserve_fixture
  we_solver :: "reserve_input \<Rightarrow> solver_configuration \<Rightarrow> solve_outcome"
  we_highspy :: string
  we_clock :: "reserve_profile \<Rightarrow> clock"
  we_now :: "reserve_profile \<Rightarrow> datetime"
  we_uuid5 :: uuid5_fun
  we_assumption_hash :: "assumption \<Rightarrow> string"
  we_input_hash :: reserve_hash
  we_plan_hash :: reserve_plan_hash
  we_request_hash :: "uuid \<times> string \<times> reserve_profile list \<times> reserve_weights list \<times> solver_configuration \<Rightarrow> string"

section \<open>Guards\<close>

fun profile_index :: "reserve_profile \<Rightarrow> nat" where
  "profile_index CONSERVATIVE = 0"
| "profile_index RES_BALANCED = 1"
| "profile_index AGGRESSIVE_CONTINUITY = 2"
| "profile_index NO_RESERVE_USE = 3"

definition requested_profiles :: "reserve_execution_request \<Rightarrow> reserve_profile list" where
  "requested_profiles q = unique_first (xr_profiles q)"

text \<open>\<open>except ValueError\<close>: pydantic's validation error is one too, \<open>KeyError\<close> is not.\<close>

definition blocked :: "'a res \<Rightarrow> service_error + 'a" where
  "blocked r = (case r of
     Inl (ValueError m) \<Rightarrow> Inl (DomainError ''RESERVE_INPUT_BLOCKED'' 409)
   | Inl (FieldError m) \<Rightarrow> Inl (DomainError ''RESERVE_INPUT_BLOCKED'' 409)
   | Inl e \<Rightarrow> Inl (Raised e) | Inr x \<Rightarrow> Inr x)"

section \<open>One profile\<close>

definition assemble_reserve_plan ::
  "reserve_world \<Rightarrow> uuid \<Rightarrow> uuid \<Rightarrow> string \<Rightarrow> reserve_profile \<Rightarrow> reserve_input \<Rightarrow> reserve_result \<Rightarrow> reserve_plan res" where
  "assemble_reserve_plan world run_id procurement_plan_id actor_id profile i r =
    (let fingerprint = reserve_plan_fingerprint (we_plan_hash world) i r;
         plan_id = we_uuid5 world (''urn:sanjiv:reserve-plan:'' @ fingerprint);
         p = \<lparr>ro_plan_id = plan_id, ro_run_id = run_id, ro_procurement_plan_id = procurement_plan_id,
              ro_profile = profile, ro_lifecycle = RL_FEASIBLE, ro_input = i,
              ro_input_fingerprint = ri_input_fingerprint i, ro_plan_fingerprint = fingerprint, ro_result = r,
              ro_created_at = we_now world profile,
              ro_audit_event_ids =
                [we_uuid5 world (''urn:sanjiv:reserve-audit:'' @ uuid_str plan_id @ '':'' @ actor_id)]\<rparr>
     in validated (reserve_plan_problems (we_input_hash world) (we_plan_hash world) p) p)"

definition profile_outcome ::
  "reserve_world \<Rightarrow> uuid \<Rightarrow> string \<Rightarrow> procurement_plan \<Rightarrow> twin_snapshot \<Rightarrow> solver_configuration \<Rightarrow> reserve_profile
     \<Rightarrow> service_error + (reserve_result \<times> reserve_plan list)" where
  "profile_outcome world run_id actor_id procurement snapshot configuration profile =
     sbind (blocked (rbind (reserve_policy profile) (\<lambda>policy.
       build_reserve_input (we_uuid5 world) (we_assumption_hash world) (we_input_hash world) (we_fixture world)
         procurement snapshot policy None))) (\<lambda>i.
     sbind (raised (solve_reserve_plan (we_uuid5 world) (we_input_hash world) (we_solver world)
       (we_clock world profile) i configuration)) (\<lambda>result.
       if \<not> usable_status (rl_status result) then Inr (result, [])
       else sbind (raised (assemble_reserve_plan world run_id (pl_plan_id procurement) actor_id profile i result))
         (\<lambda>plan. Inr (result, [plan]))))"

section \<open>The operations\<close>

definition reserve_response_of ::
  "reserve_world \<Rightarrow> uuid \<Rightarrow> uuid \<Rightarrow> string \<Rightarrow> (reserve_result \<times> reserve_plan list) list \<Rightarrow> reserve_response" where
  "reserve_response_of world run_id procurement_plan_id fingerprint outcomes =
     \<lparr>ra_request_id = we_uuid5 world (''urn:sanjiv:reserve-request:'' @ fingerprint), ra_run_id = run_id,
      ra_procurement_plan_id = procurement_plan_id, ra_results = map fst outcomes,
      ra_plans = concat (map snd outcomes),
      ra_failures = List.map_filter rl_failure (map fst outcomes), ra_reused = False\<rparr>"

text \<open>The checks before the repository is asked: the checked plan, the snapshot, the profiles, the solver
  configuration and the fingerprint of the request.\<close>

definition prepare_request ::
  "reserve_world \<Rightarrow> uuid \<Rightarrow> reserve_execution_request
     \<Rightarrow> service_error + (procurement_plan \<times> twin_snapshot \<times> reserve_profile list \<times> solver_configuration \<times> string)" where
  "prepare_request world run_id q =
     sbind (we_get_run world run_id) (\<lambda>run.
     sbind (guard (run_ready run) (DomainError ''SIMULATION_NOT_COMPLETED'' 409)) (\<lambda>_.
     sbind (we_get_procurement world (xr_procurement_plan_id q)) (\<lambda>procurement.
     sbind (guard (pl_run_id procurement = run_id \<and> pl_lifecycle procurement = L_FEASIBLE)
       (DomainError ''PROCUREMENT_PLAN_MISMATCH'' 409)) (\<lambda>_.
     sbind (guard (plan_check_passed procurement) (DomainError ''PROCUREMENT_CHECK_FAILED'' 409)) (\<lambda>_.
       let snapshot = we_get_snapshot world (tr_snapshot_id (ru_twin_snapshot run)) in
       sbind (guard (snapshot_reproduced snapshot (ru_twin_snapshot run))
         (DomainError ''TWIN_FINGERPRINT_MISMATCH'' 409)) (\<lambda>_.
       let profiles = requested_profiles q in
       sbind (guard (profiles = sort_key profile_index profiles) (DomainError ''PROFILE_ORDER_INVALID'' 422)) (\<lambda>_.
       sbind (raised (default_solver_configuration (we_highspy world) (xr_time_limit_seconds q))) (\<lambda>configuration.
       sbind (raised (rtraverse reserve_policy profiles)) (\<lambda>policies.
         Inr (procurement, the snapshot, profiles, configuration,
           we_request_hash world (run_id, pl_plan_fingerprint procurement, profiles, policies, configuration)))))))))))"

definition create_reserve_plans ::
  "reserve_world \<Rightarrow> reserve_store \<Rightarrow> uuid \<Rightarrow> reserve_execution_request \<Rightarrow> string
     \<Rightarrow> reserve_store \<times> (service_error + reserve_response)" where
  "create_reserve_plans world st run_id q actor_id =
    (case prepare_request world run_id q of
       Inl e \<Rightarrow> (st, Inl e)
     | Inr (procurement, snapshot, profiles, configuration, fingerprint) \<Rightarrow>
         serve response_by_fingerprint (save_response ra_plans ro_plan_id) (\<lambda>r. r\<lparr>ra_reused := True\<rparr>) st fingerprint
           (sbind (straverse (profile_outcome world run_id actor_id procurement snapshot configuration) profiles)
             (\<lambda>outcomes. Inr (reserve_response_of world run_id (pl_plan_id procurement) fingerprint outcomes))))"

definition get_reserve_plan :: "reserve_store \<Rightarrow> uuid \<Rightarrow> service_error + reserve_plan" where
  "get_reserve_plan st plan_id =
    (case stored_plan st plan_id of None \<Rightarrow> Inl (DomainError ''RESERVE_PLAN_NOT_FOUND'' 404) | Some p \<Rightarrow> Inr p)"

end
