(* ===== verification/Reserve_Service_Example.thy ===== *)
theory Reserve_Service_Example imports Reserve_Service Reserve_Example Procurement_Example begin

text \<open>
  A world in which the reserve service can be run: a fixture with one site, a twin that contains it
  and the procurement plan of \<open>Procurement_Example\<close>. The witnesses of the service's properties use it.
\<close>

section \<open>A service at work\<close>

text \<open>A site with 100 ktonne of stock and no transit time beside the plan of \<open>Procurement_Example\<close>, under the
  policy that uses no reserve: the plan delivers 50 of the 60 ktonne and the solver leaves 10 short.\<close>

definition example_fixture :: reserve_fixture where
  "example_fixture = \<lparr>fx_classification = Some ''SYNTHETIC_FIXTURE'', fx_effective_at = 0, fx_expires_at = 1000,
     fx_rationale = ''r'', fx_source_gap = ''g'', fx_owner = ''o'', fx_approved_by = ''a'', fx_sites = []\<rparr>"

definition service_uuid5 :: uuid5_fun where
  "service_uuid5 t = (if t = ''urn:sanjiv:twin:cavern'' then 61 else if t = ''urn:sanjiv:twin:plant'' then 15
     else if t = ''urn:sanjiv:twin:pipe'' then 52 else 7)"

definition service_fixture :: reserve_fixture where
  "service_fixture = example_fixture\<lparr>fx_sites := [\<lparr>fs_assumption_id = 71, fs_site = ''cavern'',
     fs_refinery = ''plant'', fs_route = ''pipe'', fs_values = [(''opening_inventory_ktonne'', Fin 100),
       (''draw_rate_ktonne_per_day'', 1), (''logistics_cost_usd_per_tonne'', Fin 5)], fs_bundle = JFloat 0\<rparr>]\<rparr>"

definition service_node :: "uuid \<Rightarrow> asset_kind \<Rightarrow> metric \<Rightarrow> twin_node" where
  "service_node i kind capacity =
     \<lparr>tn_id = i, tn_canonical_id = ''n'', tn_kind = kind, tn_name = ''node'', tn_country_code = ''IN'',
      tn_latitude = 0, tn_longitude = 0, tn_capacity = Some capacity, tn_baseline_supply = None,
      tn_baseline_demand = None, tn_evidence_ids = [1], tn_assumption_ids = [], tn_attributes = []\<rparr>"

definition service_twin :: twin_snapshot where
  "service_twin = \<lparr>ts_version = ''1'', ts_effective_at = 0, ts_created_at = 0,
     ts_nodes = [service_node 61 RESERVE_SITE (stock_metric (Fin 100) ''ktonne''),
       service_node 15 REFINERY (stock_metric (Fin 200000000000) ''ktonne_per_day'')],
     ts_routes = [\<lparr>rt_id = 52, rt_route_canonical_id = ''pipe'', rt_origin_id = 61, rt_destination_id = 15,
       rt_commodity = CRUDE_OIL, rt_capacity = stock_metric 1 ''ktonne_per_day'',
       rt_transit_time = stock_metric 0 ''day'', rt_distance = stock_metric 1 ''km'', rt_chokepoint_ids = [],
       rt_evidence_ids = [1], rt_assumption_ids = [], rt_available = True\<rparr>],
     ts_grades = [], ts_compatibility = [], ts_baseline_flows = [],
     ts_evidence_records = [\<lparr>ev_id = 1, ev_source_id = ''s'', ev_source_record_id = ''r'', ev_source_url = None,
       ev_dataset = ''d'', ev_dataset_version = ''1'', ev_effective_at = 0, ev_fetched_at = 0, ev_mode = DM_FIXTURE,
       ev_truth_class = DERIVED, ev_raw_payload_hash = hash64, ev_raw_object_ref = None,
       ev_transformation = ''none'', ev_confidence = 1, ev_license = ''open'', ev_parent_evidence_ids = []\<rparr>],
     ts_assumptions = [],
     ts_mass_balance = \<lparr>mb_total_supply = stock_metric 0 ''u'', mb_total_demand = stock_metric 0 ''u'',
       mb_absolute_residual = stock_metric 0 ''u'', mb_tolerance = stock_metric 1 ''u'', mb_conserved = True,
       mb_node_residuals = [], mb_model_version = ''1''\<rparr>,
     ts_snapshot_id = 23, ts_fingerprint = sixty_four\<rparr>"

definition service_run :: simulation_run where
  "service_run = \<lparr>ru_run_id = 21, ru_scenario_id = 22, ru_scenario_fingerprint = sixty_four,
     ru_twin_snapshot = pv_twin_snapshot example_provenance, ru_simulation_fingerprint = sixty_four,
     ru_model_version = ''m'', ru_configuration = undefined, ru_status = SIM_COMPLETED, ru_created_at = 0,
     ru_started_at = None, ru_completed_at = None, ru_runtime_ms = None, ru_reused_result = False,
     ru_result = Some undefined, ru_failure = None, ru_cancellation_requested_at = None\<rparr>"

definition service_world :: "pyfloat \<Rightarrow> reserve_world" where
  "service_world shortage =
     \<lparr>we_get_run = (\<lambda>u. Inr service_run), we_get_procurement = (\<lambda>u. Inr example_plan),
      we_get_snapshot = (\<lambda>u. Some service_twin), we_fixture = service_fixture,
      we_solver = (\<lambda>i configuration. SOLVED \<lparr>po_termination = TC_OPTIMAL, po_status = PS_OK, po_amounts = (\<lambda>u. 0),
        po_shortage = (\<lambda>u. shortage), po_objective = Fin 10000\<rparr>), we_highspy = ''1.0'',
      we_clock = (\<lambda>p. example_clock), we_now = (\<lambda>p. 2), we_uuid5 = service_uuid5,
      we_assumption_hash = (\<lambda>a. hash64), we_input_hash = reserve_example_hash, we_plan_hash = (\<lambda>x. hash64),
      we_request_hash = (\<lambda>x. hash64)\<rparr>"

definition service_request :: reserve_execution_request where
  "service_request = \<lparr>xr_procurement_plan_id = 33, xr_profiles = [NO_RESERVE_USE], xr_time_limit_seconds = Fin 10\<rparr>"

definition serves_plan :: "reserve_store \<times> (service_error + reserve_response) \<Rightarrow> bool" where
  "serves_plan x = (case x of (st, Inr r) \<Rightarrow> \<not> ra_reused r \<and>
       list_ex (\<lambda>p. case get_reserve_plan st (ro_plan_id p) of Inr q \<Rightarrow> True | Inl e \<Rightarrow> False) (ra_plans r)
     | (st, Inl e) \<Rightarrow> False)"

lemma service_serves: "serves_plan (create_reserve_plans (service_world (Fin 10)) empty_store 21 service_request ''actor'')"
  by code_simp

end
