(* ===== verification/Reserve_Service_Props.thy ===== *)
theory Reserve_Service_Props imports Reserve_Props Reserve_Service_Example begin

text \<open>
  The properties of the reserve service: usable results always become valid plans, repeated
  requests are answered from the repository, and every stored plan is valid in every reachable
  state of the repository.
\<close>

interpretation reserve_store: plan_repository response_by_fingerprint stored_plan
  "save_response ra_plans ro_plan_id" ra_plans ro_plan_id
  by (rule in_memory_repository)

section \<open>Results become plans\<close>

definition references_known :: "reserve_input \<Rightarrow> bool" where
  "references_known i \<longleftrightarrow> list_all (\<lambda>s.
     set (rv_evidence_ids s) \<subseteq> set (map ef_evidence_id (rpv_evidence (ri_provenance i))) \<and>
     set (rv_assumption_ids s) \<subseteq> set (map af_assumption_id (rpv_assumptions (ri_provenance i)))) (ri_sites i)"

lemma action_for_accepted:
  assumes "action_for i dispatch s a" "references_known i" "s \<in> set (ri_sites i)"
    "isfinite (dispatched dispatch s)" "0 < ri_tolerance i"
  shows "reserve_action_problem i a = None"
proof -
  let ?q = "dispatched dispatch s"
  have "py_max ?q ?q = ?q" "py_min ?q ?q = ?q" by (simp_all add: py_max_def py_min_def)
  then have "py_max_list 0 [?q, ?q, ?q] - py_min_list 0 [?q, ?q, ?q] = 0"
    using minus_self_pyfloat [OF assms(4)] by simp
  moreover have "\<not> ri_tolerance i < 0" using assms(5) by (simp add: less_le_pyfloat)
  ultimately show ?thesis
    using assms(1-3) by (auto simp: reserve_action_problem_def Let_def action_for_def references_known_def list_all_iff)
qed

text \<open>C33: Every usable result becomes a plan. On a valid input with finite demands whose sites cite only the
  evidence and assumptions of the input's provenance, the service assembles a valid plan from a
  usable solver result, for the run and procurement plan the input is bound to.\<close>

theorem usable_result_makes_plan:
  assumes "reserve_input_valid (we_input_hash world) i" "isfinite (reserve_days i)"
    "list_all (\<lambda>d. isfinite (me_value (rq_required_volume d))) (ri_demands i)" "references_known i"
    "solve_reserve_plan uuid5 (we_input_hash world) solver clock i configuration = Inr r" "usable_status (rl_status r)"
    "is_sha256 (we_plan_hash world (i, r))"
  shows "\<exists>p. assemble_reserve_plan world (rf_run_id (rpv_simulation_run (ri_provenance i)))
      (rpv_procurement_plan_id (ri_provenance i)) actor (rw_profile (ri_policy i)) i r = Inr p \<and>
    reserve_plan_valid (we_input_hash world) (we_plan_hash world) p \<and> ro_result p = r \<and> ro_input p = i"
proof -
  from assms(5,6) obtain dispatch shortages reported check objective report timed_out where u:
    "independent_reserve_check (we_input_hash world) i dispatch shortages reported (ck_checked clock) = Inr (check, objective, report)"
    "rk_passed check"
    "usable_result uuid5 i configuration clock timed_out dispatch shortages (check, objective, report) = Inr r"
    by (rule usable_checkedE) blast
  note f = usable_result_fields [OF u(3)]
  have "reserve_constraints_met i dispatch shortages"
    using reserve_check_decides [OF assms(1-3) u(1)] u(2) by blast
  then have q: "isfinite (dispatched dispatch s)" if "s \<in> set (ri_sites i)" for s
    using that by (auto simp: reserve_constraints_met_def reserve_site_met_def Let_def)
  have "\<forall>a \<in> set (rl_actions r). \<exists>s \<in> set (ri_sites i). action_for i dispatch s a"
    using reserve_outputs_actions(1) [OF f(7) valid_openings [OF assms(1)] valid_reserve_input(2) [OF assms(1)]]
    by (auto simp: list_all2_conv_all_nth in_set_conv_nth) (metis filter_is_subset nth_mem subset_iff)
  then have "\<forall>a \<in> set (rl_actions r). reserve_action_problem i a = None"
    using action_for_accepted [OF _ assms(4) _ q valid_reserve_input(2) [OF assms(1)]] by blast
  then have actions: "first_error (each (reserve_action_problem i) (rl_actions r)) = None"
    unfolding each_None .
  have sha: "is_sha256 (ri_input_fingerprint i)"
    using assms(1) unfolding reserve_input_valid_def reserve_input_problems_def no_error_simps by blast
  have passed: "reserve_checker_passed r" using f(1) u(2) by (simp add: reserve_checker_passed_def)
  show ?thesis
    using assms(1,6,7) f(6,8,10) actions sha passed
    by (simp add: assemble_reserve_plan_def Let_def validated_Inr reserve_plan_valid_def reserve_plan_problems_def
        no_error_simps reserve_plan_fingerprint_def reserve_metadata_def)
qed

definition example_world :: "reserve_input \<Rightarrow> reserve_world" where
  "example_world i =
     \<lparr>we_get_run = (\<lambda>u. Inl (DomainError ''RUN_NOT_FOUND'' 404)),
      we_get_procurement = (\<lambda>u. Inl (DomainError ''PROCUREMENT_PLAN_NOT_FOUND'' 404)),
      we_get_snapshot = (\<lambda>u. None), we_fixture = example_fixture,
      we_solver = (\<lambda>i' configuration. SOLVED (example_outcome i (Fin 40) (Fin 10))), we_highspy = ''1.0'',
      we_clock = (\<lambda>p. example_clock), we_now = (\<lambda>p. 2), we_uuid5 = example_uuid5,
      we_assumption_hash = (\<lambda>a. hash64), we_input_hash = reserve_example_hash, we_plan_hash = (\<lambda>x. hash64),
      we_request_hash = (\<lambda>x. hash64)\<rparr>"

lemma one_site_facts:
  "references_known one_site" "rf_run_id (rpv_simulation_run (ri_provenance one_site)) = 21"
  "rpv_procurement_plan_id (ri_provenance one_site) = 25" "rw_profile (ri_policy one_site) = RES_BALANCED"
  "is_sha256 hash64"
  by code_simp+

theorem usable_result_makes_plan_witness:
  "\<exists>r p. solved one_site (Fin 40) (Fin 10) = Inr r \<and>
    assemble_reserve_plan (example_world one_site) 21 25 ''actor'' RES_BALANCED one_site r = Inr p \<and> ro_result p = r"
proof -
  obtain r where r: "solved one_site (Fin 40) (Fin 10) = Inr r" "rl_status r = OPTIMAL" by (rule one_solved)
  from r(2) have u: "usable_status (rl_status r)" by (simp add: usable_status_def)
  have w: "we_input_hash (example_world one_site) = reserve_example_hash" "we_plan_hash (example_world one_site) x = hash64" for x
    by (simp_all add: example_world_def)
  from usable_result_makes_plan [where world = "example_world one_site" and actor = "''actor''", unfolded w,
      OF examples_valid(1) examples_days(1) example_demands one_site_facts(1) r(1) u one_site_facts(5)] r(1)
  show ?thesis unfolding one_site_facts(2-4) by blast
qed

section \<open>The repository\<close>

text \<open>The states of the repository that requests can reach, in worlds that share the two hashes.\<close>

inductive reserve_reachable :: "reserve_hash \<Rightarrow> reserve_plan_hash \<Rightarrow> reserve_store \<Rightarrow> bool"
  for input_sha256 plan_sha256 where
  initial: "reserve_reachable input_sha256 plan_sha256 empty_store"
| request: "reserve_reachable input_sha256 plan_sha256 st \<Longrightarrow> we_input_hash world = input_sha256 \<Longrightarrow>
    we_plan_hash world = plan_sha256 \<Longrightarrow> create_reserve_plans world st run_id q actor = (st', x) \<Longrightarrow>
    reserve_reachable input_sha256 plan_sha256 st'"

lemma straverse_InrD: "straverse f xs = Inr ys \<Longrightarrow> list_all2 (\<lambda>x y. f x = Inr y) xs ys"
proof (induction xs arbitrary: ys)
  case (Cons x xs)
  then obtain y ys' where "f x = Inr y" "straverse f xs = Inr ys'" "ys = y # ys'"
    by (auto simp: sbind_def split: sum.splits)
  with Cons.IH show ?case by simp
qed simp

lemma sbind_Inr: "sbind r f = Inr y \<longleftrightarrow> (\<exists>x. r = Inr x \<and> f x = Inr y)"
  by (auto simp: sbind_def split: sum.splits)

lemma raised_Inr: "raised r = Inr x \<longleftrightarrow> r = Inr x"
  by (auto simp: raised_def split: sum.splits)

lemma assembled_plan:
  assumes "assemble_reserve_plan world run_id procurement_plan_id actor profile i r = Inr p"
  shows "reserve_plan_valid (we_input_hash world) (we_plan_hash world) p"
  using assms unfolding assemble_reserve_plan_def Let_def validated_Inr reserve_plan_valid_def by blast

lemma outcome_plans:
  assumes "profile_outcome world run_id actor procurement snapshot configuration profile = Inr (result, plans)" "p \<in> set plans"
  shows "reserve_plan_valid (we_input_hash world) (we_plan_hash world) p"
proof -
  obtain i where "sbind (raised (solve_reserve_plan (we_uuid5 world) (we_input_hash world) (we_solver world)
       (we_clock world profile) i configuration)) (\<lambda>result.
       if \<not> usable_status (rl_status result) then Inr (result, [])
       else sbind (raised (assemble_reserve_plan world run_id (pl_plan_id procurement) actor profile i result))
         (\<lambda>plan. Inr (result, [plan]))) = Inr (result, plans)"
    using sbind_Inr [THEN iffD1, OF assms(1) [unfolded profile_outcome_def]] by blast
  from sbind_Inr [THEN iffD1, OF this] obtain result' where
    "(if \<not> usable_status (rl_status result') then Inr (result', [])
      else sbind (raised (assemble_reserve_plan world run_id (pl_plan_id procurement) actor profile i result'))
        (\<lambda>plan. Inr (result', [plan]))) = Inr (result, plans)"
    by blast
  with assms(2) have "assemble_reserve_plan world run_id (pl_plan_id procurement) actor profile i result = Inr p"
    by (auto simp: sbind_Inr raised_Inr split: if_splits)
  then show ?thesis by (rule assembled_plan)
qed

lemma outcomes_plans:
  assumes "straverse (profile_outcome world run_id actor procurement snapshot configuration) profiles = Inr outcomes"
    "p \<in> set (concat (map snd outcomes))"
  shows "reserve_plan_valid (we_input_hash world) (we_plan_hash world) p"
proof -
  obtain outcome where o: "outcome \<in> set outcomes" "p \<in> set (snd outcome)" using assms(2) by auto
  with straverse_InrD [OF assms(1)] obtain profile where
    "profile_outcome world run_id actor procurement snapshot configuration profile = Inr (fst outcome, snd outcome)"
    by (auto simp: list_all2_conv_all_nth in_set_conv_nth)
  from outcome_plans [OF this o(2)] show ?thesis .
qed

lemma reserve_reachable_plans:
  assumes "reserve_reachable input_sha256 plan_sha256 st" "stored_plan st u = Some p"
  shows "reserve_plan_valid input_sha256 plan_sha256 p \<and> ro_plan_id p = u"
  using assms
proof (induction arbitrary: u p rule: reserve_reachable.induct)
  case (request st world run_id q actor st' x)
  show ?case
  proof (cases "prepare_request world run_id q")
    case (Inr prepared)
    obtain procurement snapshot profiles configuration fingerprint where
      pr: "prepared = (procurement, snapshot, profiles, configuration, fingerprint)" by (cases prepared)
    let ?c = "sbind (straverse (profile_outcome world run_id actor procurement snapshot configuration) profiles)
             (\<lambda>outcomes. Inr (reserve_response_of world run_id (pl_plan_id procurement) fingerprint outcomes))"
    have s: "serve response_by_fingerprint (save_response ra_plans ro_plan_id) (\<lambda>r. r\<lparr>ra_reused := True\<rparr>) st fingerprint ?c
        = (st', x)"
      using request.hyps(4) by (simp add: create_reserve_plans_def Inr pr)
    show ?thesis
    proof (rule reserve_store.request_invariant [OF s, where good = "\<lambda>u p. reserve_plan_valid input_sha256 plan_sha256 p \<and> ro_plan_id p = u"])
      show "reserve_plan_valid input_sha256 plan_sha256 p' \<and> ro_plan_id p' = ro_plan_id p'"
        if "?c = Inr r" "p' \<in> set (ra_plans r)" for r p'
        using that outcomes_plans request.hyps(2,3) unfolding sbind_Inr by (force simp: reserve_response_of_def)
    qed (use request in auto)
  next
    case (Inl e)
    then show ?thesis using request by (simp add: create_reserve_plans_def)
  qed
qed (simp add: stored_plan_def empty_store_def)

text \<open>C34: Every plan the service hands out is valid: whatever requests have been served, a plan found by its
  identifier has that identifier, passes the plan validator and is feasible with a passed check.\<close>

theorem stored_plans_valid:
  assumes "reserve_reachable input_sha256 plan_sha256 st" "get_reserve_plan st plan_id = Inr p"
  shows "ro_plan_id p = plan_id \<and> reserve_plan_valid input_sha256 plan_sha256 p \<and>
    ro_lifecycle p = RL_FEASIBLE \<and> reserve_checker_passed (ro_result p) \<and> usable_status (rl_status (ro_result p))"
proof -
  have "stored_plan st plan_id = Some p" using assms(2) by (simp add: get_reserve_plan_def split: option.splits)
  with reserve_reachable_plans [OF assms(1)] have v: "reserve_plan_valid input_sha256 plan_sha256 p" "ro_plan_id p = plan_id"
    by blast+
  have "ro_lifecycle p = RL_FEASIBLE \<and> reserve_checker_passed (ro_result p) \<and> usable_status (rl_status (ro_result p))"
    using v(1) unfolding reserve_plan_valid_def reserve_plan_problems_def Let_def no_error_simps by blast
  with v show ?thesis by blast
qed

lemma serves_planD:
  assumes "serves_plan (st, x)"
  shows "\<exists>r p q. x = Inr r \<and> \<not> ra_reused r \<and> p \<in> set (ra_plans r) \<and> get_reserve_plan st (ro_plan_id p) = Inr q"
proof -
  obtain r where r: "x = Inr r" using assms by (auto simp: serves_plan_def split: sum.splits)
  from assms obtain p where "p \<in> set (ra_plans r)" "\<not> ra_reused r"
    "case get_reserve_plan st (ro_plan_id p) of Inr q \<Rightarrow> True | Inl e \<Rightarrow> False"
    unfolding serves_plan_def r by (auto simp: list_ex_iff)
  with r show ?thesis by (cases "get_reserve_plan st (ro_plan_id p)") auto
qed

lemma service_served:
  obtains st r q and p :: reserve_plan where "create_reserve_plans (service_world (Fin 10)) empty_store 21 service_request ''actor'' = (st, Inr r)"
    "\<not> ra_reused r" "get_reserve_plan st (ro_plan_id p) = Inr q"
proof -
  obtain st x where c: "create_reserve_plans (service_world (Fin 10)) empty_store 21 service_request ''actor'' = (st, x)"
    by force
  from serves_planD [OF service_serves [unfolded c]] obtain r q and p :: reserve_plan where
    r: "x = Inr r" "\<not> ra_reused r" "get_reserve_plan st (ro_plan_id p) = Inr q" by blast
  show thesis by (rule that [OF c [unfolded r(1)] r(2,3)])
qed

lemma service_hashes:
  "we_input_hash (service_world s) = reserve_example_hash" "we_plan_hash (service_world s) = (\<lambda>x. hash64)"
  by (simp_all add: service_world_def)

theorem stored_plans_valid_witness:
  "\<exists>st plan_id p. reserve_reachable reserve_example_hash (\<lambda>x. hash64) st \<and> get_reserve_plan st plan_id = Inr p \<and>
    reserve_plan_valid reserve_example_hash (\<lambda>x. hash64) p"
proof -
  obtain st r q and p :: reserve_plan where s: "create_reserve_plans (service_world (Fin 10)) empty_store 21 service_request ''actor'' = (st, Inr r)"
    "get_reserve_plan st (ro_plan_id p) = Inr q" by (rule service_served)
  have reachable: "reserve_reachable reserve_example_hash (\<lambda>x. hash64) st"
    by (rule reserve_reachable.request [OF reserve_reachable.initial service_hashes s(1)])
  from stored_plans_valid [OF reachable s(2)] reachable s(2) show ?thesis by blast
qed

text \<open>The states the repository can be in later: any requests, in any worlds, may come in between.\<close>

inductive later_store :: "reserve_store \<Rightarrow> reserve_store \<Rightarrow> bool" for st where
  now: "later_store st st"
| request: "later_store st st' \<Longrightarrow> create_reserve_plans world st' run_id q actor = (st'', x) \<Longrightarrow> later_store st st''"

lemma create_served:
  assumes "prepare_request world run_id q = Inr (procurement, snapshot, profiles, configuration, fingerprint)"
  obtains c where "create_reserve_plans world st run_id q actor =
    serve response_by_fingerprint (save_response ra_plans ro_plan_id) (\<lambda>r. r\<lparr>ra_reused := True\<rparr>) st fingerprint c"
  using assms by (simp add: create_reserve_plans_def)

lemma create_keeps_response:
  assumes "create_reserve_plans world st run_id q actor = (st', x)" "response_by_fingerprint st f = Some r"
  shows "response_by_fingerprint st' f = Some r"
proof (cases "prepare_request world run_id q")
  case (Inr prepared)
  obtain procurement snapshot profiles configuration fingerprint where
    "prepared = (procurement, snapshot, profiles, configuration, fingerprint)" by (cases prepared)
  with Inr have p: "prepare_request world run_id q = Inr (procurement, snapshot, profiles, configuration, fingerprint)"
    by simp
  obtain c where "create_reserve_plans world st run_id q actor =
      serve response_by_fingerprint (save_response ra_plans ro_plan_id) (\<lambda>r. r\<lparr>ra_reused := True\<rparr>) st fingerprint c"
    by (rule create_served [OF p])
  with assms(1) have "serve response_by_fingerprint (save_response ra_plans ro_plan_id)
      (\<lambda>r. r\<lparr>ra_reused := True\<rparr>) st fingerprint c = (st', x)" by simp
  from reserve_store.request_keeps_response [OF this assms(2)] show ?thesis .
qed (use assms in \<open>simp add: create_reserve_plans_def\<close>)

lemma later_keeps_response:
  "later_store st st' \<Longrightarrow> response_by_fingerprint st f = Some r \<Longrightarrow> response_by_fingerprint st' f = Some r"
  by (induction rule: later_store.induct) (auto dest: create_keeps_response)

text \<open>C35: A request is computed once. After a request has been answered with a new response, and whatever requests
  are served afterwards, every request whose fingerprint is the same returns that response, marked as
  reused, and changes nothing, even when the world and the solver would answer differently by then; a
  response whose solver calls all failed is reused too.\<close>

theorem repeated_request_reused:
  assumes "create_reserve_plans world st run_id q actor = (st1, Inr r)" "\<not> ra_reused r"
    "prepare_request world run_id q = Inr (procurement, snapshot, profiles, configuration, fingerprint)"
    "later_store st1 st2"
    "prepare_request world' run_id' q' = Inr (procurement', snapshot', profiles', configuration', fingerprint)"
  shows "create_reserve_plans world' st2 run_id' q' actor' = (st2, Inr (r\<lparr>ra_reused := True\<rparr>))"
proof -
  let ?serve = "serve response_by_fingerprint (save_response ra_plans ro_plan_id) (\<lambda>r. r\<lparr>ra_reused := True\<rparr>)"
  obtain c where "create_reserve_plans world st run_id q actor = ?serve st fingerprint c"
    by (rule create_served [OF assms(3)])
  with assms(1) have s: "?serve st fingerprint c = (st1, Inr r)" by simp
  have "response_by_fingerprint st fingerprint = None"
    using s assms(2) by (cases "response_by_fingerprint st fingerprint") (auto simp: serve_def)
  from later_keeps_response [OF assms(4) reserve_store.answered_response [OF s this]]
  have later: "?serve st2 fingerprint c' = (st2, Inr (r\<lparr>ra_reused := True\<rparr>))" for c' by (rule reserve_store.stored_reused)
  obtain c' where "create_reserve_plans world' st2 run_id' q' actor' = ?serve st2 fingerprint c'"
    by (rule create_served [OF assms(5)])
  then show ?thesis by (simp only: later)
qed

lemma service_prepares: "prepare_request (service_world s) run_id q = prepare_request (service_world s') run_id q"
  by (simp add: prepare_request_def service_world_def)

theorem repeated_request_reused_witness:
  "\<exists>st st' x r. create_reserve_plans (service_world (Fin 10)) empty_store 21 service_request ''actor'' = (st, Inr r) \<and>
    create_reserve_plans (service_world (Fin 8)) st 22 service_request ''third'' = (st', x) \<and>
    create_reserve_plans (service_world (Fin 9)) st' 21 service_request ''other'' = (st', Inr (r\<lparr>ra_reused := True\<rparr>))"
proof -
  obtain st r where s: "create_reserve_plans (service_world (Fin 10)) empty_store 21 service_request ''actor'' = (st, Inr r)"
    "\<not> ra_reused r" by (rule service_served)
  obtain st' x where l: "create_reserve_plans (service_world (Fin 8)) st 22 service_request ''third'' = (st', x)" by force
  obtain prepared where p: "prepare_request (service_world (Fin 10)) 21 service_request = Inr prepared"
    using s(1) by (cases "prepare_request (service_world (Fin 10)) 21 service_request") (simp_all add: create_reserve_plans_def)
  obtain procurement snapshot profiles configuration fingerprint where
    q: "prepared = (procurement, snapshot, profiles, configuration, fingerprint)" by (cases prepared)
  note now = p [unfolded q]
  from repeated_request_reused [OF s now later_store.request [OF later_store.now l]
      now [unfolded service_prepares [of "Fin 10" _ _ "Fin 9"]], of "''other''"] s(1) l
  show ?thesis by blast
qed

end
