(* ===== verification/Risk_Contracts.thy ===== *)
theory Risk_Contracts imports Truth_Contracts begin

text \<open>
  The contracts of corridor risk, \<open>sanjiv/risk/contracts.py\<close>: baselines, features, contributions,
  the corroboration, the risk result with its fingerprint, alerts and their rule, timeline points,
  the lifecycle and backtests. \<open>RiskSeverity\<close>, \<open>EvidenceConfidence\<close> and \<open>DataCompleteness\<close> have
  one field and a constant unit; they are the float, and their bounds are checked where they are built.
\<close>

section \<open>Enumerations\<close>

datatype risk_feature_type =
  TRANSIT_ANOMALY | GEOPOLITICAL_SEVERITY | AIS_BEHAVIORAL_ANOMALY | MARKET_STRESS
| SANCTIONS_EXPOSURE | INFRASTRUCTURE_PHYSICAL_SIGNAL

text \<open>The members in definition order and their values.\<close>

definition RISK_FEATURES :: "risk_feature_type list" where
  "RISK_FEATURES = [TRANSIT_ANOMALY, GEOPOLITICAL_SEVERITY, AIS_BEHAVIORAL_ANOMALY, MARKET_STRESS,
     SANCTIONS_EXPOSURE, INFRASTRUCTURE_PHYSICAL_SIGNAL]"

fun feature_name :: "risk_feature_type \<Rightarrow> string" where
  "feature_name TRANSIT_ANOMALY = ''TRANSIT_ANOMALY''"
| "feature_name GEOPOLITICAL_SEVERITY = ''GEOPOLITICAL_SEVERITY''"
| "feature_name AIS_BEHAVIORAL_ANOMALY = ''AIS_BEHAVIORAL_ANOMALY''"
| "feature_name MARKET_STRESS = ''MARKET_STRESS''"
| "feature_name SANCTIONS_EXPOSURE = ''SANCTIONS_EXPOSURE''"
| "feature_name INFRASTRUCTURE_PHYSICAL_SIGNAL = ''INFRASTRUCTURE_PHYSICAL_SIGNAL''"

text \<open>The position of a member when members are sorted by their text.\<close>

fun feature_rank :: "risk_feature_type \<Rightarrow> nat" where
  "feature_rank AIS_BEHAVIORAL_ANOMALY = 0"
| "feature_rank GEOPOLITICAL_SEVERITY = 1"
| "feature_rank INFRASTRUCTURE_PHYSICAL_SIGNAL = 2"
| "feature_rank MARKET_STRESS = 3"
| "feature_rank SANCTIONS_EXPOSURE = 4"
| "feature_rank TRANSIT_ANOMALY = 5"

datatype risk_lifecycle = RK_CREATED | RK_CALCULATED | RK_DEGRADED | RK_SUPERSEDED | RK_FAILED

datatype alert_severity = AL_INFO | AL_WATCH | AL_HIGH | AL_CRITICAL

datatype alert_status = AT_OPEN | AT_SUPPRESSED | AT_EXPIRED | AT_RESOLVED

datatype risk_failure_code = RF_UNAVAILABLE | RF_STALE | RF_RATE_LIMITED | RF_INVALID_PAYLOAD | RF_CREDENTIAL_MISSING

section \<open>Severity, confidence, completeness\<close>

definition in_range :: "pyfloat \<Rightarrow> pyfloat \<Rightarrow> bool" where
  "in_range upper v \<longleftrightarrow> isfinite v \<and> 0 \<le> v \<and> v \<le> upper"

definition risk_severity :: "pyfloat \<Rightarrow> pyfloat res" where
  "risk_severity v = validated [(\<not> in_range (Fin 100) v, FieldError ''severity'')] v"

definition evidence_confidence :: "pyfloat \<Rightarrow> pyfloat res" where
  "evidence_confidence v = validated [(\<not> in_range 1 v, FieldError ''confidence'')] v"

definition data_completeness :: "pyfloat \<Rightarrow> pyfloat res" where
  "data_completeness v = validated [(\<not> in_range 1 v, FieldError ''completeness'')] v"

section \<open>Baselines\<close>

record baseline_payload =
  ab_feature_type :: risk_feature_type
  ab_window_starts_at :: datetime
  ab_window_ends_at :: datetime
  ab_observations :: "pyfloat list"
  ab_mean :: pyfloat
  ab_standard_deviation :: pyfloat
  ab_version :: string

record anomaly_baseline = baseline_payload +
  ab_fingerprint :: string

type_synonym baseline_hash = "baseline_payload \<Rightarrow> string"

definition anomaly_baseline_problems :: "baseline_hash \<Rightarrow> anomaly_baseline \<Rightarrow> (bool \<times> py_error) list" where
  "anomaly_baseline_problems sha256 b =
    [(\<not> len_between 3 10000 (ab_observations b), FieldError ''observations''),
     (\<not> isfinite (ab_mean b), FieldError ''mean''),
     (\<not> (0 < ab_standard_deviation b \<and> isfinite (ab_standard_deviation b)), FieldError ''standard_deviation''),
     (\<not> len_between 1 100 (ab_version b), FieldError ''version''),
     (\<not> is_sha256 (ab_fingerprint b), FieldError ''fingerprint''),
     (ab_window_ends_at b \<le> ab_window_starts_at b, ValueError ''risk baseline window must be ordered''),
     (ab_fingerprint b \<noteq> sha256 (baseline_payload.truncate b), ValueError ''risk baseline fingerprint mismatch'')]"

section \<open>Features and contributions\<close>

record risk_feature =
  nf_feature_id :: uuid
  nf_corridor_id :: uuid
  nf_feature_type :: risk_feature_type
  nf_raw_value :: "pyfloat option"
  nf_normalized_value :: "pyfloat option"
  nf_unit :: string
  nf_missing :: bool
  nf_truth_class :: truth_class
  nf_confidence :: pyfloat
  nf_source_id :: string
  nf_source_state :: source_state
  nf_freshness :: freshness_status
  nf_effective_at :: datetime
  nf_fetched_at :: datetime
  nf_evidence_ids :: "uuid list"
  nf_baseline_fingerprint :: string
  nf_transformation :: string

definition risk_feature_problems :: "risk_feature \<Rightarrow> (bool \<times> py_error) list" where
  "risk_feature_problems f =
    [(\<not> opt_ok isfinite (nf_raw_value f), FieldError ''raw_value''),
     (\<not> opt_ok (in_range (Fin 100)) (nf_normalized_value f), FieldError ''normalized_value''),
     (\<not> len_between 1 50 (nf_unit f), FieldError ''unit''),
     (\<not> len_between 1 100 (nf_source_id f), FieldError ''source_id''),
     (\<not> is_sha256 (nf_baseline_fingerprint f), FieldError ''baseline_fingerprint''),
     (\<not> len_between 1 200 (nf_transformation f), FieldError ''transformation''),
     (nf_missing f \<noteq> (nf_raw_value f = None \<or> nf_normalized_value f = None),
        ValueError ''risk feature missingness does not match its values''),
     (nf_fetched_at f < nf_effective_at f, ValueError ''risk feature effective_at exceeds fetched_at''),
     (\<not> nf_missing f \<and> nf_evidence_ids f = [], ValueError ''present risk feature requires evidence'')]"

record feature_contribution =
  fn_feature_type :: risk_feature_type
  fn_normalized_value :: pyfloat
  fn_weight :: pyfloat
  fn_weighted_contribution :: pyfloat
  fn_present :: bool

definition feature_contribution_problems :: "feature_contribution \<Rightarrow> (bool \<times> py_error) list" where
  "feature_contribution_problems c =
    [(\<not> in_range (Fin 100) (fn_normalized_value c), FieldError ''normalized_value''),
     (\<not> in_range 1 (fn_weight c), FieldError ''weight''),
     (\<not> in_range (Fin 100) (fn_weighted_contribution c), FieldError ''weighted_contribution'')]"

record corroboration =
  co_passed :: bool
  co_independent_source_count :: nat
  co_corroborating_features :: "risk_feature_type list"
  co_disagreeing_features :: "risk_feature_type list"
  co_stale_or_missing_features :: "risk_feature_type list"
  co_explanation :: string

record risk_source_failure =
  sf_source_id :: string
  sf_code :: risk_failure_code
  sf_message :: string
  sf_retryable :: bool
  sf_occurred_at :: datetime

definition risk_source_failure_problems :: "risk_source_failure \<Rightarrow> (bool \<times> py_error) list" where
  "risk_source_failure_problems f =
    [(\<not> len_between 1 100 (sf_source_id f), FieldError ''source_id''),
     (\<not> len_between 1 500 (sf_message f), FieldError ''message'')]"

section \<open>Results\<close>

record risk_payload =
  cr_risk_id :: uuid
  cr_corridor_id :: uuid
  cr_corridor_name :: string
  cr_severity :: pyfloat
  cr_confidence :: pyfloat
  cr_completeness :: pyfloat
  cr_features :: "risk_feature list"
  cr_contributions :: "feature_contribution list"
  cr_corroboration :: corroboration
  cr_source_failures :: "risk_source_failure list"
  cr_effective_at :: datetime
  cr_calculated_at :: datetime
  cr_lifecycle :: risk_lifecycle
  cr_model_version :: string
  cr_baseline_version :: string
  cr_explanation :: string

record corridor_risk = risk_payload +
  cr_fingerprint :: string

type_synonym risk_hash = "risk_payload \<Rightarrow> string"

definition corridor_risk_fingerprint :: "risk_hash \<Rightarrow> corridor_risk \<Rightarrow> string" where
  "corridor_risk_fingerprint sha256 r = sha256 (risk_payload.truncate r)"

definition corridor_risk_problems :: "risk_hash \<Rightarrow> corridor_risk \<Rightarrow> (bool \<times> py_error) list" where
  "corridor_risk_problems sha256 r =
    [(\<not> len_between 1 200 (cr_corridor_name r), FieldError ''corridor_name''),
     (list_ex (\<lambda>f. first_error (risk_feature_problems f) \<noteq> None) (cr_features r), FieldError ''features''),
     (list_ex (\<lambda>c. first_error (feature_contribution_problems c) \<noteq> None) (cr_contributions r), FieldError ''contributions''),
     (list_ex (\<lambda>f. first_error (risk_source_failure_problems f) \<noteq> None) (cr_source_failures r), FieldError ''source_failures''),
     (\<not> len_between 1 100 (cr_model_version r), FieldError ''model_version''),
     (\<not> len_between 1 100 (cr_baseline_version r), FieldError ''baseline_version''),
     (\<not> is_sha256 (cr_fingerprint r), FieldError ''fingerprint''),
     (\<not> len_between 1 2000 (cr_explanation r), FieldError ''explanation''),
     (set (map nf_feature_type (cr_features r)) \<noteq> set RISK_FEATURES,
        ValueError ''corridor risk must report every structural feature''),
     (set (map fn_feature_type (cr_contributions r)) \<noteq> set RISK_FEATURES,
        ValueError ''corridor risk must report every feature contribution''),
     (cr_fingerprint r \<noteq> corridor_risk_fingerprint sha256 r, ValueError ''corridor risk fingerprint mismatch'')]"

definition corridor_risk_valid :: "risk_hash \<Rightarrow> corridor_risk \<Rightarrow> bool" where
  "corridor_risk_valid sha256 r \<longleftrightarrow> first_error (corridor_risk_problems sha256 r) = None"

section \<open>Alerts and the timeline\<close>

record alert_rule =
  ar_rule_id :: string
  ar_version :: string
  ar_high_threshold :: pyfloat
  ar_critical_threshold :: pyfloat
  ar_minimum_confidence :: pyfloat
  ar_minimum_completeness :: pyfloat

definition alert_rule_problems :: "alert_rule \<Rightarrow> (bool \<times> py_error) list" where
  "alert_rule_problems r =
    [(\<not> len_between 1 100 (ar_rule_id r), FieldError ''rule_id''),
     (\<not> in_range (Fin 100) (ar_high_threshold r), FieldError ''high_threshold''),
     (\<not> in_range (Fin 100) (ar_critical_threshold r), FieldError ''critical_threshold''),
     (\<not> in_range 1 (ar_minimum_confidence r), FieldError ''minimum_confidence''),
     (\<not> in_range 1 (ar_minimum_completeness r), FieldError ''minimum_completeness'')]"

record alert_result =
  at_alert_id :: uuid
  at_risk_id :: uuid
  at_corridor_id :: uuid
  at_severity_band :: alert_severity
  at_status :: alert_status
  at_severity :: pyfloat
  at_confidence :: pyfloat
  at_completeness :: pyfloat
  at_contributions :: "feature_contribution list"
  at_evidence_ids :: "uuid list"
  at_effective_at :: datetime
  at_created_at :: datetime
  at_model_version :: string
  at_rule_version :: string
  at_explanation :: string
  at_recommended_analyst_action :: string
  at_risk_fingerprint :: string

definition alert_result_problems :: "alert_result \<Rightarrow> (bool \<times> py_error) list" where
  "alert_result_problems a =
    [(\<not> len_between 1 2000 (at_explanation a), FieldError ''explanation''),
     (\<not> len_between 1 1000 (at_recommended_analyst_action a), FieldError ''recommended_analyst_action''),
     (\<not> is_sha256 (at_risk_fingerprint a), FieldError ''risk_fingerprint'')]"

record risk_timeline_point =
  tl_corridor_id :: uuid
  tl_effective_at :: datetime
  tl_severity :: pyfloat
  tl_confidence :: pyfloat
  tl_completeness :: pyfloat
  tl_risk_fingerprint :: string

definition risk_timeline_point_problems :: "risk_timeline_point \<Rightarrow> (bool \<times> py_error) list" where
  "risk_timeline_point_problems p = [(\<not> is_sha256 (tl_risk_fingerprint p), FieldError ''risk_fingerprint'')]"

section \<open>The lifecycle\<close>

fun risk_targets :: "risk_lifecycle \<Rightarrow> risk_lifecycle set" where
  "risk_targets RK_CREATED = {RK_CALCULATED, RK_DEGRADED, RK_FAILED}"
| "risk_targets RK_CALCULATED = {RK_SUPERSEDED}"
| "risk_targets RK_DEGRADED = {RK_SUPERSEDED}"
| "risk_targets RK_SUPERSEDED = {}"
| "risk_targets RK_FAILED = {}"

record risk_transition =
  rn_risk_id :: uuid
  rn_current :: risk_lifecycle
  rn_target :: risk_lifecycle
  rn_occurred_at :: datetime
  rn_reason :: string

definition risk_transition_problems :: "risk_transition \<Rightarrow> (bool \<times> py_error) list" where
  "risk_transition_problems t =
    [(\<not> len_between 1 500 (rn_reason t), FieldError ''reason''),
     (rn_target t \<notin> risk_targets (rn_current t), ValueError ''invalid risk lifecycle transition'')]"

section \<open>Backtests\<close>

datatype replay_classification = SYNTHETIC_FIXTURE | RECORDED_REAL_DATA

record backtest_case =
  bc_case_id :: string
  bc_label :: string
  bc_expected_alert :: bool
  bc_actual_alert :: bool
  bc_severity :: pyfloat
  bc_confidence :: pyfloat
  bc_completeness :: pyfloat
  bc_lead_time_hours :: pyfloat
  bc_runtime_ms :: pyfloat
  bc_stable :: bool

definition non_negative :: "pyfloat \<Rightarrow> bool" where
  "non_negative v \<longleftrightarrow> isfinite v \<and> 0 \<le> v"

definition backtest_case_problems :: "backtest_case \<Rightarrow> (bool \<times> py_error) list" where
  "backtest_case_problems c =
    [(\<not> non_negative (bc_lead_time_hours c), FieldError ''lead_time_hours''),
     (\<not> non_negative (bc_runtime_ms c), FieldError ''runtime_ms'')]"

record backtest_payload =
  bk_backtest_id :: uuid
  bk_library_id :: string
  bk_classification :: replay_classification
  bk_checksum_sha256 :: string
  bk_model_version :: string
  bk_cases :: "backtest_case list"
  bk_detection_lead_time_hours :: pyfloat
  bk_precision :: pyfloat
  bk_false_positives :: nat
  bk_mean_completeness :: pyfloat
  bk_source_failure_case_count :: nat
  bk_alert_stability :: pyfloat
  bk_runtime_ms :: pyfloat

record backtest_result = backtest_payload +
  bk_fingerprint :: string

text \<open>The fingerprint leaves every measured runtime out.\<close>

type_synonym backtest_hash = "backtest_payload \<Rightarrow> string"

definition backtest_fingerprint :: "backtest_hash \<Rightarrow> backtest_result \<Rightarrow> string" where
  "backtest_fingerprint sha256 r =
     sha256 ((backtest_payload.truncate r)\<lparr>bk_runtime_ms := 0, bk_cases := map (\<lambda>c. c\<lparr>bc_runtime_ms := 0\<rparr>) (bk_cases r)\<rparr>)"

definition backtest_result_problems :: "backtest_hash \<Rightarrow> backtest_result \<Rightarrow> (bool \<times> py_error) list" where
  "backtest_result_problems sha256 r =
    [(\<not> is_sha256 (bk_checksum_sha256 r), FieldError ''checksum_sha256''),
     (bk_cases r = [] \<or> list_ex (\<lambda>c. first_error (backtest_case_problems c) \<noteq> None) (bk_cases r), FieldError ''cases''),
     (\<not> non_negative (bk_detection_lead_time_hours r), FieldError ''detection_lead_time_hours''),
     (\<not> in_range 1 (bk_precision r), FieldError ''precision''),
     (\<not> in_range 1 (bk_mean_completeness r), FieldError ''mean_completeness''),
     (\<not> in_range 1 (bk_alert_stability r), FieldError ''alert_stability''),
     (\<not> non_negative (bk_runtime_ms r), FieldError ''runtime_ms''),
     (\<not> is_sha256 (bk_fingerprint r), FieldError ''fingerprint''),
     (bk_fingerprint r \<noteq> backtest_fingerprint sha256 r, ValueError ''risk backtest fingerprint mismatch'')]"

end
