(* ===== verification/Risk_Engine.thy ===== *)
theory Risk_Engine imports Risk_Contracts Scenario_Contracts Py_Text begin

text \<open>
  The structural risk of a corridor, \<open>sanjiv/risk/engine.py\<close>, and the alert derived from it,
  \<open>sanjiv/risk/alerts.py\<close>. SHA-256 of the canonical JSON, \<open>uuid5\<close> and the current time are
  parameters.
\<close>

section \<open>Signals\<close>

record raw_signal =
  rw_corridor_id :: uuid
  rw_feature_type :: risk_feature_type
  rw_raw_value :: "pyfloat option"
  rw_unit :: string
  rw_source_id :: string
  rw_source_state :: source_state
  rw_freshness :: freshness_status
  rw_truth_class :: truth_class
  rw_confidence :: pyfloat
  rw_effective_at :: datetime
  rw_fetched_at :: datetime
  rw_evidence_ids :: "uuid list"

definition raw_signal_problems :: "raw_signal \<Rightarrow> (bool \<times> py_error) list" where
  "raw_signal_problems s =
    [(\<not> opt_ok isfinite (rw_raw_value s), FieldError ''raw_value''),
     (\<not> len_between 1 50 (rw_unit s), FieldError ''unit''),
     (\<not> len_between 1 100 (rw_source_id s), FieldError ''source_id''),
     (\<not> in_range 1 (rw_confidence s), FieldError ''confidence'')]"

section \<open>Baselines\<close>

definition BASELINE_VERSION :: string where "BASELINE_VERSION = ''risk-baseline-effective-window-v1''"

definition baseline_for ::
  "baseline_hash \<Rightarrow> pyfloat list \<Rightarrow> datetime \<Rightarrow> pyfloat \<Rightarrow> pyfloat \<Rightarrow> risk_feature_type \<Rightarrow> anomaly_baseline res" where
  "baseline_for sha256 observations at_time mean deviation feature =
     rbind (datetime_add at_time (- int (length observations) * day_us)) (\<lambda>window_starts_at.
     let payload = \<lparr>ab_feature_type = feature,
           ab_window_starts_at = window_starts_at, ab_window_ends_at = at_time,
           ab_observations = observations, ab_mean = mean, ab_standard_deviation = deviation,
           ab_version = BASELINE_VERSION\<rparr>;
         b = baseline_payload.extend payload (anomaly_baseline.fields (sha256 payload))
     in validated (anomaly_baseline_problems sha256 b) b)"

definition build_baselines ::
  "baseline_hash \<Rightarrow> pyfloat list \<Rightarrow> datetime \<Rightarrow> (risk_feature_type, anomaly_baseline) dict res" where
  "build_baselines sha256 observations at_time =
    (if length observations < 3 \<or> list_ex (\<lambda>v. \<not> isfinite v) observations
     then Inl (ValueError ''risk baseline requires at least three finite observations'')
     else rbind (fmean observations) (\<lambda>mean.
       let deviation = pstdev observations in
       if deviation \<le> 0 then Inl (ValueError ''risk baseline requires non-zero variance'')
       else rmap (zip RISK_FEATURES)
              (rtraverse (baseline_for sha256 observations at_time mean deviation) RISK_FEATURES)))"

section \<open>Features\<close>

fun risk_weight :: "risk_feature_type \<Rightarrow> pyfloat" where
  "risk_weight TRANSIT_ANOMALY = fl (25 / 100)"
| "risk_weight GEOPOLITICAL_SEVERITY = fl (20 / 100)"
| "risk_weight AIS_BEHAVIORAL_ANOMALY = fl (15 / 100)"
| "risk_weight MARKET_STRESS = fl (15 / 100)"
| "risk_weight SANCTIONS_EXPOSURE = fl (10 / 100)"
| "risk_weight INFRASTRUCTURE_PHYSICAL_SIGNAL = fl (15 / 100)"

definition NORMALIZER_VERSION :: string where "NORMALIZER_VERSION = ''risk-feature-normalizer-v1''"

text \<open>A deviation of four standard deviations above the mean is the top of the scale.\<close>

definition normalize_value :: "anomaly_baseline \<Rightarrow> pyfloat \<Rightarrow> pyfloat" where
  "normalize_value b v =
     py_min (Fin 100) (py_max 0 ((v - ab_mean b) / ab_standard_deviation b * Fin 25))"

definition normalize :: "anomaly_baseline \<Rightarrow> pyfloat \<Rightarrow> pyfloat res" where
  "normalize b v =
    (if \<not> isfinite v then Inl (ValueError ''risk feature value must be finite'') else Inr (normalize_value b v))"

definition raw_of :: "raw_signal option \<Rightarrow> pyfloat option" where
  "raw_of signal = (case signal of None \<Rightarrow> None | Some s \<Rightarrow> rw_raw_value s)"

definition normalized_of :: "anomaly_baseline \<Rightarrow> raw_signal option \<Rightarrow> pyfloat option res" where
  "normalized_of b signal = (case raw_of signal of None \<Rightarrow> Inr None | Some v \<Rightarrow> rmap Some (normalize b v))"

definition freshness_factor :: "raw_signal \<Rightarrow> pyfloat" where
  "freshness_factor s = (if rw_freshness s = F_STALE then Fin (1 / 4) else 1)"

definition feature_of ::
  "uuid5_fun \<Rightarrow> uuid \<Rightarrow> datetime \<Rightarrow> risk_feature_type \<Rightarrow> anomaly_baseline \<Rightarrow> raw_signal option \<Rightarrow> pyfloat option
     \<Rightarrow> risk_feature" where
  "feature_of uuid5 corridor_id at_time feature b signal normalized =
    (let from_signal = (\<lambda>f d. case signal of None \<Rightarrow> d | Some s \<Rightarrow> f s) in
     \<lparr>nf_feature_id = uuid5 (''urn:sanjiv:risk-feature:'' @ uuid_str corridor_id @ '':'' @ feature_name feature
        @ '':'' @ isoformat at_time),
      nf_corridor_id = corridor_id, nf_feature_type = feature, nf_raw_value = raw_of signal,
      nf_normalized_value = normalized, nf_unit = ''severity_point'', nf_missing = (raw_of signal = None),
      nf_truth_class = DERIVED,
      nf_confidence = (case signal of None \<Rightarrow> 0 | Some s \<Rightarrow> rw_confidence s),
      nf_source_id = (case signal of None \<Rightarrow> ''UNAVAILABLE'' | Some s \<Rightarrow> rw_source_id s),
      nf_source_state = (case signal of None \<Rightarrow> SS_UNAVAILABLE | Some s \<Rightarrow> rw_source_state s),
      nf_freshness = (case signal of None \<Rightarrow> F_UNAVAILABLE | Some s \<Rightarrow> rw_freshness s),
      nf_effective_at = from_signal rw_effective_at at_time, nf_fetched_at = from_signal rw_fetched_at at_time,
      nf_evidence_ids = (case signal of None \<Rightarrow> [] | Some s \<Rightarrow> rw_evidence_ids s),
      nf_baseline_fingerprint = ab_fingerprint b, nf_transformation = NORMALIZER_VERSION\<rparr>)"

definition contribution_of :: "risk_feature_type \<Rightarrow> raw_signal option \<Rightarrow> pyfloat option \<Rightarrow> feature_contribution" where
  "contribution_of feature signal normalized =
     \<lparr>fn_feature_type = feature, fn_normalized_value = (case normalized of None \<Rightarrow> 0 | Some n \<Rightarrow> n),
      fn_weight = risk_weight feature,
      fn_weighted_contribution = (case normalized of None \<Rightarrow> 0 | Some n \<Rightarrow> n * risk_weight feature),
      fn_present = (raw_of signal \<noteq> None)\<rparr>"

text \<open>What a feature with a value adds to the four sums of the loop.\<close>

record score_term =
  sm_weight :: pyfloat
  sm_weighted :: pyfloat
  sm_completeness :: pyfloat
  sm_confidence :: pyfloat

definition score_terms :: "risk_feature_type \<Rightarrow> raw_signal option \<Rightarrow> pyfloat option \<Rightarrow> score_term list" where
  "score_terms feature signal normalized =
    (case (signal, normalized) of
       (Some s, Some n) \<Rightarrow>
         [\<lparr>sm_weight = risk_weight feature, sm_weighted = n * risk_weight feature,
           sm_completeness = risk_weight feature * freshness_factor s,
           sm_confidence = risk_weight feature * rw_confidence s * freshness_factor s\<rparr>]
     | _ \<Rightarrow> [])"

text \<open>One round of the loop over the feature types.\<close>

definition risk_round ::
  "uuid5_fun \<Rightarrow> uuid \<Rightarrow> datetime \<Rightarrow> (risk_feature_type, raw_signal) dict \<Rightarrow> (risk_feature_type, anomaly_baseline) dict
     \<Rightarrow> risk_feature_type \<Rightarrow> (risk_feature \<times> feature_contribution \<times> score_term list) res" where
  "risk_round uuid5 corridor_id at_time by_type baselines feature =
    (case map_of baselines feature of
       None \<Rightarrow> Inl KeyError
     | Some b \<Rightarrow>
         let signal = map_of by_type feature in
         rbind (normalized_of b signal) (\<lambda>normalized.
         let f = feature_of uuid5 corridor_id at_time feature b signal normalized;
             c = contribution_of feature signal normalized in
         rbind (evidence_confidence (nf_confidence f)) (\<lambda>_.
         rbind (validated (risk_feature_problems f) ()) (\<lambda>_.
         rbind (validated (feature_contribution_problems c) ()) (\<lambda>_.
           Inr (f, c, score_terms feature signal normalized))))))"

section \<open>Corroboration\<close>

definition fresh_high :: "risk_feature \<Rightarrow> bool" where
  "fresh_high f \<longleftrightarrow> \<not> nf_missing f \<and>
     (case nf_normalized_value f of None \<Rightarrow> False | Some n \<Rightarrow> Fin 50 \<le> n) \<and> nf_freshness f \<noteq> F_STALE"

definition operational :: "risk_feature_type \<Rightarrow> bool" where
  "operational t \<longleftrightarrow> t \<in> {TRANSIT_ANOMALY, AIS_BEHAVIORAL_ANOMALY, INFRASTRUCTURE_PHYSICAL_SIGNAL}"

definition informational :: "risk_feature_type \<Rightarrow> bool" where
  "informational t \<longleftrightarrow> t \<in> {GEOPOLITICAL_SEVERITY, MARKET_STRESS}"

definition corroborate :: "risk_feature list \<Rightarrow> corroboration" where
  "corroborate features =
    (let fresh = filter fresh_high features;
         types = map nf_feature_type fresh;
         info_high = filter informational types;
         operational_high = filter operational types;
         sources = length (remdups (map nf_source_id fresh));
         passed = (2 \<le> sources \<and> operational_high \<noteq> [])
     in \<lparr>co_passed = passed, co_independent_source_count = sources,
         co_corroborating_features = sort_key feature_rank types,
         co_disagreeing_features =
           (if info_high \<noteq> [] \<and> operational_high = [] then sort_key feature_rank (remdups info_high) else []),
         co_stale_or_missing_features =
           map nf_feature_type (filter (\<lambda>f. nf_missing f \<or> nf_freshness f \<in> {F_STALE, F_UNAVAILABLE}) features),
         co_explanation =
           (if passed then ''Independent operational and contextual signals corroborate the elevated score.''
            else ''Evidence is uncorroborated, stale, incomplete, or disagrees across source families.'')\<rparr>)"

section \<open>The result\<close>

definition RISK_MODEL_VERSION :: string where "RISK_MODEL_VERSION = ''corridor-risk-structural-v1''"

definition risk_explanation :: "pyfloat \<Rightarrow> pyfloat \<Rightarrow> pyfloat \<Rightarrow> corroboration \<Rightarrow> string" where
  "risk_explanation severity confidence completeness c =
     ''Structural corridor severity is '' @ fixed_text 1 severity @ ''/100; evidence confidence is ''
     @ fixed_text 2 confidence @ '' and data completeness is '' @ fixed_text 2 completeness @ ''. ''
     @ co_explanation c @ '' Media events and thermal detections remain signals, not proof of closure, attack, or damage.''"

definition signals_by_type :: "uuid \<Rightarrow> raw_signal list \<Rightarrow> (risk_feature_type, raw_signal) dict" where
  "signals_by_type corridor_id signals =
     dict_of (map (\<lambda>s. (rw_feature_type s, s)) (filter (\<lambda>s. rw_corridor_id s = corridor_id) signals))"

definition calculated_time :: "datetime option \<Rightarrow> datetime \<Rightarrow> raw_signal list \<Rightarrow> datetime" where
  "calculated_time calculated_at now signals =
    (case calculated_at of Some t \<Rightarrow> t
     | None \<Rightarrow> if signals = [] then now else Max (set (map rw_fetched_at signals)))"

definition severity_value :: "score_term list \<Rightarrow> pyfloat" where
  "severity_value terms =
    (let present = py_sum (map sm_weight terms)
     in if present \<le> 0 then 0 else py_sum (map sm_weighted terms) / present)"

definition completeness_value :: "score_term list \<Rightarrow> pyfloat" where
  "completeness_value terms = py_min 1 (py_sum (map sm_completeness terms))"

definition confidence_value :: "score_term list \<Rightarrow> pyfloat" where
  "confidence_value terms =
    (let present = py_sum (map sm_weight terms)
     in if present \<le> 0 then 0 else py_min 1 (py_sum (map sm_confidence terms) / present))"

definition calculate_corridor_risk ::
  "uuid5_fun \<Rightarrow> risk_hash \<Rightarrow> uuid \<Rightarrow> string \<Rightarrow> raw_signal list \<Rightarrow> (risk_feature_type, anomaly_baseline) dict
     \<Rightarrow> risk_source_failure list \<Rightarrow> datetime option \<Rightarrow> datetime \<Rightarrow> corridor_risk res" where
  "calculate_corridor_risk uuid5 sha256 corridor_id corridor_name signals baselines failures calculated_at now =
    (let at_time = calculated_time calculated_at now signals in
     rbind (rtraverse (risk_round uuid5 corridor_id at_time (signals_by_type corridor_id signals) baselines) RISK_FEATURES)
       (\<lambda>rounds.
     let features = map fst rounds; terms = concat (map (snd \<circ> snd) rounds) in
     rbind (data_completeness (completeness_value terms)) (\<lambda>completeness.
     rbind (evidence_confidence (confidence_value terms)) (\<lambda>confidence.
     rbind (risk_severity (severity_value terms)) (\<lambda>severity.
       let c = corroborate features;
           payload = \<lparr>cr_risk_id = uuid5 (''urn:sanjiv:risk:'' @ uuid_str corridor_id @ '':'' @ isoformat at_time
                        @ '':'' @ RISK_MODEL_VERSION),
             cr_corridor_id = corridor_id, cr_corridor_name = corridor_name, cr_severity = severity,
             cr_confidence = confidence, cr_completeness = completeness, cr_features = features,
             cr_contributions = map (fst \<circ> snd) rounds, cr_corroboration = c, cr_source_failures = failures,
             cr_effective_at = Max (set (map nf_effective_at features)), cr_calculated_at = at_time,
             cr_lifecycle = (if failures \<noteq> [] \<or> completeness < 1 then RK_DEGRADED else RK_CALCULATED),
             cr_model_version = RISK_MODEL_VERSION, cr_baseline_version = BASELINE_VERSION,
             cr_explanation = risk_explanation severity confidence completeness c\<rparr>;
           r = risk_payload.extend payload (corridor_risk.fields (sha256 payload))
       in validated (corridor_risk_problems sha256 r) r)))))"

section \<open>Alerts\<close>

definition ALERT_RULE :: alert_rule where
  "ALERT_RULE = \<lparr>ar_rule_id = ''corridor-risk-alert-rule'', ar_version = ''corridor-risk-alerts-v1'',
     ar_high_threshold = Fin 50, ar_critical_threshold = Fin 75, ar_minimum_confidence = fl (55 / 100),
     ar_minimum_completeness = fl (65 / 100)\<rparr>"

definition evidence_sufficient :: "alert_rule \<Rightarrow> corridor_risk \<Rightarrow> bool" where
  "evidence_sufficient rule r \<longleftrightarrow> ar_minimum_confidence rule \<le> cr_confidence r \<and>
     ar_minimum_completeness rule \<le> cr_completeness r \<and> co_passed (cr_corroboration r)"

definition alert_band :: "alert_rule \<Rightarrow> corridor_risk \<Rightarrow> alert_severity \<times> alert_status" where
  "alert_band rule r =
    (if ar_critical_threshold rule \<le> cr_severity r \<and> evidence_sufficient rule r then (AL_CRITICAL, AT_OPEN)
     else if ar_high_threshold rule \<le> cr_severity r \<and> evidence_sufficient rule r then (AL_HIGH, AT_OPEN)
     else if ar_high_threshold rule \<le> cr_severity r then (AL_WATCH, AT_SUPPRESSED)
     else (AL_INFO, AT_SUPPRESSED))"

fun band_name :: "alert_severity \<Rightarrow> string" where
  "band_name AL_INFO = ''INFO''"
| "band_name AL_WATCH = ''WATCH''"
| "band_name AL_HIGH = ''HIGH''"
| "band_name AL_CRITICAL = ''CRITICAL''"

definition alert_explanation :: "alert_severity \<Rightarrow> corridor_risk \<Rightarrow> string" where
  "alert_explanation band r =
     band_name band @ '' analyst alert from structural severity '' @ fixed_text 1 (cr_severity r) @ ''/100, confidence ''
     @ fixed_text 2 (cr_confidence r) @ '', completeness '' @ fixed_text 2 (cr_completeness r) @ ''. ''
     @ co_explanation (cr_corroboration r)"

definition evaluate_alert :: "uuid5_fun \<Rightarrow> alert_rule \<Rightarrow> corridor_risk \<Rightarrow> datetime \<Rightarrow> alert_result res" where
  "evaluate_alert uuid5 rule r at_time =
    (let band = fst (alert_band rule r);
         a = \<lparr>at_alert_id = uuid5 (''urn:sanjiv:risk-alert:'' @ cr_fingerprint r @ '':'' @ ar_version rule),
           at_risk_id = cr_risk_id r, at_corridor_id = cr_corridor_id r, at_severity_band = band,
           at_status = snd (alert_band rule r), at_severity = cr_severity r, at_confidence = cr_confidence r,
           at_completeness = cr_completeness r, at_contributions = cr_contributions r,
           at_evidence_ids = sorted_list_of_set (set (concat (map nf_evidence_ids (cr_features r)))),
           at_effective_at = cr_effective_at r, at_created_at = at_time, at_model_version = cr_model_version r,
           at_rule_version = ar_version rule, at_explanation = alert_explanation band r,
           at_recommended_analyst_action =
             ''Review the linked evidence and source disagreement before operational escalation.'',
           at_risk_fingerprint = cr_fingerprint r\<rparr>
     in validated (alert_result_problems a) a)"

end
