(* ===== verification/Risk_Check.thy ===== *)
theory Risk_Check imports Risk_Engine Validation_Facts begin

text \<open>
  The lemmas behind the properties of the risk engine: the range and monotonicity of normalised
  values, the bounds of the four sums, what a round of the loop contributes, and the severity as a
  weighted mean of the present features.
\<close>

section \<open>Floats\<close>

lemma divide_mono_pos: "x \<le> y \<Longrightarrow> 0 < c \<Longrightarrow> x / Fin c \<le> y / Fin c" for x y :: pyfloat
  by (cases x; cases y) (auto simp: divide_right_mono inf_of_sign_def sign_of_def intro: of_exact_mono)

lemma times_mono_pos: "x \<le> y \<Longrightarrow> 0 < c \<Longrightarrow> x * Fin c \<le> y * Fin c" for x y :: pyfloat
  by (cases x; cases y) (auto simp: inf_of_sign_def sign_of_def mult_right_mono intro: of_exact_mono)

lemma divide_not_NaN: "x \<noteq> NaN \<Longrightarrow> 0 < c \<Longrightarrow> x / Fin c \<noteq> NaN" for x :: pyfloat
  by (cases x) (auto simp: inf_of_sign_def sign_of_def)

lemma times_not_NaN: "x \<noteq> NaN \<Longrightarrow> 0 < c \<Longrightarrow> x * Fin c \<noteq> NaN" for x :: pyfloat
  by (cases x) (auto simp: inf_of_sign_def sign_of_def)

lemma divide_nonneg_pos: "0 \<le> x \<Longrightarrow> 0 < c \<Longrightarrow> 0 \<le> x / Fin c" for x :: pyfloat
  by (cases x) (auto simp: inf_of_sign_def sign_of_def intro: of_exact_nonneg)

lemma clamp_range: "x \<noteq> NaN \<Longrightarrow> 0 \<le> u \<Longrightarrow> in_range (Fin u) (py_min (Fin u) (py_max 0 x))"
  by (cases x) (auto simp: in_range_def py_min_def py_max_def zero_pyfloat_def)

lemma in_rangeE:
  assumes "in_range (Fin u) x" obtains q where "x = Fin q" "0 \<le> q" "q \<le> u"
  using assms by (cases x) (auto simp: in_range_def)

lemma in_range_1: "in_range 1 x \<longleftrightarrow> in_range (Fin 1) x"
  by (simp add: one_pyfloat_def)

lemma times_range:
  assumes "in_range (Fin u) x" "in_range 1 y" "of_exact u = Fin u"
  shows "in_range (Fin u) (x * y)"
proof -
  obtain a where a: "x = Fin a" "0 \<le> a" "a \<le> u" using assms(1) by (rule in_rangeE)
  obtain b where b: "y = Fin b" "0 \<le> b" "b \<le> 1" using assms(2) unfolding in_range_1 by (rule in_rangeE)
  have "a * b \<le> u * 1" using a b by (intro mult_mono) auto
  then have "of_exact (a * b) \<le> Fin u" using of_exact_mono [of "a * b" u] assms(3) by simp
  moreover have "0 \<le> of_exact (a * b)" using a b by (simp add: of_exact_nonneg)
  ultimately show ?thesis unfolding a(1) b(1)
    by (cases "of_exact (a * b)") (auto simp: in_range_def)
qed

text \<open>Sums of values between 0 and an integer are bounded by the sum of the bounds.\<close>

lemma foldl_plus_range:
  assumes "in_range (Fin (of_nat k)) a" "\<And>x. x \<in> set xs \<Longrightarrow> in_range (Fin (of_nat u)) x" "k + length xs * u < 2 ^ 53"
  shows "in_range (Fin (of_nat (k + length xs * u))) (foldl (+) a xs)"
  using assms
proof (induction xs arbitrary: a k)
  case (Cons x xs)
  obtain p where p: "a = Fin p" "0 \<le> p" "p \<le> of_nat k" using Cons.prems(1) by (rule in_rangeE)
  obtain q where q: "x = Fin q" "0 \<le> q" "q \<le> of_nat u" using Cons.prems(2) [of x] by (auto elim: in_rangeE)
  have "k + u < 2 ^ 53" using Cons.prems(3) by simp
  then have "int (k + u) < 2 ^ 53" by (metis of_nat_less_iff of_nat_numeral of_nat_power)
  then have "\<bar>int (k + u)\<bar> < 2 ^ 53" by simp
  from of_exact_int [OF this] have e: "of_exact (of_nat (k + u)) = Fin (of_nat (k + u))" by simp
  have "of_exact (p + q) \<le> Fin (of_nat (k + u))" using of_exact_mono [of "p + q" "of_nat (k + u)"] p q e by simp
  moreover have "0 \<le> of_exact (p + q)" using p q by (simp add: of_exact_nonneg)
  ultimately have "in_range (Fin (of_nat (k + u))) (a + x)" unfolding p(1) q(1)
    by (cases "of_exact (p + q)") (auto simp: in_range_def)
  from Cons.IH [OF this] Cons.prems show ?case by (simp add: algebra_simps)
qed simp

lemma sum_range:
  assumes "\<And>x. x \<in> set xs \<Longrightarrow> in_range (Fin (of_nat u)) x" "length xs * u < 2 ^ 53"
  shows "in_range (Fin (of_nat (length xs * u))) (py_sum xs)"
proof -
  have "in_range (Fin (of_nat 0)) 0" by (simp add: in_range_def zero_pyfloat_def)
  from foldl_plus_range [OF this assms(1)] assms(2) show ?thesis by (simp add: py_sum_def)
qed

section \<open>Weights and normalised values\<close>

lemma all_feature_types: "t \<in> set RISK_FEATURES"
  by (cases t) (simp_all add: RISK_FEATURES_def)

lemma distinct_features: "distinct RISK_FEATURES"
  by (simp add: RISK_FEATURES_def)

lemma weights_in_range: "list_all (\<lambda>t. in_range 1 (risk_weight t) \<and> 0 < risk_weight t) RISK_FEATURES"
  by code_simp

lemma risk_weight_range: "in_range 1 (risk_weight t)" "0 < risk_weight t"
  using weights_in_range all_feature_types [of t] by (auto simp: list_all_iff)

lemma weight_is_float: "is_float (risk_weight t)"
  by (cases t) simp_all

definition usable_baseline :: "anomaly_baseline \<Rightarrow> bool" where
  "usable_baseline b \<longleftrightarrow> isfinite (ab_mean b) \<and> isfinite (ab_standard_deviation b) \<and> 0 < ab_standard_deviation b"

lemma usable_baselineE:
  assumes "usable_baseline b" obtains m d where "ab_mean b = Fin m" "ab_standard_deviation b = Fin d" "0 < d"
  using assms by (cases "ab_mean b"; cases "ab_standard_deviation b") (auto simp: usable_baseline_def zero_pyfloat_def)

lemma normalize_value_range:
  assumes "usable_baseline b" "isfinite v" shows "in_range (Fin 100) (normalize_value b v)"
proof -
  obtain m d where b: "ab_mean b = Fin m" "ab_standard_deviation b = Fin d" "0 < d"
    using assms(1) by (rule usable_baselineE)
  obtain q where v: "v = Fin q" using assms(2) by auto
  have "(v - ab_mean b) / ab_standard_deviation b * Fin 25 \<noteq> NaN"
    unfolding b v minus_Fin using b(3) by (intro times_not_NaN divide_not_NaN) simp_all
  then show ?thesis unfolding normalize_value_def by (intro clamp_range) simp_all
qed

lemma normalize_value_mono:
  assumes "usable_baseline b" "v \<le> v'" shows "normalize_value b v \<le> normalize_value b v'"
proof -
  obtain m d where b: "ab_mean b = Fin m" "ab_standard_deviation b = Fin d" "0 < d"
    using assms(1) by (rule usable_baselineE)
  have "(v - Fin m) / Fin d * Fin 25 \<le> (v' - Fin m) / Fin d * Fin 25"
    using assms(2) b(3) by (intro times_mono_pos divide_mono_pos minus_right_mono_pyfloat) simp_all
  then show ?thesis unfolding normalize_value_def b
    by (intro py_min_mono py_max_0_mono le_refl_pyfloat) simp_all
qed

section \<open>Rounds of the loop\<close>

lemma normalized_of_Inr:
  "normalized_of b signal = Inr normalized \<longleftrightarrow>
     normalized = map_option (normalize_value b) (raw_of signal) \<and> opt_ok isfinite (raw_of signal)"
  by (cases "raw_of signal") (auto simp: normalized_of_def normalize_def rmap_def)

lemma risk_round_parts:
  assumes "risk_round uuid5 corridor_id at_time by_type baselines t = Inr (f, c, ts)"
  obtains b normalized where "map_of baselines t = Some b"
    "normalized = map_option (normalize_value b) (raw_of (map_of by_type t))"
    "opt_ok isfinite (raw_of (map_of by_type t))"
    "f = feature_of uuid5 corridor_id at_time t b (map_of by_type t) normalized"
    "c = contribution_of t (map_of by_type t) normalized" "ts = score_terms t (map_of by_type t) normalized"
    "in_range 1 (nf_confidence f)" "first_error (risk_feature_problems f) = None"
    "first_error (feature_contribution_problems c) = None"
proof -
  obtain b where b: "map_of baselines t = Some b" using assms by (auto simp: risk_round_def split: option.splits)
  show thesis using assms
    unfolding risk_round_def b option.case Let_def rbind_Inr_iff normalized_of_Inr evidence_confidence_def validated_Inr
      no_error_simps not_not
    by (auto simp: b intro!: that)
qed

text \<open>The weight and the normalised value of every feature with a value.\<close>

definition present_value ::
  "(risk_feature_type, anomaly_baseline) dict \<Rightarrow> (risk_feature_type, raw_signal) dict \<Rightarrow> risk_feature_type
     \<Rightarrow> (pyfloat \<times> pyfloat) option" where
  "present_value baselines by_type t =
    (case (map_of baselines t, raw_of (map_of by_type t)) of
       (Some b, Some v) \<Rightarrow> Some (risk_weight t, normalize_value b v)
     | _ \<Rightarrow> None)"

definition present_values ::
  "(risk_feature_type, anomaly_baseline) dict \<Rightarrow> (risk_feature_type, raw_signal) dict \<Rightarrow> (pyfloat \<times> pyfloat) list" where
  "present_values baselines by_type = List.map_filter (present_value baselines by_type) RISK_FEATURES"

text \<open>The reference severity: their weighted mean, in Python's floats.\<close>

definition mean_severity :: "(pyfloat \<times> pyfloat) list \<Rightarrow> pyfloat" where
  "mean_severity pv = (if pv = [] then 0 else py_sum (map (\<lambda>(w, n). n * w) pv) / py_sum (map fst pv))"

lemma score_terms_values:
  assumes "map_of baselines t = Some b" "normalized = map_option (normalize_value b) (raw_of (map_of by_type t))"
  shows "map (\<lambda>s. (sm_weight s, sm_weighted s)) (score_terms t (map_of by_type t) normalized) =
    (case present_value baselines by_type t of None \<Rightarrow> [] | Some (w, n) \<Rightarrow> [(w, n * w)])"
  using assms by (auto simp: score_terms_def present_value_def raw_of_def split: option.splits)

lemma rounds_terms:
  assumes "list_all2 (\<lambda>t y. risk_round uuid5 corridor_id at_time by_type baselines t = Inr y) ts rounds"
  shows "map (\<lambda>s. (sm_weight s, sm_weighted s)) (concat (map (snd \<circ> snd) rounds)) =
    map (\<lambda>(w, n). (w, n * w)) (List.map_filter (present_value baselines by_type) ts)"
  using assms
proof (induction ts rounds rule: list_all2_induct)
  case (Cons t ts y ys)
  obtain f c terms where y: "y = (f, c, terms)" by (cases y)
  from Cons(1) [unfolded y] obtain b normalized where p: "map_of baselines t = Some b"
    "normalized = map_option (normalize_value b) (raw_of (map_of by_type t))"
    "terms = score_terms t (map_of by_type t) normalized"
    by (rule risk_round_parts) blast
  have "map (\<lambda>s. (sm_weight s, sm_weighted s)) terms =
      (case present_value baselines by_type t of None \<Rightarrow> [] | Some (w, n) \<Rightarrow> [(w, n * w)])"
    unfolding p(3) by (rule score_terms_values [OF p(1,2)])
  with Cons.IH show ?case
    by (cases "present_value baselines by_type t") (auto simp: y List.map_filter_simps)
qed (simp add: List.map_filter_simps)

lemma map_filter_range:
  assumes "x \<in> set (List.map_filter f xs)" shows "\<exists>t \<in> set xs. f t = Some x"
  using assms by (auto simp: List.map_filter_def)

lemma present_values_range:
  assumes "\<And>t b. map_of baselines t = Some b \<Longrightarrow> usable_baseline b"
    "\<And>t. opt_ok isfinite (raw_of (map_of by_type t))" "(w, n) \<in> set (present_values baselines by_type)"
  shows "in_range 1 w \<and> 0 < w \<and> is_float w \<and> in_range (Fin 100) n"
proof -
  obtain t where "present_value baselines by_type t = Some (w, n)"
    using map_filter_range [OF assms(3) [unfolded present_values_def]] by blast
  then obtain b v where "map_of baselines t = Some b" "raw_of (map_of by_type t) = Some v" "w = risk_weight t"
    "n = normalize_value b v"
    by (auto simp: present_value_def split: option.splits)
  with assms(1) [of t] assms(2) [of t] risk_weight_range [of t] weight_is_float [of t] normalize_value_range [of b v]
  show ?thesis by simp
qed

lemma present_values_length: "length (present_values baselines by_type) \<le> 6"
proof -
  have "length (List.map_filter f xs) \<le> length xs" for f :: "risk_feature_type \<Rightarrow> (pyfloat \<times> pyfloat) option" and xs
    by (simp add: List.map_filter_def)
  from this [of "present_value baselines by_type" RISK_FEATURES] show ?thesis
    by (simp add: present_values_def RISK_FEATURES_def)
qed

text \<open>The sum of the weights of present features is a positive finite float.\<close>

lemma foldl_plus_ge: "0 \<le> a \<Longrightarrow> is_float a \<Longrightarrow> (\<And>x. x \<in> set xs \<Longrightarrow> 0 \<le> x \<and> is_float x) \<Longrightarrow> a \<le> foldl (+) a xs"
proof (induction xs arbitrary: a)
  case (Cons x xs)
  have x: "0 \<le> x" "is_float x" using Cons.prems(3) by simp_all
  have "a \<le> a + x"
    using add_mono_pyfloat [OF Cons.prems(1) le_refl_pyfloat _ x(1)] Cons.prems(1,2) le_not_NaN by auto
  also have "a + x \<le> foldl (+) (a + x) xs"
    using Cons.prems x by (intro Cons.IH) (auto intro: add_nonneg_pyfloat)
  finally show ?case by simp
qed (simp add: le_refl_pyfloat le_not_NaN)

lemma weight_sum_pos:
  assumes "pv \<noteq> []" "length pv \<le> 6" "\<And>w n. (w, n) \<in> set pv \<Longrightarrow> in_range 1 w \<and> 0 < w \<and> is_float w"
  obtains q where "py_sum (map fst pv) = Fin q" "0 < q"
proof -
  have r: "in_range (Fin (of_nat 1)) x" if "x \<in> set (map fst pv)" for x
    using that assms(3) by (auto simp: in_range_1 [symmetric])
  have "in_range (Fin (of_nat (length (map fst pv) * 1))) (py_sum (map fst pv))"
    using assms(2) by (intro sum_range r) simp_all
  then obtain q where q: "py_sum (map fst pv) = Fin q" "0 \<le> q" by (rule in_rangeE)
  obtain w n pv' where pv: "pv = (w, n) # pv'" using assms(1) by (cases pv) auto
  have w: "0 \<le> w" "0 < w" "is_float w" using assms(3) [of w n] by (auto simp: pv in_range_def)
  have "w \<le> foldl (+) w (map fst pv')"
    using w assms(3) by (intro foldl_plus_ge) (force simp: pv in_range_def)+
  then have "w \<le> Fin q" using w by (simp add: pv py_sum_def flip: q(1))
  with w(2) have "0 < q" by (cases w) (auto simp: zero_pyfloat_def)
  with that q show thesis by blast
qed

text \<open>What the rounds read: usable baselines and finite raw values.\<close>

definition readable :: "(risk_feature_type, anomaly_baseline) dict \<Rightarrow> (risk_feature_type, raw_signal) dict \<Rightarrow> bool" where
  "readable baselines by_type \<longleftrightarrow> list_all (\<lambda>t. opt_ok usable_baseline (map_of baselines t) \<and>
     opt_ok isfinite (raw_of (map_of by_type t))) RISK_FEATURES"

lemma readableD:
  assumes "readable baselines by_type"
  shows "map_of baselines t = Some b \<Longrightarrow> usable_baseline b" "opt_ok isfinite (raw_of (map_of by_type t))"
  using assms all_feature_types [of t] by (auto simp: readable_def list_all_iff)

lemma present_values_facts:
  assumes "readable baselines by_type" "(w, n) \<in> set (present_values baselines by_type)"
  shows "in_range 1 w \<and> 0 < w \<and> is_float w \<and> in_range (Fin 100) n"
  by (rule present_values_range [OF readableD(1) [OF assms(1)] readableD(2) [OF assms(1)] assms(2)])

lemma present_sum:
  assumes "readable baselines by_type" "present_values baselines by_type \<noteq> []"
  obtains q where "py_sum (map fst (present_values baselines by_type)) = Fin q" "0 < q"
  using weight_sum_pos [OF assms(2) present_values_length] present_values_facts [OF assms(1)] by metis

lemma rounds_weights:
  assumes "list_all2 (\<lambda>t y. risk_round uuid5 corridor_id at_time by_type baselines t = Inr y) RISK_FEATURES rounds"
  shows "map sm_weight (concat (map (snd \<circ> snd) rounds)) = map fst (present_values baselines by_type)"
    "map sm_weighted (concat (map (snd \<circ> snd) rounds)) = map (\<lambda>(w, n). n * w) (present_values baselines by_type)"
proof -
  have t: "map (\<lambda>s. (sm_weight s, sm_weighted s)) (concat (map (snd \<circ> snd) rounds)) =
      map (\<lambda>(w, n). (w, n * w)) (present_values baselines by_type)"
    unfolding present_values_def by (rule rounds_terms [OF assms])
  show "map sm_weight (concat (map (snd \<circ> snd) rounds)) = map fst (present_values baselines by_type)"
    using arg_cong [OF t, of "map fst"] by (simp add: comp_def case_prod_beta)
  show "map sm_weighted (concat (map (snd \<circ> snd) rounds)) = map (\<lambda>(w, n). n * w) (present_values baselines by_type)"
    using arg_cong [OF t, of "map snd"] by (simp add: comp_def case_prod_beta)
qed

lemma rounds_severity:
  assumes "list_all2 (\<lambda>t y. risk_round uuid5 corridor_id at_time by_type baselines t = Inr y) RISK_FEATURES rounds"
    "readable baselines by_type"
  shows "severity_value (concat (map (snd \<circ> snd) rounds)) = mean_severity (present_values baselines by_type)"
proof -
  let ?pv = "present_values baselines by_type"
  note w = rounds_weights [OF assms(1)]
  show ?thesis
  proof (cases "?pv = []")
    case False
    obtain q where "py_sum (map fst ?pv) = Fin q" "0 < q" by (rule present_sum [OF assms(2) False])
    then show ?thesis using False by (simp add: severity_value_def w mean_severity_def)
  qed (simp add: severity_value_def w mean_severity_def py_sum_def)
qed

lemma mean_severity_nonneg:
  assumes "readable baselines by_type"
  shows "0 \<le> mean_severity (present_values baselines by_type)"
proof (cases "present_values baselines by_type = []")
  case False
  let ?pv = "present_values baselines by_type"
  obtain q where q: "py_sum (map fst ?pv) = Fin q" "0 < q" by (rule present_sum [OF assms False])
  have r: "in_range (Fin (of_nat 100)) x" if "x \<in> set (map (\<lambda>(w, n). n * w) ?pv)" for x
    using that present_values_facts [OF assms] times_range [of 100] by auto
  have "length ?pv * 100 < 2 ^ 53" using present_values_length [of baselines by_type] by simp
  then have "in_range (Fin (of_nat (length (map (\<lambda>(w, n). n * w) ?pv) * 100))) (py_sum (map (\<lambda>(w, n). n * w) ?pv))"
    by (intro sum_range r) simp_all
  then have "0 \<le> py_sum (map (\<lambda>(w, n). n * w) ?pv)" by (simp add: in_range_def)
  with q False show ?thesis by (simp add: mean_severity_def divide_nonneg_pos)
qed (simp add: mean_severity_def)

lemma mean_severity_mono:
  assumes "list_all2 (\<lambda>(w, n) (w', n'). w' = w \<and> 0 \<le> n * w \<and> n * w \<le> n' * w) pv pv'"
    "pv \<noteq> [] \<Longrightarrow> \<exists>q. py_sum (map fst pv) = Fin q \<and> 0 < q"
  shows "mean_severity pv \<le> mean_severity pv'"
proof (cases "pv = []")
  case False
  have w: "map fst pv' = map fst pv"
    using assms(1) by (induction pv pv' rule: list_all2_induct) auto
  have "list_all2 le0 (map (\<lambda>(w, n). n * w) pv) (map (\<lambda>(w, n). n * w) pv')"
    using assms(1) by (auto simp: list_all2_map1 list_all2_map2 le0_def elim!: list_all2_mono)
  from py_sum_mono [OF this] obtain q where "py_sum (map (\<lambda>(w, n). n * w) pv) \<le> py_sum (map (\<lambda>(w, n). n * w) pv')"
    "py_sum (map fst pv) = Fin q" "0 < q"
    using assms(2) False by blast
  moreover have "pv' \<noteq> []" using assms(1) False by auto
  ultimately show ?thesis using False by (simp add: mean_severity_def w divide_mono_pos)
qed (use assms(1) in \<open>simp add: mean_severity_def\<close>)

section \<open>When a round returns\<close>

definition accepted_signal :: "raw_signal \<Rightarrow> bool" where
  "accepted_signal s \<longleftrightarrow> first_error (raw_signal_problems s) = None \<and> rw_effective_at s \<le> rw_fetched_at s \<and>
     (rw_raw_value s \<noteq> None \<longrightarrow> rw_evidence_ids s \<noteq> [])"

definition accepted_baselines :: "(risk_feature_type, anomaly_baseline) dict \<Rightarrow> bool" where
  "accepted_baselines baselines \<longleftrightarrow> list_all (\<lambda>t. case map_of baselines t of None \<Rightarrow> False
     | Some b \<Rightarrow> usable_baseline b \<and> is_sha256 (ab_fingerprint b)) RISK_FEATURES"

lemma accepted_baseline:
  assumes "accepted_baselines baselines"
  obtains b where "map_of baselines t = Some b" "usable_baseline b" "is_sha256 (ab_fingerprint b)"
  using assms all_feature_types [of t] by (auto simp: accepted_baselines_def list_all_iff split: option.splits)

lemma accepted_signals_by_type:
  assumes "list_all accepted_signal signals" "map_of (signals_by_type corridor_id signals) t = Some s"
  shows "accepted_signal s"
  using map_of_SomeD [OF assms(2)] dict_of_subset assms(1)
  by (fastforce simp: signals_by_type_def list_all_iff)

lemma accepted_readable:
  assumes "accepted_baselines baselines" "list_all accepted_signal signals"
  shows "readable baselines (signals_by_type corridor_id signals)"
proof -
  have "opt_ok usable_baseline (map_of baselines t)" for t
    by (rule accepted_baseline [OF assms(1), of t]) (simp add: opt_ok_def)
  moreover have "opt_ok isfinite (raw_of (map_of (signals_by_type corridor_id signals) t))" for t
    using accepted_signals_by_type [OF assms(2), of corridor_id t]
    by (cases "map_of (signals_by_type corridor_id signals) t")
      (auto simp: raw_of_def accepted_signal_def raw_signal_problems_def split: if_splits)
  ultimately show ?thesis by (simp add: readable_def list_all_iff)
qed

lemma texts_accepted:
  "len_between 1 50 ''severity_point''" "len_between 1 100 ''UNAVAILABLE''" "len_between 1 200 NORMALIZER_VERSION"
  "len_between 1 100 RISK_MODEL_VERSION" "len_between 1 100 BASELINE_VERSION"
  by code_simp+

lemma feature_accepted:
  assumes "opt_ok accepted_signal signal" "usable_baseline b" "is_sha256 (ab_fingerprint b)"
  shows "first_error (risk_feature_problems
    (feature_of uuid5 corridor_id at_time t b signal (map_option (normalize_value b) (raw_of signal)))) = None"
proof -
  have "opt_ok (in_range (Fin 100)) (map_option (normalize_value b) (raw_of signal))"
    using assms(1,2) normalize_value_range
    by (cases "raw_of signal"; cases signal) (auto simp: raw_of_def accepted_signal_def raw_signal_problems_def split: if_splits)
  moreover have "opt_ok isfinite (raw_of signal)"
    using assms(1) by (cases signal) (auto simp: raw_of_def accepted_signal_def raw_signal_problems_def split: if_splits)
  ultimately show ?thesis
    using assms(1,3) texts_accepted(1-3)
    by (cases signal)
      (auto simp: risk_feature_problems_def feature_of_def Let_def no_error_simps raw_of_def accepted_signal_def raw_signal_problems_def
        simp del: first_error.simps(2))
qed

lemma contribution_accepted:
  assumes "opt_ok (in_range (Fin 100)) normalized"
  shows "first_error (feature_contribution_problems (contribution_of t signal normalized)) = None"
proof -
  have "in_range (Fin 100) 0" by (simp add: in_range_def zero_pyfloat_def)
  then show ?thesis using assms risk_weight_range(1) [of t] times_range [of 100 _ "risk_weight t"]
    by (cases normalized)
      (simp_all add: feature_contribution_problems_def contribution_of_def no_error_simps del: first_error.simps(2))
qed

lemma round_returns:
  assumes "accepted_baselines baselines" "opt_ok accepted_signal (map_of by_type t)"
  shows "\<exists>y. risk_round uuid5 corridor_id at_time by_type baselines t = Inr y"
proof -
  obtain b where b: "map_of baselines t = Some b" "usable_baseline b" "is_sha256 (ab_fingerprint b)"
    by (rule accepted_baseline [OF assms(1)])
  let ?signal = "map_of by_type t" let ?n = "map_option (normalize_value b) (raw_of ?signal)"
  have raw: "opt_ok isfinite (raw_of ?signal)"
    using assms(2) by (cases ?signal) (auto simp: raw_of_def accepted_signal_def raw_signal_problems_def split: if_splits)
  then have n: "normalized_of b ?signal = Inr ?n" by (simp add: normalized_of_Inr)
  have "opt_ok (in_range (Fin 100)) ?n"
    using raw normalize_value_range [OF b(2)] by (cases "raw_of ?signal") auto
  moreover have "in_range 1 (nf_confidence (feature_of uuid5 corridor_id at_time t b ?signal ?n))"
    using assms(2) by (cases ?signal)
      (auto simp: feature_of_def Let_def accepted_signal_def raw_signal_problems_def in_range_def one_pyfloat_def
        zero_pyfloat_def split: if_splits)
  ultimately show ?thesis
    using feature_accepted [OF assms(2) b(2,3)] contribution_accepted
    by (simp add: risk_round_def b(1) Let_def n evidence_confidence_def validated_ok)
qed

lemma rounds_return:
  assumes "accepted_baselines baselines" "list_all accepted_signal signals"
  shows "\<exists>rounds. rtraverse (risk_round uuid5 corridor_id at_time (signals_by_type corridor_id signals) baselines)
    RISK_FEATURES = Inr rounds"
proof -
  have "opt_ok accepted_signal (map_of (signals_by_type corridor_id signals) t)" for t
    using accepted_signals_by_type [OF assms(2)] by (simp add: opt_ok_def split: option.splits)
  then have "\<forall>t. \<exists>y. risk_round uuid5 corridor_id at_time (signals_by_type corridor_id signals) baselines t = Inr y"
    using round_returns [OF assms(1)] by blast
  from choice [OF this] obtain g where
    "\<forall>t. risk_round uuid5 corridor_id at_time (signals_by_type corridor_id signals) baselines t = Inr (g t)" ..
  then show ?thesis by (auto intro!: rtraverse_Inr)
qed

section \<open>Completeness, confidence and the explanation\<close>

lemma unit_min_range: "0 \<le> x \<Longrightarrow> in_range 1 (py_min 1 x)"
  by (cases x) (auto simp: in_range_def py_min_def one_pyfloat_def zero_pyfloat_def)

lemma score_terms_range:
  assumes "s \<in> set (score_terms t signal normalized)" "opt_ok accepted_signal signal"
  shows "in_range 1 (sm_completeness s)" "in_range 1 (sm_confidence s)"
proof -
  obtain signal' where s: "signal = Some signal'" "accepted_signal signal'"
    "sm_completeness s = risk_weight t * freshness_factor signal'"
    "sm_confidence s = risk_weight t * rw_confidence signal' * freshness_factor signal'"
    using assms by (auto simp: score_terms_def split: option.splits)
  have c: "in_range 1 (rw_confidence signal')"
    using s(2) by (auto simp: accepted_signal_def raw_signal_problems_def split: if_splits)
  have f: "in_range 1 (freshness_factor signal')"
    by (simp add: freshness_factor_def in_range_def one_pyfloat_def)
  have "of_exact 1 = Fin 1" by simp
  from times_range [OF _ _ this] have r: "in_range 1 x \<Longrightarrow> in_range 1 y \<Longrightarrow> in_range 1 (x * y)" for x y
    unfolding in_range_1 .
  show "in_range 1 (sm_completeness s)" "in_range 1 (sm_confidence s)"
    unfolding s(3,4) using risk_weight_range(1) [of t] c f by (auto intro!: r)
qed

lemma rounds_terms_range:
  assumes "list_all2 (\<lambda>t y. risk_round uuid5 corridor_id at_time by_type baselines t = Inr y) RISK_FEATURES rounds"
    "\<And>t. opt_ok accepted_signal (map_of by_type t)" "s \<in> set (concat (map (snd \<circ> snd) rounds))"
  shows "in_range 1 (sm_completeness s) \<and> in_range 1 (sm_confidence s)"
proof -
  obtain f c ts where y: "(f, c, ts) \<in> set rounds" "s \<in> set ts" using assms(3) by force
  obtain t where "risk_round uuid5 corridor_id at_time by_type baselines t = Inr (f, c, ts)"
    using assms(1) y(1) by (auto simp: list_all2_conv_all_nth in_set_conv_nth)
  then obtain normalized where "ts = score_terms t (map_of by_type t) normalized"
    by (rule risk_round_parts) blast
  with y(2) score_terms_range [OF _ assms(2)] show ?thesis by blast
qed

lemma unit_sum_nonneg:
  assumes "\<And>x. x \<in> set xs \<Longrightarrow> in_range 1 x" "length xs \<le> 6" shows "0 \<le> py_sum xs"
proof -
  have "in_range (Fin (of_nat 1)) x" if "x \<in> set xs" for x using assms(1) [OF that] by (simp add: in_range_1)
  then have "in_range (Fin (of_nat (length xs * 1))) (py_sum xs)" using assms(2) by (intro sum_range) simp_all
  then show ?thesis by (simp add: in_range_def)
qed

lemma rounds_values_range:
  assumes "list_all2 (\<lambda>t y. risk_round uuid5 corridor_id at_time by_type baselines t = Inr y) RISK_FEATURES rounds"
    "\<And>t. opt_ok accepted_signal (map_of by_type t)" "readable baselines by_type"
  shows "in_range 1 (completeness_value (concat (map (snd \<circ> snd) rounds)))"
    "in_range 1 (confidence_value (concat (map (snd \<circ> snd) rounds)))"
proof -
  let ?terms = "concat (map (snd \<circ> snd) rounds)" and ?pv = "present_values baselines by_type"
  note w = rounds_weights [OF assms(1)] and r = rounds_terms_range [OF assms(1,2)]
  have l: "length ?terms \<le> 6" using arg_cong [OF w(1), of length] present_values_length [of baselines by_type] by simp
  have "0 \<le> py_sum (map sm_completeness ?terms)" using r l by (intro unit_sum_nonneg) auto
  then show "in_range 1 (completeness_value ?terms)" unfolding completeness_value_def by (rule unit_min_range)
  have c: "0 \<le> py_sum (map sm_confidence ?terms)" using r l by (intro unit_sum_nonneg) auto
  show "in_range 1 (confidence_value ?terms)"
  proof (cases "?pv = []")
    case False
    obtain q where "py_sum (map fst ?pv) = Fin q" "0 < q" by (rule present_sum [OF assms(3) False])
    with c show ?thesis by (simp add: confidence_value_def w unit_min_range divide_nonneg_pos)
  qed (simp add: confidence_value_def w py_sum_def in_range_def one_pyfloat_def)
qed

lemma dec_digits_length: "n < 10 ^ Suc k \<Longrightarrow> length (dec_digits n) \<le> Suc k"
proof (induction k arbitrary: n)
  case (Suc k)
  then have "n div 10 < 10 ^ Suc k" by simp
  from Suc.IH [OF this] show ?case by (subst dec_digits.simps) simp
qed (subst dec_digits.simps, simp)

lemma fixed_text_length:
  assumes "in_range (Fin 100) v" shows "length (fixed_text n v) \<le> n + 5"
proof -
  obtain q where q: "v = Fin q" "0 \<le> q" "q \<le> 100" using assms by (rule in_rangeE)
  have "rhe (\<bar>q\<bar> * 10 ^ n) \<le> rhe (of_int (100 * 10 ^ n))" using q by (intro rhe_mono) simp
  also have "rhe (of_int (100 * 10 ^ n)) < 10 ^ Suc (n + 2)" unfolding rhe_of_int by (simp add: power_add)
  finally have "rhe (\<bar>q\<bar> * 10 ^ n) < 10 ^ Suc (n + 2)" .
  from dec_digits_length [OF this] have "length (dec_digits (rhe (\<bar>q\<bar> * 10 ^ n))) \<le> n + 3" by simp
  then have s: "length (zero_padded (n + 1) (rhe (\<bar>q\<bar> * 10 ^ n))) \<le> n + 3" by (simp add: zero_padded_def Let_def)
  have "length (take m s @ (if n = 0 then '''' else ''.'' @ drop m s)) \<le> Suc (length s)" for m and s :: string
    by (auto simp: min_def)
  from le_trans [OF this] s q(2) show ?thesis by (simp add: fixed_text_def q(1) Let_def del: length_append)
qed

lemma risk_explanation_length:
  assumes "in_range (Fin 100) s" "in_range 1 c" "in_range 1 m"
  shows "len_between 1 2000 (risk_explanation s c m (corroborate features))"
proof -
  have r: "in_range (Fin 100) x" if "in_range 1 x" for x
    using that le_trans_pyfloat [of x 1 "Fin 100"] by (auto simp: in_range_def one_pyfloat_def)
  have "length (co_explanation (corroborate features)) \<le> 100" by (simp add: corroborate_def Let_def)
  then show ?thesis
    using fixed_text_length [OF assms(1), of 1] fixed_text_length [OF r [OF assms(2)], of 2] fixed_text_length [OF r [OF assms(3)], of 2]
    by (simp add: risk_explanation_def len_between_def)
qed

lemma rounds_features:
  assumes "list_all2 (\<lambda>t y. risk_round uuid5 corridor_id at_time by_type baselines t = Inr y) ts rounds"
  shows "map (nf_feature_type \<circ> fst) rounds = ts \<and> map (fn_feature_type \<circ> (fst \<circ> snd)) rounds = ts"
  using assms
proof (induction ts rounds rule: list_all2_induct)
  case (Cons t ts y ys)
  obtain f c terms where y: "y = (f, c, terms)" by (cases y)
  from Cons(1) [unfolded y] have "nf_feature_type f = t \<and> fn_feature_type c = t"
    by (rule risk_round_parts) (simp add: feature_of_def Let_def contribution_of_def)
  with Cons.IH show ?case by (simp add: y)
qed simp

section \<open>The calculation\<close>

abbreviation terms_of :: "(risk_feature \<times> feature_contribution \<times> score_term list) list \<Rightarrow> score_term list" where
  "terms_of rounds \<equiv> concat (map (snd \<circ> snd) rounds)"

lemma calculationE:
  assumes "calculate_corridor_risk uuid5 sha256 corridor_id name signals baselines failures calculated_at now = Inr r"
  obtains rounds where
    "list_all2 (\<lambda>t y. risk_round uuid5 corridor_id (calculated_time calculated_at now signals)
       (signals_by_type corridor_id signals) baselines t = Inr y) RISK_FEATURES rounds"
    "rtraverse (risk_round uuid5 corridor_id (calculated_time calculated_at now signals)
       (signals_by_type corridor_id signals) baselines) RISK_FEATURES = Inr rounds"
    "cr_features r = map fst rounds" "cr_contributions r = map (fst \<circ> snd) rounds"
    "cr_severity r = severity_value (terms_of rounds)" "cr_completeness r = completeness_value (terms_of rounds)"
    "cr_confidence r = confidence_value (terms_of rounds)" "cr_corroboration r = corroborate (map fst rounds)"
    "cr_lifecycle r = (if failures \<noteq> [] \<or> cr_completeness r < 1 then RK_DEGRADED else RK_CALCULATED)"
    "corridor_risk_valid sha256 r" "in_range (Fin 100) (cr_severity r)" "in_range 1 (cr_completeness r)"
    "in_range 1 (cr_confidence r)"
proof -
  obtain rounds where rounds: "rtraverse (risk_round uuid5 corridor_id (calculated_time calculated_at now signals)
      (signals_by_type corridor_id signals) baselines) RISK_FEATURES = Inr rounds"
    using assms by (auto simp: calculate_corridor_risk_def Let_def rbind_Inr_iff)
  note l = rtraverse_InrD [OF rounds]
  show thesis using assms
    unfolding calculate_corridor_risk_def Let_def rounds rbind_simps rbind_Inr_iff data_completeness_def
      evidence_confidence_def risk_severity_def validated_Inr no_error_simps not_not
    by (auto simp: risk_payload.defs corridor_risk.defs corridor_risk_valid_def intro!: that [OF l rounds])
qed

definition risk_texts_accepted :: "string \<Rightarrow> risk_source_failure list \<Rightarrow> bool" where
  "risk_texts_accepted name failures \<longleftrightarrow> len_between 1 200 name \<and>
     list_all (\<lambda>f. first_error (risk_source_failure_problems f) = None) failures"

lemma calculation_decided:
  fixes corridor_id :: uuid
  assumes "accepted_baselines baselines" "list_all accepted_signal signals" "risk_texts_accepted name failures"
    "\<forall>p. is_sha256 (sha256 p)"
  defines "severity \<equiv> mean_severity (present_values baselines (signals_by_type corridor_id signals))"
  shows "\<exists>r. calculate_corridor_risk uuid5 sha256 corridor_id name signals baselines failures calculated_at now =
    (if severity \<le> Fin 100 then Inr r else Inl (FieldError ''severity''))"
proof -
  let ?at = "calculated_time calculated_at now signals" and ?by = "signals_by_type corridor_id signals"
  obtain rounds where rounds: "rtraverse (risk_round uuid5 corridor_id ?at ?by baselines) RISK_FEATURES = Inr rounds"
    using rounds_return [OF assms(1,2)] by blast
  note l = rtraverse_InrD [OF rounds] and readable = accepted_readable [OF assms(1,2), of corridor_id]
  have signal: "opt_ok accepted_signal (map_of ?by t)" for t
    using accepted_signals_by_type [OF assms(2)] by (simp add: opt_ok_def split: option.splits)
  note v = rounds_values_range [OF l signal readable]
  have s: "severity_value (terms_of rounds) = severity" unfolding severity_def by (rule rounds_severity [OF l readable])
  have "0 \<le> severity" unfolding severity_def by (rule mean_severity_nonneg [OF readable])
  then have range: "in_range (Fin 100) severity \<longleftrightarrow> severity \<le> Fin 100" by (cases severity) (auto simp: in_range_def)
  have steps: "data_completeness (completeness_value (terms_of rounds)) = Inr (completeness_value (terms_of rounds))"
    "evidence_confidence (confidence_value (terms_of rounds)) = Inr (confidence_value (terms_of rounds))"
    using v by (simp_all add: data_completeness_def evidence_confidence_def validated_def)
  have parts: "first_error (risk_feature_problems f) = None \<and> first_error (feature_contribution_problems c) = None"
    if f: "(f, c, ts) \<in> set rounds" for f c ts
  proof -
    obtain t where "risk_round uuid5 corridor_id ?at ?by baselines t = Inr (f, c, ts)"
      using l f by (auto simp: list_all2_conv_all_nth in_set_conv_nth)
    then show ?thesis by (rule risk_round_parts) blast
  qed
  note types = rounds_features [OF l]
  show ?thesis
  proof (cases "severity \<le> Fin 100")
    case True
    then have sev: "risk_severity (severity_value (terms_of rounds)) = Inr severity"
      by (simp add: s risk_severity_def validated_def range)
    have e: "len_between 1 2000 (risk_explanation severity (confidence_value (terms_of rounds))
        (completeness_value (terms_of rounds)) (corroborate (map fst rounds)))"
      using True v by (intro risk_explanation_length) (simp_all add: range)
    have p: "\<not> list_ex (\<lambda>f. first_error (risk_feature_problems f) \<noteq> None) (map fst rounds)"
      "\<not> list_ex (\<lambda>c. first_error (feature_contribution_problems c) \<noteq> None) (map (fst \<circ> snd) rounds)"
      "\<not> list_ex (\<lambda>f. first_error (risk_source_failure_problems f) \<noteq> None) failures"
      using parts assms(3) by (fastforce simp: list_ex_iff risk_texts_accepted_def list_all_iff)+
    show ?thesis using True p types e assms(3,4) texts_accepted(4,5)
      unfolding calculate_corridor_risk_def Let_def rounds rbind_simps steps sev
      by (simp add: validated_Inr corridor_risk_problems_def no_error_simps risk_payload.defs
        corridor_risk.defs corridor_risk_fingerprint_def risk_texts_accepted_def del: first_error.simps(2))
  next
    case False
    then have "risk_severity (severity_value (terms_of rounds)) = Inl (FieldError ''severity'')"
      by (simp add: s risk_severity_def validated_def range)
    with False show ?thesis by (simp add: calculate_corridor_risk_def Let_def rounds steps)
  qed
qed

section \<open>Baselines\<close>

lemma baseline_for_Inr:
  "baseline_for sha256 observations at_time mean deviation t = Inr b \<longleftrightarrow>
     first_error (anomaly_baseline_problems sha256 b) = None \<and>
     in_calendar (at_time - int (length observations) * day_us) \<and>
     b = \<lparr>ab_feature_type = t, ab_window_starts_at = at_time - int (length observations) * day_us,
        ab_window_ends_at = at_time, ab_observations = observations, ab_mean = mean, ab_standard_deviation = deviation,
        ab_version = BASELINE_VERSION, ab_fingerprint = ab_fingerprint b\<rparr> \<and>
     ab_fingerprint b = sha256 (baseline_payload.truncate b)"
  by (cases b) (auto simp: baseline_for_def Let_def validated_Inr rbind_Inr_iff datetime_add_Inr baseline_payload.defs anomaly_baseline.defs)

lemma map_of_zip_in:
  assumes "list_all2 P ts ys" "t \<in> set ts" shows "\<exists>y. map_of (zip ts ys) t = Some y \<and> P t y"
  using assms by (induction ts ys rule: list_all2_induct) auto

lemma built_baselines:
  assumes "build_baselines sha256 observations at_time = Inr baselines"
  obtains mean where "fmean observations = Inr mean" "3 \<le> length observations" "list_all isfinite observations"
    "\<And>t. \<exists>b. map_of baselines t = Some b \<and> ab_feature_type b = t \<and> ab_mean b = mean \<and>
       ab_standard_deviation b = pstdev observations \<and> first_error (anomaly_baseline_problems sha256 b) = None"
proof -
  from assms obtain mean bs where b: "fmean observations = Inr mean" "baselines = zip RISK_FEATURES bs"
    "\<not> (length observations < 3 \<or> list_ex (\<lambda>v. \<not> isfinite v) observations)"
    "rtraverse (baseline_for sha256 observations at_time mean (pstdev observations)) RISK_FEATURES = Inr bs"
    by (auto simp: build_baselines_def Let_def rbind_Inr_iff rmap_def split: if_splits sum.splits)
  have "\<exists>b. map_of baselines t = Some b \<and> baseline_for sha256 observations at_time mean (pstdev observations) t = Inr b" for t
    unfolding b(2) by (rule map_of_zip_in [OF rtraverse_InrD [OF b(4)] all_feature_types])
  then have "\<exists>b. map_of baselines t = Some b \<and> ab_feature_type b = t \<and> ab_mean b = mean \<and>
      ab_standard_deviation b = pstdev observations \<and> first_error (anomaly_baseline_problems sha256 b) = None" for t
    unfolding baseline_for_Inr by (metis baseline_payload.select_convs(1,5,6))
  with b(1,3) that show thesis by (auto simp: list_all_iff list_ex_iff)
qed

lemma built_accepted:
  assumes "build_baselines sha256 observations at_time = Inr baselines"
  shows "accepted_baselines baselines"
proof -
  have "\<exists>b. map_of baselines t = Some b \<and> usable_baseline b \<and> is_sha256 (ab_fingerprint b)" for t
  proof -
    obtain b where "map_of baselines t = Some b" "first_error (anomaly_baseline_problems sha256 b) = None"
      by (rule built_baselines [OF assms]) blast
    then show ?thesis
      unfolding anomaly_baseline_problems_def no_error_simps by (auto simp: usable_baseline_def)
  qed
  then have "case map_of baselines t of None \<Rightarrow> False | Some b \<Rightarrow> usable_baseline b \<and> is_sha256 (ab_fingerprint b)" for t
    by (metis (no_types, lifting) option.simps(5))
  then show ?thesis by (simp add: accepted_baselines_def list_all_iff)
qed

section \<open>Returned results\<close>

lemma returned_readable:
  assumes "list_all2 (\<lambda>t y. risk_round uuid5 corridor_id at_time by_type baselines t = Inr y) RISK_FEATURES rounds"
    "accepted_baselines baselines"
  shows "readable baselines by_type"
proof -
  have "opt_ok isfinite (raw_of (map_of by_type t))" for t
  proof -
    obtain i where "i < length RISK_FEATURES" "t = RISK_FEATURES ! i"
      using all_feature_types [of t] by (metis in_set_conv_nth)
    with list_all2_nthD [OF assms(1)] have "risk_round uuid5 corridor_id at_time by_type baselines t = Inr (rounds ! i)" by simp
    then obtain f c ts where "risk_round uuid5 corridor_id at_time by_type baselines t = Inr (f, c, ts)"
      by (cases "rounds ! i") simp
    then show ?thesis by (rule risk_round_parts) blast
  qed
  moreover have "opt_ok usable_baseline (map_of baselines t)" for t
    by (rule accepted_baseline [OF assms(2), of t]) (simp add: opt_ok_def)
  ultimately show ?thesis by (simp add: readable_def list_all_iff)
qed

lemma calculation_severity:
  assumes "calculate_corridor_risk uuid5 sha256 corridor_id name signals baselines failures calculated_at now = Inr r"
    "accepted_baselines baselines"
  shows "readable baselines (signals_by_type corridor_id signals)"
    "cr_severity r = mean_severity (present_values baselines (signals_by_type corridor_id signals))"
  using calculationE [OF assms(1)] returned_readable [OF _ assms(2)] rounds_severity by metis+

lemma calculation_valid:
  assumes "calculate_corridor_risk uuid5 sha256 corridor_id name signals baselines failures calculated_at now = Inr r"
  shows "corridor_risk_valid sha256 r \<and> in_range (Fin 100) (cr_severity r) \<and> in_range 1 (cr_confidence r) \<and>
    in_range 1 (cr_completeness r)"
  by (rule calculationE [OF assms]) blast

lemma calculation_features:
  assumes "calculate_corridor_risk uuid5 sha256 corridor_id name signals baselines failures calculated_at now = Inr r"
  shows "map nf_feature_type (cr_features r) = RISK_FEATURES"
  by (rule calculationE [OF assms]) (use rounds_features in force)

end
