(* ===== verification/Risk_Props.thy ===== *)
theory Risk_Props imports Risk_Check Lifecycle begin

text \<open>
  The properties of the risk engine: when a calculation returns, what the severity is and how it
  moves with the signals, and what an open alert rests on; with concrete signals for the witnesses.
\<close>

section \<open>Concrete signals\<close>

definition risk_digest :: string where "risk_digest = replicate 64 CHR ''c''"

definition example_observations :: "pyfloat list" where
  "example_observations = [0, 0, Fin 2, Fin 2]"

text \<open>Baselines of mean 1 and standard deviation 1.\<close>

definition example_baselines :: "(risk_feature_type, anomaly_baseline) dict" where
  "example_baselines = map (\<lambda>t. (t, \<lparr>ab_feature_type = t, ab_window_starts_at = - 4 * day_us, ab_window_ends_at = 0,
     ab_observations = example_observations, ab_mean = Fin 1, ab_standard_deviation = Fin 1,
     ab_version = BASELINE_VERSION, ab_fingerprint = risk_digest\<rparr>)) RISK_FEATURES"

definition example_signal :: "risk_feature_type \<Rightarrow> pyfloat \<Rightarrow> pyfloat \<Rightarrow> raw_signal" where
  "example_signal t v confidence =
     \<lparr>rw_corridor_id = 5, rw_feature_type = t, rw_raw_value = Some v, rw_unit = ''point'', rw_source_id = feature_name t,
      rw_source_state = SS_READY, rw_freshness = F_RECENT, rw_truth_class = OBSERVED, rw_confidence = confidence,
      rw_effective_at = 0, rw_fetched_at = 0, rw_evidence_ids = [9]\<rparr>"

abbreviation assess :: "raw_signal list \<Rightarrow> corridor_risk res" where
  "assess signals \<equiv> calculate_corridor_risk (\<lambda>s. 7) (\<lambda>p. risk_digest) 5 ''strait'' signals example_baselines [] None 0"

lemma example_statistics: "fmean example_observations = Inr (Fin 1)" "pstdev example_observations = Fin 1"
  "is_sha256 risk_digest"
  by code_simp+

lemma example_baselines_built: "build_baselines (\<lambda>b. risk_digest) example_observations 0 = Inr example_baselines"
proof -
  have "baseline_for (\<lambda>b. risk_digest) example_observations 0 (Fin 1) (Fin 1) t = Inr
     \<lparr>ab_feature_type = t, ab_window_starts_at = - 4 * day_us, ab_window_ends_at = 0,
     ab_observations = example_observations, ab_mean = Fin 1, ab_standard_deviation = Fin 1,
     ab_version = BASELINE_VERSION, ab_fingerprint = risk_digest\<rparr>" for t
    using example_statistics(3) texts_accepted(5)
    by (simp add: baseline_for_Inr anomaly_baseline_problems_def len_between_def example_observations_def zero_pyfloat_def day_us_def
      in_calendar_def MIN_DATETIME_def MAX_DATETIME_def)
  then have "rtraverse (baseline_for (\<lambda>b. risk_digest) example_observations 0 (Fin 1) (Fin 1)) RISK_FEATURES =
      Inr (map snd example_baselines)"
    by (simp add: rtraverse_Inr example_baselines_def comp_def)
  moreover have "\<not> (length example_observations < 3 \<or> list_ex (\<lambda>v. \<not> isfinite v) example_observations)"
    "zip RISK_FEATURES (map snd example_baselines) = example_baselines"
    by (simp_all add: example_observations_def example_baselines_def comp_def zip_map2 zip_same_conv_map)
  ultimately show ?thesis by (simp add: build_baselines_def example_statistics)
qed

section \<open>The calculation\<close>

text \<open>C36: A calculation returns or fails by its severity. With built baselines, accepted signals and texts within
  their limits, the calculation of a corridor's risk returns a valid result, whose severity is the
  weighted mean of the normalised values of the features that are present, unless that mean,
  computed in floats, exceeds 100; then it raises the validation error of the severity.\<close>

theorem risk_calculation_decided:
  assumes "build_baselines baseline_sha256 observations window_end = Inr baselines" "list_all accepted_signal signals"
    "risk_texts_accepted name failures" "\<forall>p. is_sha256 (sha256 p)"
  shows "case calculate_corridor_risk uuid5 sha256 corridor_id name signals baselines failures calculated_at now of
      Inr r \<Rightarrow> corridor_risk_valid sha256 r \<and> cr_severity r \<le> Fin 100 \<and>
        cr_severity r = mean_severity (present_values baselines (signals_by_type corridor_id signals)) \<and>
        in_range 1 (cr_confidence r) \<and> in_range 1 (cr_completeness r) \<and>
        map nf_feature_type (cr_features r) = RISK_FEATURES
    | Inl e \<Rightarrow> e = FieldError ''severity'' \<and>
        \<not> mean_severity (present_values baselines (signals_by_type corridor_id signals)) \<le> Fin 100"
proof -
  let ?c = "calculate_corridor_risk uuid5 sha256 corridor_id name signals baselines failures calculated_at now"
  let ?severity = "mean_severity (present_values baselines (signals_by_type corridor_id signals))"
  note accepted = built_accepted [OF assms(1)]
  from calculation_decided [OF accepted assms(2-4)] obtain r where
    r: "?c = (if ?severity \<le> Fin 100 then Inr r else Inl (FieldError ''severity''))" by blast
  show ?thesis
  proof (cases "?severity \<le> Fin 100")
    case True
    with r have c: "?c = Inr r" by simp
    from calculation_severity [OF c accepted] calculation_features [OF c] calculation_valid [OF c] True c show ?thesis
      by simp
  qed (simp add: r)
qed

definition alarm :: "raw_signal list" where
  "alarm = [example_signal TRANSIT_ANOMALY (Fin 5) 1, example_signal GEOPOLITICAL_SEVERITY (Fin 4) 1,
     example_signal AIS_BEHAVIORAL_ANOMALY (Fin 4) 1, example_signal MARKET_STRESS (Fin 4) 1]"

definition weaker_alarm :: "raw_signal list" where
  "weaker_alarm = [example_signal TRANSIT_ANOMALY (Fin 3) 1, example_signal GEOPOLITICAL_SEVERITY (Fin 4) 0,
     example_signal AIS_BEHAVIORAL_ANOMALY (Fin 4) 1, example_signal MARKET_STRESS (Fin 2) 1]"

definition overload :: "raw_signal list" where
  "overload = [example_signal GEOPOLITICAL_SEVERITY (Fin 9) 1, example_signal AIS_BEHAVIORAL_ANOMALY (Fin 9) 1,
     example_signal SANCTIONS_EXPOSURE (Fin 9) 1]"

abbreviation present :: "raw_signal list \<Rightarrow> (pyfloat \<times> pyfloat) list" where
  "present signals \<equiv> present_values example_baselines (signals_by_type 5 signals)"

lemma examples_accepted:
  "list_all accepted_signal alarm" "list_all accepted_signal weaker_alarm" "list_all accepted_signal overload"
  "risk_texts_accepted ''strait'' []"
  by code_simp+

lemma examples_severity:
  "mean_severity (present alarm) \<le> Fin 100" "mean_severity (present weaker_alarm) \<le> Fin 100"
  "\<not> mean_severity (present overload) \<le> Fin 100" "list_all (\<lambda>(w, n). n = Fin 100) (present overload)"
  by code_simp+

lemma digest_everywhere: "\<forall>p :: risk_payload. is_sha256 risk_digest"
  using example_statistics(3) by simp

lemma example_accepted: "accepted_baselines example_baselines"
  by (rule built_accepted [OF example_baselines_built])

lemma assess_returns:
  assumes "list_all accepted_signal signals" "mean_severity (present signals) \<le> Fin 100"
  shows "\<exists>r. assess signals = Inr r"
  using calculation_decided [where ?sha256.0 = "\<lambda>p. risk_digest", OF example_accepted assms(1) examples_accepted(4) digest_everywhere]
    assms(2) by metis

theorem risk_calculation_decided_witness:
  "\<exists>r. assess alarm = Inr r \<and> cr_severity r = mean_severity (present alarm)"
proof -
  obtain r where "assess alarm = Inr r" using assess_returns [OF examples_accepted(1) examples_severity(1)] by blast
  with risk_calculation_decided [where ?sha256.0 = "\<lambda>p. risk_digest" and ?uuid5.0 = "\<lambda>s. 7" and corridor_id = 5
      and calculated_at = None and now = 0,
      OF example_baselines_built examples_accepted(1) examples_accepted(4) digest_everywhere]
  show ?thesis by simp
qed

text \<open>C37: Rounding can push a severity out of its range. There are accepted signals, all at the top of the
  scale, whose weighted mean in floats is above 100, so that the calculation of the risk raises.\<close>

theorem severity_rounding_raises:
  "\<exists>signals. list_all accepted_signal signals \<and> list_all (\<lambda>(w, n). n = Fin 100) (present signals) \<and>
     assess signals = Inl (FieldError ''severity'')"
proof -
  have "assess overload = Inl (FieldError ''severity'')"
    using calculation_decided [where ?sha256.0 = "\<lambda>p. risk_digest", OF example_accepted examples_accepted(3,4) digest_everywhere]
      examples_severity(3) by metis
  with examples_accepted(3) examples_severity(4) show ?thesis by blast
qed

section \<open>Stronger signals\<close>

definition raised_value :: "pyfloat option \<Rightarrow> pyfloat option \<Rightarrow> bool" where
  "raised_value v v' = (case (v, v') of (None, None) \<Rightarrow> True | (Some x, Some y) \<Rightarrow> x \<le> y | _ \<Rightarrow> False)"

text \<open>The same features have a value in both lists of signals, and no value is lower in the second.\<close>

definition stronger_signals :: "uuid \<Rightarrow> raw_signal list \<Rightarrow> raw_signal list \<Rightarrow> bool" where
  "stronger_signals corridor_id signals signals' \<longleftrightarrow> list_all (\<lambda>t. raised_value
     (raw_of (map_of (signals_by_type corridor_id signals) t)) (raw_of (map_of (signals_by_type corridor_id signals') t))) RISK_FEATURES"

lemma map_filter_related:
  "(\<And>x. x \<in> set xs \<Longrightarrow> case (f x, g x) of (None, None) \<Rightarrow> True | (Some a, Some b) \<Rightarrow> R a b | _ \<Rightarrow> False) \<Longrightarrow>
     list_all2 R (List.map_filter f xs) (List.map_filter g xs)"
proof (induction xs)
  case (Cons x xs)
  then have "list_all2 R (List.map_filter f xs) (List.map_filter g xs)" by simp
  with Cons.prems [of x] show ?case by (auto simp: List.map_filter_simps split: option.splits)
qed (simp add: List.map_filter_simps)

lemma stronger_values:
  assumes "stronger_signals corridor_id signals signals'" "readable baselines (signals_by_type corridor_id signals)"
    "accepted_baselines baselines"
  shows "list_all2 (\<lambda>(w, n) (w', n'). w' = w \<and> 0 \<le> n * w \<and> n * w \<le> n' * w)
    (present_values baselines (signals_by_type corridor_id signals)) (present_values baselines (signals_by_type corridor_id signals'))"
  unfolding present_values_def
proof (rule map_filter_related)
  fix t assume "t \<in> set RISK_FEATURES"
  then have raised: "raised_value (raw_of (map_of (signals_by_type corridor_id signals) t))
      (raw_of (map_of (signals_by_type corridor_id signals') t))"
    using assms(1) by (simp add: stronger_signals_def list_all_iff)
  obtain b where b: "map_of baselines t = Some b" "usable_baseline b" by (rule accepted_baseline [OF assms(3)])
  obtain w where w: "risk_weight t = Fin w" "0 < w"
    using risk_weight_range [of t] by (auto simp: in_range_1 zero_pyfloat_def elim!: in_rangeE)
  have n: "0 \<le> normalize_value b v * Fin w \<and> normalize_value b v * Fin w \<le> normalize_value b v' * Fin w"
    if "isfinite v" "v \<le> v'" for v v'
    using normalize_value_range [OF b(2) that(1)] normalize_value_mono [OF b(2) that(2)] w(2)
    by (auto simp: in_range_def intro!: mult_nonneg_pyfloat times_mono_pos)
  show "case (present_value baselines (signals_by_type corridor_id signals) t, present_value baselines (signals_by_type corridor_id signals') t)
      of (None, None) \<Rightarrow> True
       | (Some a, Some b) \<Rightarrow> (case a of (w, n) \<Rightarrow> \<lambda>(w', n'). w' = w \<and> 0 \<le> n * w \<and> n * w \<le> n' * w) b
       | _ \<Rightarrow> False"
    using raised readableD(2) [OF assms(2), of t] n
    by (auto simp: present_value_def b(1) raised_value_def w(1) split: option.splits)
qed

text \<open>C38: The severity does not fall when signals grow. For the same baselines and the same features with a
  value, raising raw values never lowers the severity, in Python's float arithmetic and whatever the
  confidence, freshness and sources of the signals are.\<close>

theorem risk_severity_monotone:
  assumes "build_baselines baseline_sha256 observations window_end = Inr baselines"
    "calculate_corridor_risk uuid5 sha256 corridor_id name signals baselines failures calculated_at now = Inr r"
    "calculate_corridor_risk uuid5' sha256' corridor_id name' signals' baselines failures' calculated_at' now' = Inr r'"
    "stronger_signals corridor_id signals signals'"
  shows "cr_severity r \<le> cr_severity r'"
proof -
  note accepted = built_accepted [OF assms(1)]
  note s = calculation_severity [OF assms(2) accepted] calculation_severity(2) [OF assms(3) accepted]
  have "\<exists>q. py_sum (map fst (present_values baselines (signals_by_type corridor_id signals))) = Fin q \<and> 0 < q"
    if "present_values baselines (signals_by_type corridor_id signals) \<noteq> []"
    using present_sum [OF s(1) that] by blast
  from mean_severity_mono [OF stronger_values [OF assms(4) s(1) accepted] this] show ?thesis unfolding s(2,3) .
qed

lemma example_stronger: "stronger_signals 5 weaker_alarm alarm"
  by code_simp

theorem risk_severity_monotone_witness:
  "\<exists>r r'. assess weaker_alarm = Inr r \<and> assess alarm = Inr r' \<and> cr_severity r \<le> cr_severity r'"
proof -
  obtain r r' where "assess weaker_alarm = Inr r" "assess alarm = Inr r'"
    using assess_returns [OF examples_accepted(1) examples_severity(1)] assess_returns [OF examples_accepted(2) examples_severity(2)]
    by blast
  with risk_severity_monotone [OF example_baselines_built _ _ example_stronger] show ?thesis by blast
qed

section \<open>Alerts\<close>

lemma evaluated_alert:
  assumes "evaluate_alert uuid5 rule r t = Inr a"
  shows "at_status a = snd (alert_band rule r)" "at_severity_band a = fst (alert_band rule r)"
    "at_severity a = cr_severity r" "at_risk_fingerprint a = cr_fingerprint r"
  using assms by (auto simp: evaluate_alert_def Let_def validated_Inr)

lemma two_different:
  assumes "2 \<le> length (remdups (map f xs))" shows "\<exists>x \<in> set xs. \<exists>y \<in> set xs. f x \<noteq> f y"
proof (rule ccontr)
  assume n: "\<not> ?thesis"
  have "set (remdups (map f xs)) \<subseteq> {f (hd xs)}"
  proof
    fix z assume "z \<in> set (remdups (map f xs))"
    then obtain x where "x \<in> set xs" "z = f x" by auto
    with n show "z \<in> {f (hd xs)}" by (cases xs) auto
  qed
  from card_mono [OF _ this] have "card (set (remdups (map f xs))) \<le> 1" by simp
  with assms show False by (simp only: distinct_card [OF distinct_remdups])
qed

lemma corroborated:
  assumes "co_passed (corroborate features)"
  shows "(\<exists>f \<in> set features. \<exists>g \<in> set features. fresh_high f \<and> fresh_high g \<and> nf_source_id f \<noteq> nf_source_id g) \<and>
    (\<exists>f \<in> set features. fresh_high f \<and> operational (nf_feature_type f))"
proof -
  have "2 \<le> length (remdups (map nf_source_id (filter fresh_high features)))"
    "filter operational (map nf_feature_type (filter fresh_high features)) \<noteq> []"
    using assms by (simp_all add: corroborate_def Let_def comp_def)
  with two_different [of nf_source_id "filter fresh_high features"] show ?thesis by (auto simp: filter_empty_conv)
qed

text \<open>C39: An open alert rests on corroborated evidence. If the alert of a calculated risk is open, the severity is
  at least 50, the confidence at least 0.55 and the completeness at least 0.65; two features of
  different sources are fresh and normalised to 50 or more, and one such feature is operational; the
  alert is critical exactly when the severity is at least 75.\<close>

theorem open_alert_corroborated:
  assumes "calculate_corridor_risk uuid5 sha256 corridor_id name signals baselines failures calculated_at now = Inr r"
    "evaluate_alert uuid5' ALERT_RULE r t = Inr a" "at_status a = AT_OPEN"
  shows "Fin 50 \<le> at_severity a \<and> fl (55 / 100) \<le> cr_confidence r \<and> fl (65 / 100) \<le> cr_completeness r \<and>
    (at_severity_band a = AL_CRITICAL \<longleftrightarrow> Fin 75 \<le> at_severity a) \<and>
    (\<exists>f \<in> set (cr_features r). \<exists>g \<in> set (cr_features r). fresh_high f \<and> fresh_high g \<and> nf_source_id f \<noteq> nf_source_id g) \<and>
    (\<exists>f \<in> set (cr_features r). fresh_high f \<and> operational (nf_feature_type f))"
proof -
  have r: "ar_high_threshold ALERT_RULE = Fin 50" "ar_critical_threshold ALERT_RULE = Fin 75"
    "ar_minimum_confidence ALERT_RULE = fl (55 / 100)" "ar_minimum_completeness ALERT_RULE = fl (65 / 100)"
    by (simp_all add: ALERT_RULE_def)
  note a = evaluated_alert [OF assms(2)]
  have e: "evidence_sufficient ALERT_RULE r" "Fin 50 \<le> cr_severity r"
    "at_severity_band a = AL_CRITICAL \<longleftrightarrow> Fin 75 \<le> cr_severity r"
    using assms(3) le_trans_pyfloat [of "Fin 50" "Fin 75" "cr_severity r"]
    unfolding a alert_band_def r by (auto split: if_splits)
  obtain features where f: "cr_features r = features" "cr_corroboration r = corroborate features"
    by (rule calculationE [OF assms(1)]) simp
  from e(1) have "co_passed (corroborate features)" "fl (55 / 100) \<le> cr_confidence r" "fl (65 / 100) \<le> cr_completeness r"
    unfolding evidence_sufficient_def r f by blast+
  with corroborated [OF this(1)] e(2,3) show ?thesis unfolding a f by blast
qed

lemma alarm_rounds:
  "case rtraverse (risk_round (\<lambda>s. 7) 5 0 (signals_by_type 5 alarm) example_baselines) RISK_FEATURES of
     Inl e \<Rightarrow> False
   | Inr rounds \<Rightarrow> Fin 75 \<le> severity_value (terms_of rounds) \<and> fl (55 / 100) \<le> confidence_value (terms_of rounds) \<and>
       fl (65 / 100) \<le> completeness_value (terms_of rounds) \<and> co_passed (corroborate (map fst rounds))"
  by code_simp

lemma alert_accepted:
  assumes "calculate_corridor_risk uuid5 sha256 corridor_id name signals baselines failures calculated_at now = Inr r"
  shows "\<exists>a. evaluate_alert uuid5' rule r t = Inr a"
proof -
  obtain features where "cr_corroboration r = corroborate features"
    by (rule calculationE [OF assms]) blast
  then have c: "length (co_explanation (cr_corroboration r)) \<le> 100" by (simp add: corroborate_def Let_def)
  have v: "corridor_risk_valid sha256 r" "in_range (Fin 100) (cr_severity r)" "in_range (Fin 100) (cr_confidence r)"
    "in_range (Fin 100) (cr_completeness r)"
    using calculation_valid [OF assms] le_trans_pyfloat [of _ 1 "Fin 100"]
    by (auto simp: in_range_def one_pyfloat_def)
  then have "is_sha256 (cr_fingerprint r)"
    unfolding corridor_risk_valid_def corridor_risk_problems_def no_error_simps by blast
  moreover have "len_between 1 2000 (alert_explanation b r)" for b
  proof -
    have "length (band_name b) \<le> 8" by (cases b) simp_all
    then show ?thesis
      using fixed_text_length [OF v(2), of 1] fixed_text_length [OF v(3), of 2] fixed_text_length [OF v(4), of 2] c
      by (simp add: alert_explanation_def len_between_def)
  qed
  ultimately show ?thesis
    by (simp add: evaluate_alert_def Let_def validated_Inr alert_result_problems_def len_between_def)
qed

theorem open_alert_corroborated_witness:
  "\<exists>r a. assess alarm = Inr r \<and> evaluate_alert (\<lambda>s. 8) ALERT_RULE r 0 = Inr a \<and> at_status a = AT_OPEN \<and>
     at_severity_band a = AL_CRITICAL"
proof -
  obtain r where r: "assess alarm = Inr r" using assess_returns [OF examples_accepted(1) examples_severity(1)] by blast
  obtain a where a: "evaluate_alert (\<lambda>s. 8) ALERT_RULE r 0 = Inr a" using alert_accepted [OF r] by blast
  have "calculated_time None 0 alarm = 0" by (simp add: calculated_time_def alarm_def example_signal_def)
  with alarm_rounds have e: "Fin 75 \<le> cr_severity r \<and> evidence_sufficient ALERT_RULE r"
    by (rule_tac calculationE [OF r]) (simp add: evidence_sufficient_def ALERT_RULE_def)
  then have "alert_band ALERT_RULE r = (AL_CRITICAL, AT_OPEN)" by (simp add: alert_band_def ALERT_RULE_def)
  with evaluated_alert [OF a] have s: "at_status a = AT_OPEN" "at_severity a = cr_severity r" by simp_all
  from open_alert_corroborated [OF r a s(1)] e s(2) r a s(1) show ?thesis by auto
qed

end
