(* ===== verification/Risk_Service.thy ===== *)
theory Risk_Service imports Risk_Engine Plan_Store Twin_Contracts "HOL-Library.Product_Lexorder" begin

text \<open>
  The recorded signals of \<open>sanjiv/risk/adapters/fixture.py\<close>, the backtest over them
  (\<open>risk/backtest.py\<close>), the in-memory repository and the service that seeds it
  (\<open>risk/repository.py\<close>, \<open>risk/service.py\<close>). The replay file is given parsed; measured times,
  hashes and \<open>uuid5\<close> are parameters.
\<close>

section \<open>The replay adapter\<close>

record replay_case =
  rx_case_id :: string
  rx_label :: string
  rx_corridor :: string
  rx_expected_alert :: bool
  rx_lead_hours :: pyfloat
  rx_features :: "(string, pyfloat option) dict"
  rx_stale_features :: "string list"

definition replay_case_problems :: "replay_case \<Rightarrow> (bool \<times> py_error) list" where
  "replay_case_problems c = [(\<not> non_negative (rx_lead_hours c), FieldError ''lead_hours'')]"

record replay_payload =
  ry_classification :: replay_classification
  ry_baseline :: "pyfloat list"
  ry_cases :: "replay_case list"

definition replay_payload_problems :: "replay_payload \<Rightarrow> (bool \<times> py_error) list" where
  "replay_payload_problems p =
    [(ry_classification p \<noteq> SYNTHETIC_FIXTURE, FieldError ''classification''),
     (length (ry_baseline p) < 3, FieldError ''baseline''),
     (ry_cases p = [] \<or> list_ex (\<lambda>c. first_error (replay_case_problems c) \<noteq> None) (ry_cases p), FieldError ''cases'')]"

record replay_manifest =
  rm_dataset_id :: string
  rm_classification :: replay_classification
  rm_checksum_sha256 :: string
  rm_case_count :: int

text \<open>\<open>_load\<close>, given the digest of the data file.\<close>

definition load_replay :: "replay_manifest \<Rightarrow> string \<Rightarrow> replay_payload \<Rightarrow> (replay_manifest \<times> replay_payload) res" where
  "load_replay manifest digest payload = validated
    ([(rm_case_count manifest \<le> 0, FieldError ''case_count''),
      (rm_classification manifest \<noteq> SYNTHETIC_FIXTURE, ValueError ''risk replay must be explicitly classified''),
      (digest \<noteq> rm_checksum_sha256 manifest, ValueError ''risk replay checksum mismatch'')]
     @ replay_payload_problems payload @
     [(int (length (ry_cases payload)) \<noteq> rm_case_count manifest, ValueError ''risk replay case count mismatch'')])
    (manifest, payload)"

fun feature_source :: "risk_feature_type \<Rightarrow> string" where
  "feature_source TRANSIT_ANOMALY = ''IMF_PORTWATCH''"
| "feature_source GEOPOLITICAL_SEVERITY = ''GDELT''"
| "feature_source AIS_BEHAVIORAL_ANOMALY = ''AIS_PHASE_1''"
| "feature_source MARKET_STRESS = ''EIA_FRED''"
| "feature_source SANCTIONS_EXPOSURE = ''SANCTIONS_BOUNDARY''"
| "feature_source INFRASTRUCTURE_PHYSICAL_SIGNAL = ''NASA_FIRMS''"

text \<open>2026-07-21 12:00 UTC, the instant of every replay.\<close>

definition REPLAY_AT :: datetime where "REPLAY_AT = 1784635200000000"

definition case_value :: "replay_case \<Rightarrow> risk_feature_type \<Rightarrow> pyfloat option" where
  "case_value c feature = (case map_of (rx_features c) (feature_name feature) of None \<Rightarrow> None | Some v \<Rightarrow> v)"

definition replay_signal :: "uuid5_fun \<Rightarrow> replay_case \<Rightarrow> risk_feature_type \<Rightarrow> raw_signal res" where
  "replay_signal uuid5 c feature =
    (let value = case_value c feature; missing = (value = None);
         stale = (feature_name feature \<in> set (rx_stale_features c));
         s = \<lparr>rw_corridor_id = canonical_uuid uuid5 (rx_corridor c), rw_feature_type = feature, rw_raw_value = value,
           rw_unit = ''fixture_signal_point'', rw_source_id = feature_source feature,
           rw_source_state = (if missing then SS_UNAVAILABLE else if stale then SS_DEGRADED else SS_READY),
           rw_freshness = (if missing then F_UNAVAILABLE else if stale then F_STALE else F_REPLAY),
           rw_truth_class = ASSUMPTION,
           rw_confidence = (if missing then 0 else if stale then fl (35 / 100) else fl (75 / 100)),
           rw_effective_at = (if stale then REPLAY_AT - 7 * day_us else REPLAY_AT), rw_fetched_at = REPLAY_AT,
           rw_evidence_ids = (if missing then []
             else [uuid5 (''urn:sanjiv:risk-evidence:'' @ rx_case_id c @ '':'' @ feature_name feature)])\<rparr>
     in validated (raw_signal_problems s) s)"

definition replay_failures :: "replay_case \<Rightarrow> risk_feature_type \<Rightarrow> risk_source_failure list" where
  "replay_failures c feature =
    (let missing = (case_value c feature = None); stale = (feature_name feature \<in> set (rx_stale_features c)) in
     if missing \<or> stale then
       [\<lparr>sf_source_id = feature_source feature, sf_code = (if missing then RF_UNAVAILABLE else RF_STALE),
         sf_message = (if missing then ''Replay source is unavailable.''
                       else ''Replay source exceeds its freshness threshold.''),
         sf_retryable = missing, sf_occurred_at = REPLAY_AT\<rparr>]
     else [])"

definition missing_case_failure :: "datetime \<Rightarrow> risk_source_failure" where
  "missing_case_failure now =
     \<lparr>sf_source_id = ''SANJIV_RISK_REPLAY'', sf_code = RF_INVALID_PAYLOAD,
      sf_message = ''Requested replay case is not present.'', sf_retryable = False, sf_occurred_at = now\<rparr>"

definition fetch_case ::
  "uuid5_fun \<Rightarrow> replay_payload \<Rightarrow> datetime \<Rightarrow> string \<Rightarrow> (raw_signal list \<times> risk_source_failure list) res" where
  "fetch_case uuid5 payload now case_id =
    (case find (\<lambda>c. rx_case_id c = case_id) (ry_cases payload) of
       None \<Rightarrow> Inr ([], [missing_case_failure now])
     | Some c \<Rightarrow> rmap (\<lambda>signals. (signals, concat (map (replay_failures c) RISK_FEATURES)))
         (rtraverse (replay_signal uuid5 c) RISK_FEATURES))"

section \<open>Assessments and the backtest\<close>

text \<open>The hashes, \<open>uuid5\<close>, the clock and the measured times.\<close>

record risk_world =
  wk_uuid5 :: uuid5_fun
  wk_baseline_hash :: baseline_hash
  wk_risk_hash :: risk_hash
  wk_backtest_hash :: backtest_hash
  wk_point_hash :: "string \<times> string \<Rightarrow> string"
  wk_now :: datetime
  wk_case_runtime :: "string \<Rightarrow> pyfloat"
  wk_runtime :: pyfloat

text \<open>The risk and the alert of one replayed case; \<open>signals[0]\<close> raises for a case that is not in the file.\<close>

definition assess_case ::
  "risk_world \<Rightarrow> replay_payload \<Rightarrow> (risk_feature_type, anomaly_baseline) dict \<Rightarrow> string \<Rightarrow> string
     \<Rightarrow> (corridor_risk \<times> alert_result) res" where
  "assess_case world payload baselines case_id corridor =
     rbind (fetch_case (wk_uuid5 world) payload (wk_now world) case_id) (\<lambda>(signals, failures).
     case signals of
       [] \<Rightarrow> Inl IndexError
     | first # _ \<Rightarrow>
       rbind (calculate_corridor_risk (wk_uuid5 world) (wk_risk_hash world) (rw_corridor_id first) corridor signals
         baselines failures (Some REPLAY_AT) (wk_now world)) (\<lambda>risk.
       rmap (\<lambda>alert. (risk, alert)) (evaluate_alert (wk_uuid5 world) ALERT_RULE risk REPLAY_AT)))"

definition backtest_case_of :: "risk_world \<Rightarrow> replay_case \<Rightarrow> corridor_risk \<times> alert_result \<Rightarrow> backtest_case res" where
  "backtest_case_of world c assessed =
    (case assessed of (risk, alert) \<Rightarrow>
     let actual = (at_status alert = AT_OPEN \<and> at_severity_band alert \<in> {AL_HIGH, AL_CRITICAL});
         expected = rx_expected_alert c;
         b = \<lparr>bc_case_id = rx_case_id c, bc_label = rx_label c, bc_expected_alert = expected, bc_actual_alert = actual,
           bc_severity = cr_severity risk, bc_confidence = cr_confidence risk, bc_completeness = cr_completeness risk,
           bc_lead_time_hours = (if actual \<and> expected then rx_lead_hours c else 0),
           bc_runtime_ms = wk_case_runtime world (rx_case_id c), bc_stable = (actual = expected)\<rparr>
     in validated (backtest_case_problems b) b)"

definition count_of :: "(backtest_case \<Rightarrow> bool) \<Rightarrow> backtest_case list \<Rightarrow> nat" where
  "count_of p cases = length (filter p cases)"

text \<open>Division of two counts and the mean of floats, for a positive divisor.\<close>

definition count_ratio :: "nat \<Rightarrow> nat \<Rightarrow> pyfloat" where
  "count_ratio a b = of_exact (of_nat a / of_nat b)"

definition list_mean :: "pyfloat list \<Rightarrow> pyfloat" where
  "list_mean xs = py_sum xs / Fin (of_nat (length xs))"

definition backtest_of :: "risk_world \<Rightarrow> replay_manifest \<Rightarrow> backtest_case list \<Rightarrow> backtest_result res" where
  "backtest_of world manifest cases =
    (let detected = (\<lambda>c. bc_expected_alert c \<and> bc_actual_alert c);
         emitted = count_of bc_actual_alert cases;
         leads = map bc_lead_time_hours (filter detected cases);
         payload = \<lparr>bk_backtest_id = wk_uuid5 world (''urn:sanjiv:risk-backtest:'' @ rm_checksum_sha256 manifest @ '':''
             @ RISK_MODEL_VERSION),
           bk_library_id = rm_dataset_id manifest, bk_classification = rm_classification manifest,
           bk_checksum_sha256 = rm_checksum_sha256 manifest, bk_model_version = RISK_MODEL_VERSION, bk_cases = cases,
           bk_detection_lead_time_hours = (if leads = [] then 0 else list_mean leads),
           bk_precision = (if emitted = 0 then 0 else count_ratio (count_of detected cases) emitted),
           bk_false_positives = count_of (\<lambda>c. \<not> bc_expected_alert c \<and> bc_actual_alert c) cases,
           bk_mean_completeness = list_mean (map bc_completeness cases),
           bk_source_failure_case_count = count_of (\<lambda>c. bc_completeness c < 1) cases,
           bk_alert_stability = count_ratio (count_of bc_stable cases) (length cases),
           bk_runtime_ms = wk_runtime world\<rparr>;
         r = backtest_payload.extend payload (backtest_result.fields (wk_backtest_hash world
               (payload\<lparr>bk_runtime_ms := 0, bk_cases := map (\<lambda>c. c\<lparr>bc_runtime_ms := 0\<rparr>) cases\<rparr>)))
     in if cases = [] then Inl ZeroDivisionError
        else validated (backtest_result_problems (wk_backtest_hash world) r) r)"

definition run_fixture_backtest :: "risk_world \<Rightarrow> replay_manifest \<Rightarrow> replay_payload \<Rightarrow> backtest_result res" where
  "run_fixture_backtest world manifest payload =
     rbind (build_baselines (wk_baseline_hash world) (ry_baseline payload) REPLAY_AT) (\<lambda>baselines.
     rbind (rtraverse (\<lambda>c. rbind (assess_case world payload baselines (rx_case_id c) (rx_corridor c))
         (backtest_case_of world c)) (ry_cases payload))
       (backtest_of world manifest))"

section \<open>The repository\<close>

record risk_store =
  rs_risks :: "(uuid, corridor_risk) dict"
  rs_alerts :: "(uuid, alert_result) dict"
  rs_baselines :: "(string, anomaly_baseline) dict"
  rs_timeline :: "risk_timeline_point list"
  rs_backtests :: "(uuid, backtest_result) dict"

definition empty_risk_store :: risk_store where
  "empty_risk_store = \<lparr>rs_risks = [], rs_alerts = [], rs_baselines = [], rs_timeline = [], rs_backtests = []\<rparr>"

definition point_key :: "risk_timeline_point \<Rightarrow> uuid \<times> datetime \<times> string" where
  "point_key p = (tl_corridor_id p, tl_effective_at p, tl_risk_fingerprint p)"

definition add_point :: "risk_timeline_point list \<Rightarrow> risk_timeline_point \<Rightarrow> risk_timeline_point list" where
  "add_point ps p = (if point_key p \<in> set (map point_key ps) then ps else ps @ [p])"

definition save_risks ::
  "risk_store \<Rightarrow> corridor_risk list \<Rightarrow> anomaly_baseline list \<Rightarrow> alert_result list \<Rightarrow> risk_timeline_point list
     \<Rightarrow> backtest_result \<Rightarrow> risk_store" where
  "save_risks st risks baselines alerts timeline backtest =
     \<lparr>rs_risks = foldl set_default (rs_risks st) (map (\<lambda>r. (cr_risk_id r, r)) risks),
      rs_alerts = foldl set_default (rs_alerts st) (map (\<lambda>a. (at_alert_id a, a)) alerts),
      rs_baselines = foldl set_default (rs_baselines st) (map (\<lambda>b. (ab_fingerprint b, b)) baselines),
      rs_timeline = foldl add_point (rs_timeline st) timeline,
      rs_backtests = set_default (rs_backtests st) (bk_backtest_id backtest, backtest)\<rparr>"

text \<open>Sorted by falling severity, then by the text of the identifier.\<close>

definition current_risks :: "risk_store \<Rightarrow> corridor_risk list" where
  "current_risks st = sort_key (\<lambda>r. (- exact_of (cr_severity r), cr_corridor_id r)) (map snd (rs_risks st))"

definition current_alerts :: "risk_store \<Rightarrow> alert_result list" where
  "current_alerts st = sort_key (\<lambda>a. (- exact_of (at_severity a), at_alert_id a)) (map snd (rs_alerts st))"

definition risk_timeline :: "risk_store \<Rightarrow> uuid \<Rightarrow> risk_timeline_point list" where
  "risk_timeline st corridor_id = sort_key tl_effective_at (filter (\<lambda>p. tl_corridor_id p = corridor_id) (rs_timeline st))"

section \<open>The service\<close>

definition CURRENT_CASES :: "string list" where
  "CURRENT_CASES = [''true-disruption-escalation'', ''port-chokepoint-anomaly'', ''source-outage'',
     ''sanctions-change'', ''ais-without-corroboration'']"

definition timeline_points ::
  "risk_world \<Rightarrow> backtest_result \<Rightarrow> (string, replay_case) dict \<Rightarrow> corridor_risk list \<Rightarrow> nat \<times> backtest_case
     \<Rightarrow> risk_timeline_point list res" where
  "timeline_points world backtest raw_cases current indexed =
    (case indexed of (index, c) \<Rightarrow>
     case map_of raw_cases (bc_case_id c) of
       None \<Rightarrow> Inl KeyError
     | Some raw \<Rightarrow>
       (case find (\<lambda>r. cr_corridor_name r = rx_corridor raw) current of
          None \<Rightarrow> Inr []
        | Some named \<Rightarrow>
          (case map_of (dict_of (map (\<lambda>r. (cr_corridor_id r, r)) current)) (cr_corridor_id named) of
             None \<Rightarrow> Inl KeyError
           | Some risk \<Rightarrow>
             rbind (datetime_add REPLAY_AT (- int (length (bk_cases backtest) - index) * 3600000000)) (\<lambda>effective_at.
             rtraverse (\<lambda>p. validated (risk_timeline_point_problems p) p)
               [\<lparr>tl_corridor_id = cr_corridor_id named,
                 tl_effective_at = effective_at,
                 tl_severity = bc_severity c, tl_confidence = bc_confidence c, tl_completeness = bc_completeness c,
                 tl_risk_fingerprint = wk_point_hash world (bc_case_id c, bk_model_version backtest)\<rparr>,
                \<lparr>tl_corridor_id = cr_corridor_id risk, tl_effective_at = REPLAY_AT, tl_severity = cr_severity risk,
                 tl_confidence = cr_confidence risk, tl_completeness = cr_completeness risk,
                 tl_risk_fingerprint = cr_fingerprint risk\<rparr>]))))"

definition seed_transition :: "corridor_risk \<Rightarrow> risk_transition" where
  "seed_transition r = \<lparr>rn_risk_id = cr_risk_id r, rn_current = RK_CREATED, rn_target = cr_lifecycle r,
     rn_occurred_at = REPLAY_AT, rn_reason = ''Fixture calculation completed with explicit source state.''\<rparr>"

definition seed_fixture :: "risk_world \<Rightarrow> replay_manifest \<Rightarrow> replay_payload \<Rightarrow> risk_store \<Rightarrow> risk_store res" where
  "seed_fixture world manifest payload st =
     rbind (build_baselines (wk_baseline_hash world) (ry_baseline payload) REPLAY_AT) (\<lambda>baselines.
     let raw_cases = dict_of (map (\<lambda>c. (rx_case_id c, c)) (ry_cases payload)) in
     rbind (rtraverse (\<lambda>case_id. case map_of raw_cases case_id of
         None \<Rightarrow> Inl KeyError
       | Some raw \<Rightarrow> assess_case world payload baselines case_id (rx_corridor raw)) CURRENT_CASES) (\<lambda>assessed.
     rbind (run_fixture_backtest world manifest payload) (\<lambda>backtest.
     rbind (rtraverse (timeline_points world backtest raw_cases (map fst assessed)) (enumerate 0 (bk_cases backtest)))
       (\<lambda>timeline.
     rbind (rtraverse (\<lambda>r. validated (risk_transition_problems (seed_transition r)) (seed_transition r)) (map fst assessed))
       (\<lambda>transitions.
     Inr (save_risks st (map fst assessed) (map snd baselines) (map snd assessed) (concat timeline) backtest))))))"

definition initialize_risks :: "risk_world \<Rightarrow> replay_manifest \<Rightarrow> replay_payload \<Rightarrow> risk_store \<Rightarrow> risk_store res" where
  "initialize_risks world manifest payload st =
     (if current_risks st = [] then seed_fixture world manifest payload st else Inr st)"

text \<open>\<open>RiskDomainError\<close> with code \<open>RISK_NOT_FOUND\<close> for an unknown identifier.\<close>

definition get_risk :: "risk_store \<Rightarrow> uuid \<Rightarrow> string + corridor_risk" where
  "get_risk st risk_id = (case map_of (rs_risks st) risk_id of None \<Rightarrow> Inl ''RISK_NOT_FOUND'' | Some r \<Rightarrow> Inr r)"

end
