(* ===== verification/Risk_Seed.thy ===== *)
theory Risk_Seed imports Risk_Service Risk_Check Lifecycle begin

text \<open>
  Facts on the lifecycle, the repository and the seeding of risks: histories are bounded, a
  calculated risk is an accepted successor of a created one, saving keeps what is stored and never
  repeats a timeline point, and a second initialisation changes nothing.
\<close>

section \<open>The lifecycle\<close>

definition accepted_risk_targets :: "risk_lifecycle \<Rightarrow> risk_lifecycle set" where
  "accepted_risk_targets s = {t. first_error (risk_transition_problems
     \<lparr>rn_risk_id = 0, rn_current = s, rn_target = t, rn_occurred_at = 0, rn_reason = ''reason''\<rparr>) = None}"

lemma accepted_risk_targets_eq: "accepted_risk_targets = risk_targets"
  by (auto simp: accepted_risk_targets_def risk_transition_problems_def fun_eq_iff len_between_def split: if_splits)

fun risk_rank :: "risk_lifecycle \<Rightarrow> nat" where
  "risk_rank RK_CREATED = 2"
| "risk_rank RK_CALCULATED = 1"
| "risk_rank RK_DEGRADED = 1"
| "risk_rank _ = 0"

interpretation risk_states: lifecycle accepted_risk_targets risk_rank
proof
  show "t \<in> accepted_risk_targets s \<Longrightarrow> risk_rank t < risk_rank s" for s t
    unfolding accepted_risk_targets_eq by (cases s) auto
qed

lemma risk_history_bounded:
  assumes "history accepted_risk_targets RK_CREATED ts t" shows "length ts \<le> 2 \<and> distinct (RK_CREATED # ts)"
  using risk_states.history_bounded [OF assms] risk_states.history_no_return [OF assms] by simp

lemma seed_transition_accepted:
  assumes "calculate_corridor_risk uuid5 sha256 corridor_id name signals baselines failures calculated_at now = Inr r"
  shows "first_error (risk_transition_problems (seed_transition r)) = None"
proof -
  have "cr_lifecycle r \<in> {RK_DEGRADED, RK_CALCULATED}" by (rule calculationE [OF assms]) auto
  then show ?thesis by (auto simp: risk_transition_problems_def seed_transition_def len_between_def)
qed

section \<open>The repository\<close>

lemma saved_risk_kept:
  "map_of (rs_risks st) u = Some r \<Longrightarrow> map_of (rs_risks (save_risks st risks baselines alerts timeline backtest)) u = Some r"
  by (simp add: save_risks_def foldl_set_default_kept)

lemma saved_alert_kept:
  "map_of (rs_alerts st) u = Some a \<Longrightarrow> map_of (rs_alerts (save_risks st risks baselines alerts timeline backtest)) u = Some a"
  by (simp add: save_risks_def foldl_set_default_kept)

lemma saved_risk_origin:
  assumes "map_of (rs_risks (save_risks st risks baselines alerts timeline backtest)) u = Some r"
  shows "map_of (rs_risks st) u = Some r \<or> r \<in> set risks \<and> cr_risk_id r = u"
  using foldl_set_default_origin [of "rs_risks st" "map (\<lambda>r. (cr_risk_id r, r)) risks" u r] assms
  by (auto simp: save_risks_def)

lemma saved_risk_found: "r \<in> set risks \<Longrightarrow> \<exists>r'. get_risk (save_risks st risks baselines alerts timeline backtest) (cr_risk_id r) = Inr r'"
  using foldl_set_default_saved [of "cr_risk_id r" r "map (\<lambda>r. (cr_risk_id r, r)) risks" "rs_risks st"]
  by (auto simp: get_risk_def save_risks_def split: option.splits)

text \<open>The timeline holds every point once.\<close>

lemma timeline_distinct:
  "distinct (map point_key ps) \<Longrightarrow> distinct (map point_key (foldl add_point ps qs))"
  by (induction qs arbitrary: ps) (auto simp: add_point_def)

lemma risk_timeline_sorted: "sorted (map tl_effective_at (risk_timeline st corridor_id))"
  by (simp add: risk_timeline_def)

lemma current_risks_sorted:
  "sorted (map (\<lambda>r. (- exact_of (cr_severity r), cr_corridor_id r)) (current_risks st))"
  "set (current_risks st) = snd ` set (rs_risks st)"
  by (simp_all add: current_risks_def)

section \<open>The service\<close>

lemma current_risks_empty: "current_risks st = [] \<longleftrightarrow> rs_risks st = []"
  using current_risks_sorted(2) [of st] by (metis image_is_empty set_empty)

lemma set_default_nonempty: "set_default d kv \<noteq> []"
proof (cases "map_of d (fst kv)")
  case None
  then show ?thesis by (cases kv; cases d) (auto simp: set_default_def dict_has_def)
next
  case (Some v)
  then have "d \<noteq> []" by auto
  then show ?thesis by (cases kv; cases d) (auto simp: set_default_def dict_has_def)
qed

lemma foldl_set_default_nonempty: "d \<noteq> [] \<or> kvs \<noteq> [] \<Longrightarrow> foldl set_default d kvs \<noteq> []"
proof (induction kvs arbitrary: d)
  case (Cons kv kvs)
  show ?case using Cons.IH [of "set_default d kv"] by (simp add: set_default_nonempty)
qed simp

text \<open>A second initialisation finds the risks of the first and keeps the repository.\<close>

lemma initialize_again:
  assumes "initialize_risks world manifest payload st = Inr st'"
  shows "initialize_risks world' manifest' payload' st' = Inr st'"
proof (cases "current_risks st = []")
  case True
  with assms obtain baselines assessed backtest timeline where
    a: "rtraverse (\<lambda>case_id. case map_of (dict_of (map (\<lambda>c. (rx_case_id c, c)) (ry_cases payload))) case_id of
         None \<Rightarrow> Inl KeyError
       | Some raw \<Rightarrow> assess_case world payload baselines case_id (rx_corridor raw)) CURRENT_CASES = Inr assessed"
    and s: "st' = save_risks st (map fst assessed) (map snd baselines) (map snd assessed) (concat timeline) backtest"
    by (auto simp: initialize_risks_def seed_fixture_def Let_def rbind_Inr_iff)
  have "assessed \<noteq> []" using rtraverse_InrD [OF a] by (auto simp: CURRENT_CASES_def)
  then have "rs_risks st' \<noteq> []" by (simp add: s save_risks_def foldl_set_default_nonempty)
  then show ?thesis by (simp add: initialize_risks_def current_risks_empty)
qed (use assms in \<open>simp add: initialize_risks_def\<close>)

section \<open>The backtest\<close>

lemma backtest_counts:
  assumes "backtest_of world manifest cases = Inr r"
  shows "bk_false_positives r + count_of (\<lambda>c. bc_expected_alert c \<and> bc_actual_alert c) cases = count_of bc_actual_alert cases"
    "in_range 1 (bk_precision r)" "bk_cases r = cases"
proof -
  have "length (filter (\<lambda>c. \<not> bc_expected_alert c \<and> bc_actual_alert c) cases) +
      length (filter (\<lambda>c. bc_expected_alert c \<and> bc_actual_alert c) cases) = length (filter bc_actual_alert cases)"
    by (induction cases) auto
  with assms show "bk_false_positives r + count_of (\<lambda>c. bc_expected_alert c \<and> bc_actual_alert c) cases =
      count_of bc_actual_alert cases" "bk_cases r = cases"
    by (auto simp: backtest_of_def Let_def validated_Inr backtest_payload.defs backtest_result.defs count_of_def split: if_splits)
  show "in_range 1 (bk_precision r)"
    using assms unfolding backtest_of_def Let_def validated_Inr backtest_result_problems_def no_error_simps
    by (auto simp: validated_Inr no_error_simps split: if_splits)
qed

end
