(* ===== verification/Py_Strings.thy ===== *)
theory Py_Strings imports Py_Text begin

text \<open>
  The operations on texts that the scenario compiler and validator use. Texts are ASCII, so
  \<open>casefold\<close> and \<open>lower\<close> lower the letters.
\<close>

section \<open>Characters\<close>

definition whitespace :: "char \<Rightarrow> bool" where
  "whitespace c \<longleftrightarrow> (let n = of_char c :: nat in n \<in> {9, 10, 11, 12, 13, 28, 29, 30, 31, 32})"

definition is_letter :: "char \<Rightarrow> bool" where
  "is_letter c \<longleftrightarrow> ascii_lower [c] \<noteq> ascii_upper [c]"

definition is_digit :: "char \<Rightarrow> bool" where
  "is_digit c \<longleftrightarrow> (let n = of_char c :: nat in 48 \<le> n \<and> n \<le> 57)"

definition digit_value :: "char \<Rightarrow> nat" where "digit_value c = of_char c - 48"

section \<open>Evaluation on the bits of a character\<close>

fun letter_bits :: "char \<Rightarrow> bool" where
  "letter_bits (Char b0 b1 b2 b3 b4 b5 b6 b7) \<longleftrightarrow>
     \<not> b7 \<and> b6 \<and> (b0 \<or> b1 \<or> b2 \<or> b3 \<or> b4) \<and> \<not> (b4 \<and> b3 \<and> (b2 \<or> b1 \<and> b0))"

fun lower_char :: "char \<Rightarrow> char" where
  "lower_char (Char b0 b1 b2 b3 b4 b5 b6 b7) =
     Char b0 b1 b2 b3 b4 (b5 \<or> letter_bits (Char b0 b1 b2 b3 b4 b5 b6 b7)) b6 b7"

lemma ascii_lower_code [code]: "ascii_lower s = map lower_char s"
proof -
  have "(let n = of_char c :: nat in if 65 \<le> n \<and> n \<le> 90 then char_of (n + 32) else c) = lower_char c" for c
  proof (cases c)
    case (Char b0 b1 b2 b3 b4 b5 b6 b7)
    show ?thesis unfolding Char
      by (cases b0; cases b1; cases b2; cases b3; cases b4; cases b5; cases b6; cases b7;
          simp add: of_char_Char char_of_def bit_Suc_0_iff)
  qed
  then show ?thesis by (simp add: ascii_lower_def)
qed

lemma is_letter_code [code]: "is_letter c = letter_bits c"
proof (cases c)
  case (Char b0 b1 b2 b3 b4 b5 b6 b7)
  show ?thesis unfolding Char is_letter_def ascii_lower_def ascii_upper_def
    by (cases b0; cases b1; cases b2; cases b3; cases b4; cases b5; cases b6; cases b7;
        simp add: of_char_Char char_of_def bit_Suc_0_iff)
qed

lemma is_digit_code [code]: "is_digit (Char b0 b1 b2 b3 b4 b5 b6 b7) \<longleftrightarrow> \<not> b7 \<and> \<not> b6 \<and> b5 \<and> b4 \<and> \<not> (b3 \<and> (b2 \<or> b1))"
  unfolding is_digit_def
  by (cases b0; cases b1; cases b2; cases b3; cases b4; cases b5; cases b6; cases b7; simp add: of_char_Char)

lemma whitespace_code [code]:
  "whitespace (Char b0 b1 b2 b3 b4 b5 b6 b7) \<longleftrightarrow> \<not> b7 \<and> \<not> b6 \<and>
     (if b5 then \<not> (b0 \<or> b1 \<or> b2 \<or> b3 \<or> b4) else b3 \<and> (if b4 then b2 else if b2 then \<not> b1 else b0 \<or> b1))"
  unfolding whitespace_def
  by (cases b0; cases b1; cases b2; cases b3; cases b4; cases b5; cases b6; cases b7; simp add: of_char_Char)

section \<open>Parts of a text\<close>

definition rstrip_of :: "(char \<Rightarrow> bool) \<Rightarrow> string \<Rightarrow> string" where
  "rstrip_of p s = rev (dropWhile p (rev s))"

definition strip :: "string \<Rightarrow> string" where
  "strip s = rstrip_of whitespace (dropWhile whitespace s)"

definition remove_prefix :: "string \<Rightarrow> string \<Rightarrow> string" where
  "remove_prefix p s = (if take (length p) s = p then drop (length p) s else s)"

definition contains_text :: "string \<Rightarrow> string \<Rightarrow> bool" where
  "contains_text s t \<longleftrightarrow> list_ex (\<lambda>k. take (length s) (drop k t) = s) [0..<Suc (length t)]"

text \<open>\<open>s.split(":", 1)[-1]\<close>.\<close>

definition after_colon :: "string \<Rightarrow> string" where
  "after_colon s = (case dropWhile (\<lambda>c. c \<noteq> CHR '':'') s of [] \<Rightarrow> s | _ # rest \<Rightarrow> rest)"

text \<open>\<open>s.split()\<close>, the words between white space, and \<open>" ".join\<close>.\<close>

fun words_from :: "string \<Rightarrow> string \<Rightarrow> string list" where
  "words_from w [] = (if w = [] then [] else [rev w])"
| "words_from w (c # cs) =
    (if whitespace c then (if w = [] then words_from [] cs else rev w # words_from [] cs) else words_from (c # w) cs)"

definition split_words :: "string \<Rightarrow> string list" where "split_words s = words_from [] s"

fun join_words :: "string list \<Rightarrow> string" where
  "join_words [] = ''''"
| "join_words [w] = w"
| "join_words (w # ws) = w @ '' '' @ join_words ws"

section \<open>Changed texts\<close>

text \<open>\<open>s.replace(old, new)\<close>, with the characters of a match still to be skipped.\<close>

fun replace_skip :: "string \<Rightarrow> string \<Rightarrow> nat \<Rightarrow> string \<Rightarrow> string" where
  "replace_skip old new k [] = []"
| "replace_skip old new (Suc k) (c # cs) = replace_skip old new k cs"
| "replace_skip old new 0 (c # cs) =
    (if take (length old) (c # cs) = old then new @ replace_skip old new (length old - 1) cs
     else c # replace_skip old new 0 cs)"

definition replace_text :: "string \<Rightarrow> string \<Rightarrow> string \<Rightarrow> string" where
  "replace_text old new s = replace_skip old new 0 s"

text \<open>\<open>s.title()\<close>: a letter is raised after a character that is no letter and lowered otherwise.\<close>

fun title_from :: "bool \<Rightarrow> string \<Rightarrow> string" where
  "title_from after [] = []"
| "title_from after (c # cs) = (if after then ascii_lower [c] else ascii_upper [c]) @ title_from (is_letter c) cs"

section \<open>Numerals\<close>

definition decimal_text :: "nat \<Rightarrow> string" where "decimal_text n = dec_digits (int n)"

text \<open>\<open>float(s)\<close> for digits with an optional fraction: the nearest float of the exact decimal.\<close>

definition digits_value :: "string \<Rightarrow> nat" where
  "digits_value s = foldl (\<lambda>n c. 10 * n + digit_value c) 0 s"

definition decimal_float :: "string \<Rightarrow> pyfloat" where
  "decimal_float s =
    (let whole = takeWhile is_digit s; fraction = drop (Suc (length whole)) s
     in of_exact (of_nat (digits_value (whole @ fraction)) / 10 ^ length fraction))"

lemma decimal_float_nonneg: "0 \<le> decimal_float s"
  by (simp add: decimal_float_def Let_def of_exact_nonneg)

end
