(* ===== verification/Scenario_Validator.thy ===== *)
theory Scenario_Validator imports Scenario_Contracts Twin_Contracts Py_Strings begin

text \<open>
  The deterministic validator of a scenario, \<open>sanjiv/scenarios/validator.py\<close>: the targets of the
  effects are resolved against a twin snapshot, and every problem of a candidate becomes an issue.
  The start of the disruption and the expiries of the assumptions may lack a time zone: the first is an
  issue, comparing the second with the clock raises. The text of a JSON value is a parameter.
\<close>

section \<open>Targets\<close>

fun expected_target :: "disruption_type \<Rightarrow> disruption_target_type" where
  "expected_target CHOKEPOINT_CLOSURE = T_CHOKEPOINT"
| "expected_target CHOKEPOINT_CAPACITY_REDUCTION = T_CHOKEPOINT"
| "expected_target MARITIME_ROUTE_CAPACITY_REDUCTION = T_ROUTE"
| "expected_target SUPPLIER_VOLUME_REDUCTION = T_SUPPLIER"
| "expected_target PORT_DISRUPTION = T_PORT"
| "expected_target REFINERY_THROUGHPUT_DISRUPTION = T_REFINERY"

definition snapshot_reference_matches :: "scenario_candidate \<Rightarrow> twin_snapshot \<Rightarrow> bool" where
  "snapshot_reference_matches c s \<longleftrightarrow>
    (let r = sc_twin_snapshot c in
     tr_snapshot_id r = ts_snapshot_id s \<and> tr_fingerprint r = ts_fingerprint s \<and>
     tr_version r = ts_version s \<and> tr_effective_at r = ts_effective_at s)"

text \<open>The kinds of node a target may name; routes are no nodes.\<close>

fun target_kinds :: "disruption_target_type \<Rightarrow> asset_kind list" where
  "target_kinds T_CHOKEPOINT = [CHOKEPOINT]"
| "target_kinds T_SUPPLIER = [SUPPLIER]"
| "target_kinds T_PORT = [LOAD_PORT, INDIAN_PORT]"
| "target_kinds T_REFINERY = [REFINERY]"
| "target_kinds T_ROUTE = []"

definition matches_node :: "string \<Rightarrow> twin_node \<Rightarrow> bool" where
  "matches_node requested n \<longleftrightarrow>
    (let canonical_short = ascii_lower (replace_text ''-'' '' '' (after_colon (tn_canonical_id n)));
         name = ascii_lower (tn_name n) in
     list_ex (\<lambda>alias. alias \<in> {uuid_str (tn_id n), ascii_lower (tn_canonical_id n), canonical_short, name} \<or>
         (5 \<le> length alias \<and> (contains_text alias name \<or> contains_text alias canonical_short)))
       [requested, replace_text ''strait of '' '''' requested, replace_text '' port'' '''' requested])"

definition matches_route :: "string \<Rightarrow> twin_route \<Rightarrow> bool" where
  "matches_route requested r \<longleftrightarrow>
     requested \<in> {uuid_str (rt_id r), ascii_lower (rt_route_canonical_id r),
       ascii_lower (remove_prefix ''route:'' (rt_route_canonical_id r))}"

definition unresolved :: "disruption_target \<Rightarrow> disruption_target" where
  "unresolved t = t\<lparr>dt_asset_id := None, dt_canonical_id := None\<rparr>"

definition resolve_target :: "twin_snapshot \<Rightarrow> disruption_target \<Rightarrow> disruption_target" where
  "resolve_target s t =
    (let requested = ascii_lower (strip (dt_requested_identifier t)) in
     if dt_target_type t = T_ROUTE
     then (case filter (matches_route requested) (ts_routes s) of
         [r] \<Rightarrow> t\<lparr>dt_asset_id := Some (rt_id r), dt_canonical_id := Some (rt_route_canonical_id r),
           dt_display_name := Some (title_from False (replace_text ''-'' '' '' (remove_prefix ''route:'' (rt_route_canonical_id r))))\<rparr>
       | _ \<Rightarrow> unresolved t)
     else (case filter (\<lambda>n. tn_kind n \<in> set (target_kinds (dt_target_type t)) \<and> matches_node requested n) (ts_nodes s) of
         [n] \<Rightarrow> t\<lparr>dt_asset_id := Some (tn_id n), dt_canonical_id := Some (tn_canonical_id n), dt_display_name := Some (tn_name n)\<rparr>
       | _ \<Rightarrow> unresolved t))"

definition resolve_effects :: "twin_snapshot \<Rightarrow> disruption_effect list \<Rightarrow> disruption_effect list" where
  "resolve_effects s effects = map (\<lambda>e. e\<lparr>de_target := resolve_target s (de_target e)\<rparr>) effects"

definition resolved_target_exists :: "twin_snapshot \<Rightarrow> disruption_target_type \<Rightarrow> uuid \<Rightarrow> string \<Rightarrow> bool" where
  "resolved_target_exists s kind asset_id canonical_id \<longleftrightarrow>
    (if kind = T_ROUTE
     then list_ex (\<lambda>r. rt_id r = asset_id \<and> rt_route_canonical_id r = canonical_id) (ts_routes s)
     else list_ex (\<lambda>n. tn_id n = asset_id \<and> tn_canonical_id n = canonical_id \<and> tn_kind n \<in> set (target_kinds kind)) (ts_nodes s))"

section \<open>Issues\<close>

definition VALIDATOR_VERSION :: string where "VALIDATOR_VERSION = ''scenario-validator-1.0.0''"
definition MAX_DURATION_DAYS :: pyfloat where "MAX_DURATION_DAYS = Fin 90"

fun disruption_name :: "disruption_type \<Rightarrow> string" where
  "disruption_name CHOKEPOINT_CLOSURE = ''CHOKEPOINT_CLOSURE''"
| "disruption_name CHOKEPOINT_CAPACITY_REDUCTION = ''CHOKEPOINT_CAPACITY_REDUCTION''"
| "disruption_name MARITIME_ROUTE_CAPACITY_REDUCTION = ''MARITIME_ROUTE_CAPACITY_REDUCTION''"
| "disruption_name SUPPLIER_VOLUME_REDUCTION = ''SUPPLIER_VOLUME_REDUCTION''"
| "disruption_name PORT_DISRUPTION = ''PORT_DISRUPTION''"
| "disruption_name REFINERY_THROUGHPUT_DISRUPTION = ''REFINERY_THROUGHPUT_DISRUPTION''"

fun target_name :: "disruption_target_type \<Rightarrow> string" where
  "target_name T_CHOKEPOINT = ''CHOKEPOINT''"
| "target_name T_ROUTE = ''ROUTE''"
| "target_name T_SUPPLIER = ''SUPPLIER''"
| "target_name T_PORT = ''PORT''"
| "target_name T_REFINERY = ''REFINERY''"

fun assumption_status_name :: "assumption_status \<Rightarrow> string" where
  "assumption_status_name AS_DRAFT = ''DRAFT''"
| "assumption_status_name AS_APPROVED = ''APPROVED''"
| "assumption_status_name AS_EXPIRED = ''EXPIRED''"
| "assumption_status_name AS_SUPERSEDED = ''SUPERSEDED''"

definition issue_problems :: "validation_issue \<Rightarrow> (bool \<times> py_error) list" where
  "issue_problems x =
    [(\<not> len_between 1 100 (vi_code x), FieldError ''code''),
     (\<not> len_between 1 300 (vi_field x), FieldError ''field''),
     (\<not> len_between 1 1000 (vi_message x), FieldError ''message'')]"

definition error_issue :: "string \<Rightarrow> string \<Rightarrow> string \<Rightarrow> validation_issue" where
  "error_issue code field message =
     \<lparr>vi_severity = VS_ERROR, vi_code = code, vi_field = field, vi_message = message\<rparr>"

text \<open>The issues a condition raises: one if it holds.\<close>

definition issue_if :: "bool \<Rightarrow> string \<Rightarrow> string \<Rightarrow> string \<Rightarrow> validation_issue list" where
  "issue_if problem code field message = (if problem then [error_issue code field message] else [])"

definition snapshot_issues :: "scenario_candidate \<Rightarrow> twin_snapshot option \<Rightarrow> validation_issue list" where
  "snapshot_issues c snapshot =
    (case snapshot of
       None \<Rightarrow> [error_issue ''TWIN_SNAPSHOT_MISSING'' ''twin_snapshot'' ''The selected twin snapshot is unavailable.'']
     | Some s \<Rightarrow> issue_if (\<not> snapshot_reference_matches c s) ''TWIN_SNAPSHOT_STALE'' ''twin_snapshot''
         ''The selected immutable twin reference no longer matches its fingerprint.'')"

definition duration_issues :: "scenario_parameters \<Rightarrow> validation_issue list" where
  "duration_issues p =
    (let duration = dq_days (sp_disruption_duration p); horizon = dq_days (sp_simulation_horizon p) in
     (if duration \<le> 0
      then [error_issue ''INVALID_DURATION'' ''parameters.disruption_duration'' ''Disruption duration must be positive.'']
      else issue_if (MAX_DURATION_DAYS < duration) ''DURATION_OUT_OF_RANGE'' ''parameters.disruption_duration''
        ''Disruption duration cannot exceed 90 days.'') @
     (if horizon \<le> 0 \<or> MAX_DURATION_DAYS < horizon
      then [error_issue ''INVALID_HORIZON'' ''parameters.simulation_horizon'' ''Simulation horizon must be within 0 and 90 days.'']
      else issue_if (horizon + fl (1 / 1000000000) < duration) ''HORIZON_TOO_SHORT'' ''parameters.simulation_horizon''
        ''Simulation horizon must cover the complete disruption duration.''))"

definition start_issues :: "scenario_parameters \<Rightarrow> validation_issue list" where
  "start_issues p =
     issue_if (\<not> aware (sp_disruption_start p)) ''START_TIME_NOT_UTC'' ''parameters.disruption_start''
       ''Disruption start must be a timezone-aware UTC RFC 3339 timestamp.''"

section \<open>The effects\<close>

definition effect_field :: "nat \<Rightarrow> string" where
  "effect_field index = ''parameters.disruptions.'' @ decimal_text index"

definition effect_issues :: "nat \<Rightarrow> disruption_effect \<Rightarrow> validation_issue list" where
  "effect_issues index e =
    (let field = effect_field index; expected = expected_target (de_disruption_type e);
         reduction = pq_value (de_capacity_reduction e) in
     issue_if (dt_target_type (de_target e) \<noteq> expected) ''TARGET_TYPE_MISMATCH'' field
       (disruption_name (de_disruption_type e) @ '' requires a '' @ target_name expected @ '' target.'') @
     issue_if (reduction \<le> 0 \<or> Fin 100 < reduction) ''INVALID_PERCENTAGE'' (field @ ''.capacity_reduction'')
       ''Reduction must be greater than 0 and at most 100 percent.'' @
     issue_if (de_disruption_type e = CHOKEPOINT_CLOSURE \<and> reduction \<noteq> Fin 100) ''INCONSISTENT_CLOSURE''
       (field @ ''.capacity_reduction'') ''A full closure must be represented as exactly 100 percent reduction.'')"

text \<open>The asset and canonical identifiers of a target, if it has both and the snapshot, when there is one, contains it.\<close>

definition target_found :: "twin_snapshot option \<Rightarrow> disruption_target \<Rightarrow> string + (uuid \<times> string)" where
  "target_found snapshot t =
    (case (dt_asset_id t, dt_canonical_id t) of
       (Some asset_id, Some canonical_id) \<Rightarrow>
         (case snapshot of
            None \<Rightarrow> Inr (asset_id, canonical_id)
          | Some s \<Rightarrow> if resolved_target_exists s (dt_target_type t) asset_id canonical_id then Inr (asset_id, canonical_id)
              else Inl (''The target does not exist in twin snapshot '' @ uuid_str (ts_snapshot_id s) @ ''.''))
     | _ \<Rightarrow> Inl (''Unsupported or ambiguous target: '' @ dt_requested_identifier t @ ''.''))"

definition resolved_of :: "disruption_target \<Rightarrow> uuid \<Rightarrow> string \<Rightarrow> resolved_disruption_target" where
  "resolved_of t asset_id canonical_id =
     \<lparr>rt_requested_identifier = dt_requested_identifier t, rt_target_type = dt_target_type t, rt_asset_id = asset_id,
      rt_canonical_id = canonical_id,
      rt_display_name = (if falsy_str (dt_display_name t) then canonical_id else the (dt_display_name t))\<rparr>"

record effect_scan =
  sn_issues :: "validation_issue list"
  sn_resolved :: "resolved_disruption_target list"
  sn_seen :: "(uuid, disruption_effect) dict"

definition scan_effect :: "twin_snapshot option \<Rightarrow> effect_scan \<Rightarrow> nat \<times> disruption_effect \<Rightarrow> effect_scan" where
  "scan_effect snapshot scan ie =
    (case ie of (index, e) \<Rightarrow>
     let field = effect_field index; issues = sn_issues scan @ effect_issues index e in
     case target_found snapshot (de_target e) of
       Inl message \<Rightarrow> scan\<lparr>sn_issues := issues @ [error_issue ''UNKNOWN_TARGET'' (field @ ''.target'') message]\<rparr>
     | Inr (asset_id, canonical_id) \<Rightarrow>
         (let resolved = sn_resolved scan @ [resolved_of (de_target e) asset_id canonical_id] in
          case map_of (sn_seen scan) asset_id of
            Some prior \<Rightarrow> scan\<lparr>sn_issues := issues @ [error_issue
                (if de_disruption_type prior = de_disruption_type e then ''DUPLICATE_EFFECT'' else ''CONFLICTING_EFFECTS'') field
                ''Multiple effects on the same target are refused; submit one unambiguous reduction.''],
              sn_resolved := resolved\<rparr>
          | None \<Rightarrow> \<lparr>sn_issues = issues, sn_resolved = resolved, sn_seen = AList.update asset_id e (sn_seen scan)\<rparr>))"

definition scan_effects :: "twin_snapshot option \<Rightarrow> disruption_effect list \<Rightarrow> effect_scan" where
  "scan_effects snapshot effects =
     foldl (scan_effect snapshot) \<lparr>sn_issues = [], sn_resolved = [], sn_seen = []\<rparr> (zip [0..<length effects] effects)"

section \<open>Defaults, assumptions and the result\<close>

definition default_issue :: "(json_value \<Rightarrow> string) \<Rightarrow> scenario_default \<Rightarrow> validation_issue" where
  "default_issue value_text d =
     \<lparr>vi_severity = VS_DEFAULT_REQUIRES_CONFIRMATION, vi_code = ''DEFAULT_REQUIRES_CONFIRMATION'', vi_field = sd_field d,
      vi_message = ''Default '' @ sd_field d @ ''='' @ value_text (sd_value d) @ '' '' @ sd_unit d @ '' must be confirmed.''\<rparr>"

definition assumption_issue :: "bool \<Rightarrow> assumption \<Rightarrow> validation_issue" where
  "assumption_issue expired a =
    (let field = ''assumptions.'' @ uuid_str (as_id a) in
     if expired
     then error_issue ''EXPIRED_ASSUMPTION'' field
       (''Assumption '' @ as_key a @ '' expired at '' @ iso_moment (the (as_expires_at a)) @ ''.'')
     else if as_status a \<in> {AS_EXPIRED, AS_SUPERSEDED}
     then error_issue ''INACTIVE_ASSUMPTION'' field (''Assumption '' @ as_key a @ '' is '' @ assumption_status_name (as_status a) @ ''.'')
     else \<lparr>vi_severity = VS_ASSUMPTION_REQUIRES_CONFIRMATION, vi_code = ''ASSUMPTION_REQUIRES_CONFIRMATION'', vi_field = field,
           vi_message = ''Assumption '' @ as_key a @ '' must be confirmed before simulation.''\<rparr>)"

text \<open>The issues in the order of the code; the one of an assumption starts with a comparison that may raise.\<close>

definition all_issues ::
  "(json_value \<Rightarrow> string) \<Rightarrow> scenario_candidate \<Rightarrow> twin_snapshot option \<Rightarrow> datetime \<Rightarrow> validation_issue res list" where
  "all_issues value_text c snapshot checked_at =
    (let p = sc_parameters c in
     map Inr (snapshot_issues c snapshot @ duration_issues p @ start_issues p @
       sn_issues (scan_effects snapshot (sp_disruptions p)) @ map (default_issue value_text) (sc_defaults c)) @
     map (\<lambda>a. rmap (\<lambda>expired. assumption_issue expired a) (assumption_expired checked_at a)) (sp_assumptions p) @
     map Inr (issue_if (sp_assumptions p = []) ''MISSING_INPUT_COVERAGE'' ''parameters.assumptions''
       ''Scenario execution inputs require an explicit scenario assumption record.''))"

definition validate_scenario ::
  "uuid5_fun \<Rightarrow> (json_value \<Rightarrow> string) \<Rightarrow> scenario_candidate \<Rightarrow> twin_snapshot option \<Rightarrow> datetime \<Rightarrow> scenario_validation_result res" where
  "validate_scenario uuid5 value_text c snapshot checked_at =
     rbind (rtraverse (\<lambda>x. rbind x (\<lambda>x. validated (issue_problems x) x)) (all_issues value_text c snapshot checked_at)) (\<lambda>issues.
       let v = \<lparr>sv_validation_id = uuid5 (''urn:sanjiv:scenario-validation:'' @ sc_scenario_fingerprint c @ '':'' @ VALIDATOR_VERSION),
            sv_scenario_id = sc_scenario_id c, sv_scenario_fingerprint = sc_scenario_fingerprint c,
            sv_twin_snapshot = sc_twin_snapshot c, sv_valid = list_all (\<lambda>x. vi_severity x \<noteq> VS_ERROR) issues,
            sv_issues = issues, sv_resolved_targets = sn_resolved (scan_effects snapshot (sp_disruptions (sc_parameters c))),
            sv_defaults = sc_defaults c, sv_assumptions = sp_assumptions (sc_parameters c), sv_validated_at = checked_at,
            sv_validator_version = VALIDATOR_VERSION\<rparr>
       in validated (validation_result_problems v) v)"

end
