(* ===== verification/Scenario_Check.thy ===== *)
theory Scenario_Check imports Scenario_Validator Validation_Facts begin

text \<open>
  When the validator accepts a scenario, stated without its loop: the conditions on durations, effects
  and assumptions, and the lemmas that the issues without an error are exactly those of an acceptable
  candidate and always meet their field constraints.
\<close>

section \<open>Acceptable scenarios\<close>

definition target_located :: "twin_snapshot \<Rightarrow> disruption_target \<Rightarrow> bool" where
  "target_located s t \<longleftrightarrow>
    (case (dt_asset_id t, dt_canonical_id t) of
       (Some asset_id, Some canonical_id) \<Rightarrow> resolved_target_exists s (dt_target_type t) asset_id canonical_id
     | _ \<Rightarrow> False)"

definition effect_acceptable :: "twin_snapshot \<Rightarrow> disruption_effect \<Rightarrow> bool" where
  "effect_acceptable s e \<longleftrightarrow>
     dt_target_type (de_target e) = expected_target (de_disruption_type e) \<and>
     0 < pq_value (de_capacity_reduction e) \<and> pq_value (de_capacity_reduction e) \<le> Fin 100 \<and>
     (de_disruption_type e = CHOKEPOINT_CLOSURE \<longrightarrow> pq_value (de_capacity_reduction e) = Fin 100) \<and>
     target_located s (de_target e)"

definition periods_acceptable :: "scenario_parameters \<Rightarrow> bool" where
  "periods_acceptable p \<longleftrightarrow>
    (let duration = dq_days (sp_disruption_duration p); horizon = dq_days (sp_simulation_horizon p) in
     0 < duration \<and> duration \<le> Fin 90 \<and> 0 < horizon \<and> horizon \<le> Fin 90 \<and>
     duration \<le> horizon + fl (1 / 1000000000))"

definition assumption_current :: "datetime \<Rightarrow> assumption \<Rightarrow> bool" where
  "assumption_current now a \<longleftrightarrow>
     opt_ok (\<lambda>t. now < mo_instant t) (as_expires_at a) \<and> as_status a \<notin> {AS_EXPIRED, AS_SUPERSEDED}"

text \<open>The expiry, if there is one, can be compared with the clock.\<close>

definition expiry_aware :: "assumption \<Rightarrow> bool" where
  "expiry_aware a \<longleftrightarrow> opt_ok aware (as_expires_at a)"

definition effect_assets :: "disruption_effect list \<Rightarrow> uuid option list" where
  "effect_assets es = map (\<lambda>e. dt_asset_id (de_target e)) es"

definition scenario_acceptable :: "scenario_candidate \<Rightarrow> twin_snapshot \<Rightarrow> datetime \<Rightarrow> bool" where
  "scenario_acceptable c s now \<longleftrightarrow>
    (let p = sc_parameters c in
     snapshot_reference_matches c s \<and> periods_acceptable p \<and> aware (sp_disruption_start p) \<and>
     list_all (effect_acceptable s) (sp_disruptions p) \<and> distinct (effect_assets (sp_disruptions p)) \<and>
     sp_assumptions p \<noteq> [] \<and> list_all (assumption_current now) (sp_assumptions p))"

section \<open>Issues without an error\<close>

abbreviation no_error :: "validation_issue list \<Rightarrow> bool" where
  "no_error issues \<equiv> list_all (\<lambda>x. vi_severity x \<noteq> VS_ERROR) issues"

lemma error_issue_severity [simp]: "vi_severity (error_issue c f m) = VS_ERROR"
  by (simp add: error_issue_def)

lemma no_error_if [simp]: "no_error (issue_if problem c f m) \<longleftrightarrow> \<not> problem"
  by (simp add: issue_if_def)

lemma days_not_NaN: "isfinite (dq_value d) \<Longrightarrow> dq_days d \<noteq> NaN"
  by (cases "dq_value d") (auto simp: dq_days_def)

lemma not_le_less: "a \<noteq> NaN \<Longrightarrow> b \<noteq> NaN \<Longrightarrow> \<not> a \<le> b \<longleftrightarrow> b < a" for a b :: pyfloat
  using not_less_pyfloat [of b a] by blast

lemma duration_no_error:
  assumes "isfinite (dq_value (sp_disruption_duration p))" "isfinite (dq_value (sp_simulation_horizon p))"
  shows "no_error (duration_issues p) \<longleftrightarrow> periods_acceptable p"
proof -
  let ?d = "dq_days (sp_disruption_duration p)" and ?h = "dq_days (sp_simulation_horizon p)"
  have n: "?d \<noteq> NaN" "?h \<noteq> NaN" using assms days_not_NaN by blast+
  have sum: "?h + fl (1 / 1000000000) \<noteq> NaN" using add_finite_not_NaN [OF n(2)] by (simp add: of_exact_small)
  have z: "(0 :: pyfloat) \<noteq> NaN" "Fin 90 \<noteq> NaN" by (simp_all add: zero_pyfloat_def)
  note c = not_le_less [OF n(1) z(1)] not_le_less [OF n(2) z(1)] not_less_pyfloat [OF z(2) n(1)]
    not_less_pyfloat [OF z(2) n(2)] not_less_pyfloat [OF sum n(1)]
  show ?thesis
    unfolding duration_issues_def periods_acceptable_def Let_def MAX_DURATION_DAYS_def
    using c by auto
qed

lemma snapshot_no_error:
  "no_error (snapshot_issues c snapshot) \<longleftrightarrow> (\<exists>s. snapshot = Some s \<and> snapshot_reference_matches c s)"
  by (auto simp: snapshot_issues_def split: option.splits)

lemma start_no_error: "no_error (start_issues p) \<longleftrightarrow> aware (sp_disruption_start p)"
  by (simp add: start_issues_def)

text \<open>Whether an assumption has expired, and that the comparison raises for a naive expiry.\<close>

definition past_expiry :: "datetime \<Rightarrow> assumption \<Rightarrow> bool" where
  "past_expiry now a \<longleftrightarrow> \<not> opt_ok (\<lambda>t. now < mo_instant t) (as_expires_at a)"

lemma assumption_expired_eq:
  "assumption_expired now a = (if expiry_aware a then Inr (past_expiry now a) else Inl TypeError)"
  by (simp add: assumption_expired_def expiry_aware_def past_expiry_def moment_less_def split: option.splits)

lemma assumption_no_error: "vi_severity (assumption_issue (past_expiry now a) a) \<noteq> VS_ERROR \<longleftrightarrow> assumption_current now a"
  by (simp add: assumption_issue_def assumption_current_def past_expiry_def Let_def)

section \<open>The scan of the effects\<close>

lemma effect_no_error:
  assumes "isfinite (pq_value (de_capacity_reduction e))"
  shows "no_error (effect_issues i e) \<and> (\<exists>found. target_found (Some s) (de_target e) = Inr found) \<longleftrightarrow> effect_acceptable s e"
proof -
  let ?r = "pq_value (de_capacity_reduction e)"
  have "?r \<noteq> NaN" using assms by auto
  then have c: "\<not> ?r \<le> 0 \<longleftrightarrow> 0 < ?r" "\<not> Fin 100 < ?r \<longleftrightarrow> ?r \<le> Fin 100"
    using not_le_less [of ?r 0] not_less_pyfloat [of "Fin 100" ?r] by (simp_all add: zero_pyfloat_def)
  have t: "(\<exists>found. target_found (Some s) (de_target e) = Inr found) \<longleftrightarrow> target_located s (de_target e)"
    by (auto simp: target_found_def target_located_def split: option.splits)
  show ?thesis unfolding t effect_acceptable_def effect_issues_def Let_def using c by auto
qed

lemma target_found_asset: "target_found snapshot t = Inr (a, c) \<Longrightarrow> dt_asset_id t = Some a"
  by (auto simp: target_found_def split: option.splits if_splits)

lemma scan_effect_keeps_error: "\<not> no_error (sn_issues scan) \<Longrightarrow> \<not> no_error (sn_issues (scan_effect snapshot scan ie))"
  by (auto simp: scan_effect_def Let_def split: prod.splits sum.splits option.splits)

lemma foldl_scan_keeps_error:
  "\<not> no_error (sn_issues scan) \<Longrightarrow> \<not> no_error (sn_issues (foldl (scan_effect snapshot) scan ies))"
  by (induction ies arbitrary: scan) (simp_all only: foldl_Nil foldl_Cons scan_effect_keeps_error not_False_eq_True)

definition asset_new :: "effect_scan \<Rightarrow> disruption_effect \<Rightarrow> bool" where
  "asset_new scan e \<longleftrightarrow> (\<forall>a. dt_asset_id (de_target e) = Some a \<longrightarrow> map_of (sn_seen scan) a = None)"

lemma scan_step_no_error:
  assumes "isfinite (pq_value (de_capacity_reduction e))"
  shows "no_error (sn_issues (scan_effect (Some s) scan (i, e))) \<longleftrightarrow>
    no_error (sn_issues scan) \<and> effect_acceptable s e \<and> asset_new scan e"
proof (cases "target_found (Some s) (de_target e)")
  case (Inl message)
  then have "\<not> effect_acceptable s e" using effect_no_error [OF assms, of i s] by simp
  then show ?thesis using Inl by (simp add: scan_effect_def Let_def)
next
  case (Inr found)
  obtain a c where f: "found = (a, c)" by force
  have a: "dt_asset_id (de_target e) = Some a" using Inr target_found_asset f by blast
  have "no_error (effect_issues i e) \<longleftrightarrow> effect_acceptable s e" using Inr effect_no_error [OF assms, of i s] by simp
  then show ?thesis using Inr a
    by (auto simp: scan_effect_def Let_def f asset_new_def split: option.splits)
qed

lemma scan_step_seen:
  assumes "effect_acceptable s e" "asset_new scan e"
  shows "asset_new (scan_effect (Some s) scan (i, e)) e' \<longleftrightarrow>
    asset_new scan e' \<and> dt_asset_id (de_target e') \<noteq> dt_asset_id (de_target e)"
proof -
  obtain a c where t: "dt_asset_id (de_target e) = Some a" "target_found (Some s) (de_target e) = Inr (a, c)"
    using assms(1) by (auto simp: effect_acceptable_def target_located_def target_found_def split: option.splits)
  with assms(2) have "map_of (sn_seen scan) a = None" by (simp add: asset_new_def)
  with t show ?thesis by (auto simp: scan_effect_def Let_def asset_new_def update_conv')
qed

lemma scan_no_error:
  assumes "\<forall>e \<in> set (map snd ies). isfinite (pq_value (de_capacity_reduction e))"
  shows "no_error (sn_issues (foldl (scan_effect (Some s)) scan ies)) \<longleftrightarrow>
    no_error (sn_issues scan) \<and> list_all (effect_acceptable s) (map snd ies) \<and>
    distinct (effect_assets (map snd ies)) \<and> list_all (asset_new scan) (map snd ies)"
  using assms
proof (induction ies arbitrary: scan)
  case (Cons ie ies)
  obtain i e where ie: "ie = (i, e)" by force
  have fin: "isfinite (pq_value (de_capacity_reduction e))" using Cons.prems by (simp add: ie)
  let ?scan = "scan_effect (Some s) scan (i, e)"
  have IH: "no_error (sn_issues (foldl (scan_effect (Some s)) scan (ie # ies))) \<longleftrightarrow>
      no_error (sn_issues ?scan) \<and> list_all (effect_acceptable s) (map snd ies) \<and>
      distinct (effect_assets (map snd ies)) \<and> list_all (asset_new ?scan) (map snd ies)"
    unfolding ie foldl_Cons by (rule Cons.IH) (use Cons.prems in auto)
  show ?case
  proof (cases "effect_acceptable s e \<and> asset_new scan e")
    case True
    then have "list_all (asset_new ?scan) (map snd ies) \<longleftrightarrow>
        list_all (asset_new scan) (map snd ies) \<and> dt_asset_id (de_target e) \<notin> set (effect_assets (map snd ies))"
      using scan_step_seen [of s e scan i] by (force simp: list_all_iff effect_assets_def image_iff)
    then show ?thesis unfolding IH scan_step_no_error [OF fin] using True by (auto simp: ie effect_assets_def)
  next
    case False
    then show ?thesis unfolding IH scan_step_no_error [OF fin] by (auto simp: ie)
  qed
qed (simp add: effect_assets_def)

lemma scan_effects_no_error:
  assumes "\<forall>e \<in> set es. isfinite (pq_value (de_capacity_reduction e))"
  shows "no_error (sn_issues (scan_effects (Some s) es)) \<longleftrightarrow> list_all (effect_acceptable s) es \<and> distinct (effect_assets es)"
  using scan_no_error [of "zip [0..<length es] es" s "\<lparr>sn_issues = [], sn_resolved = [], sn_seen = []\<rparr>"] assms
  by (simp add: scan_effects_def asset_new_def list_all_iff)

lemma default_no_error [simp]: "vi_severity (default_issue value_text d) \<noteq> VS_ERROR"
  by (simp add: default_issue_def)

lemma parameters_finite:
  assumes "first_error (scenario_parameters_problems p) = None"
  shows "isfinite (dq_value (sp_disruption_duration p))" "isfinite (dq_value (sp_simulation_horizon p))"
    "\<forall>e \<in> set (sp_disruptions p). isfinite (pq_value (de_capacity_reduction e)) \<and>
       len_between 1 200 (dt_requested_identifier (de_target e))"
    "length (sp_disruptions p) \<le> 4" "list_all assumption_valid (sp_assumptions p)"
proof -
  note no = first_error_NoneD [OF assms]
  show "isfinite (dq_value (sp_disruption_duration p))"
    using no [of "\<not> isfinite (dq_value (sp_disruption_duration p))" "FieldError ''value''"]
    by (simp add: scenario_parameters_problems_def duration_problems_def)
  show "isfinite (dq_value (sp_simulation_horizon p))"
    using no [of "\<not> isfinite (dq_value (sp_simulation_horizon p))" "FieldError ''value''"]
    by (simp add: scenario_parameters_problems_def duration_problems_def)
  have effects: "\<not> list_ex (\<lambda>e. first_error (effect_problems e) \<noteq> None) (sp_disruptions p)"
    by (rule no [where e = "FieldError ''disruptions''"]) (simp add: scenario_parameters_problems_def)
  show "\<forall>e \<in> set (sp_disruptions p). isfinite (pq_value (de_capacity_reduction e)) \<and>
       len_between 1 200 (dt_requested_identifier (de_target e))"
  proof
    fix e assume "e \<in> set (sp_disruptions p)"
    then have e: "first_error (effect_problems e) = None" using effects by (auto simp: list_ex_iff)
    show "isfinite (pq_value (de_capacity_reduction e)) \<and> len_between 1 200 (dt_requested_identifier (de_target e))"
      using first_error_NoneD [OF e, of "\<not> isfinite (pq_value (de_capacity_reduction e))" "FieldError ''value''"]
        first_error_NoneD [OF e, of "\<not> len_between 1 200 (dt_requested_identifier (de_target e))" "FieldError ''requested_identifier''"]
      by (simp add: effect_problems_def percentage_problems_def)
  qed
  have "\<not> \<not> len_between 1 4 (sp_disruptions p)"
    by (rule no [where e = "FieldError ''disruptions''"]) (simp add: scenario_parameters_problems_def)
  then show "length (sp_disruptions p) \<le> 4" by (simp add: len_between_def)
  have "\<not> list_ex (\<lambda>a. \<not> assumption_valid a) (sp_assumptions p)"
    by (rule no [where e = "FieldError ''assumptions''"]) (simp add: scenario_parameters_problems_def)
  then show "list_all assumption_valid (sp_assumptions p)" by (auto simp: list_ex_iff list_all_iff)
qed

text \<open>The issues of a candidate whose comparisons do not raise.\<close>

definition issue_list :: "(json_value \<Rightarrow> string) \<Rightarrow> scenario_candidate \<Rightarrow> twin_snapshot option \<Rightarrow> datetime \<Rightarrow> validation_issue list" where
  "issue_list value_text c snapshot now =
    (let p = sc_parameters c in
     snapshot_issues c snapshot @ duration_issues p @ start_issues p @ sn_issues (scan_effects snapshot (sp_disruptions p)) @
     map (default_issue value_text) (sc_defaults c) @ map (\<lambda>a. assumption_issue (past_expiry now a) a) (sp_assumptions p) @
     issue_if (sp_assumptions p = []) ''MISSING_INPUT_COVERAGE'' ''parameters.assumptions''
       ''Scenario execution inputs require an explicit scenario assumption record.'')"

lemma all_issues_no_error:
  assumes "first_error (scenario_parameters_problems (sc_parameters c)) = None"
  shows "no_error (issue_list value_text c (Some s) now) \<longleftrightarrow> scenario_acceptable c s now"
proof -
  let ?p = "sc_parameters c"
  note f = parameters_finite [OF assms]
  have effects: "\<forall>e \<in> set (sp_disruptions ?p). isfinite (pq_value (de_capacity_reduction e))" using f(3) by blast
  show ?thesis
    unfolding issue_list_def Let_def list_all_append snapshot_no_error duration_no_error [OF f(1,2)] start_no_error
      scan_effects_no_error [OF effects] no_error_if scenario_acceptable_def
    by (auto simp: list_all_iff assumption_no_error)
qed

section \<open>The constraints of an issue\<close>

definition issue_ok :: "validation_issue \<Rightarrow> bool" where
  "issue_ok x \<longleftrightarrow> first_error (issue_problems x) = None"

lemma issue_ok_lengths:
  "issue_ok x \<longleftrightarrow> len_between 1 100 (vi_code x) \<and> len_between 1 300 (vi_field x) \<and> len_between 1 1000 (vi_message x)"
  by (auto simp: issue_ok_def issue_problems_def)

lemma error_issue_ok:
  "issue_ok (error_issue code field message) \<longleftrightarrow> len_between 1 100 code \<and> len_between 1 300 field \<and> len_between 1 1000 message"
  by (simp add: issue_ok_lengths error_issue_def)

lemma uuid_str_length: "length (uuid_str u) = 36"
  by (simp add: uuid_str_def uuid_hex_def Let_def)

lemma dec_digits_bound: "n < 10 ^ Suc k \<Longrightarrow> 1 \<le> length (dec_digits n) \<and> length (dec_digits n) \<le> Suc k"
proof (induction k arbitrary: n)
  case 0
  then show ?case by (simp add: dec_digits.simps [of n])
next
  case (Suc k)
  show ?case
  proof (cases "n < 10")
    case False
    have "n div 10 < 10 ^ Suc k" using Suc.prems by simp
    from Suc.IH [OF this] show ?thesis using False by (subst (1 2) dec_digits.simps) simp
  qed (simp add: dec_digits.simps [of n])
qed

lemma zero_padded_length: "n < 10 ^ Suc k \<Longrightarrow> length (zero_padded w n) \<le> max w (Suc k)"
  using dec_digits_bound [of n k] by (cases "length (dec_digits n) \<le> w") (simp_all add: zero_padded_def Let_def)

lemma civil_date_bounds:
  assumes "days \<le> 2932896" "civil_date days = (year, month, day)"
  shows "year < 100000" "month < 100" "day < 100"
proof -
  have div: "k * (a div k) \<le> a \<and> a < k * (a div k) + k" if "0 < k" for a k :: int
    using mult_div_mod_eq [of k a] pos_mod_sign [OF that, of a] pos_mod_bound [OF that, of a] by linarith
  define z where "z = days + 719468"
  define era where "era = z div 146097"
  define doe where "doe = z mod 146097"
  define yoe where "yoe = (doe - doe div 1460 + doe div 36524 - doe div 146096) div 365"
  define doy where "doy = doe - (365 * yoe + yoe div 4 - yoe div 100)"
  define mp where "mp = (5 * doy + 2) div 153"
  have m: "month = (if mp < 10 then mp + 3 else mp - 9)" "day = doy - (153 * mp + 2) div 5 + 1"
      "year = yoe + era * 400 + (if month \<le> 2 then 1 else 0)"
    using assms(2) unfolding civil_date_def Let_def z_def [symmetric] era_def [symmetric] doe_def [symmetric]
      yoe_def [symmetric] doy_def [symmetric] mp_def [symmetric] by auto
  have doe: "0 \<le> doe" "doe < 146097" by (simp_all add: doe_def)
  have era: "era \<le> 24" using div [of 146097 z] assms(1) unfolding era_def z_def by linarith
  note y = div [of 1460 doe] div [of 36524 doe] div [of 146096 doe] div [of 365 "doe - doe div 1460 + doe div 36524 - doe div 146096"]
  have yoe: "yoe \<le> 400" "doe - 365 * yoe \<le> 600" "0 \<le> yoe" using y doe unfolding yoe_def by linarith+
  have doy: "doy \<le> 700" using yoe div [of 4 yoe] div [of 100 yoe] unfolding doy_def by linarith
  have mp: "mp \<le> 23" "5 * doy + 2 < 153 * mp + 153" using div [of 153 "5 * doy + 2"] doy unfolding mp_def by linarith+
  show "month < 100" using mp m(1) by (simp split: if_splits)
  show "day < 100" using mp(2) div [of 5 "153 * mp + 2"] m(2) by linarith
  show "year < 100000" using yoe(1) era m(3) by (simp split: if_splits)
qed

text \<open>An instant before the year 10000 has a text of at most 40 characters.\<close>

lemma reading_length:
  assumes "in_calendar t"
  shows "length (iso_reading t) \<le> 34"
proof -
  define days where "days = t div day_us"
  define us where "us = t mod day_us"
  have d: "days \<le> 2932896" using assms unfolding days_def day_us_def in_calendar_def MAX_DATETIME_def by linarith
  have u: "0 \<le> us" "us < day_us" by (simp_all add: us_def day_us_def)
  obtain year month day where c: "civil_date days = (year, month, day)" by (metis prod_cases3)
  have s: "us div 1000000 < 86400" using u by (simp add: day_us_def)
  have two: "n < 100 \<Longrightarrow> length (zero_padded 2 n) \<le> 2" for n
    using zero_padded_length [of n 1 2] by simp
  have "length (zero_padded 4 year) \<le> 5" "length (zero_padded 2 month) \<le> 2" "length (zero_padded 2 day) \<le> 2"
    using zero_padded_length [of year 4 4] two civil_date_bounds [OF d c] by simp_all
  moreover have "length (zero_padded 2 (us div 1000000 div 3600)) \<le> 2"
    by (rule two) (use s in linarith)
  moreover have "length (zero_padded 2 (us div 1000000 div 60 mod 60)) \<le> 2" "length (zero_padded 2 (us div 1000000 mod 60)) \<le> 2"
    by (rule two, rule order_less_trans [OF pos_mod_bound], simp, simp)+
  moreover have "length (zero_padded 6 (us mod 1000000)) \<le> 6"
    using zero_padded_length [of "us mod 1000000" 5 6] by simp
  ultimately show ?thesis
    unfolding iso_reading_def days_def [symmetric] us_def [symmetric] Let_def c prod.case
    by (simp split: if_split)
qed

text \<open>What a \<open>datetime\<close> can hold: a reading in the calendar, an offset of less than a day.\<close>

definition moment_ok :: "moment \<Rightarrow> bool" where
  "moment_ok m \<longleftrightarrow> in_calendar (local_reading m) \<and> opt_ok (\<lambda>s. \<bar>s\<bar> < 86400) (mo_offset m)"

lemma offset_length: "\<bar>s\<bar> < 86400 \<Longrightarrow> length (iso_offset s) \<le> 9"
proof -
  assume "\<bar>s\<bar> < 86400"
  then obtain a where a: "\<bar>s\<bar> = a" "0 \<le> a" "a < 86400" by auto
  have two: "n < 100 \<Longrightarrow> length (zero_padded 2 n) \<le> 2" for n using zero_padded_length [of n 1 2] by simp
  have "length (zero_padded 2 (a div 3600)) \<le> 2" by (rule two) (use a in linarith)
  moreover have "length (zero_padded 2 (a div 60 mod 60)) \<le> 2" "length (zero_padded 2 (a mod 60)) \<le> 2"
    by (rule two, rule order_less_trans [OF pos_mod_bound], simp, simp)+
  ultimately show ?thesis unfolding iso_offset_def a(1) Let_def by (cases "a mod 60 = 0") simp_all
qed

lemma moment_length: "moment_ok m \<Longrightarrow> length (iso_moment m) \<le> 43"
  using reading_length [of "local_reading m"] offset_length [of "the (mo_offset m)"]
  by (auto simp: moment_ok_def iso_moment_def split: option.splits)

section \<open>A valid candidate is always decided\<close>

lemma snapshot_issues_ok: "list_all issue_ok (snapshot_issues c snapshot)"
  by (simp add: snapshot_issues_def issue_if_def error_issue_ok len_between_def split: option.splits)

lemma duration_issues_ok: "list_all issue_ok (duration_issues p)"
  by (simp add: duration_issues_def issue_if_def error_issue_ok len_between_def Let_def)

lemma start_issues_ok: "list_all issue_ok (start_issues p)"
  by (simp add: start_issues_def issue_if_def error_issue_ok len_between_def)

lemma effect_field_length: "i < 10 \<Longrightarrow> length (effect_field i) = 24"
  using dec_digits_bound [of "int i" 0] by (simp add: effect_field_def decimal_text_def)

lemma name_lengths: "length (disruption_name d) \<le> 40" "length (target_name t) \<le> 40" "length (assumption_status_name st) \<le> 40"
  subgoal by (cases d) simp_all
  subgoal by (cases t) simp_all
  subgoal by (cases st) simp_all
  done

lemma effect_issues_ok: "i < 10 \<Longrightarrow> list_all issue_ok (effect_issues i e)"
  using effect_field_length [of i] name_lengths(1) [of "de_disruption_type e"] name_lengths(2) [of "expected_target (de_disruption_type e)"]
  by (simp add: effect_issues_def issue_if_def error_issue_ok len_between_def Let_def)

lemma target_found_message:
  "target_found snapshot t = Inl m \<Longrightarrow> length (dt_requested_identifier t) \<le> 200 \<Longrightarrow> 1 \<le> length m \<and> length m \<le> 400"
  by (auto simp: target_found_def uuid_str_length split: option.splits if_splits)

lemma scan_effect_ok:
  assumes "list_all issue_ok (sn_issues scan)" "i < 10" "length (dt_requested_identifier (de_target e)) \<le> 200"
  shows "list_all issue_ok (sn_issues (scan_effect snapshot scan (i, e)))"
  using assms effect_issues_ok [OF assms(2), of e] effect_field_length [OF assms(2)]
    target_found_message [OF _ assms(3), of snapshot]
  by (auto simp: scan_effect_def Let_def error_issue_ok len_between_def split: sum.splits option.splits)

lemma scan_all_ok:
  assumes "list_all issue_ok (sn_issues scan)"
    "\<forall>(i, e) \<in> set ies. i < 10 \<and> length (dt_requested_identifier (de_target e)) \<le> 200"
  shows "list_all issue_ok (sn_issues (foldl (scan_effect snapshot) scan ies))"
  using assms by (induction ies arbitrary: scan) (auto simp: scan_effect_ok)

lemma scan_effects_ok:
  assumes "length es \<le> 4" "\<forall>e \<in> set es. length (dt_requested_identifier (de_target e)) \<le> 200"
  shows "list_all issue_ok (sn_issues (scan_effects snapshot es))"
  unfolding scan_effects_def by (rule scan_all_ok) (use assms in \<open>auto dest: set_zip_leftD set_zip_rightD\<close>)

lemma default_issue_ok:
  assumes "first_error (scenario_default_problems d) = None" "length (value_text (sd_value d)) \<le> 500"
  shows "issue_ok (default_issue value_text d)"
proof -
  have "len_between 1 200 (sd_field d)" "len_between 1 50 (sd_unit d)"
    using first_error_NoneD [OF assms(1)] by (auto simp: scenario_default_problems_def)
  then show ?thesis using assms(2) by (simp add: default_issue_def issue_ok_lengths len_between_def)
qed

lemma assumption_issue_ok:
  assumes "assumption_valid a" "opt_ok moment_ok (as_expires_at a)" "expired \<longrightarrow> as_expires_at a \<noteq> None"
  shows "issue_ok (assumption_issue expired a)"
proof -
  have "len_between 1 200 (as_key a)"
    using first_error_NoneD [OF assms(1) [unfolded assumption_valid_def]] by (auto simp: assumption_problems_def)
  moreover have "length (iso_moment (the (as_expires_at a))) \<le> 43" if expired
    using that assms(2,3) moment_length by (auto simp: opt_ok_def)
  ultimately show ?thesis using name_lengths(3) [of "as_status a"]
    by (cases expired)
      (simp_all add: assumption_issue_def Let_def issue_ok_lengths error_issue_def len_between_def uuid_str_length opt_ok_def)
qed

text \<open>The defaults and expiry instants of a candidate have short texts.\<close>

definition candidate_texts_ok :: "(json_value \<Rightarrow> string) \<Rightarrow> scenario_candidate \<Rightarrow> bool" where
  "candidate_texts_ok value_text c \<longleftrightarrow>
     list_all (\<lambda>d. length (value_text (sd_value d)) \<le> 500) (sc_defaults c) \<and>
     list_all (\<lambda>a. opt_ok moment_ok (as_expires_at a)) (sp_assumptions (sc_parameters c))"

lemma candidate_validD:
  assumes "first_error (candidate_problems h u c) = None"
  shows "first_error (scenario_parameters_problems (sc_parameters c)) = None"
    "first_error (twin_reference_problems (sc_twin_snapshot c)) = None"
    "is_sha256 (sc_scenario_fingerprint c)"
    "\<forall>d \<in> set (sc_defaults c). first_error (scenario_default_problems d) = None"
  using assms by (auto simp: candidate_problems_def no_error_simps list_ex_iff simp del: first_error.simps(2) split: if_splits)

lemma all_issues_ok:
  assumes "first_error (candidate_problems h u c) = None" "candidate_texts_ok value_text c"
  shows "list_all issue_ok (issue_list value_text c snapshot now)"
proof -
  note p = parameters_finite [OF candidate_validD(1) [OF assms(1)]]
  have "list_all issue_ok (sn_issues (scan_effects snapshot (sp_disruptions (sc_parameters c))))"
    by (rule scan_effects_ok [OF p(4)]) (use p(3) in \<open>simp add: len_between_def\<close>)
  moreover have "list_all issue_ok (map (default_issue value_text) (sc_defaults c))"
    using candidate_validD(4) [OF assms(1)] assms(2) by (simp add: list_all_iff candidate_texts_ok_def default_issue_ok)
  moreover have "list_all issue_ok (map (\<lambda>a. assumption_issue (past_expiry now a) a) (sp_assumptions (sc_parameters c)))"
    using p(5) assms(2) by (auto simp: list_all_iff candidate_texts_ok_def past_expiry_def opt_ok_def split: option.splits intro!: assumption_issue_ok)
  ultimately show ?thesis
    by (simp add: issue_list_def Let_def snapshot_issues_ok duration_issues_ok start_issues_ok issue_if_def error_issue_ok len_between_def)
qed

text \<open>Without a naive expiry every issue is built; with one, the loop ends at it.\<close>

abbreviation built_issue :: "validation_issue res \<Rightarrow> validation_issue res" where
  "built_issue x \<equiv> rbind x (\<lambda>x. validated (issue_problems x) x)"

lemma all_issues_list:
  assumes "list_all expiry_aware (sp_assumptions (sc_parameters c))"
  shows "all_issues value_text c snapshot now = map Inr (issue_list value_text c snapshot now)"
  using assms by (auto simp: all_issues_def issue_list_def Let_def assumption_expired_eq list_all_iff)

lemma rtraverse_built:
  "list_all issue_ok xs \<Longrightarrow> rtraverse built_issue (map Inr xs @ ys) = rmap ((@) xs) (rtraverse built_issue ys)"
proof (induction xs)
  case (Cons x xs)
  then show ?case by (cases "rtraverse built_issue ys") (simp_all add: issue_ok_def validated_ok)
qed (cases "rtraverse built_issue ys"; simp)

lemma naive_issue_raises:
  assumes "list_all issue_ok (map (\<lambda>a. assumption_issue (past_expiry now a) a) as)" "\<not> list_all expiry_aware as"
  shows "rtraverse built_issue (map (\<lambda>a. rmap (\<lambda>expired. assumption_issue expired a) (assumption_expired now a)) as @ ys)
    = Inl TypeError"
  using assms by (induction as) (auto simp: assumption_expired_eq issue_ok_def validated_ok)

lemma validation_decided:
  assumes "first_error (candidate_problems h u c) = None" "candidate_texts_ok value_text c"
    "list_all expiry_aware (sp_assumptions (sc_parameters c))"
  shows "\<exists>v. validate_scenario uuid5 value_text c (Some s) now = Inr v \<and> (sv_valid v \<longleftrightarrow> scenario_acceptable c s now) \<and>
    sv_scenario_id v = sc_scenario_id c \<and> sv_scenario_fingerprint v = sc_scenario_fingerprint c \<and>
    sv_twin_snapshot v = sc_twin_snapshot c"
proof -
  note c = candidate_validD [OF assms(1)]
  have "rtraverse built_issue (all_issues value_text c (Some s) now) = Inr (issue_list value_text c (Some s) now)"
    using rtraverse_built [OF all_issues_ok [OF assms(1,2)], of "Some s" now "[]"]
    by (simp add: all_issues_list [OF assms(3)])
  then show ?thesis using c(2,3) all_issues_no_error [OF c(1), of value_text s now]
    by (simp add: validate_scenario_def validation_result_problems_def validated_ok first_error_append_None
        VALIDATOR_VERSION_def len_between_def)
qed

lemma validation_raises:
  assumes "first_error (candidate_problems h u c) = None" "candidate_texts_ok value_text c"
    "\<not> list_all expiry_aware (sp_assumptions (sc_parameters c))"
  shows "validate_scenario uuid5 value_text c snapshot now = Inl TypeError"
proof -
  let ?p = "sc_parameters c"
  have ok: "list_all issue_ok (issue_list value_text c snapshot now)" by (rule all_issues_ok [OF assms(1,2)])
  then have "rtraverse built_issue (map (\<lambda>a. rmap (\<lambda>expired. assumption_issue expired a) (assumption_expired now a))
      (sp_assumptions ?p) @ ys) = Inl TypeError" for ys
    by (intro naive_issue_raises [OF _ assms(3)]) (simp add: issue_list_def Let_def)
  moreover have "list_all issue_ok (snapshot_issues c snapshot @ duration_issues ?p @ start_issues ?p @
      sn_issues (scan_effects snapshot (sp_disruptions ?p)) @ map (default_issue value_text) (sc_defaults c))"
    using ok by (simp add: issue_list_def Let_def)
  ultimately show ?thesis
    unfolding validate_scenario_def all_issues_def Let_def by (simp only: rtraverse_built rmap_simps rbind_simps)
qed

end
