(* ===== verification/Py_Regex.thy ===== *)
theory Py_Regex imports Py_Strings begin

text \<open>
  The part of Python's \<open>re\<close> that the scenario compiler uses: character classes, word boundaries,
  sequence, alternatives, groups and greedy or lazy repetition, matched by backtracking in the order
  Python tries them, and \<open>search\<close>. The flag \<open>re.I\<close> compares ASCII letters without case.
\<close>

section \<open>Patterns\<close>

datatype rx =
    Empty
  | Sym "char \<Rightarrow> bool"
  | Edge
  | Then rx rx
  | Either rx rx
  | Repeat bool rx
  | Group nat rx

definition word_char :: "char \<Rightarrow> bool" where
  "word_char c \<longleftrightarrow> is_digit c \<or> c = CHR ''_'' \<or> is_letter c"

definition same_letter :: "char \<Rightarrow> char \<Rightarrow> bool" where
  "same_letter c d \<longleftrightarrow> ascii_lower [c] = ascii_lower [d]"

fun seq :: "rx list \<Rightarrow> rx" where
  "seq [] = Empty"
| "seq [r] = r"
| "seq (r # rs) = Then r (seq rs)"

definition text_rx :: "string \<Rightarrow> rx" where "text_rx s = seq (map (\<lambda>c. Sym (same_letter c)) s)"
definition maybe :: "rx \<Rightarrow> rx" where "maybe r = Either r Empty"
definition some_of :: "bool \<Rightarrow> rx \<Rightarrow> rx" where "some_of greedy r = Then r (Repeat greedy r)"
definition spaces :: rx where "spaces = some_of True (Sym whitespace)"

section \<open>Matching\<close>

text \<open>A position in the subject: the character before it, the characters after it, and the groups closed so far.\<close>

record place =
  px_before :: "char option"
  px_rest :: string
  px_groups :: "(nat \<times> string) list"

definition at_edge :: "place \<Rightarrow> bool" where
  "at_edge s \<longleftrightarrow> opt_ok (\<lambda>c. \<not> word_char c) (px_before s) \<noteq> (case px_rest s of [] \<Rightarrow> True | c # _ \<Rightarrow> \<not> word_char c)"

definition eat :: "place \<Rightarrow> place" where
  "eat s = s\<lparr>px_before := Some (hd (px_rest s)), px_rest := tl (px_rest s)\<rparr>"

definition close_group :: "nat \<Rightarrow> place \<Rightarrow> place \<Rightarrow> place" where
  "close_group n opened s =
     s\<lparr>px_groups := (n, take (length (px_rest opened) - length (px_rest s)) (px_rest opened)) # px_groups s\<rparr>"

text \<open>
  A matcher calls what follows at each position where its pattern may end, in order of preference, and
  returns the first success. A repetition stops at an iteration that consumes nothing; every other one
  consumes a character, so the length of the rest bounds their number.
\<close>

fun repeat_rx :: "(place \<Rightarrow> (place \<Rightarrow> 'a option) \<Rightarrow> 'a option) \<Rightarrow> bool \<Rightarrow> nat \<Rightarrow> place \<Rightarrow> (place \<Rightarrow> 'a option) \<Rightarrow> 'a option" where
  "repeat_rx m greedy 0 s k = k s"
| "repeat_rx m greedy (Suc n) s k =
    (let more = (\<lambda>_::unit. m s (\<lambda>s'. if length (px_rest s') < length (px_rest s) then repeat_rx m greedy n s' k else None))
     in if greedy then (case more () of None \<Rightarrow> k s | Some x \<Rightarrow> Some x)
        else (case k s of None \<Rightarrow> more () | Some x \<Rightarrow> Some x))"

primrec match_rx :: "rx \<Rightarrow> place \<Rightarrow> (place \<Rightarrow> 'a option) \<Rightarrow> 'a option" where
  "match_rx Empty s k = k s"
| "match_rx (Sym p) s k = (case px_rest s of [] \<Rightarrow> None | c # _ \<Rightarrow> if p c then k (eat s) else None)"
| "match_rx Edge s k = (if at_edge s then k s else None)"
| "match_rx (Then a b) s k = match_rx a s (\<lambda>s'. match_rx b s' k)"
| "match_rx (Either a b) s k = (case match_rx a s k of None \<Rightarrow> match_rx b s k | Some x \<Rightarrow> Some x)"
| "match_rx (Repeat greedy r) s k = repeat_rx (match_rx r) greedy (length (px_rest s)) s k"
| "match_rx (Group n r) s k = match_rx r s (\<lambda>s'. k (close_group n s s'))"

text \<open>\<open>re.search\<close>: the groups of the leftmost match.\<close>

fun search_from :: "rx \<Rightarrow> char option \<Rightarrow> string \<Rightarrow> (nat \<times> string) list option" where
  "search_from r before text =
    (case match_rx r \<lparr>px_before = before, px_rest = text, px_groups = []\<rparr> (\<lambda>s. Some (px_groups s)) of
       Some groups \<Rightarrow> Some groups
     | None \<Rightarrow> (case text of [] \<Rightarrow> None | c # cs \<Rightarrow> search_from r (Some c) cs))"

definition search :: "rx \<Rightarrow> string \<Rightarrow> (nat \<times> string) list option" where
  "search r text = search_from r None text"

definition group_text :: "(nat \<times> string) list \<Rightarrow> nat \<Rightarrow> string" where
  "group_text groups n = (case map_of groups n of None \<Rightarrow> '''' | Some s \<Rightarrow> s)"

end
