(* ===== verification/Scenario_Compiler.thy ===== *)
theory Scenario_Compiler imports Scenario_Validator Py_Regex begin

text \<open>
  The scenario compiler, \<open>sanjiv/scenarios/compiler.py\<close>: a structured form, a text of the documented
  patterns or the answer of an optional provider becomes a candidate with its defaults, its scenario
  assumption and a deterministic validation, or a failure. The provider (a remote model), \<open>uuid5\<close>,
  the fingerprint and the text of a JSON value are parameters.
\<close>

section \<open>Providers\<close>

text \<open>What \<open>interpret\<close> of a provider does; \<open>BadOutput\<close> is \<open>ProviderOutputError\<close> or a \<open>ValueError\<close>.\<close>

datatype provider_answer = Interpreted structured_scenario_input | ProviderTimeout | ProviderUnavailable | BadOutput

record scenario_provider =
  pv_name :: string
  pv_model :: "string option"
  pv_available :: bool
  pv_interpret :: "string \<Rightarrow> uuid \<Rightarrow> provider_answer"

definition disabled_provider :: scenario_provider where
  "disabled_provider = \<lparr>pv_name = ''disabled'', pv_model = None, pv_available = False, pv_interpret = (\<lambda>_ _. ProviderUnavailable)\<rparr>"

record compiler_world =
  cw_uuid5 :: uuid5_fun
  cw_scenario_hash :: scenario_hash
  cw_json :: "json_value \<Rightarrow> string"
  cw_value_text :: "json_value \<Rightarrow> string"

definition DEFAULT_HORIZON_DAYS :: pyfloat where "DEFAULT_HORIZON_DAYS = Fin 30"
definition DEFAULT_TIMEOUT_SECONDS :: pyfloat where "DEFAULT_TIMEOUT_SECONDS = Fin 10"

section \<open>Failures\<close>

text \<open>\<open>_failure\<close>; an empty list of warnings is replaced.\<close>

definition failure_response ::
  "scenario_provider \<Rightarrow> pyfloat \<Rightarrow> string \<Rightarrow> string \<Rightarrow> interpreter_status \<Rightarrow> string list \<Rightarrow> compile_response res" where
  "failure_response provider timeout_seconds code message status warnings =
    (let i = \<lparr>ir_status = status, ir_source_mode = None, ir_provider = pv_name provider, ir_model = pv_model provider,
          ir_timeout_seconds = timeout_seconds,
          ir_warnings = (if warnings = [] then [''The structured scenario form remains available.''] else warnings),
          ir_error_code = Some code, ir_error_message = Some message\<rparr>
     in rbind (validated (interpretation_problems i) i) (\<lambda>i.
          Inr \<lparr>cm_candidate = None, cm_interpretation = i, cm_validation = None, cm_fallback_available = True\<rparr>))"

definition unsafe_patterns :: "(string \<times> string) list" where
  "unsafe_patterns =
    [(''ignore validation'', ''Requests to ignore deterministic validation are refused.''),
     (''ignore previous'', ''Requests to modify or ignore system rules are refused.''),
     (''system rules'', ''Requests to modify or ignore system rules are refused.''),
     ([CHR 0x22] @ ''approved'' @ [CHR 0x22], ''Embedded approval data cannot confirm a scenario.''),
     (''approve itself'', ''Embedded approval data cannot confirm a scenario.''),
     (''invent inventory'', ''Unavailable inventory cannot be invented.''),
     (''procurement plan'', ''Procurement planning is outside Phase 3 and cannot be requested through the compiler.''),
     (''buy crude'', ''Procurement planning is outside Phase 3 and cannot be requested through the compiler.'')]"

definition unsafe_instruction :: "string \<Rightarrow> string option" where
  "unsafe_instruction text = map_option snd (find (\<lambda>(pattern, message). contains_text pattern (ascii_lower text)) unsafe_patterns)"

section \<open>The patterns of the text parser\<close>

text \<open>\<open>(\d+(?:\.\d+)?)\<close>.\<close>

definition number_rx :: rx where
  "number_rx = Then (some_of True (Sym is_digit)) (maybe (Then (Sym ((=) CHR ''.'')) (some_of True (Sym is_digit))))"

text \<open>\<open>(.+?)\<close>.\<close>

definition lazy_any :: rx where
  "lazy_any = some_of False (Sym (\<lambda>c. c \<noteq> CHR 0x0A))"

definition duration_rx :: rx where
  "duration_rx = seq [Edge, Group 1 number_rx, Repeat True (Sym whitespace),
     Group 2 (Either (Then (text_rx ''hour'') (maybe (text_rx ''s''))) (Then (text_rx ''day'') (maybe (text_rx ''s'')))), Edge]"

definition closure_rx :: rx where
  "closure_rx = seq [Edge, text_rx ''close'', maybe (Either (text_rx ''s'') (text_rx ''d'')), spaces,
     maybe (Then (text_rx ''the'') spaces),
     maybe (seq [text_rx ''strait'', spaces, text_rx ''of'', spaces]), text_rx ''hormuz'', Edge]"

definition total_loss_rx :: rx where
  "total_loss_rx = seq [Edge, text_rx ''hormuz'', spaces,
     Either (Then (text_rx ''lose'') (maybe (text_rx ''s''))) (text_rx ''loss''), spaces, text_rx ''100%'', spaces,
     text_rx ''capacity'', Edge]"

definition reduce_rx :: "rx \<Rightarrow> string \<Rightarrow> rx" where
  "reduce_rx prefix noun = seq [Edge, text_rx ''reduce'', spaces, prefix, Group 1 lazy_any, spaces, text_rx noun, spaces,
     text_rx ''by'', spaces, Group 2 number_rx, Sym ((=) CHR ''%'')]"

definition route_rx :: rx where "route_rx = reduce_rx (maybe (Then (text_rx ''the'') spaces)) ''capacity''"
definition supplier_rx :: rx where "supplier_rx = reduce_rx (maybe (Then (text_rx ''supplier'') spaces)) ''availability''"
definition refinery_rx :: rx where "refinery_rx = reduce_rx Empty ''throughput''"

definition port_rx :: rx where
  "port_rx = seq [Edge, text_rx ''close'', spaces, Group 1 lazy_any, spaces, text_rx ''port'', Edge]"

definition lpg_rx :: rx where "lpg_rx = seq [Edge, text_rx ''LPG'', Edge]"

section \<open>The text parser\<close>

definition effect_of :: "disruption_type \<Rightarrow> disruption_target_type \<Rightarrow> string \<Rightarrow> pyfloat \<Rightarrow> disruption_effect" where
  "effect_of disruption target requested reduction =
     \<lparr>de_disruption_type = disruption,
      de_target = \<lparr>dt_target_type = target, dt_requested_identifier = requested, dt_asset_id = None, dt_canonical_id = None,
        dt_display_name = None\<rparr>,
      de_capacity_reduction = \<lparr>pq_value = reduction\<rparr>\<rparr>"

definition closure_effects :: "string \<Rightarrow> disruption_effect list" where
  "closure_effects text =
    (if search closure_rx text \<noteq> None \<or> search total_loss_rx text \<noteq> None
     then [effect_of CHOKEPOINT_CLOSURE T_CHOKEPOINT ''Strait of Hormuz'' (Fin 100)] else [])"

definition route_effects :: "string \<Rightarrow> disruption_effect list" where
  "route_effects text =
    (case search route_rx text of
       None \<Rightarrow> []
     | Some g \<Rightarrow>
         (let requested = strip (group_text g 1); reduction = decimal_float (group_text g 2) in
          if contains_text ''hormuz'' (ascii_lower requested)
          then [effect_of CHOKEPOINT_CAPACITY_REDUCTION T_CHOKEPOINT ''Strait of Hormuz'' reduction]
          else [effect_of MARITIME_ROUTE_CAPACITY_REDUCTION T_ROUTE requested reduction]))"

definition supplier_effects :: "string \<Rightarrow> disruption_effect list" where
  "supplier_effects text =
    (case search supplier_rx text of
       None \<Rightarrow> []
     | Some g \<Rightarrow> [effect_of SUPPLIER_VOLUME_REDUCTION T_SUPPLIER (strip (group_text g 1)) (decimal_float (group_text g 2))])"

definition refinery_effects :: "string \<Rightarrow> disruption_effect list" where
  "refinery_effects text =
    (case search refinery_rx text of
       None \<Rightarrow> []
     | Some g \<Rightarrow> [effect_of REFINERY_THROUGHPUT_DISRUPTION T_REFINERY (strip (group_text g 1)) (decimal_float (group_text g 2))])"

definition port_effects :: "string \<Rightarrow> disruption_effect list" where
  "port_effects text =
    (case search port_rx text of
       None \<Rightarrow> []
     | Some g \<Rightarrow> if contains_text ''hormuz'' (ascii_lower (group_text g 1)) then []
         else [effect_of PORT_DISRUPTION T_PORT (strip (group_text g 1)) (Fin 100)])"

definition text_effects :: "string \<Rightarrow> disruption_effect list" where
  "text_effects text =
     closure_effects text @ route_effects text @ supplier_effects text @ refinery_effects text @ port_effects text"

definition text_duration :: "string \<Rightarrow> duration_quantity option" where
  "text_duration text = map_option (\<lambda>g.
     \<lparr>dq_value = decimal_float (group_text g 1),
      dq_unit = (if take 4 (ascii_lower (group_text g 2)) = ''hour'' then HOUR else DAY)\<rparr>) (search duration_rx text)"

definition normalized_text :: "string \<Rightarrow> string" where
  "normalized_text text = join_words (split_words (rstrip_of ((=) CHR ''.'') (strip text)))"

text \<open>
  \<open>AmbiguousScenarioError\<close> is the left case of the inner sum; other errors, such as a field that pydantic
  refuses, propagate.
\<close>

definition parse_deterministic_text :: "string \<Rightarrow> uuid \<Rightarrow> datetime \<Rightarrow> (string + structured_scenario_input) res" where
  "parse_deterministic_text text snapshot_id now =
    (let normalized = normalized_text text in
     case text_duration normalized of
       None \<Rightarrow> Inr (Inl ''A supported scenario must state an explicit duration in hours or days.'')
     | Some duration \<Rightarrow>
       rbind (validated (duration_problems duration) duration) (\<lambda>duration.
       rbind (rtraverse (\<lambda>e. validated (effect_problems e) e) (text_effects normalized)) (\<lambda>effects.
       if effects = []
       then Inr (Inl ''The text does not match the documented closure, route, supplier, port, or refinery patterns.'')
       else if 4 < length effects then Inr (Inl ''At most four compound disruption effects are supported.'')
       else
        (let s = \<lparr>si_scenario_name = take 200 normalized, si_twin_snapshot_id = snapshot_id,
              si_commodity = (if search lpg_rx normalized \<noteq> None then LPG else CRUDE_OIL), si_disruption_start = Some (utc now),
              si_disruption_duration = duration, si_simulation_horizon = None, si_disruptions = effects, si_assumptions = []\<rparr>
         in rbind (validated (structured_input_problems s) s) (\<lambda>s. Inr (Inr s))))))"

section \<open>Candidates\<close>

definition optional_uuid :: "uuid option \<Rightarrow> json_value" where
  "optional_uuid u = (case u of None \<Rightarrow> JNull | Some u \<Rightarrow> JStr (uuid_str u))"

definition optional_text :: "string option \<Rightarrow> json_value" where
  "optional_text s = (case s of None \<Rightarrow> JNull | Some s \<Rightarrow> JStr s)"

text \<open>\<open>model_dump(mode="json")\<close> of an effect.\<close>

definition effect_json :: "disruption_effect \<Rightarrow> json_value" where
  "effect_json e =
    (let t = de_target e in
     JObj [(''disruption_type'', JStr (disruption_name (de_disruption_type e))),
       (''target'', JObj [(''target_type'', JStr (target_name (dt_target_type t))),
          (''requested_identifier'', JStr (dt_requested_identifier t)), (''asset_id'', optional_uuid (dt_asset_id t)),
          (''canonical_id'', optional_text (dt_canonical_id t)), (''display_name'', optional_text (dt_display_name t))]),
       (''capacity_reduction'', JObj [(''value'', JFloat (pq_value (de_capacity_reduction e))), (''unit'', JStr ''percent'')])])"

definition scenario_assumption ::
  "compiler_world \<Rightarrow> uuid \<Rightarrow> moment \<Rightarrow> duration_quantity \<Rightarrow> disruption_effect list \<Rightarrow> datetime \<Rightarrow> assumption res" where
  "scenario_assumption world snapshot_id start horizon effects entered_at =
    (let val = JList (map effect_json effects);
         identity = cw_json world (JObj [(''snapshot_id'', JStr (uuid_str snapshot_id)), (''start'', JStr (iso_moment start)),
           (''effects'', val)])
     in rbind (timedelta_days (dq_days horizon + 1)) (\<lambda>d.
        rbind (moment_add start d) (\<lambda>expires_at.
        let a = \<lparr>as_id = cw_uuid5 world (''urn:sanjiv:scenario-input:'' @ identity), as_key = ''scenario.disruption_input'',
          as_value = val, as_unit = ''scenario_effects'', as_truth_class = ASSUMPTION,
          as_rationale = ''Operator-supplied hypothetical disruption inputs for no-action analysis.'',
          as_source_gap = ''A scenario describes a hypothetical event and is not asserted as observed operational state.'',
          as_owner = ''scenario-operator'', as_entered_at = entered_at, as_effective_at = start,
          as_expires_at = Some expires_at, as_approved_at = None, as_approved_by = None, as_status = AS_DRAFT,
          as_scenario_id = None, as_supersedes_id = None\<rparr>
        in validated (assumption_problems a) a)))"

definition start_default :: "datetime \<Rightarrow> scenario_default" where
  "start_default start =
     \<lparr>sd_field = ''disruption_start'', sd_value = JStr (isoformat start), sd_unit = ''utc_timestamp'',
      sd_rationale = ''No delayed start was supplied; compilation time is used.'', sd_requires_confirmation = True\<rparr>"

definition horizon_default :: "pyfloat \<Rightarrow> scenario_default" where
  "horizon_default days =
     \<lparr>sd_field = ''simulation_horizon'', sd_value = JFloat days, sd_unit = ''day'',
      sd_rationale = ''The documented interactive horizon is 30 days or the full disruption duration, whichever is longer.'',
      sd_requires_confirmation = True\<rparr>"

text \<open>The start and the horizon of a scenario, each with the default it is, if it was not supplied.\<close>

definition scenario_start :: "structured_scenario_input \<Rightarrow> datetime \<Rightarrow> moment \<times> scenario_default list" where
  "scenario_start s created_at =
    (case si_disruption_start s of Some t \<Rightarrow> (t, []) | None \<Rightarrow> (utc created_at, [start_default created_at]))"

definition scenario_horizon :: "structured_scenario_input \<Rightarrow> (duration_quantity \<times> scenario_default list) res" where
  "scenario_horizon s =
    (case si_simulation_horizon s of
       Some h \<Rightarrow> Inr (h, [])
     | None \<Rightarrow>
        (let h = \<lparr>dq_value = py_max DEFAULT_HORIZON_DAYS (dq_days (si_disruption_duration s)), dq_unit = DAY\<rparr>
         in rbind (validated (duration_problems h) h) (\<lambda>h. Inr (h, [horizon_default (dq_value h)]))))"

definition snapshot_reference :: "twin_snapshot \<Rightarrow> twin_snapshot_reference" where
  "snapshot_reference s =
     \<lparr>tr_snapshot_id = ts_snapshot_id s, tr_fingerprint = ts_fingerprint s, tr_version = ts_version s,
      tr_effective_at = ts_effective_at s\<rparr>"

definition scenario_assumptions ::
  "compiler_world \<Rightarrow> structured_scenario_input \<Rightarrow> uuid \<Rightarrow> moment \<Rightarrow> duration_quantity \<Rightarrow> disruption_effect list \<Rightarrow> datetime
     \<Rightarrow> assumption list res" where
  "scenario_assumptions world s snapshot_id start horizon resolved created_at =
    (if si_assumptions s = []
     then rmap (\<lambda>a. [a]) (scenario_assumption world snapshot_id start horizon resolved created_at)
     else Inr (si_assumptions s))"

definition build_candidate ::
  "compiler_world \<Rightarrow> structured_scenario_input \<Rightarrow> twin_snapshot \<Rightarrow> string option \<Rightarrow> scenario_source_mode \<Rightarrow> string
     \<Rightarrow> string option \<Rightarrow> datetime \<Rightarrow> scenario_candidate res" where
  "build_candidate world s snapshot original_text mode provider model created_at =
    (case scenario_start s created_at of (start, start_defaults) \<Rightarrow>
     rbind (scenario_horizon s) (\<lambda>(horizon, horizon_defaults).
     let resolved = resolve_effects snapshot (si_disruptions s) in
     rbind (scenario_assumptions world s (ts_snapshot_id snapshot) start horizon resolved created_at) (\<lambda>assumptions.
     let p = \<lparr>sp_commodity = si_commodity s, sp_disruption_start = start, sp_disruption_duration = si_disruption_duration s,
           sp_simulation_horizon = horizon, sp_disruptions = resolved, sp_assumptions = assumptions\<rparr>;
         twin = snapshot_reference snapshot in
     rbind (validated (scenario_parameters_problems p) p) (\<lambda>p.
     rbind (validated (twin_reference_problems twin) twin) (\<lambda>twin.
       candidate_create (cw_scenario_hash world) (cw_uuid5 world) (si_scenario_name s) original_text mode provider model twin p
         (start_defaults @ horizon_defaults) created_at)))))"

section \<open>Compilation\<close>

definition provider_interpret ::
  "scenario_provider \<Rightarrow> string \<Rightarrow> uuid \<Rightarrow> pyfloat \<Rightarrow> (compile_response + structured_scenario_input) res" where
  "provider_interpret provider text snapshot_id timeout_seconds =
    (let failed = (\<lambda>code message status. rmap Inl (failure_response provider timeout_seconds code message status []));
         unavailable = failed ''PROVIDER_UNAVAILABLE'' ''The optional scenario provider is unavailable.'' IS_PROVIDER_UNAVAILABLE
     in if \<not> pv_available provider then unavailable
        else (case pv_interpret provider text snapshot_id of
            Interpreted s \<Rightarrow> Inr (Inr s)
          | ProviderTimeout \<Rightarrow> failed ''PROVIDER_TIMEOUT'' ''The optional scenario provider timed out.'' IS_TIMED_OUT
          | ProviderUnavailable \<Rightarrow> unavailable
          | BadOutput \<Rightarrow> failed ''INVALID_PROVIDER_OUTPUT'' ''The optional provider returned invalid scenario data.'' IS_FAILED))"

text \<open>How an input was obtained: the source mode, the interpreter with its model, and the warnings.\<close>

record interpreted =
  in_structured :: "structured_scenario_input option"
  in_mode :: scenario_source_mode
  in_provider :: string
  in_model :: "string option"
  in_warnings :: "string list"

definition provided :: "scenario_provider \<Rightarrow> compile_response + structured_scenario_input \<Rightarrow> compile_response + interpreted" where
  "provided provider answer = (case answer of
     Inl failure \<Rightarrow> Inl failure
   | Inr s \<Rightarrow> Inr \<lparr>in_structured = Some s, in_mode = SM_LLM_PROVIDER, in_provider = pv_name provider, in_model = pv_model provider,
       in_warnings = [''Provider output is untrusted and requires deterministic validation.'']\<rparr>)"

definition request_text :: "compile_scenario_request \<Rightarrow> string" where
  "request_text q = (case cr_text q of None \<Rightarrow> '''' | Some s \<Rightarrow> s)"

definition interpret_request ::
  "scenario_provider \<Rightarrow> pyfloat \<Rightarrow> compile_scenario_request \<Rightarrow> uuid \<Rightarrow> datetime \<Rightarrow> (compile_response + interpreted) res" where
  "interpret_request provider timeout_seconds q snapshot_id compiled_at =
    (let ask = rmap (provided provider) (provider_interpret provider (request_text q) snapshot_id timeout_seconds) in
     if cr_mode q = CM_STRUCTURED_FORM \<or> (cr_mode q = CM_AUTO \<and> cr_structured q \<noteq> None)
     then Inr (Inr \<lparr>in_structured = cr_structured q, in_mode = SM_STRUCTURED_FORM, in_provider = ''structured-form'', in_model = None,
       in_warnings = []\<rparr>)
     else if cr_mode q \<in> {CM_AUTO, CM_DETERMINISTIC_TEXT}
     then rbind (parse_deterministic_text (request_text q) snapshot_id compiled_at) (\<lambda>parsed.
       case parsed of
         Inr s \<Rightarrow> Inr (Inr \<lparr>in_structured = Some s, in_mode = SM_DETERMINISTIC_TEXT, in_provider = ''sanjiv-deterministic-parser'',
           in_model = None, in_warnings = []\<rparr>)
       | Inl message \<Rightarrow>
           if cr_mode q = CM_DETERMINISTIC_TEXT \<or> \<not> pv_available provider
           then rmap Inl (failure_response provider timeout_seconds ''CLARIFICATION_REQUIRED'' message
             (if cr_mode q = CM_AUTO then IS_PROVIDER_UNAVAILABLE else IS_FAILED)
             [''Use the structured form or one of the documented deterministic patterns.''])
           else ask)
     else ask)"

definition compiled_response ::
  "compiler_world \<Rightarrow> scenario_provider \<Rightarrow> pyfloat \<Rightarrow> compile_scenario_request \<Rightarrow> twin_snapshot \<Rightarrow> datetime \<Rightarrow> interpreted
     \<Rightarrow> compile_response res" where
  "compiled_response world provider timeout_seconds q snapshot compiled_at i =
    (case in_structured i of
       None \<Rightarrow> failure_response provider timeout_seconds ''COMPILER_FAILURE'' ''No scenario candidate was produced.'' IS_FAILED []
     | Some s \<Rightarrow>
       rbind (build_candidate world s snapshot (cr_text q) (in_mode i) (in_provider i) (in_model i) compiled_at) (\<lambda>candidate.
       rbind (validate_scenario (cw_uuid5 world) (cw_value_text world) candidate (Some snapshot) compiled_at) (\<lambda>validation.
       let r = \<lparr>ir_status = IS_SUCCEEDED, ir_source_mode = Some (in_mode i), ir_provider = in_provider i, ir_model = in_model i,
             ir_timeout_seconds = timeout_seconds, ir_warnings = in_warnings i, ir_error_code = None, ir_error_message = None\<rparr>
       in rbind (validated (interpretation_problems r) r) (\<lambda>r.
            Inr \<lparr>cm_candidate = Some candidate, cm_interpretation = r, cm_validation = Some validation, cm_fallback_available = True\<rparr>))))"

definition compile_scenario ::
  "compiler_world \<Rightarrow> scenario_provider \<Rightarrow> pyfloat \<Rightarrow> compile_scenario_request \<Rightarrow> twin_snapshot \<Rightarrow> datetime \<Rightarrow> compile_response res" where
  "compile_scenario world provider timeout_seconds q snapshot compiled_at =
    (if ts_snapshot_id snapshot \<noteq> cr_twin_snapshot_id q
     then failure_response provider timeout_seconds ''TWIN_SNAPSHOT_MISSING'' ''The selected twin snapshot is unavailable.'' IS_FAILED []
     else (case unsafe_instruction (request_text q) of
         Some message \<Rightarrow> failure_response provider timeout_seconds ''UNTRUSTED_INSTRUCTION'' message IS_FAILED []
       | None \<Rightarrow>
         rbind (interpret_request provider timeout_seconds q (ts_snapshot_id snapshot) compiled_at) (\<lambda>answer.
           case answer of
             Inl failure \<Rightarrow> Inr failure
           | Inr i \<Rightarrow> compiled_response world provider timeout_seconds q snapshot compiled_at i)))"

end
