(* ===== verification/Scenario_Props.thy ===== *)
theory Scenario_Props imports Scenario_Check Scenario_Compiler Simulation_Total Simulation_Example begin

text \<open>
  Properties of the scenario validator and compiler: what a valid scenario is, that it can be simulated,
  what the text parser returns; with a concrete form compiled against the example twin.
\<close>

section \<open>From a valid scenario to the simulation\<close>







section \<open>A concrete form\<close>

definition form_twin :: twin_snapshot where
  "form_twin = example_twin\<lparr>ts_fingerprint := replicate 64 (CHR ''f'')\<rparr>"

definition form_input :: "disruption_effect list \<Rightarrow> structured_scenario_input" where
  "form_input effects =
     \<lparr>si_scenario_name = ''Gulf route'', si_twin_snapshot_id = 99, si_commodity = CRUDE_OIL, si_disruption_start = None,
      si_disruption_duration = \<lparr>dq_value = Fin 48, dq_unit = HOUR\<rparr>, si_simulation_horizon = Some \<lparr>dq_value = Fin 3, dq_unit = DAY\<rparr>,
      si_disruptions = effects, si_assumptions = []\<rparr>"

definition form_world :: compiler_world where
  "form_world = \<lparr>cw_uuid5 = (\<lambda>_. 77), cw_scenario_hash = (\<lambda>_ _ _. replicate 64 (CHR ''3'')), cw_json = (\<lambda>_. ''{}''),
     cw_value_text = (\<lambda>_. ''value'')\<rparr>"

definition form_candidate :: scenario_candidate where
  "form_candidate = projr (build_candidate form_world
     (form_input [effect_of MARITIME_ROUTE_CAPACITY_REDUCTION T_ROUTE ''Gulf'' (Fin 50)]) form_twin None SM_STRUCTURED_FORM
     ''structured-form'' None 1000)"


lemma form_candidate_valid:
  "first_error (candidate_problems (cw_scenario_hash form_world) (cw_uuid5 form_world) form_candidate) = None"
  "candidate_texts_ok (cw_value_text form_world) form_candidate"
  by code_simp+

lemma form_acceptable: "scenario_acceptable form_candidate form_twin 2000" by code_simp

lemma form_expiries: "list_all expiry_aware (sp_assumptions (sc_parameters form_candidate))" by code_simp

section \<open>Properties\<close>

text \<open>C14: The validator of a valid candidate raises \<open>TypeError\<close> when an assumption has an expiry without time zone, and answers
  otherwise. It calls the scenario valid exactly when the snapshot is the referenced one, the durations
  are in range and the horizon covers the disruption, the start has a time zone, every effect has the target
  type of its disruption, a reduction in range (100 percent for a closure) and an asset of the snapshot, no
  asset is hit twice, and there are assumptions, all of them current.\<close>

theorem validator_decides:
  assumes "first_error (candidate_problems scenario_hash uuid5 c) = None" "candidate_texts_ok value_text c"
  shows "if list_all expiry_aware (sp_assumptions (sc_parameters c))
    then \<exists>v. validate_scenario uuid5 value_text c (Some s) now = Inr v \<and> (sv_valid v \<longleftrightarrow> scenario_acceptable c s now) \<and>
      sv_scenario_id v = sc_scenario_id c \<and> sv_scenario_fingerprint v = sc_scenario_fingerprint c
    else validate_scenario uuid5 value_text c (Some s) now = Inl TypeError"
  using validation_decided [OF assms, of uuid5 s now] validation_raises [OF assms, of uuid5 "Some s" now] by auto

theorem validator_decides_witness:
  "\<exists>v. validate_scenario (\<lambda>_. 77) (\<lambda>_. ''value'') form_candidate (Some form_twin) 2000 = Inr v \<and> sv_valid v"
  using validator_decides [OF form_candidate_valid, of form_twin 2000] form_acceptable form_expiries
  by (auto simp: form_world_def)





section \<open>The text parser\<close>

definition parsed_effect_ok :: "disruption_effect \<Rightarrow> bool" where
  "parsed_effect_ok e \<longleftrightarrow>
     dt_target_type (de_target e) = expected_target (de_disruption_type e) \<and>
     0 \<le> pq_value (de_capacity_reduction e) \<and>
     (de_disruption_type e = CHOKEPOINT_CLOSURE \<longrightarrow> pq_value (de_capacity_reduction e) = Fin 100) \<and>
     dt_asset_id (de_target e) = None"

lemma hundred_nonneg [simp]: "0 \<le> Fin 100"
  by (simp add: zero_pyfloat_def)

lemma text_effects_ok: "list_all parsed_effect_ok (text_effects text)"
  by (simp add: text_effects_def closure_effects_def route_effects_def supplier_effects_def refinery_effects_def
      port_effects_def parsed_effect_ok_def effect_of_def decimal_float_nonneg Let_def split: option.splits)

lemma rtraverse_validated: "rtraverse (\<lambda>x. validated (problems x) x) xs = Inr ys \<Longrightarrow> ys = xs"
  by (induction xs arbitrary: ys) (auto simp: rbind_Inr_iff rmap_def validated_Inr)

text \<open>C17: Whatever a text says, an input the parser returns has one to four effects, each with the target type
  of its disruption, a nonnegative reduction, 100 percent if it is a closure, and no asset yet; it starts
  now, has a nonnegative duration, leaves the horizon and the assumptions open and meets the constraints of a form.\<close>

theorem parsed_input_well_typed:
  assumes "parse_deterministic_text text snapshot_id now = Inr (Inr s)"
  shows "first_error (structured_input_problems s) = None \<and> list_all parsed_effect_ok (si_disruptions s) \<and>
    1 \<le> length (si_disruptions s) \<and> length (si_disruptions s) \<le> 4 \<and>
    0 \<le> dq_value (si_disruption_duration s) \<and> si_disruption_start s = Some (utc now) \<and> si_twin_snapshot_id s = snapshot_id \<and>
    si_simulation_horizon s = None \<and> si_assumptions s = []"
proof -
  let ?t = "normalized_text text"
  obtain duration where d: "text_duration ?t = Some duration"
    using assms by (auto simp: parse_deterministic_text_def Let_def split: option.splits)
  have n: "0 \<le> dq_value duration"
    using d by (auto simp: text_duration_def decimal_float_nonneg)
  obtain effects where e: "rtraverse (\<lambda>e. validated (effect_problems e) e) (text_effects ?t) = Inr effects"
    using assms d by (auto simp: parse_deterministic_text_def Let_def rbind_Inr_iff)
  have "effects = text_effects ?t" using rtraverse_validated [OF e] .
  then show ?thesis
    using assms text_effects_ok [of ?t] n
    by (auto simp: parse_deterministic_text_def Let_def d e rbind_Inr_iff validated_Inr Suc_le_eq split: if_splits)
qed

theorem parsed_input_well_typed_witness:
  "list_all parsed_effect_ok (si_disruptions (projr (projr (parse_deterministic_text ''Close Hormuz 7 days.'' 99 1000))))"
proof -
  have "(case parse_deterministic_text ''Close Hormuz 7 days.'' 99 1000 of Inr (Inr s) \<Rightarrow> True | _ \<Rightarrow> False)" by code_simp
  then obtain s where s: "parse_deterministic_text ''Close Hormuz 7 days.'' 99 1000 = Inr (Inr s)"
    by (auto split: sum.splits)
  then show ?thesis using parsed_input_well_typed [OF s] by simp
qed

text \<open>Compound texts of the documented patterns are misread: closing the strait and a port loses the port,
  because the name of the port is taken from the first "close" and contains the strait; and of two reductions
  the second one gets a name that starts in the first.\<close>

lemma compound_text_misread:
  "text_effects ''Close the Strait of Hormuz and Sikka port for 5 days''
     = [effect_of CHOKEPOINT_CLOSURE T_CHOKEPOINT ''Strait of Hormuz'' (Fin 100)] \<and>
   text_effects ''Close Sikka port and close the Strait of Hormuz for 5 days''
     = [effect_of CHOKEPOINT_CLOSURE T_CHOKEPOINT ''Strait of Hormuz'' (Fin 100),
        effect_of PORT_DISRUPTION T_PORT ''Sikka'' (Fin 100)] \<and>
   text_effects ''Reduce Kochi throughput by 50% and reduce Kandla capacity by 20% for 5 days''
     = [effect_of MARITIME_ROUTE_CAPACITY_REDUCTION T_ROUTE ''Kochi throughput by 50% and reduce Kandla'' (Fin 20),
        effect_of REFINERY_THROUGHPUT_DISRUPTION T_REFINERY ''Kochi'' (Fin 50)]"
  by code_simp

section \<open>Compilation\<close>

lemma build_candidate_parts:
  assumes "build_candidate world s snapshot text mode provider model now = Inr c"
  shows "first_error (candidate_problems (cw_scenario_hash world) (cw_uuid5 world) c) = None"
    "sc_lifecycle c = SL_DRAFT" "sc_twin_snapshot c = snapshot_reference snapshot"
    "sp_disruptions (sc_parameters c) = resolve_effects snapshot (si_disruptions s)"
    "sp_assumptions (sc_parameters c) \<noteq> []" "sp_disruption_duration (sc_parameters c) = si_disruption_duration s"
    "sp_commodity (sc_parameters c) = si_commodity s"
  using assms
  by (auto simp: build_candidate_def Let_def rbind_Inr_iff candidate_create_def validated_Inr scenario_assumptions_def rmap_def
      split: prod.splits if_splits)

lemma failure_response_parts:
  "failure_response provider timeout code message status warnings = Inr r \<Longrightarrow>
     cm_candidate r = None \<and> cm_validation r = None \<and> ir_error_code (cm_interpretation r) = Some code"
  by (auto simp: failure_response_def Let_def rbind_Inr_iff validated_Inr)

abbreviation failed_response :: "compile_response \<Rightarrow> bool" where
  "failed_response r \<equiv> cm_candidate r = None \<and> cm_validation r = None \<and> ir_error_code (cm_interpretation r) \<noteq> None"

lemma rmap_Inr_iff: "rmap f x = Inr y \<longleftrightarrow> (\<exists>z. x = Inr z \<and> y = f z)"
  by (cases x) auto

lemma provider_failure:
  assumes "provider_interpret provider text snapshot_id timeout = Inr (Inl r)"
  shows "failed_response r"
proof -
  obtain code message status where "failure_response provider timeout code message status [] = Inr r"
    using assms by (auto simp: provider_interpret_def Let_def rmap_Inr_iff split: if_split_asm provider_answer.split_asm)
  then show ?thesis using failure_response_parts by auto
qed

lemma interpret_failure:
  assumes "interpret_request provider timeout q snapshot_id now = Inr (Inl r)"
  shows "failed_response r"
proof -
  let ?ask = "provider_interpret provider (request_text q) snapshot_id timeout"
  have asked: "failed_response r" if "provided provider z = Inl r" "?ask = Inr z" for z
    using that provider_failure by (cases z) (auto simp: provided_def)
  consider z where "?ask = Inr z" "provided provider z = Inl r"
    | code message status warnings where "failure_response provider timeout code message status warnings = Inr r"
    using assms by (auto simp: interpret_request_def Let_def rbind_def rmap_Inr_iff split: if_split_asm sum.split_asm)
  then show ?thesis using asked failure_response_parts by cases auto
qed

lemma compiled_candidate_facts:
  assumes "compile_scenario world provider timeout q snapshot now = Inr r"
  shows "case cm_candidate r of
      None \<Rightarrow> cm_validation r = None \<and> ir_error_code (cm_interpretation r) \<noteq> None
    | Some c \<Rightarrow> unsafe_instruction (request_text q) = None \<and> cr_twin_snapshot_id q = ts_snapshot_id snapshot \<and>
        first_error (candidate_problems (cw_scenario_hash world) (cw_uuid5 world) c) = None \<and>
        sc_lifecycle c = SL_DRAFT \<and> snapshot_reference_matches c snapshot \<and> sp_assumptions (sc_parameters c) \<noteq> [] \<and>
        (\<exists>effects. sp_disruptions (sc_parameters c) = resolve_effects snapshot effects) \<and>
        (\<exists>v. cm_validation r = Some v \<and> validate_scenario (cw_uuid5 world) (cw_value_text world) c (Some snapshot) now = Inr v)"
proof (cases "cm_candidate r")
  case None
  have "failed_response r" if "compiled_response world provider timeout q snapshot now i = Inr r" for i
    using that None by (auto simp: compiled_response_def Let_def rbind_Inr_iff dest: failure_response_parts split: option.split_asm)
  then show ?thesis using assms None
    by (auto simp: compile_scenario_def rbind_def dest: failure_response_parts interpret_failure
        split: if_split_asm option.split_asm sum.split_asm)
next
  case (Some c)
  then have u: "unsafe_instruction (request_text q) = None" "cr_twin_snapshot_id q = ts_snapshot_id snapshot"
    using assms by (auto simp: compile_scenario_def dest: failure_response_parts split: if_splits option.splits)
  obtain answer where a: "interpret_request provider timeout q (ts_snapshot_id snapshot) now = Inr answer"
    using assms u by (auto simp: compile_scenario_def rbind_Inr_iff)
  show ?thesis
  proof (cases answer)
    case (Inl failure)
    then show ?thesis using assms u a Some interpret_failure by (auto simp: compile_scenario_def)
  next
    case (Inr i)
    then have comp: "compiled_response world provider timeout q snapshot now i = Inr r"
      using assms u a by (simp add: compile_scenario_def)
    then obtain s v where b: "build_candidate world s snapshot (cr_text q) (in_mode i) (in_provider i) (in_model i) now = Inr c"
        "validate_scenario (cw_uuid5 world) (cw_value_text world) c (Some snapshot) now = Inr v" "cm_validation r = Some v"
      using Some by (auto simp: compiled_response_def Let_def rbind_Inr_iff dest: failure_response_parts split: option.splits)
    note p = build_candidate_parts [OF b(1)]
    show ?thesis using u b(2,3) p(1,2,4,5) p(3)
      by (auto simp: Some snapshot_reference_matches_def snapshot_reference_def)
  qed
qed

text \<open>C16: A compilation that answers either reports an error code, without candidate and validation, or returns
  a candidate together with the verdict of the validator on it. Then the text carried no refused
  instruction, and the candidate is a draft with the identifier of its fingerprint, bound to the requested
  snapshot, with its effects resolved against it and at least one assumption.\<close>

theorem compiled_candidate_sound:
  assumes "compile_scenario world provider timeout q snapshot now = Inr r"
  shows "case cm_candidate r of
      None \<Rightarrow> cm_validation r = None \<and> ir_error_code (cm_interpretation r) \<noteq> None
    | Some c \<Rightarrow> unsafe_instruction (request_text q) = None \<and> cr_twin_snapshot_id q = ts_snapshot_id snapshot \<and>
        first_error (candidate_problems (cw_scenario_hash world) (cw_uuid5 world) c) = None \<and>
        sc_lifecycle c = SL_DRAFT \<and> snapshot_reference_matches c snapshot \<and> sp_assumptions (sc_parameters c) \<noteq> [] \<and>
        (\<exists>effects. sp_disruptions (sc_parameters c) = resolve_effects snapshot effects) \<and>
        (\<exists>v. cm_validation r = Some v \<and> validate_scenario (cw_uuid5 world) (cw_value_text world) c (Some snapshot) now = Inr v)"
  by (rule compiled_candidate_facts [OF assms])

definition form_request :: compile_scenario_request where
  "form_request = \<lparr>cr_mode = CM_STRUCTURED_FORM, cr_twin_snapshot_id = 99, cr_text = None,
     cr_structured = Some (form_input [effect_of MARITIME_ROUTE_CAPACITY_REDUCTION T_ROUTE ''Gulf'' (Fin 50)])\<rparr>"

theorem compiled_candidate_sound_witness:
  "\<exists>r c v. compile_scenario form_world disabled_provider DEFAULT_TIMEOUT_SECONDS form_request form_twin 1000 = Inr r \<and>
     cm_candidate r = Some c \<and> cm_validation r = Some v \<and> sc_lifecycle c = SL_DRAFT \<and> snapshot_reference_matches c form_twin"
proof -
  have "(case compile_scenario form_world disabled_provider DEFAULT_TIMEOUT_SECONDS form_request form_twin 1000 of
      Inr r \<Rightarrow> cm_candidate r \<noteq> None | _ \<Rightarrow> False)" by code_simp
  then obtain r c where r: "compile_scenario form_world disabled_provider DEFAULT_TIMEOUT_SECONDS form_request form_twin 1000 = Inr r"
      "cm_candidate r = Some c" by (auto split: sum.splits)
  show ?thesis using compiled_candidate_sound [OF r(1)] r by auto
qed

section \<open>A start without time zone\<close>





end
