(* ===== verification/Spec2Isabelle.thy ===== *)
theory Spec2Isabelle imports Simulation_Props Twin_Props Procurement_Props Procurement_Plans
  Procurement_Solver_Props Procurement_Input_Props Reserve_Props Reserve_Service_Props Risk_Props Risk_Seed Scenario_Props
begin

text \<open>
  A verification library of the decision core of Sanjiv, the energy-supply resilience service
  under \<open>src/services/api/sanjiv/\<close>.

  The program. A digital twin (\<open>twin/\<close>) is an immutable, content-addressed snapshot of
  suppliers, ports, routes, refineries and baseline flows. A scenario (\<open>scenarios/\<close>) is a set
  of disruption effects confirmed against a snapshot. The simulation (\<open>simulation/engine.py\<close>)
  runs a daily mass balance of the disrupted snapshot. Procurement (\<open>procurement/\<close>) turns the
  simulated shortfall into an optimisation problem, an answer, an independent check of the answer
  and a plan with a lifecycle. Reserve planning (\<open>reserve/\<close>) covers what a checked procurement
  plan leaves short from reserve sites, under a policy, with a check of its own. The risk engine
  (\<open>risk/\<close>) scores a corridor from signals of several sources and decides whether an alert opens.

  Theories.
  \<^item> \<open>Py_Float\<close>: Python's \<open>float\<close>, IEEE 754 binary64 with rounding, infinities and NaN.
    \<open>sum\<close> is the left-to-right sum of Python 3.11, the oldest version the repository admits.
  \<^item> \<open>Prelude\<close>: exceptions as values, validators as lists of checks, dictionaries as association
    lists in insertion order, accumulation loops (locale \<open>mono_loop\<close>), UUIDs, instants and their time zones.
  \<^item> \<open>Truth_Contracts\<close>, \<open>Scenario_Contracts\<close>, \<open>Twin_Contracts\<close>, \<open>Simulation_Contracts\<close>,
    \<open>Procurement_Contracts\<close>: the pydantic models. A model is a record; its \<open>..._problems\<close> are
    the field constraints and validator checks in source order, each with the exception it raises.
  \<^item> \<open>Simulation_Engine\<close>: \<open>simulation/engine.py\<close>, function by function. \<open>Simulation_Step\<close> refines
    a step to closed equations; \<open>Simulation_Order\<close> bounds every quantity of a step and shows it
    monotone in the severity of the effects; \<open>Simulation_Run\<close> lifts this to the horizon and its dates and
    \<open>Simulation_Total\<close> decides between a result and each error of a run; \<open>Simulation_Example\<close> is a concrete twin and
    \<open>Simulation_Props\<close> holds the properties.
  \<^item> \<open>Scenario_Validator\<close>, \<open>Scenario_Compiler\<close>: \<open>scenarios/validator.py\<close> and \<open>scenarios/compiler.py\<close>,
    the resolution of targets, the validation issues, and the compilation of forms and texts.
    \<open>Py_Strings\<close> holds the text operations and \<open>Py_Regex\<close> the backtracking matcher of the patterns,
    whose repetitions are bounded by the length of the rest of the text. \<open>Scenario_Check\<close> states without its
    loop when the validator accepts a scenario; \<open>Scenario_Props\<close> holds the properties, among them that an accepted
    scenario can be simulated.
  \<^item> \<open>Twin_Props\<close>: properties of snapshots and of their use by the simulation.
  \<^item> \<open>Procurement_Costs\<close>: \<open>procurement/costs.py\<close> and \<open>procurement/profiles.py\<close>.
  \<^item> \<open>Procurement_Checker\<close>: \<open>procurement/checker.py\<close>. \<open>Procurement_Check\<close> relates the check to hard
    constraints stated over shipped sums, \<open>Procurement_Total\<close> shows when it returns,
    \<open>Procurement_Example\<close> is a concrete problem and \<open>Procurement_Props\<close> holds the properties.
  \<^item> \<open>Route_Paths\<close>, \<open>Procurement_Inputs\<close>: \<open>procurement/inputs.py\<close>, the breadth-first search for route
    paths, proved to find exactly the simple supply paths, and the builder that turns every flow of a
    result into an option or an exclusion. \<open>Procurement_Input_Example\<close> is a concrete request and
    \<open>Procurement_Input_Props\<close> holds the properties.
  \<^item> \<open>Procurement_Solver\<close>: \<open>procurement/solver.py\<close>, the linear model as rows and the assembly of a result
    around the call of HiGHS. \<open>Procurement_Service\<close>: \<open>procurement/fixture.py\<close> and \<open>service.py\<close>.
    \<open>Solver_Calls\<close> and \<open>Service_Calls\<close> hold what they share with the reserve planner.
    \<open>Procurement_Solver_Check\<close> says what a usable result was read from and that a checked answer is
    always planned; \<open>Procurement_Solver_Props\<close> holds the properties.
  \<^item> \<open>Lifecycle\<close>: histories of a state machine of statuses (locale \<open>lifecycle\<close>).
    \<open>Procurement_Plans\<close>: the plan validator, the plan lifecycle and landed costs.
  \<^item> \<open>Validation_Facts\<close>: lemmas on validators and on finite floats.
  \<^item> \<open>Reserve_Contracts\<close>, \<open>Reserve_Checker\<close>, \<open>Reserve_Solver\<close>, \<open>Reserve_Inputs\<close>,
    \<open>Reserve_Service\<close>: the modules of \<open>reserve/\<close>. \<open>Plan_Store\<close> is the in-memory repository with the
    interface the services rely on (locale \<open>plan_repository\<close>). \<open>Reserve_Check\<close> relates the check and
    the linear model to stated constraints; \<open>Reserve_Example\<close> and \<open>Reserve_Service_Example\<close> are
    concrete problems; \<open>Reserve_Props\<close> and \<open>Reserve_Service_Props\<close> hold the properties.
  \<^item> \<open>Py_Text\<close>: numerals, \<open>isoformat\<close>, number formats, \<open>fmean\<close> and \<open>pstdev\<close>. \<open>Risk_Contracts\<close>,
    \<open>Risk_Engine\<close>, \<open>Risk_Service\<close>: the modules of \<open>risk/\<close>. \<open>Risk_Check\<close> holds the bounds of the score,
    \<open>Risk_Props\<close> the properties, \<open>Risk_Seed\<close> facts on the lifecycle, the repository and the seeding.

  Parameters. SHA-256 of pydantic's canonical JSON, \<open>uuid5\<close>, the clock, and the answer of Pyomo and
  HiGHS are arguments of the definitions that use them; no law about them is assumed.

  Bounds and fuel. Every loop of the code but one runs over a finite list or a horizon of at most 90
  days; the queue of the route search ends because each entry added has fewer unvisited nodes than
  the one taken. A repetition of a pattern is tried at most once per remaining character, since an iteration that consumes nothing
  ends it. So every definition is total. An instant is an integer of microseconds; every sum with a \<open>timedelta\<close> raises
  \<open>OverflowError\<close> outside the years 1 to 9999. The start of a scenario and the dates of an assumption carry their time
  zone or its absence (\<open>moment\<close>), since the code tests for it and \<open>TypeError\<close> follows from it; every other instant is aware.

  Not modelled: HTTP routes, database repositories, network adapters, the web client, environment
  settings, logging and the remote scenario interpreter, which are input and output around the modelled core.
\<close>

end
